(* ===== verification/Prelude.thy ===== *)
theory Prelude
  imports Main "HOL-Library.Word" "HOL-Library.Monad_Syntax"
begin

text \<open>
  Shared vocabulary of the development: the machine types of the C code, the lemma
  collections its proofs use, the generic list and option facts, and the scheme behind the
  table searches of the program (a loop that keeps the best entry seen so far).
\<close>

unbundle bit_operations_syntax

section \<open>Machine types\<close>

type_synonym u8 = "8 word"
type_synonym u16 = "16 word"
type_synonym u32 = "32 word"
type_synonym u64 = "64 word"
type_synonym u128 = "128 word"
type_synonym addr = "64 word"

text \<open>The two processor families the sources are compiled for (the \<open>#if defined\<close> blocks).\<close>

datatype arch = AArch64 | X86_64

named_theorems cstr_simps \<open>equations of the C string helpers\<close>
named_theorems frame_simps \<open>fields an operation leaves alone\<close>
named_theorems reader_intros \<open>progress and bound facts of the cursor readers\<close>

lemma sint_of_int_small:
  "- (2 ^ (LENGTH('a) - 1)) \<le> i \<Longrightarrow> i < 2 ^ (LENGTH('a) - 1) \<Longrightarrow> sint (of_int i :: 'a :: len word) = i"
  by (simp add: sint_sbintrunc' signed_take_bit_int_eq_self)

section \<open>Errors\<close>

definition bindE :: "'e + 'a \<Rightarrow> ('a \<Rightarrow> 'e + 'b) \<Rightarrow> 'e + 'b" where
  "bindE r f = (case r of Inl e \<Rightarrow> Inl e | Inr v \<Rightarrow> f v)"

lemma bindE_simps [simp]: "bindE (Inl e) f = Inl e" "bindE (Inr v) f = f v"
  by (simp_all add: bindE_def)

lemma bindE_Inr: "bindE r f = Inr y \<longleftrightarrow> (\<exists>v. r = Inr v \<and> f v = Inr y)"
  by (cases r) auto

section \<open>Lists\<close>

text \<open>Removing the element at an index, the list form of a shift-down loop over an array.\<close>

definition remove_nth :: "nat \<Rightarrow> 'a list \<Rightarrow> 'a list" where
  "remove_nth i xs = take i xs @ drop (Suc i) xs"

lemma length_remove_nth [simp]:
  "i < length xs \<Longrightarrow> length (remove_nth i xs) = length xs - 1"
  by (simp add: remove_nth_def)

lemma remove_nth_last [simp]: "remove_nth (length xs) (xs @ [x]) = xs"
  by (simp add: remove_nth_def)

lemma remove_nth_butlast: "xs \<noteq> [] \<Longrightarrow> remove_nth (length xs - 1) xs = butlast xs"
  by (simp add: remove_nth_def butlast_conv_take)

lemma set_remove_nth: "set (remove_nth i xs) \<subseteq> set xs"
  by (auto simp: remove_nth_def dest: in_set_takeD in_set_dropD)

lemma map_remove_nth: "map f (remove_nth i xs) = remove_nth i (map f xs)"
  by (simp add: remove_nth_def take_map drop_map)

text \<open>Keeping the elements whose index is outside a set: what a list of deletions leaves.\<close>

definition without :: "nat set \<Rightarrow> 'a list \<Rightarrow> 'a list" where
  "without I xs = nths xs (- I)"

lemma without_empty [simp]: "without {} xs = xs"
  by (simp add: without_def nths_all)

lemma nths_insert_above:
  assumes "i < length xs" "\<forall>j\<in>I. i < j"
  shows "remove_nth i (without I xs) = without (insert i I) xs"
proof -
  have cut: "xs = take (Suc i) xs @ drop (Suc i) xs" by simp
  have tk: "take (Suc i) xs = take i xs @ [xs ! i]"
    using assms(1) by (simp add: take_Suc_conv_app_nth)
  let ?hi = "nths (drop (Suc i) xs) {j. j + Suc i \<notin> I}"
  have low: "nths (take (Suc i) xs) (- I) = take (Suc i) xs"
    by (rule nths_all) (use assms in \<open>auto simp: min_def split: if_splits\<close>)
  have low': "nths (take (Suc i) xs) (- insert i I) = take i xs"
  proof -
    have "nths (take i xs) (- insert i I) = take i xs"
      by (rule nths_all) (use assms in \<open>auto\<close>)
    then show ?thesis using assms(1)
      by (simp add: tk nths_append)
  qed
  have hi': "{j. j + Suc i \<notin> insert i I} = {j. j + Suc i \<notin> I}" by auto
  have a: "without I xs = take (Suc i) xs @ ?hi"
    unfolding without_def
    by (subst cut, subst nths_append) (use assms(1) low in \<open>simp add: min_def\<close>)
  have b: "without (insert i I) xs = take i xs @ ?hi"
    unfolding without_def
    by (subst cut, subst nths_append) (use assms(1) low' hi' in \<open>simp add: min_def\<close>)
  show ?thesis
    using assms(1) by (simp add: a b remove_nth_def)
qed

section \<open>Searching a table for its best entry\<close>

text \<open>
  Five lookups of the program run the same loop: go over a table in order, skip the entries
  that do not qualify, and replace the candidate when a later one is strictly better.
  \<open>best_step\<close> is one round of that loop for a key read from the entry and a strict
  comparison of keys.
\<close>

definition best_step ::
  "('e \<Rightarrow> bool) \<Rightarrow> ('e \<Rightarrow> 'e \<Rightarrow> bool) \<Rightarrow> 'e option \<Rightarrow> 'e \<Rightarrow> 'e option" where
  "best_step ok better best e =
     (if ok e
      then (case best of None \<Rightarrow> Some e
                       | Some b \<Rightarrow> if better e b then Some e else Some b)
      else best)"

lemma best_step_None: "ok e \<Longrightarrow> best_step ok better None e = Some e"
  and best_step_better: "ok e \<Longrightarrow> better e b \<Longrightarrow> best_step ok better (Some b) e = Some e"
  and best_step_keep: "ok e \<Longrightarrow> \<not> better e b \<Longrightarrow> best_step ok better (Some b) e = Some b"
  and best_step_skip: "\<not> ok e \<Longrightarrow> best_step ok better best e = best"
  by (simp_all add: best_step_def)

lemmas best_step_simps = best_step_None best_step_better best_step_keep best_step_skip

text \<open>
  What the clients need of the comparison: it is irreflexive, transitive and its complement
  is transitive too (a strict weak order), so the entry kept by the loop beats or ties with
  every entry that qualifies.
\<close>

locale best_search =
  fixes ok :: "'e \<Rightarrow> bool" and better :: "'e \<Rightarrow> 'e \<Rightarrow> bool"
  assumes better_irrefl: "\<not> better e e"
    and better_asym: "better a b \<Longrightarrow> \<not> better b a"
    and not_better_trans: "\<not> better a b \<Longrightarrow> \<not> better b c \<Longrightarrow> \<not> better a c"
begin

lemma foldl_best_Some:
  "foldl (best_step ok better) (Some b) es = Some r \<Longrightarrow>
     (r = b \<or> r \<in> set es \<and> ok r) \<and> \<not> better b r \<and> (\<forall>e \<in> set es. ok e \<longrightarrow> \<not> better e r)"
proof (induction es arbitrary: b)
  case Nil
  then show ?case by (simp add: better_irrefl)
next
  case (Cons e es)
  show ?case
  proof (cases "ok e \<and> better e b")
    case True
    with Cons.prems have "foldl (best_step ok better) (Some e) es = Some r"
      by (simp add: best_step_simps)
    from Cons.IH [OF this] True show ?thesis
      by (metis better_asym list.set_intros(1) list.set_intros(2) not_better_trans set_ConsD)
  next
    case False
    then have "foldl (best_step ok better) (Some b) es = Some r"
      using Cons.prems by (cases "ok e") (simp_all add: best_step_simps)
    from Cons.IH [OF this] False show ?thesis
      by (metis list.set_intros(2) not_better_trans set_ConsD)
  qed
qed

lemma foldl_best_never_None: "foldl (best_step ok better) (Some b) es \<noteq> None"
proof (induction es arbitrary: b)
  case Nil
  then show ?case by simp
next
  case (Cons e es)
  obtain c where "best_step ok better (Some b) e = Some c"
    by (cases "ok e"; cases "better e b") (simp_all add: best_step_simps)
  with Cons.IH show ?case by simp
qed

lemma best_None_iff:
  "foldl (best_step ok better) None es = None \<longleftrightarrow> (\<forall>e \<in> set es. \<not> ok e)"
proof (induction es)
  case Nil
  then show ?case by simp
next
  case (Cons e es)
  then show ?case
    by (cases "ok e") (simp_all add: best_step_simps foldl_best_never_None del: not_None_eq)
qed

lemma best_is_best:
  "foldl (best_step ok better) None es = Some r \<Longrightarrow>
     r \<in> set es \<and> ok r \<and> (\<forall>e \<in> set es. ok e \<longrightarrow> \<not> better e r)"
proof (induction es)
  case Nil
  then show ?case by simp
next
  case (Cons e es)
  show ?case
  proof (cases "ok e")
    case True
    then have "foldl (best_step ok better) (Some e) es = Some r"
      using Cons.prems by (simp add: best_step_simps)
    from foldl_best_Some [OF this] True show ?thesis by auto
  next
    case False
    then have "foldl (best_step ok better) None es = Some r"
      using Cons.prems by (simp add: best_step_simps)
    from Cons.IH [OF this] False show ?thesis by auto
  qed
qed

text \<open>Ties go to the entry that comes first in the table.\<close>

lemma best_first:
  assumes "foldl (best_step ok better) None (xs @ [r] @ ys) = Some s" "ok r"
    and "\<forall>e \<in> set xs. ok e \<longrightarrow> better r e" "\<forall>e \<in> set ys. ok e \<longrightarrow> \<not> better e r"
  shows "s = r"
proof -
  have "foldl (best_step ok better) (Some r) zs = Some r"
    if "\<forall>e \<in> set zs. ok e \<longrightarrow> \<not> better e r" for zs
    using that
  proof (induction zs)
    case Nil
    then show ?case by simp
  next
    case (Cons z zs)
    then show ?case by (cases "ok z") (simp_all add: best_step_simps)
  qed
  moreover have "best_step ok better (foldl (best_step ok better) None xs) r = Some r"
  proof (cases "foldl (best_step ok better) None xs")
    case None
    with assms(2) show ?thesis by (simp add: best_step_simps)
  next
    case (Some b)
    with best_is_best [OF Some] assms(2,3) show ?thesis by (simp add: best_step_simps)
  qed
  ultimately show ?thesis using assms(1,4) by simp
qed

end

text \<open>The two comparisons the program uses: a larger key is better, or a smaller one.\<close>

lemma best_search_largest: "best_search (\<lambda>a b. key b < (key a :: 'k :: linorder))"
  and best_search_smallest: "best_search (\<lambda>a b. key a < (key b :: 'k :: linorder))"
  by (unfold_locales; auto)+

end
