(* ===== verification/CText.thy ===== *)
theory CText
  imports Prelude
begin

text \<open>
  C strings as the program uses them: a \<^typ>\<open>string\<close> is the text up to the terminating NUL,
  a \<open>char *\<close> into a string is the suffix it points at, and a fixed buffer filled by
  \<open>snprintf(buf, n, "%s", s)\<close> holds the first \<open>n - 1\<close> characters. On top of the C library
  calls the file holds the text helpers of debugger.c: number parsing, trimming, quoted and
  hexadecimal attribute values, and the split of an assignment.
\<close>

section \<open>The C library calls\<close>

text \<open>\<open>isspace\<close>, \<open>isdigit\<close>, \<open>isxdigit\<close> and \<open>isprint\<close> in the C locale.\<close>

definition isspace :: "char \<Rightarrow> bool" where
  "isspace c \<longleftrightarrow> c \<in> {CHR '' '', CHR 0x09, CHR 0x0A, CHR 0x0B, CHR 0x0C, CHR 0x0D}"

definition isdigit :: "char \<Rightarrow> bool" where
  "isdigit c \<longleftrightarrow> 48 \<le> (of_char c :: nat) \<and> (of_char c :: nat) \<le> 57"

definition isprint :: "char \<Rightarrow> bool" where
  "isprint c \<longleftrightarrow> 32 \<le> (of_char c :: nat) \<and> (of_char c :: nat) \<le> 126"

definition tolower :: "char \<Rightarrow> char" where
  "tolower c = (let n = (of_char c :: nat) in if 65 \<le> n \<and> n \<le> 90 then char_of (n + 32) else c)"

text \<open>Truncating copy into a buffer of \<open>n\<close> bytes: \<open>snprintf(buf, n, "%s", s)\<close>.\<close>

definition snprintf_s :: "nat \<Rightarrow> string \<Rightarrow> string" where
  "snprintf_s n s = take (n - 1) s"

definition strncmp_eq :: "string \<Rightarrow> string \<Rightarrow> bool" where
  \<comment> \<open>\<open>strncmp(s, pat, strlen(pat)) == 0\<close>\<close>
  "strncmp_eq s pat \<longleftrightarrow> take (length pat) s = pat"

definition strchr :: "string \<Rightarrow> char \<Rightarrow> string option" where
  "strchr s c = (case dropWhile (\<lambda>x. x \<noteq> c) s of [] \<Rightarrow> None | t \<Rightarrow> Some t)"

definition before :: "char \<Rightarrow> string \<Rightarrow> string" where
  \<comment> \<open>the text in front of the position \<open>strchr\<close> returns\<close>
  "before c s = takeWhile (\<lambda>x. x \<noteq> c) s"

fun strstr :: "string \<Rightarrow> string \<Rightarrow> string option" where
  "strstr [] pat = (if pat = [] then Some [] else None)"
| "strstr (c # s) pat = (if strncmp_eq (c # s) pat then Some (c # s) else strstr s pat)"

definition has_sub :: "string \<Rightarrow> string \<Rightarrow> bool" where
  \<comment> \<open>\<open>strstr(s, pat) != NULL\<close>\<close>
  "has_sub s pat \<longleftrightarrow> strstr s pat \<noteq> None"

text \<open>
  \<open>strrchr\<close>: the text before the last occurrence and the text after it.
\<close>

fun split_last :: "char \<Rightarrow> string \<Rightarrow> (string \<times> string) option" where
  "split_last c [] = None"
| "split_last c (x # s) =
     (case split_last c s of
        Some (a, b) \<Rightarrow> Some (x # a, b)
      | None \<Rightarrow> if x = c then Some ([], s) else None)"

text \<open>
  \<open>strtok(s, " \t")\<close> to exhaustion: the maximal runs without a separator.
\<close>

definition is_blank :: "char \<Rightarrow> bool" where
  "is_blank c \<longleftrightarrow> c = CHR '' '' \<or> c = CHR 0x09"

function strtok_all :: "(char \<Rightarrow> bool) \<Rightarrow> string \<Rightarrow> string list" where
  "strtok_all sep s =
     (let t = dropWhile sep s
      in if t = [] then [] else takeWhile (\<lambda>c. \<not> sep c) t # strtok_all sep (dropWhile (\<lambda>c. \<not> sep c) t))"
  by pat_completeness auto
termination
proof (relation "measure (length \<circ> snd)", goal_cases)
  case 1
  then show ?case by simp
next
  case (2 sep s t)
  from 2 have ne: "t \<noteq> []" and t: "t = dropWhile sep s" by auto
  then have "\<not> sep (hd t)" by (metis hd_dropWhile)
  then have "length (dropWhile (\<lambda>c. \<not> sep c) t) < length t"
    using ne by (cases t) (auto simp: less_Suc_eq_le length_dropWhile_le)
  also have "\<dots> \<le> length s" by (simp add: t length_dropWhile_le)
  finally show ?case by simp
qed

declare strtok_all.simps [simp del]

subsection \<open>strtoull and its kin\<close>

definition digit_val :: "char \<Rightarrow> nat" where
  "digit_val c = (let n = of_char c in
     if 48 \<le> n \<and> n \<le> 57 then n - 48
     else if 97 \<le> n \<and> n \<le> 122 then n - 87
     else if 65 \<le> n \<and> n \<le> 90 then n - 55 else 36)"

definition is_dig :: "nat \<Rightarrow> char \<Rightarrow> bool" where
  "is_dig base c \<longleftrightarrow> digit_val c < base"

fun num_of :: "nat \<Rightarrow> int \<Rightarrow> string \<Rightarrow> int" where
  "num_of base acc [] = acc"
| "num_of base acc (c # s) = num_of base (int base * acc + int (digit_val c)) s"

text \<open>
  The subject sequence: optional white space and sign, then for base 0 or 16 an optional
  \<open>0x\<close> that is followed by a hexadecimal digit, for base 0 a leading 0 for octal, then the
  longest run of digits. The result is the sign, the magnitude and the rest; \<open>None\<close> when
  there is no digit (\<open>end == text\<close>).
\<close>

fun hex_prefixed :: "string \<Rightarrow> bool" where
  "hex_prefixed (z # x # d # s) \<longleftrightarrow>
     z = CHR ''0'' \<and> (x = CHR ''x'' \<or> x = CHR ''X'') \<and> is_dig 16 d"
| "hex_prefixed _ \<longleftrightarrow> False"

definition scan_sign :: "string \<Rightarrow> bool \<times> string" where
  "scan_sign s = (case s of
       [] \<Rightarrow> (False, [])
     | c # t \<Rightarrow> if c = CHR ''-'' then (True, t) else if c = CHR ''+'' then (False, t) else (False, s))"

definition scan_base :: "nat \<Rightarrow> string \<Rightarrow> nat \<times> string" where
  "scan_base base s =
     (if (base = 0 \<or> base = 16) \<and> hex_prefixed s then (16, drop 2 s)
      else if base = 0 then (if s \<noteq> [] \<and> hd s = CHR ''0'' then 8 else 10, s)
      else (base, s))"

definition scan_number :: "nat \<Rightarrow> string \<Rightarrow> (bool \<times> int \<times> string) option" where
  "scan_number base s =
     (let (neg, t) = scan_sign (dropWhile isspace s);
          (b, u) = scan_base base t;
          ds = takeWhile (is_dig b) u
      in if ds = [] then None else Some (neg, num_of b 0 ds, dropWhile (is_dig b) u))"

text \<open>
  \<open>strtoull\<close>: out of range gives \<open>ULLONG_MAX\<close>, a minus sign negates modulo \<open>2\<^sup>6\<^sup>4\<close>.
  \<open>strtoll\<close> and \<open>strtol\<close> saturate at both ends.
\<close>

definition strtoull :: "nat \<Rightarrow> string \<Rightarrow> (u64 \<times> string) option" where
  "strtoull base s = (case scan_number base s of
       None \<Rightarrow> None
     | Some (neg, m, rest) \<Rightarrow>
         Some (if 2 ^ 64 \<le> m then - 1 else if neg then - of_int m else of_int m, rest))"

definition strtoll :: "nat \<Rightarrow> string \<Rightarrow> (int \<times> string) option" where
  "strtoll base s = (case scan_number base s of
       None \<Rightarrow> None
     | Some (neg, m, rest) \<Rightarrow>
         Some (if neg then max (- (2 ^ 63)) (- m) else min (2 ^ 63 - 1) m, rest))"

section \<open>Text helpers of debugger.c\<close>

definition parse_u64 :: "string \<Rightarrow> u64 option" where
  "parse_u64 text = (case strtoull 0 text of
       None \<Rightarrow> None
     | Some (value, rest) \<Rightarrow> if rest \<noteq> [] then None else Some value)"

definition trim_space :: "string \<Rightarrow> string" where
  "trim_space text = rev (dropWhile isspace (rev (dropWhile isspace text)))"

definition parse_quoted_value :: "string \<Rightarrow> nat \<Rightarrow> string option" where
  "parse_quoted_value line out_len = (case strchr line (CHR 0x22) of
       None \<Rightarrow> None
     | Some start \<Rightarrow> (case strchr (tl start) (CHR 0x22) of
         None \<Rightarrow> None
       | Some _ \<Rightarrow>
           let content = before (CHR 0x22) (tl start);
               len = (if out_len \<le> length content then out_len - 1 else length content)
           in Some (take len content)))"

definition parse_hex_value :: "string \<Rightarrow> addr option" where
  "parse_hex_value line = (case strstr line ''0x'' of
       None \<Rightarrow> None
     | Some hex \<Rightarrow> map_option fst (strtoull 16 hex))"

definition parse_fbreg_offset :: "string \<Rightarrow> int option" where
  "parse_fbreg_offset line = (case strstr line ''DW_OP_fbreg'' of
       None \<Rightarrow> None
     | Some fbreg \<Rightarrow> map_option fst (strtoll 10 (drop 11 fbreg)))"

definition parse_addr_location :: "string \<Rightarrow> addr option" where
  "parse_addr_location line = (case strstr line ''DW_OP_addr'' of
       None \<Rightarrow> None
     | Some op \<Rightarrow> map_option fst (strtoull 0 (dropWhile (\<lambda>c. c = CHR '' '') (drop 10 op))))"

definition parse_member_offset :: "string \<Rightarrow> u64 option" where
  "parse_member_offset line = (case strstr line ''DW_AT_data_member_location'' of
       None \<Rightarrow> None
     | Some loc \<Rightarrow> (case strchr loc (CHR ''('') of
         None \<Rightarrow> None
       | Some open_paren \<Rightarrow> map_option fst (strtoull 16 (tl open_paren))))"

definition dwarf_line_depth :: "string \<Rightarrow> nat" where
  "dwarf_line_depth line = (case strchr line (CHR '':'') of
       None \<Rightarrow> 0
     | Some colon \<Rightarrow> length (takeWhile (\<lambda>c. c = CHR '' '') (tl colon)))"

definition dwarf_starts_die :: "string \<Rightarrow> bool" where
  "dwarf_starts_die line \<longleftrightarrow> has_sub line ''DW_TAG_'' \<or> has_sub line ''NULL''"

definition pc_in_range :: "addr \<Rightarrow> addr \<Rightarrow> addr \<Rightarrow> bool" where
  "pc_in_range pc low high =
     (if low = 0 \<or> high = 0 then False
      else let high' = (if high < low then high + low else high)
           in low \<le> pc \<and> pc < high')"

text \<open>\<open>str_ieq\<close> walks both strings while neither has ended.\<close>

fun str_ieq :: "string \<Rightarrow> string \<Rightarrow> bool" where
  "str_ieq (a # as) (b # bs) = (if tolower a \<noteq> tolower b then False else str_ieq as bs)"
| "str_ieq as bs = (as = [] \<and> bs = [])"

subsection \<open>Splitting an assignment\<close>

text \<open>
  The loop of \<open>split_assignment\<close>: \<open>pre\<close> is the text before \<open>eq\<close> (its last character is
  \<open>eq[-1]\<close>), the second argument the text from \<open>eq\<close> on. An equals sign is passed over when
  the character before it is one of \<open><>!\<close> or the one after it is another equals sign.
\<close>

fun find_assign :: "string \<Rightarrow> string \<Rightarrow> (string \<times> string) option" where
  "find_assign pre [] = None"
| "find_assign pre (c # s) =
     (if c \<noteq> CHR ''='' then find_assign (pre @ [c]) s
      else if pre \<noteq> [] \<and> last pre \<in> set ''<>!'' then find_assign (pre @ [c]) s
      else if s \<noteq> [] \<and> hd s = CHR ''='' then find_assign (pre @ [c]) s
      else Some (pre, s))"

definition both_sides :: "string \<Rightarrow> string \<Rightarrow> (string \<times> string) option" where
  "both_sides l r = (let lhs = trim_space l; rhs = trim_space r
     in if lhs \<noteq> [] \<and> rhs \<noteq> [] then Some (lhs, rhs) else None)"

definition split_assignment :: "string \<Rightarrow> (string \<times> string) option" where
  "split_assignment args0 = (let args = trim_space args0 in
     if args = [] then None
     else case find_assign [] args of
       Some (l, r) \<Rightarrow> both_sides l r
     | None \<Rightarrow>
         let p = dropWhile (\<lambda>c. \<not> isspace c) args
         in if p = [] then None
            else both_sides (takeWhile (\<lambda>c. \<not> isspace c) args) (tl p))"

section \<open>Number formats\<close>

text \<open>\<open>%u\<close>, \<open>%x\<close> and the zero-padded \<open>%02x\<close>, for the texts the program builds with \<open>snprintf\<close>.\<close>

definition digit_char :: "nat \<Rightarrow> char" where
  "digit_char d = char_of (if d < 10 then 48 + d else 87 + d)"

fun num_str :: "nat \<Rightarrow> nat \<Rightarrow> string" where
  "num_str base n = (if base < 2 \<or> n < base then [digit_char n]
     else num_str base (n div base) @ [digit_char (n mod base)])"

declare num_str.simps [simp del]

definition dec_str :: "nat \<Rightarrow> string" where "dec_str n = num_str 10 n"
definition hex_str :: "nat \<Rightarrow> string" where "hex_str n = num_str 16 n"

definition zero_pad :: "nat \<Rightarrow> string \<Rightarrow> string" where
  "zero_pad k s = replicate (k - length s) (CHR ''0'') @ s"

section \<open>Facts about the calls\<close>

lemma before_append [cstr_simps]: "c \<notin> set a \<Longrightarrow> before c (a @ c # b) = a"
  unfolding before_def by (subst takeWhile_append2) auto

lemma strchr_None [cstr_simps]: "strchr s c = None \<longleftrightarrow> c \<notin> set s"
  by (induction s) (auto simp: strchr_def split: list.split)

lemma strchr_append [cstr_simps]: "c \<notin> set a \<Longrightarrow> strchr (a @ c # b) c = Some (c # b)"
  by (induction a) (auto simp: strchr_def)

end
