(* ===== verification/Kernel.thy ===== *)
theory Kernel
  imports CText
begin

text \<open>
  The operating system below the debugger. Mach, ptrace, waitpid, fork/exec and popen are not
  code of the repository: they are the fields of one record, a parameter of every definition
  that reaches them, over an abstract type \<open>'w\<close> of machine states. The register and debug
  register files are the thread-state structures of the Mach headers the sources include.
  Releasing ports and buffers (\<open>mach_port_deallocate\<close>, \<open>vm_deallocate\<close>, \<open>free\<close>) has no effect on the
  debuggee and is left out, as are the diagnostics on \<open>stderr\<close>.
\<close>

section \<open>Register files\<close>

record arm_gpr =
  a_x :: "u64 list"
  a_fp :: u64
  a_lr :: u64
  a_sp :: u64
  a_pc :: u64
  a_cpsr :: u32

record arm_neon =
  n_v :: "u128 list"
  n_fpsr :: u32
  n_fpcr :: u32

record x86_gpr =
  r_rax :: u64  r_rbx :: u64  r_rcx :: u64  r_rdx :: u64
  r_rdi :: u64  r_rsi :: u64  r_rbp :: u64  r_rsp :: u64
  r_r8 :: u64   r_r9 :: u64   r_r10 :: u64  r_r11 :: u64
  r_r12 :: u64  r_r13 :: u64  r_r14 :: u64  r_r15 :: u64
  r_rip :: u64  r_rflags :: u64
  r_cs :: u64   r_fs :: u64   r_gs :: u64

text \<open>The x87 registers are 10 bytes each, little endian, hence 80-bit words.\<close>

record x86_fp =
  f_fcw :: u16
  f_fsw :: u16
  f_ftw :: u8
  f_mxcsr :: u32
  f_stmm :: "80 word list"
  f_xmm :: "u128 list"

datatype native_regs = ArmGpr arm_gpr | X86Gpr x86_gpr
datatype fp_regs = ArmNeon arm_neon | X86Fp x86_fp

text \<open>\<open>cdbg_regs_t\<close>: the native part and the floating-point part of one thread.\<close>

record cdbg_regs =
  native :: native_regs
  fpu :: fp_regs

record arm_debug_state =
  d_wvr :: "u64 list"
  d_wcr :: "u64 list"

record x86_debug_state =
  d_dr0 :: u64
  d_dr1 :: u64
  d_dr2 :: u64
  d_dr3 :: u64
  d_dr7 :: u64

datatype debug_regs = ArmDebug arm_debug_state | X86Debug x86_debug_state

section \<open>The kernel interface\<close>

text \<open>
  \<open>k_file\<close> is the content of a file that can be opened, \<open>k_access_r\<close> and \<open>k_access_x\<close> are \<open>access\<close> with
  \<open>R_OK\<close> and \<open>X_OK\<close>, \<open>k_popen\<close> runs a command and gives its output and the status of \<open>pclose\<close>,
  \<open>k_region\<close> is the first region at or above an address: start, size, and whether it is
  readable and executable; \<open>k_spawn\<close> is the fork and exec of process.c with the environment flag.
\<close>

datatype vm_prot = Prot_RWC | Prot_RX

text \<open>One call of \<open>waitpid\<close> that returns: a status, an interruption by a signal, or another error; \<open>k_waitpid\<close> is
  \<open>None\<close> when the call blocks for ever.\<close>

datatype wait_result = Wait_Status int | Wait_Eintr | Wait_Error

text \<open>What a call of \<open>printf\<close>, \<open>puts\<close> or \<open>fputs(..., stdout)\<close> gets: the format and its arguments.\<close>

datatype out_arg = Arg_int int | Arg_word u64 | Arg_str string

record 'w kern =
  k_arch :: arch
  k_task_for_pid :: "int \<Rightarrow> 'w \<Rightarrow> nat option"
  k_vm_read :: "nat \<Rightarrow> addr \<Rightarrow> nat \<Rightarrow> 'w \<Rightarrow> u8 list option"
  k_vm_write :: "nat \<Rightarrow> addr \<Rightarrow> u8 list \<Rightarrow> 'w \<Rightarrow> bool \<times> 'w"
  k_vm_protect :: "nat \<Rightarrow> addr \<Rightarrow> u64 \<Rightarrow> vm_prot \<Rightarrow> 'w \<Rightarrow> bool \<times> 'w"
  k_page_size :: int
  k_pt_read :: "int \<Rightarrow> addr \<Rightarrow> 'w \<Rightarrow> u64 \<times> bool"
  k_pt_write :: "int \<Rightarrow> addr \<Rightarrow> u8 \<Rightarrow> 'w \<Rightarrow> bool \<times> 'w"
  k_task_threads :: "nat \<Rightarrow> 'w \<Rightarrow> nat list option"
  k_thread_id :: "nat \<Rightarrow> 'w \<Rightarrow> u64 option"
  k_get_native :: "nat \<Rightarrow> 'w \<Rightarrow> native_regs option"
  k_get_fpu :: "nat \<Rightarrow> 'w \<Rightarrow> fp_regs option"
  k_set_native :: "nat \<Rightarrow> native_regs \<Rightarrow> 'w \<Rightarrow> bool \<times> 'w"
  k_set_fpu :: "nat \<Rightarrow> fp_regs \<Rightarrow> 'w \<Rightarrow> bool \<times> 'w"
  k_get_debug :: "nat \<Rightarrow> 'w \<Rightarrow> debug_regs option"
  k_set_debug :: "nat \<Rightarrow> debug_regs \<Rightarrow> 'w \<Rightarrow> bool \<times> 'w"
  k_thread_suspend :: "nat \<Rightarrow> 'w \<Rightarrow> bool \<times> 'w"
  k_thread_resume :: "nat \<Rightarrow> 'w \<Rightarrow> bool \<times> 'w"
  k_pt_continue :: "int \<Rightarrow> 'w \<Rightarrow> bool \<times> 'w"
  k_pt_step :: "int \<Rightarrow> 'w \<Rightarrow> bool \<times> 'w"
  k_pt_kill :: "int \<Rightarrow> 'w \<Rightarrow> bool \<times> 'w"
  k_waitpid :: "int \<Rightarrow> 'w \<Rightarrow> (wait_result \<times> 'w) option"
  k_print :: "string \<Rightarrow> out_arg list \<Rightarrow> 'w \<Rightarrow> 'w"
  k_region :: "nat \<Rightarrow> addr \<Rightarrow> 'w \<Rightarrow> (addr \<times> u64 \<times> bool) option"
  k_spawn :: "string list \<Rightarrow> bool \<Rightarrow> 'w \<Rightarrow> int option \<times> 'w"
  k_file :: "string \<Rightarrow> 'w \<Rightarrow> u8 list option"
  k_access_r :: "string \<Rightarrow> 'w \<Rightarrow> bool"
  k_access_x :: "string \<Rightarrow> 'w \<Rightarrow> bool"
  k_popen :: "string \<Rightarrow> 'w \<Rightarrow> (string \<times> int) option"

text \<open>A format that ends in a newline.\<close>

definition fmtln :: "string \<Rightarrow> string" where
  "fmtln s = s @ [CHR 0x0A]"

definition puts :: "'w kern \<Rightarrow> string \<Rightarrow> 'w \<Rightarrow> 'w" where
  "puts K s w = k_print K (fmtln s) [] w"

definition MACH_PORT_NULL :: nat where
  "MACH_PORT_NULL = 0"

text \<open>
  \<open>task_for_traced_pid\<close> of memory.c, regs.c and watchpoint.c.
\<close>

definition task_for_traced_pid :: "'w kern \<Rightarrow> int \<Rightarrow> 'w \<Rightarrow> nat" where
  "task_for_traced_pid K pid w = (case k_task_for_pid K pid w of
       None \<Rightarrow> MACH_PORT_NULL
     | Some task \<Rightarrow> task)"

end
