(* ===== verification/Memory.thy ===== *)
theory Memory
  imports Kernel
begin

text \<open>
  memory.c: reading and writing the debuggee's memory through Mach, with ptrace as the
  fallback, and the scalar accessors of debugger.c built on it. The locale \<open>traced_task\<close>
  states what Mach documents about one traced task; \<open>target_memory\<close> is what the rest of the
  debugger relies on, and the two routines of memory.c provide it.
\<close>

section \<open>The code\<close>

fun mem_read_ptrace :: "'w kern \<Rightarrow> int \<Rightarrow> addr \<Rightarrow> nat \<Rightarrow> 'w \<Rightarrow> u8 list option" where
  "mem_read_ptrace K pid a 0 w = Some []"
| "mem_read_ptrace K pid a (Suc n) w =
     (let (word, errno_set) = k_pt_read K pid a w
      in if word = - 1 \<and> errno_set then None
         else map_option (Cons (ucast word)) (mem_read_ptrace K pid (a + 1) n w))"

fun mem_write_ptrace :: "'w kern \<Rightarrow> int \<Rightarrow> addr \<Rightarrow> u8 list \<Rightarrow> 'w \<Rightarrow> bool \<times> 'w" where
  "mem_write_ptrace K pid a [] w = (True, w)"
| "mem_write_ptrace K pid a (b # bs) w =
     (case k_pt_write K pid a b w of
        (False, w1) \<Rightarrow> (False, w1)
      | (True, w1) \<Rightarrow> mem_write_ptrace K pid (a + 1) bs w1)"

definition mem_write_mach :: "'w kern \<Rightarrow> nat \<Rightarrow> addr \<Rightarrow> u8 list \<Rightarrow> 'w \<Rightarrow> bool \<times> 'w" where
  "mem_write_mach K task a buf w =
     (case k_vm_write K task a buf w of
        (True, w1) \<Rightarrow> (True, w1)
      | (False, w1) \<Rightarrow>
          if k_page_size K \<le> 0 then (False, w1)
          else let page = a AND NOT (of_int (k_page_size K) - 1)
               in (case k_vm_protect K task page (of_int (k_page_size K)) Prot_RWC w1 of
                     (False, w2) \<Rightarrow> (False, w2)
                   | (True, w2) \<Rightarrow>
                       (case k_vm_write K task a buf w2 of
                          (ok, w3) \<Rightarrow>
                            (ok, snd (k_vm_protect K task page (of_int (k_page_size K)) Prot_RX w3)))))"

definition cdbg_mem_read :: "'w kern \<Rightarrow> int \<Rightarrow> addr \<Rightarrow> nat \<Rightarrow> 'w \<Rightarrow> u8 list option" where
  "cdbg_mem_read K pid a len w =
     (let task = task_for_traced_pid K pid w
      in if task \<noteq> MACH_PORT_NULL
         then (case k_vm_read K task a len w of
                 Some data \<Rightarrow> if length data = len then Some data else mem_read_ptrace K pid a len w
               | None \<Rightarrow> mem_read_ptrace K pid a len w)
         else mem_read_ptrace K pid a len w)"

definition cdbg_mem_write :: "'w kern \<Rightarrow> int \<Rightarrow> addr \<Rightarrow> u8 list \<Rightarrow> 'w \<Rightarrow> bool \<times> 'w" where
  "cdbg_mem_write K pid a buf w =
     (let task = task_for_traced_pid K pid w
      in if task \<noteq> MACH_PORT_NULL
         then (case mem_write_mach K task a buf w of
                 (True, w1) \<Rightarrow> (True, w1)
               | (False, w1) \<Rightarrow> mem_write_ptrace K pid a buf w1)
         else mem_write_ptrace K pid a buf w)"

text \<open>Little-endian bytes of a word and back: the \<open>memcpy\<close> between a word and a byte buffer.\<close>

definition bytes_of :: "nat \<Rightarrow> u64 \<Rightarrow> u8 list" where
  "bytes_of n v = map (\<lambda>i. ucast (drop_bit (8 * i) v)) [0..<n]"

fun word_of :: "u8 list \<Rightarrow> u64" where
  "word_of [] = 0"
| "word_of (b # bs) = ucast b OR push_bit 8 (word_of bs)"

definition cdbg_mem_read_u64 :: "'w kern \<Rightarrow> int \<Rightarrow> addr \<Rightarrow> 'w \<Rightarrow> u64 option" where
  "cdbg_mem_read_u64 K pid a w = map_option word_of (cdbg_mem_read K pid a 8 w)"

definition cdbg_mem_write_u64 :: "'w kern \<Rightarrow> int \<Rightarrow> addr \<Rightarrow> u64 \<Rightarrow> 'w \<Rightarrow> bool \<times> 'w" where
  "cdbg_mem_write_u64 K pid a v w = cdbg_mem_write K pid a (bytes_of 8 v) w"

text \<open>Scalars of debugger.c: an unknown or oversized width is read as eight bytes.\<close>

definition scalar_width :: "nat \<Rightarrow> nat" where
  "scalar_width sz = (if sz = 0 \<or> 8 < sz then 8 else sz)"

definition read_scalar_value :: "'w kern \<Rightarrow> int \<Rightarrow> addr \<Rightarrow> nat \<Rightarrow> 'w \<Rightarrow> u64 option" where
  "read_scalar_value K pid a sz w =
     (case cdbg_mem_read K pid a (scalar_width sz) w of
        None \<Rightarrow> None
      | Some buf \<Rightarrow> Some (word_of buf))"

definition write_scalar_value :: "'w kern \<Rightarrow> int \<Rightarrow> addr \<Rightarrow> nat \<Rightarrow> u64 \<Rightarrow> 'w \<Rightarrow> bool \<times> 'w" where
  "write_scalar_value K pid a sz v w = cdbg_mem_write K pid a (bytes_of (scalar_width sz) v) w"

definition sign_extend_value :: "u64 \<Rightarrow> nat \<Rightarrow> u64" where
  "sign_extend_value value sz =
     (if sz = 0 \<or> 8 \<le> sz then value
      else let bits = sz * 8;
               sign = push_bit (bits - 1) 1;
               mask = push_bit bits 1 - 1;
               v = value AND mask
           in if v AND sign \<noteq> 0 then v OR NOT mask else v)"

definition mask_to_size :: "u64 \<Rightarrow> nat \<Rightarrow> u64" where
  "mask_to_size value sz =
     (if sz = 0 \<or> 8 \<le> sz then value
      else let bits = sz * 8; mask = push_bit bits 1 - 1 in value AND mask)"

section \<open>The interface\<close>

definition range_in :: "(addr \<Rightarrow> bool) \<Rightarrow> addr \<Rightarrow> nat \<Rightarrow> bool" where
  "range_in P a n \<longleftrightarrow> (\<forall>i < n. P (a + of_nat i))"

definition bytes_at :: "(addr \<Rightarrow> u8) \<Rightarrow> addr \<Rightarrow> nat \<Rightarrow> u8 list" where
  "bytes_at m a n = map (\<lambda>i. m (a + of_nat i)) [0..<n]"

fun store_bytes :: "(addr \<Rightarrow> u8) \<Rightarrow> addr \<Rightarrow> u8 list \<Rightarrow> addr \<Rightarrow> u8" where
  "store_bytes m a [] = m"
| "store_bytes m a (b # bs) = store_bytes (m(a := b)) (a + 1) bs"

text \<open>
  What the debugger relies on: a read of mapped bytes returns them, a write that reports
  success has stored its bytes and nothing else, a single mapped byte can always be patched,
  and whatever a write does, it does not change what is mapped.
\<close>

locale target_memory =
  fixes rd :: "addr \<Rightarrow> nat \<Rightarrow> 'w \<Rightarrow> u8 list option"
    and wr :: "addr \<Rightarrow> u8 list \<Rightarrow> 'w \<Rightarrow> bool \<times> 'w"
    and contents :: "'w \<Rightarrow> addr \<Rightarrow> u8"
    and mapped :: "'w \<Rightarrow> addr \<Rightarrow> bool"
  assumes rd_mapped: "range_in (mapped w) a n \<Longrightarrow> rd a n w = Some (bytes_at (contents w) a n)"
    and rd_unmapped: "\<not> range_in (mapped w) a n \<Longrightarrow> rd a n w = None"
    and wr_stores: "wr a bs w = (True, w') \<Longrightarrow> contents w' = store_bytes (contents w) a bs"
    and wr_mapped: "wr a bs w = (ok, w') \<Longrightarrow> mapped w' = mapped w"
    and wr_byte: "mapped w a \<Longrightarrow> fst (wr a [b] w)"
    and wr_byte_unmapped: "\<not> mapped w a \<Longrightarrow> wr a [b] w = (False, w') \<Longrightarrow> contents w' = contents w"
begin

lemma rd_byte: "mapped w a \<Longrightarrow> rd a 1 w = Some [contents w a]"
  by (subst rd_mapped) (simp_all add: range_in_def bytes_at_def)

lemma rd_byte_cases: "rd a 1 w = Some bs \<Longrightarrow> mapped w a \<and> bs = [contents w a]"
proof -
  assume r: "rd a 1 w = Some bs"
  have m: "mapped w a"
  proof (rule ccontr)
    assume "\<not> mapped w a"
    then have "rd a 1 w = None" by (intro rd_unmapped) (simp add: range_in_def)
    with r show False by simp
  qed
  with rd_byte [OF m] r show ?thesis by simp
qed

lemma wr_byte_cases:
  assumes "mapped w a"
  obtains w' where "wr a [b] w = (True, w')" "contents w' = (contents w)(a := b)"
    "mapped w' = mapped w"
proof -
  obtain ok w' where e: "wr a [b] w = (ok, w')" by (cases "wr a [b] w")
  with wr_byte [OF assms, of b] have "ok" by simp
  with e wr_stores [of a "[b]" w w'] wr_mapped [OF e] that show ?thesis by simp
qed

text \<open>Patching a byte and putting the old one back restores the memory.\<close>

lemma patch_and_restore:
  assumes "rd a 1 w = Some [old]" "wr a [new] w = (True, w1)" "wr a [old] w1 = (True, w2)"
  shows "contents w2 = contents w"
proof -
  from rd_byte_cases [OF assms(1)] have "old = contents w a" by simp
  with wr_stores [OF assms(2)] wr_stores [OF assms(3)] show ?thesis by auto
qed

end

text \<open>
  What Mach and ptrace document for a traced task: the port is valid; reads return the
  mapped bytes and fail when one is not mapped; a successful write stores its bytes, a failed
  one stores none; after a page has been made writable its mapped bytes can be written; changing a
  protection changes no byte. A write through ptrace is taken to store the one byte that memory.c passes and to fail on an
  unmapped address. (The manual describes \<open>PT_WRITE_D\<close> as the write of an int; memory.c uses it byte by byte, and only when
  the write through Mach has failed, which a one-byte write to a mapped address never does here.)
\<close>

locale traced_task =
  fixes K :: "'w kern" and pid :: int
    and contents :: "'w \<Rightarrow> addr \<Rightarrow> u8" and mapped :: "'w \<Rightarrow> addr \<Rightarrow> bool"
  assumes task: "\<exists>t. k_task_for_pid K pid w = Some t \<and> t \<noteq> MACH_PORT_NULL"
    and page_size: "0 < k_page_size K"
    and vm_read: "k_vm_read K t a n w =
          (if range_in (mapped w) a n then Some (bytes_at (contents w) a n) else None)"
    and vm_write_ok: "k_vm_write K t a bs w = (True, w') \<Longrightarrow>
          range_in (mapped w) a (length bs) \<and> contents w' = store_bytes (contents w) a bs \<and> mapped w' = mapped w"
    and vm_write_fail: "k_vm_write K t a bs w = (False, w') \<Longrightarrow>
          contents w' = contents w \<and> mapped w' = mapped w"
    and vm_protect: "k_vm_protect K t p sz prot w = (ok, w') \<Longrightarrow>
          contents w' = contents w \<and> mapped w' = mapped w"
    and vm_protect_page: "mapped w a \<Longrightarrow>
          fst (k_vm_protect K t (a AND NOT (of_int (k_page_size K) - 1)) (of_int (k_page_size K)) Prot_RWC w)"
    and vm_write_page: "mapped w a \<Longrightarrow>
          k_vm_protect K t (a AND NOT (of_int (k_page_size K) - 1)) (of_int (k_page_size K)) Prot_RWC w = (True, w1) \<Longrightarrow>
          fst (k_vm_write K t a [b] w1)"
    and pt_read: "k_pt_read K pid a w = (if mapped w a then (ucast (contents w a), False) else (- 1, True))"
    and pt_write_ok: "k_pt_write K pid a b w = (True, w') \<Longrightarrow>
          mapped w a \<and> contents w' = (contents w)(a := b) \<and> mapped w' = mapped w"
    and pt_write_fail: "k_pt_write K pid a b w = (False, w') \<Longrightarrow> contents w' = contents w \<and> mapped w' = mapped w"
begin

lemma port: "task_for_traced_pid K pid w \<noteq> MACH_PORT_NULL"
  using task [of w] by (auto simp: task_for_traced_pid_def)

lemma mem_read_ptrace_unmapped:
  "\<not> range_in (mapped w) a n \<Longrightarrow> mem_read_ptrace K pid a n w = None"
proof (induction n arbitrary: a)
  case 0
  then show ?case by (simp add: range_in_def)
next
  case (Suc n)
  show ?case
  proof (cases "mapped w a")
    case False
    then show ?thesis by (simp add: pt_read)
  next
    case True
    have "\<not> range_in (mapped w) (a + 1) n"
    proof
      assume r: "range_in (mapped w) (a + 1) n"
      have "range_in (mapped w) a (Suc n)"
        unfolding range_in_def
      proof (intro allI impI)
        fix i assume "i < Suc n"
        with True r show "mapped w (a + of_nat i)"
          by (cases i) (auto simp: range_in_def add.assoc)
      qed
      with Suc.prems show False by simp
    qed
    from Suc.IH [OF this] show ?thesis by (auto split: prod.splits)
  qed
qed

lemma mem_write_ptrace_ok:
  "mem_write_ptrace K pid a bs w = (True, w') \<Longrightarrow> contents w' = store_bytes (contents w) a bs"
proof (induction bs arbitrary: a w)
  case Nil
  then show ?case by simp
next
  case (Cons b bs)
  from Cons.prems obtain w1 where w1: "k_pt_write K pid a b w = (True, w1)"
    "mem_write_ptrace K pid (a + 1) bs w1 = (True, w')"
    by (auto split: prod.splits bool.splits)
  have c: "contents w1 = (contents w)(a := b)" using pt_write_ok [OF w1(1)] by blast
  show ?case using Cons.IH [OF w1(2)] by (simp only: c store_bytes.simps)
qed

lemma mem_write_ptrace_mapped:
  "mem_write_ptrace K pid a bs w = (ok, w') \<Longrightarrow> mapped w' = mapped w"
proof (induction bs arbitrary: a w)
  case Nil
  then show ?case by simp
next
  case (Cons b bs)
  obtain o1 w1 where w1: "k_pt_write K pid a b w = (o1, w1)" by fastforce
  show ?case
  proof (cases o1)
    case True
    with Cons w1 pt_write_ok [of a b w w1] show ?thesis by simp
  next
    case False
    with Cons.prems w1 pt_write_fail [of a b w w1] show ?thesis by simp
  qed
qed

lemma mem_write_mach_ok:
  assumes "mem_write_mach K t a bs w = (ok, w')"
  shows "mapped w' = mapped w"
    "ok \<Longrightarrow> range_in (mapped w) a (length bs) \<and> contents w' = store_bytes (contents w) a bs"
    "\<not> ok \<Longrightarrow> contents w' = contents w"
proof -
  let ?p = "a AND NOT (of_int (k_page_size K) - 1)"
  obtain o1 w1 where w1: "k_vm_write K t a bs w = (o1, w1)" by fastforce
  obtain o2 w2 where w2: "k_vm_protect K t ?p (of_int (k_page_size K)) Prot_RWC w1 = (o2, w2)" by fastforce
  obtain o3 w3 where w3: "k_vm_write K t a bs w2 = (o3, w3)" by fastforce
  obtain o4 w4 where w4: "k_vm_protect K t ?p (of_int (k_page_size K)) Prot_RX w3 = (o4, w4)" by fastforce
  note facts = vm_protect [OF w2] vm_protect [OF w4]
  have "mapped w' = mapped w \<and>
    (if ok then range_in (mapped w) a (length bs) \<and> contents w' = store_bytes (contents w) a bs
     else contents w' = contents w)"
  proof (cases o1)
    case True
    with assms w1 vm_write_ok [of t a bs w w1] show ?thesis by (simp add: mem_write_mach_def)
  next
    case o1: False
    with w1 vm_write_fail [of t a bs w w1] have c1: "contents w1 = contents w" "mapped w1 = mapped w" by auto
    show ?thesis
    proof (cases o2)
      case False
      with assms w1 w2 o1 c1 facts page_size show ?thesis by (simp add: mem_write_mach_def Let_def)
    next
      case True
      with assms w1 w2 w3 w4 o1 page_size have "ok = o3" "w' = w4"
        by (simp_all add: mem_write_mach_def Let_def)
      with w3 vm_write_ok [of t a bs w2 w3] vm_write_fail [of t a bs w2 w3] c1 facts show ?thesis
        by (cases o3) auto
    qed
  qed
  then show "mapped w' = mapped w"
    "ok \<Longrightarrow> range_in (mapped w) a (length bs) \<and> contents w' = store_bytes (contents w) a bs"
    "\<not> ok \<Longrightarrow> contents w' = contents w"
    by auto
qed

lemma mem_write_mach_byte:
  assumes "mapped w a"
  shows "fst (mem_write_mach K t a [b] w)"
proof -
  let ?p = "a AND NOT (of_int (k_page_size K) - 1)"
  obtain o1 w1 where w1: "k_vm_write K t a [b] w = (o1, w1)" by fastforce
  show ?thesis
  proof (cases o1)
    case True
    with w1 show ?thesis by (simp add: mem_write_mach_def)
  next
    case False
    with w1 vm_write_fail [of t a "[b]" w w1] assms have m1: "mapped w1 a" by simp
    obtain o2 w2 where w2: "k_vm_protect K t ?p (of_int (k_page_size K)) Prot_RWC w1 = (o2, w2)" by fastforce
    with vm_protect_page [OF m1, of t] have o2 by simp
    with vm_write_page [OF m1, of t w2 b] w1 w2 False page_size show ?thesis
      by (auto simp: mem_write_mach_def Let_def split: prod.splits)
  qed
qed

lemma cdbg_mem_write_cases:
  assumes "cdbg_mem_write K pid a bs w = (ok, w')"
  shows "mapped w' = mapped w" "ok \<Longrightarrow> contents w' = store_bytes (contents w) a bs"
proof -
  obtain o1 w1 where w1: "mem_write_mach K (task_for_traced_pid K pid w) a bs w = (o1, w1)" by fastforce
  have "mapped w' = mapped w \<and> (ok \<longrightarrow> contents w' = store_bytes (contents w) a bs)"
  proof (cases o1)
    case True
    with assms w1 mem_write_mach_ok [OF w1] port show ?thesis by (simp add: cdbg_mem_write_def Let_def)
  next
    case False
    with assms w1 port have p: "mem_write_ptrace K pid a bs w1 = (ok, w')"
      by (simp add: cdbg_mem_write_def Let_def)
    with False mem_write_mach_ok [OF w1] mem_write_ptrace_mapped [OF p] mem_write_ptrace_ok [of a bs w1 w']
    show ?thesis by (cases ok) auto
  qed
  then show "mapped w' = mapped w" "ok \<Longrightarrow> contents w' = store_bytes (contents w) a bs" by auto
qed

lemma cdbg_mem_write_byte: "mapped w a \<Longrightarrow> fst (cdbg_mem_write K pid a [b] w)"
  using mem_write_mach_byte [of w a "task_for_traced_pid K pid w" b] port
  by (auto simp: cdbg_mem_write_def Let_def split: prod.splits bool.splits)

lemma cdbg_mem_write_byte_fail:
  assumes "\<not> mapped w a" "cdbg_mem_write K pid a [b] w = (False, w')"
  shows "contents w' = contents w"
proof -
  obtain o1 w1 where w1: "mem_write_mach K (task_for_traced_pid K pid w) a [b] w = (o1, w1)" by fastforce
  with assms port have "\<not> o1" by (auto simp: cdbg_mem_write_def Let_def)
  with mem_write_mach_ok(3) [OF w1] have c: "contents w1 = contents w" by simp
  obtain o2 w2 where w2: "k_pt_write K pid a b w1 = (o2, w2)" by fastforce
  with assms w1 \<open>\<not> o1\<close> port have "\<not> o2" "w' = w2"
    by (auto simp: cdbg_mem_write_def Let_def split: bool.splits)
  with pt_write_fail [of a b w1 w2] w2 c show ?thesis by simp
qed

end

text \<open>So the routines of memory.c provide the interface on every traced task.\<close>

sublocale traced_task \<subseteq> target_memory
  "\<lambda>a n w. cdbg_mem_read K pid a n w" "\<lambda>a bs w. cdbg_mem_write K pid a bs w" contents mapped
proof (unfold_locales, goal_cases)
  case (1 w a n)
  then show ?case using port [of w] by (simp add: cdbg_mem_read_def Let_def vm_read bytes_at_def)
next
  case (2 w a n)
  then show ?case using port [of w]
    by (simp add: cdbg_mem_read_def Let_def vm_read mem_read_ptrace_unmapped)
next
  case (3 a bs w w')
  then show ?case by (simp add: cdbg_mem_write_cases)
next
  case (4 a bs w ok w')
  then show ?case by (simp add: cdbg_mem_write_cases)
next
  case (5 w a b)
  then show ?case by (rule cdbg_mem_write_byte)
next
  case (6 w a b w')
  then show ?case by (rule cdbg_mem_write_byte_fail)
qed

end
