(* ===== verification/SimKernel.thy ===== *)
theory SimKernel
  imports Memory
begin

text \<open>
  A simulated operating system: one traced task with a mapped address range whose pages are not
  writable until they are unprotected, a list of threads, a script of what \<open>waitpid\<close> answers and
  of where the primary thread stops. It is an instance of the assumptions of \<open>traced_task\<close>, so
  these can hold, and the concrete runs of the other theories execute on it.
\<close>

record sim =
  s_mem :: "addr \<Rightarrow> u8"
  s_lo :: addr
  s_hi :: addr
  s_writable :: bool
  s_threads :: "nat list"
  s_native :: "nat \<Rightarrow> native_regs"
  s_fpu :: "nat \<Rightarrow> fp_regs"
  s_debug :: "nat \<Rightarrow> debug_regs"
  s_suspended :: "nat \<Rightarrow> nat"
  s_waits :: "wait_result list"
  s_stops :: "addr list"
  s_commands :: "(string \<times> string) list"
  s_files :: "(string \<times> u8 list) list"
  s_out :: "(string \<times> out_arg list) list"

definition sim_mapped :: "sim \<Rightarrow> addr \<Rightarrow> bool" where
  "sim_mapped w a \<longleftrightarrow> s_lo w \<le> a \<and> a < s_hi w"

definition sim_range :: "sim \<Rightarrow> addr \<Rightarrow> nat \<Rightarrow> bool" where
  "sim_range w a n = list_all (\<lambda>i. sim_mapped w (a + of_nat i)) [0..<n]"

lemma sim_range_iff: "sim_range w a n \<longleftrightarrow> range_in (sim_mapped w) a n"
  by (auto simp: sim_range_def range_in_def list_all_iff)

definition with_pc :: "addr \<Rightarrow> native_regs \<Rightarrow> native_regs" where
  "with_pc pc r = (case r of ArmGpr g \<Rightarrow> ArmGpr (g\<lparr>a_pc := pc\<rparr>) | X86Gpr g \<Rightarrow> X86Gpr (g\<lparr>r_rip := pc\<rparr>))"

text \<open>Resuming the task moves its primary thread to the next stop of the script.\<close>

definition sim_resume :: "sim \<Rightarrow> bool \<times> sim" where
  "sim_resume w = (case (s_stops w, s_threads w) of
       (pc # rest, t # _) \<Rightarrow> (True, w\<lparr>s_stops := rest, s_native := (s_native w)(t := with_pc pc (s_native w t))\<rparr>)
     | _ \<Rightarrow> (False, w))"

definition sim_kern :: "arch \<Rightarrow> sim kern" where
  "sim_kern a = \<lparr>
     k_arch = a,
     k_task_for_pid = (\<lambda>pid w. Some 1),
     k_vm_read = (\<lambda>t p n w. if sim_range w p n then Some (bytes_at (s_mem w) p n) else None),
     k_vm_write = (\<lambda>t p bs w. if s_writable w \<and> sim_range w p (length bs)
        then (True, w\<lparr>s_mem := store_bytes (s_mem w) p bs\<rparr>) else (False, w)),
     k_vm_protect = (\<lambda>t p n prot w. (True, w\<lparr>s_writable := (prot = Prot_RWC)\<rparr>)),
     k_page_size = 16384,
     k_pt_read = (\<lambda>pid p w. if sim_mapped w p then (ucast (s_mem w p), False) else (- 1, True)),
     k_pt_write = (\<lambda>pid p b w. if sim_mapped w p then (True, w\<lparr>s_mem := (s_mem w)(p := b)\<rparr>) else (False, w)),
     k_task_threads = (\<lambda>t w. Some (s_threads w)),
     k_thread_id = (\<lambda>t w. Some (of_nat t + 1000)),
     k_get_native = (\<lambda>t w. Some (s_native w t)),
     k_get_fpu = (\<lambda>t w. Some (s_fpu w t)),
     k_set_native = (\<lambda>t r w. (True, w\<lparr>s_native := (s_native w)(t := r)\<rparr>)),
     k_set_fpu = (\<lambda>t r w. (True, w\<lparr>s_fpu := (s_fpu w)(t := r)\<rparr>)),
     k_get_debug = (\<lambda>t w. Some (s_debug w t)),
     k_set_debug = (\<lambda>t r w. (True, w\<lparr>s_debug := (s_debug w)(t := r)\<rparr>)),
     k_thread_suspend = (\<lambda>t w. (True, w\<lparr>s_suspended := (s_suspended w)(t := Suc (s_suspended w t))\<rparr>)),
     k_thread_resume = (\<lambda>t w. (True, w\<lparr>s_suspended := (s_suspended w)(t := s_suspended w t - 1)\<rparr>)),
     k_pt_continue = (\<lambda>pid. sim_resume),
     k_pt_step = (\<lambda>pid. sim_resume),
     k_pt_kill = (\<lambda>pid w. (True, w)),
     k_waitpid = (\<lambda>pid w. case s_waits w of [] \<Rightarrow> Some (Wait_Error, w) | r # rs \<Rightarrow> Some (r, w\<lparr>s_waits := rs\<rparr>)),
     k_print = (\<lambda>f args w. w\<lparr>s_out := s_out w @ [(f, args)]\<rparr>),
     k_region = (\<lambda>t p w. if p \<le> s_lo w then Some (s_lo w, s_hi w - s_lo w, True) else None),
     k_spawn = (\<lambda>argv e w. (Some 77, w)),
     k_file = (\<lambda>p w. map_of (s_files w) p),
     k_access_r = (\<lambda>p w. map_of (s_files w) p \<noteq> None),
     k_access_x = (\<lambda>p w. map_of (s_files w) p \<noteq> None),
     k_popen = (\<lambda>c w. map_option (\<lambda>out. (out, 0)) (map_of (s_commands w) c))\<rparr>"

lemma sim_kern_fields:
  "k_arch (sim_kern a) = a"
  "k_task_for_pid (sim_kern a) pid w = Some 1"
  "k_vm_read (sim_kern a) t p n w = (if sim_range w p n then Some (bytes_at (s_mem w) p n) else None)"
  "k_page_size (sim_kern a) = 16384"
  "k_print (sim_kern a) f args w = w\<lparr>s_out := s_out w @ [(f, args)]\<rparr>"
  by (simp_all add: sim_kern_def)

interpretation sim: traced_task "sim_kern a" pid s_mem sim_mapped
  by unfold_locales
    (auto simp: sim_kern_def MACH_PORT_NULL_def sim_range_iff range_in_def sim_mapped_def split: if_splits)

text \<open>A machine with two threads stopped in a range of 4096 mapped bytes, and its registers.\<close>

definition arm_thread :: "addr \<Rightarrow> addr \<Rightarrow> native_regs" where
  "arm_thread pc fp = ArmGpr \<lparr>a_x = replicate 29 0, a_fp = fp, a_lr = 0x100, a_sp = 0x800, a_pc = pc, a_cpsr = 0\<rparr>"

definition x86_thread :: "addr \<Rightarrow> addr \<Rightarrow> native_regs" where
  "x86_thread pc fp = X86Gpr \<lparr>r_rax = 0, r_rbx = 0, r_rcx = 0, r_rdx = 0, r_rdi = 0, r_rsi = 0, r_rbp = fp, r_rsp = 0x800,
     r_r8 = 0, r_r9 = 0, r_r10 = 0, r_r11 = 0, r_r12 = 0, r_r13 = 0, r_r14 = 0, r_r15 = 0,
     r_rip = pc, r_rflags = 0, r_cs = 0, r_fs = 0, r_gs = 0\<rparr>"

definition sim_machine :: "arch \<Rightarrow> addr \<Rightarrow> sim" where
  "sim_machine a pc = \<lparr>s_mem = (\<lambda>p. ucast p), s_lo = 0x100, s_hi = 0x1100, s_writable = False,
     s_threads = [1, 2],
     s_native = (\<lambda>t. if a = AArch64 then arm_thread pc 0x200 else x86_thread pc 0x200),
     s_fpu = (\<lambda>t. if a = AArch64 then ArmNeon \<lparr>n_v = replicate 32 0, n_fpsr = 0, n_fpcr = 0\<rparr>
        else X86Fp \<lparr>f_fcw = 0, f_fsw = 0, f_ftw = 0, f_mxcsr = 0, f_stmm = replicate 8 0, f_xmm = replicate 16 0\<rparr>),
     s_debug = (\<lambda>t. if a = AArch64 then ArmDebug \<lparr>d_wvr = replicate 16 0, d_wcr = replicate 16 0\<rparr>
        else X86Debug \<lparr>d_dr0 = 0, d_dr1 = 0, d_dr2 = 0, d_dr3 = 0, d_dr7 = 0\<rparr>),
     s_suspended = (\<lambda>t. 0), s_waits = [], s_stops = [], s_commands = [], s_files = [], s_out = []\<rparr>"

end
