(* ===== verification/Regs.thy ===== *)
theory Regs
  imports SimKernel
begin

text \<open>
  regs.c: the threads of the debuggee, their register files, access to a register by name,
  the conversion of a double to the x87 format, and the unwinding of one frame. A \<open>double\<close> is
  its 64-bit pattern.
\<close>

section \<open>Threads\<close>

definition CDBG_TID_PRIMARY :: u64 where
  "CDBG_TID_PRIMARY = 0"

definition CDBG_MAX_THREADS :: nat where
  "CDBG_MAX_THREADS = 64"

record cdbg_thread_info =
  ti_tid :: u64
  ti_is_primary :: bool

definition tid_of_thread :: "'w kern \<Rightarrow> nat \<Rightarrow> 'w \<Rightarrow> u64" where
  "tid_of_thread K thread w = (case k_thread_id K thread w of None \<Rightarrow> 0 | Some t \<Rightarrow> t)"

text \<open>
  \<open>thread_for_task_tid\<close>: the loop keeps the first match; \<open>found == MACH_PORT_NULL\<close> also holds
  when the matching port is itself null, so a null port never ends the search.
\<close>

fun find_thread :: "'w kern \<Rightarrow> u64 \<Rightarrow> nat \<Rightarrow> nat \<Rightarrow> nat list \<Rightarrow> 'w \<Rightarrow> nat" where
  "find_thread K tid i found [] w = found"
| "find_thread K tid i found (t # ts) w =
     (let matches = (if tid = CDBG_TID_PRIMARY then i = 0 else tid_of_thread K t w = tid)
      in find_thread K tid (Suc i) (if matches \<and> found = MACH_PORT_NULL then t else found) ts w)"

definition thread_for_task_tid :: "'w kern \<Rightarrow> nat \<Rightarrow> u64 \<Rightarrow> 'w \<Rightarrow> nat" where
  "thread_for_task_tid K task tid w = (case k_task_threads K task w of
       None \<Rightarrow> MACH_PORT_NULL
     | Some threads \<Rightarrow>
         if threads = [] then MACH_PORT_NULL
         else find_thread K tid 0 MACH_PORT_NULL threads w)"

text \<open>Task and thread lookup of one thread operation: \<open>None\<close> when either fails.\<close>

definition thread_port :: "'w kern \<Rightarrow> int \<Rightarrow> u64 \<Rightarrow> 'w \<Rightarrow> nat option" where
  "thread_port K pid tid w =
     (let task = task_for_traced_pid K pid w
      in if task = MACH_PORT_NULL then None
         else let thread = thread_for_task_tid K task tid w
              in if thread = MACH_PORT_NULL then None else Some thread)"

definition cdbg_threads_list :: "'w kern \<Rightarrow> int \<Rightarrow> nat \<Rightarrow> 'w \<Rightarrow> cdbg_thread_info list option" where
  "cdbg_threads_list K pid max_count w =
     (let task = task_for_traced_pid K pid w
      in if task = MACH_PORT_NULL then None
         else (case k_task_threads K task w of
                 None \<Rightarrow> None
               | Some threads \<Rightarrow>
                   let n = (if length threads < max_count then length threads else max_count)
                   in Some (map (\<lambda>i. \<lparr>ti_tid = tid_of_thread K (threads ! i) w,
                                      ti_is_primary = (i = 0)\<rparr>) [0..<n])))"

definition suspend_or_resume_thread :: "'w kern \<Rightarrow> int \<Rightarrow> u64 \<Rightarrow> bool \<Rightarrow> 'w \<Rightarrow> bool \<times> 'w" where
  "suspend_or_resume_thread K pid tid suspend w =
     (case thread_port K pid tid w of
        None \<Rightarrow> (False, w)
      | Some thread \<Rightarrow>
          (if suspend then k_thread_suspend K thread w else k_thread_resume K thread w))"

definition cdbg_thread_suspend :: "'w kern \<Rightarrow> int \<Rightarrow> u64 \<Rightarrow> 'w \<Rightarrow> bool \<times> 'w" where
  "cdbg_thread_suspend K pid tid w = suspend_or_resume_thread K pid tid True w"

definition cdbg_thread_resume :: "'w kern \<Rightarrow> int \<Rightarrow> u64 \<Rightarrow> 'w \<Rightarrow> bool \<times> 'w" where
  "cdbg_thread_resume K pid tid w = suspend_or_resume_thread K pid tid False w"

section \<open>Register files\<close>

text \<open>
  \<open>cdbg_regs_get\<close> fills the caller's buffer in two steps, so a failure of the second one
  leaves the native part replaced.
\<close>

definition cdbg_regs_get :: "'w kern \<Rightarrow> int \<Rightarrow> u64 \<Rightarrow> cdbg_regs \<Rightarrow> 'w \<Rightarrow> bool \<times> cdbg_regs" where
  "cdbg_regs_get K pid tid regs w = (case thread_port K pid tid w of
       None \<Rightarrow> (False, regs)
     | Some thread \<Rightarrow> (case k_get_native K thread w of
         None \<Rightarrow> (False, regs)
       | Some n \<Rightarrow> (case k_get_fpu K thread w of
           None \<Rightarrow> (False, regs\<lparr>native := n\<rparr>)
         | Some f \<Rightarrow> (True, \<lparr>native = n, fpu = f\<rparr>))))"

definition cdbg_regs_set :: "'w kern \<Rightarrow> int \<Rightarrow> u64 \<Rightarrow> cdbg_regs \<Rightarrow> 'w \<Rightarrow> bool \<times> 'w" where
  "cdbg_regs_set K pid tid regs w = (case thread_port K pid tid w of
       None \<Rightarrow> (False, w)
     | Some thread \<Rightarrow> k_set_native K thread (native regs) w)"

definition cdbg_regs_set_fp :: "'w kern \<Rightarrow> int \<Rightarrow> u64 \<Rightarrow> cdbg_regs \<Rightarrow> 'w \<Rightarrow> bool \<times> 'w" where
  "cdbg_regs_set_fp K pid tid regs w = (case thread_port K pid tid w of
       None \<Rightarrow> (False, w)
     | Some thread \<Rightarrow> k_set_fpu K thread (fpu regs) w)"

definition cdbg_regs_pc :: "cdbg_regs \<Rightarrow> addr" where
  "cdbg_regs_pc regs = (case native regs of ArmGpr g \<Rightarrow> a_pc g | X86Gpr g \<Rightarrow> r_rip g)"

definition cdbg_regs_set_pc :: "cdbg_regs \<Rightarrow> addr \<Rightarrow> cdbg_regs" where
  "cdbg_regs_set_pc regs pc = (case native regs of
       ArmGpr g \<Rightarrow> regs\<lparr>native := ArmGpr (g\<lparr>a_pc := pc\<rparr>)\<rparr>
     | X86Gpr g \<Rightarrow> regs\<lparr>native := X86Gpr (g\<lparr>r_rip := pc\<rparr>)\<rparr>)"

definition cdbg_regs_fp :: "cdbg_regs \<Rightarrow> addr" where
  "cdbg_regs_fp regs = (case native regs of ArmGpr g \<Rightarrow> a_fp g | X86Gpr g \<Rightarrow> r_rbp g)"

lemma cdbg_regs_pc_set_pc [simp]: "cdbg_regs_pc (cdbg_regs_set_pc regs pc) = pc"
  by (simp add: cdbg_regs_pc_def cdbg_regs_set_pc_def split: native_regs.split)

lemma cdbg_regs_fp_set_pc [simp]: "cdbg_regs_fp (cdbg_regs_set_pc regs pc) = cdbg_regs_fp regs"
  by (simp add: cdbg_regs_fp_def cdbg_regs_set_pc_def split: native_regs.split)

section \<open>Unwinding one frame\<close>

definition ret_addr_valid :: "u64 \<Rightarrow> bool" where
  "ret_addr_valid a \<longleftrightarrow> 0x1000 \<le> a"

definition unwind_from_stack_top :: "'w kern \<Rightarrow> int \<Rightarrow> cdbg_regs \<Rightarrow> addr \<Rightarrow> 'w \<Rightarrow> cdbg_regs option" where
  "unwind_from_stack_top K pid regs sp w = (case native regs of
       ArmGpr g \<Rightarrow>
         if \<not> ret_addr_valid (a_lr g) then None
         else let g1 = g\<lparr>a_pc := a_lr g\<rparr>;
                  fp = a_fp g1;
                  g2 = (if fp \<noteq> 0
                        then (case cdbg_mem_read_u64 K pid fp w of
                                None \<Rightarrow> g1
                              | Some saved_fp \<Rightarrow> if fp < saved_fp then g1\<lparr>a_fp := saved_fp\<rparr> else g1)
                        else g1)
              in Some (regs\<lparr>native := ArmGpr (g2\<lparr>a_sp := sp + 16\<rparr>)\<rparr>)
     | X86Gpr g \<Rightarrow> (case cdbg_mem_read_u64 K pid sp w of
         None \<Rightarrow> None
       | Some ret_addr \<Rightarrow>
           if \<not> ret_addr_valid ret_addr then None
           else Some (regs\<lparr>native := X86Gpr (g\<lparr>r_rip := ret_addr, r_rsp := sp + 8\<rparr>)\<rparr>)))"

text \<open>The frame record at \<open>fp\<close>, when it is readable and points up the stack.\<close>

definition frame_record :: "'w kern \<Rightarrow> int \<Rightarrow> addr \<Rightarrow> 'w \<Rightarrow> (u64 \<times> u64) option" where
  "frame_record K pid fp w =
     (if fp = 0 then None
      else case (cdbg_mem_read_u64 K pid fp w, cdbg_mem_read_u64 K pid (fp + 8) w) of
        (Some saved_fp, Some ret_addr) \<Rightarrow>
          if fp < saved_fp \<and> ret_addr_valid ret_addr then Some (saved_fp, ret_addr) else None
      | _ \<Rightarrow> None)"

definition cdbg_regs_frame_up :: "'w kern \<Rightarrow> int \<Rightarrow> cdbg_regs \<Rightarrow> 'w \<Rightarrow> cdbg_regs option" where
  "cdbg_regs_frame_up K pid regs w = (case native regs of
       ArmGpr g \<Rightarrow> (case frame_record K pid (a_fp g) w of
         Some (saved_fp, ret_addr) \<Rightarrow>
           Some (regs\<lparr>native := ArmGpr (g\<lparr>a_pc := ret_addr, a_fp := saved_fp, a_sp := a_fp g + 16\<rparr>)\<rparr>)
       | None \<Rightarrow> unwind_from_stack_top K pid regs (a_sp g) w)
     | X86Gpr g \<Rightarrow>
         if cdbg_mem_read K pid (r_rip g) 1 w = Some [0x55]
         then unwind_from_stack_top K pid regs (r_rsp g) w
         else (case frame_record K pid (r_rbp g) w of
           Some (saved_fp, ret_addr) \<Rightarrow>
             Some (regs\<lparr>native := X86Gpr (g\<lparr>r_rip := ret_addr, r_rbp := saved_fp, r_rsp := r_rbp g + 16\<rparr>)\<rparr>)
         | None \<Rightarrow> unwind_from_stack_top K pid regs (r_rsp g) w))"

section \<open>Registers by name\<close>

text \<open>
  \<open>strtol(name + k, &endp, 10)\<close> with the test \<open>*endp == 0\<close>: the index when the whole rest is
  used up. Without any digit \<open>strtol\<close> returns 0 and leaves \<open>endp\<close> at the start, so an
  empty rest counts as index 0.
\<close>

definition reg_index :: "string \<Rightarrow> int option" where
  "reg_index s = (case strtoll 10 s of
       None \<Rightarrow> if s = [] then Some 0 else None
     | Some (idx, rest) \<Rightarrow> if rest = [] then Some idx else None)"

definition index_in :: "string \<Rightarrow> int \<Rightarrow> nat option" where
  "index_in s hi = (case reg_index s of
       None \<Rightarrow> None
     | Some idx \<Rightarrow> if 0 \<le> idx \<and> idx \<le> hi then Some (nat idx) else None)"

definition set_arm_gpr :: "arm_gpr \<Rightarrow> string \<Rightarrow> u64 \<Rightarrow> arm_gpr option" where
  "set_arm_gpr g name value =
     (if name = ''pc'' then Some (g\<lparr>a_pc := value\<rparr>)
      else if name = ''sp'' then Some (g\<lparr>a_sp := value\<rparr>)
      else if name = ''fp'' \<or> name = ''x29'' then Some (g\<lparr>a_fp := value\<rparr>)
      else if name = ''lr'' \<or> name = ''x30'' then Some (g\<lparr>a_lr := value\<rparr>)
      else if name = ''cpsr'' then Some (g\<lparr>a_cpsr := ucast value\<rparr>)
      else if name \<noteq> [] \<and> hd name = CHR ''x'' then
        (case index_in (tl name) 28 of
           None \<Rightarrow> None
         | Some idx \<Rightarrow> Some (g\<lparr>a_x := (a_x g)[idx := value]\<rparr>))
      else None)"

definition set_x86_gpr :: "x86_gpr \<Rightarrow> string \<Rightarrow> u64 \<Rightarrow> x86_gpr option" where
  "set_x86_gpr g name value =
     (if name = ''rax'' then Some (g\<lparr>r_rax := value\<rparr>)
      else if name = ''rbx'' then Some (g\<lparr>r_rbx := value\<rparr>)
      else if name = ''rcx'' then Some (g\<lparr>r_rcx := value\<rparr>)
      else if name = ''rdx'' then Some (g\<lparr>r_rdx := value\<rparr>)
      else if name = ''rsi'' then Some (g\<lparr>r_rsi := value\<rparr>)
      else if name = ''rdi'' then Some (g\<lparr>r_rdi := value\<rparr>)
      else if name = ''rbp'' then Some (g\<lparr>r_rbp := value\<rparr>)
      else if name = ''rsp'' then Some (g\<lparr>r_rsp := value\<rparr>)
      else if name = ''rip'' then Some (g\<lparr>r_rip := value\<rparr>)
      else if name = ''rflags'' \<or> name = ''eflags'' then Some (g\<lparr>r_rflags := value\<rparr>)
      else if name = ''cs'' then Some (g\<lparr>r_cs := value\<rparr>)
      else if name = ''fs'' then Some (g\<lparr>r_fs := value\<rparr>)
      else if name = ''gs'' then Some (g\<lparr>r_gs := value\<rparr>)
      else if name \<noteq> [] \<and> hd name = CHR ''r'' then
        (case reg_index (tl name) of
           None \<Rightarrow> None
         | Some idx \<Rightarrow>
             if idx = 8 then Some (g\<lparr>r_r8 := value\<rparr>)
             else if idx = 9 then Some (g\<lparr>r_r9 := value\<rparr>)
             else if idx = 10 then Some (g\<lparr>r_r10 := value\<rparr>)
             else if idx = 11 then Some (g\<lparr>r_r11 := value\<rparr>)
             else if idx = 12 then Some (g\<lparr>r_r12 := value\<rparr>)
             else if idx = 13 then Some (g\<lparr>r_r13 := value\<rparr>)
             else if idx = 14 then Some (g\<lparr>r_r14 := value\<rparr>)
             else if idx = 15 then Some (g\<lparr>r_r15 := value\<rparr>)
             else None)
      else None)"

definition set_gpr_field :: "cdbg_regs \<Rightarrow> string \<Rightarrow> u64 \<Rightarrow> cdbg_regs option" where
  "set_gpr_field regs name value = (case native regs of
       ArmGpr g \<Rightarrow> map_option (\<lambda>g'. regs\<lparr>native := ArmGpr g'\<rparr>) (set_arm_gpr g name value)
     | X86Gpr g \<Rightarrow> map_option (\<lambda>g'. regs\<lparr>native := X86Gpr g'\<rparr>) (set_x86_gpr g name value))"

text \<open>The 80-bit pattern of a double: sign and 15-bit exponent above a 64-bit significand.\<close>

definition double_to_80bit :: "u64 \<Rightarrow> 80 word" where
  "double_to_80bit bits =
     (let sign = drop_bit 63 bits AND 1;
          exp64 = drop_bit 52 bits AND 0x7FF;
          mant = bits AND 0x000FFFFFFFFFFFFF;
          (exp80, mant80) =
            (if exp64 = 0x7FF then (0x7FFF, if mant = 0 then push_bit 63 1 else push_bit 63 1 OR mant)
             else if exp64 = 0 then (0, push_bit 11 mant)
             else (exp64 - 1023 + 16383, push_bit 63 1 OR push_bit 11 mant));
          exp_sign = (ucast (push_bit 15 sign OR exp80) :: u16)
      in push_bit 64 (ucast exp_sign) OR ucast mant80)"

definition set_arm_fp :: "arm_neon \<Rightarrow> string \<Rightarrow> u64 \<Rightarrow> arm_neon option" where
  "set_arm_fp f name value =
     (if name = ''fpsr'' then Some (f\<lparr>n_fpsr := ucast value\<rparr>)
      else if name = ''fpcr'' then Some (f\<lparr>n_fpcr := ucast value\<rparr>)
      else if name \<noteq> [] \<and> hd name = CHR ''v'' then
        (case index_in (tl name) 31 of
           None \<Rightarrow> None
         | Some idx \<Rightarrow> Some (f\<lparr>n_v := (n_v f)[idx := ucast value]\<rparr>))
      else None)"

text \<open>
  \<open>int_to_double\<close> is the C conversion \<open>(double)(int64_t)value\<close>, the compiler's, not the program's.
\<close>

definition set_x86_fp ::
  "(u64 \<Rightarrow> u64) \<Rightarrow> x86_fp \<Rightarrow> string \<Rightarrow> u64 \<Rightarrow> bool \<Rightarrow> u64 \<Rightarrow> x86_fp option" where
  "set_x86_fp int_to_double f name value is_float fvalue =
     (case (if strncmp_eq name ''xmm'' then index_in (drop 3 name) 15 else None) of
        Some idx \<Rightarrow> Some (f\<lparr>f_xmm := (f_xmm f)[idx := ucast value]\<rparr>)
      | None \<Rightarrow>
          (case (if strncmp_eq name ''st'' then index_in (drop 2 name) 7 else None) of
             None \<Rightarrow> None
           | Some idx \<Rightarrow>
               let d = (if is_float then fvalue else int_to_double value)
               in Some (f\<lparr>f_stmm := (f_stmm f)[idx := double_to_80bit d]\<rparr>)))"

definition set_fp_field ::
  "(u64 \<Rightarrow> u64) \<Rightarrow> cdbg_regs \<Rightarrow> string \<Rightarrow> u64 \<Rightarrow> bool \<Rightarrow> u64 \<Rightarrow> cdbg_regs option" where
  "set_fp_field int_to_double regs name value is_float fvalue = (case fpu regs of
       ArmNeon f \<Rightarrow> map_option (\<lambda>f'. regs\<lparr>fpu := ArmNeon f'\<rparr>) (set_arm_fp f name value)
     | X86Fp f \<Rightarrow> map_option (\<lambda>f'. regs\<lparr>fpu := X86Fp f'\<rparr>)
                   (set_x86_fp int_to_double f name value is_float fvalue))"

definition get_arm_reg :: "arm_gpr \<Rightarrow> arm_neon \<Rightarrow> string \<Rightarrow> u64 option" where
  "get_arm_reg g f name =
     (if name = ''pc'' then Some (a_pc g)
      else if name = ''sp'' then Some (a_sp g)
      else if name = ''fp'' \<or> name = ''x29'' then Some (a_fp g)
      else if name = ''lr'' \<or> name = ''x30'' then Some (a_lr g)
      else if name = ''cpsr'' then Some (ucast (a_cpsr g))
      else if name = ''fpsr'' then Some (ucast (n_fpsr f))
      else if name = ''fpcr'' then Some (ucast (n_fpcr f))
      else case (if name \<noteq> [] \<and> hd name = CHR ''x'' then index_in (tl name) 28 else None) of
        Some idx \<Rightarrow> Some (a_x g ! idx)
      | None \<Rightarrow>
          (case (if name \<noteq> [] \<and> hd name = CHR ''v'' then index_in (tl name) 31 else None) of
             Some idx \<Rightarrow> Some (ucast (n_v f ! idx))
           | None \<Rightarrow> None))"

definition get_x86_numbered :: "x86_gpr \<Rightarrow> int \<Rightarrow> u64 option" where
  "get_x86_numbered g idx =
     (if idx = 8 then Some (r_r8 g) else if idx = 9 then Some (r_r9 g)
      else if idx = 10 then Some (r_r10 g) else if idx = 11 then Some (r_r11 g)
      else if idx = 12 then Some (r_r12 g) else if idx = 13 then Some (r_r13 g)
      else if idx = 14 then Some (r_r14 g) else if idx = 15 then Some (r_r15 g) else None)"

definition get_x86_reg :: "x86_gpr \<Rightarrow> x86_fp \<Rightarrow> string \<Rightarrow> u64 option" where
  "get_x86_reg g f name =
     (if name = ''rax'' then Some (r_rax g)
      else if name = ''rbx'' then Some (r_rbx g)
      else if name = ''rcx'' then Some (r_rcx g)
      else if name = ''rdx'' then Some (r_rdx g)
      else if name = ''rsi'' then Some (r_rsi g)
      else if name = ''rdi'' then Some (r_rdi g)
      else if name = ''rbp'' then Some (r_rbp g)
      else if name = ''rsp'' then Some (r_rsp g)
      else if name = ''rip'' then Some (r_rip g)
      else if name = ''rflags'' \<or> name = ''eflags'' then Some (r_rflags g)
      else if name = ''cs'' then Some (r_cs g)
      else if name = ''fs'' then Some (r_fs g)
      else if name = ''gs'' then Some (r_gs g)
      else case (if name \<noteq> [] \<and> hd name = CHR ''r''
                 then Option.bind (reg_index (tl name)) (get_x86_numbered g) else None) of
        Some v \<Rightarrow> Some v
      | None \<Rightarrow>
          (case (if strncmp_eq name ''xmm'' then index_in (drop 3 name) 15 else None) of
             Some idx \<Rightarrow> Some (ucast (f_xmm f ! idx))
           | None \<Rightarrow>
               (case (if strncmp_eq name ''st'' then index_in (drop 2 name) 7 else None) of
                  Some idx \<Rightarrow> Some (ucast (f_stmm f ! idx))
                | None \<Rightarrow> None)))"

definition cdbg_regs_get_by_name :: "cdbg_regs \<Rightarrow> string \<Rightarrow> u64 option" where
  "cdbg_regs_get_by_name regs name = (case (native regs, fpu regs) of
       (ArmGpr g, ArmNeon f) \<Rightarrow> get_arm_reg g f name
     | (X86Gpr g, X86Fp f) \<Rightarrow> get_x86_reg g f name
     | _ \<Rightarrow> None)"

definition cdbg_regs_set_by_name ::
  "'w kern \<Rightarrow> (u64 \<Rightarrow> u64) \<Rightarrow> int \<Rightarrow> u64 \<Rightarrow> cdbg_regs \<Rightarrow> string \<Rightarrow> u64 \<Rightarrow> bool \<Rightarrow> u64 \<Rightarrow> 'w
     \<Rightarrow> bool \<times> cdbg_regs \<times> 'w" where
  "cdbg_regs_set_by_name K int_to_double pid tid regs name value is_float fvalue w =
     (case set_gpr_field regs name value of
        Some regs1 \<Rightarrow> (case cdbg_regs_set K pid tid regs1 w of (ok, w1) \<Rightarrow> (ok, regs1, w1))
      | None \<Rightarrow>
          (case set_fp_field int_to_double regs name value is_float fvalue of
             Some regs1 \<Rightarrow> (case cdbg_regs_set_fp K pid tid regs1 w of (ok, w1) \<Rightarrow> (ok, regs1, w1))
           | None \<Rightarrow> (False, regs, w)))"

end
