(* ===== verification/Breakpoint.thy ===== *)
theory Breakpoint
  imports Regs
begin

text \<open>
  breakpoint.c: patching the trap byte into the debuggee, putting the saved byte back, and
  recognising a trap by the program counter.
\<close>

record cdbg_breakpoint =
  bp_addr :: addr
  bp_saved_byte :: u8
  bp_enabled :: bool
  bp_spec :: string

definition zero_bp :: cdbg_breakpoint where
  "zero_bp = \<lparr>bp_addr = 0, bp_saved_byte = 0, bp_enabled = False, bp_spec = []\<rparr>"

definition CDBG_TRAP_BYTE :: "arch \<Rightarrow> u8" where
  "CDBG_TRAP_BYTE a = (case a of AArch64 \<Rightarrow> 0xd4 | X86_64 \<Rightarrow> 0xcc)"

definition cdbg_bp_enable ::
  "'w kern \<Rightarrow> cdbg_breakpoint \<Rightarrow> int \<Rightarrow> addr \<Rightarrow> 'w \<Rightarrow> bool \<times> cdbg_breakpoint \<times> 'w" where
  "cdbg_bp_enable K bp pid a w = (case cdbg_mem_read K pid a 1 w of
       None \<Rightarrow> (False, bp, w)
     | Some byte \<Rightarrow>
         let bp1 = bp\<lparr>bp_addr := a, bp_saved_byte := hd byte, bp_enabled := True\<rparr>
         in (case cdbg_mem_write K pid a [CDBG_TRAP_BYTE (k_arch K)] w of
               (True, w1) \<Rightarrow> (True, bp1, w1)
             | (False, w1) \<Rightarrow> (False, bp1\<lparr>bp_enabled := False\<rparr>, w1)))"

definition cdbg_bp_disable ::
  "'w kern \<Rightarrow> cdbg_breakpoint \<Rightarrow> int \<Rightarrow> 'w \<Rightarrow> bool \<times> cdbg_breakpoint \<times> 'w" where
  "cdbg_bp_disable K bp pid w =
     (if \<not> bp_enabled bp then (True, bp, w)
      else case cdbg_mem_write K pid (bp_addr bp) [bp_saved_byte bp] w of
        (False, w1) \<Rightarrow> (False, bp, w1)
      | (True, w1) \<Rightarrow> (True, bp\<lparr>bp_enabled := False\<rparr>, w1))"

definition cdbg_bp_matches_pc :: "arch \<Rightarrow> addr \<Rightarrow> cdbg_breakpoint \<Rightarrow> bool" where
  "cdbg_bp_matches_pc a pc bp =
     (if \<not> bp_enabled bp then False
      else case a of X86_64 \<Rightarrow> bp_addr bp + 1 = pc | AArch64 \<Rightarrow> bp_addr bp = pc)"

fun cdbg_bp_is_trap :: "arch \<Rightarrow> addr \<Rightarrow> cdbg_breakpoint list \<Rightarrow> bool" where
  "cdbg_bp_is_trap a pc [] = False"
| "cdbg_bp_is_trap a pc (bp # bps) = (if cdbg_bp_matches_pc a pc bp then True else cdbg_bp_is_trap a pc bps)"

lemma cdbg_bp_is_trap_iff: "cdbg_bp_is_trap a pc bps \<longleftrightarrow> (\<exists>bp \<in> set bps. cdbg_bp_matches_pc a pc bp)"
  by (induction bps) auto

lemma cdbg_bp_disable_enabled: "cdbg_bp_disable K bp pid w = (True, bp', w') \<Longrightarrow> \<not> bp_enabled bp'"
  by (auto simp: cdbg_bp_disable_def split: if_splits prod.splits bool.splits)

lemma cdbg_bp_enable_fields:
  "cdbg_bp_enable K bp pid a w = (True, bp', w') \<Longrightarrow> bp_enabled bp' \<and> bp_addr bp' = a \<and> bp_spec bp' = bp_spec bp"
  by (auto simp: cdbg_bp_enable_def Let_def split: option.splits prod.splits bool.splits)

lemma cdbg_bp_disable_frame [frame_simps]:
  "cdbg_bp_disable K bp pid w = (ok, bp', w') \<Longrightarrow>
     bp_addr bp' = bp_addr bp \<and> bp_saved_byte bp' = bp_saved_byte bp \<and> bp_spec bp' = bp_spec bp"
  by (auto simp: cdbg_bp_disable_def split: if_splits prod.splits bool.splits)

text \<open>On the memory interface: enabling patches exactly one byte, disabling puts it back.\<close>

context target_memory
begin

lemma byte_patch:
  assumes "rd a 1 w = Some bs" "wr a [t] w = (True, w1)"
  shows "bs = [contents w a] \<and> contents w1 = (contents w)(a := t) \<and> mapped w1 = mapped w"
  using rd_byte_cases [OF assms(1)] wr_stores [OF assms(2)] wr_mapped [OF assms(2)] by simp

end

context traced_task
begin

lemma bp_enable_memory:
  assumes "cdbg_bp_enable K bp pid a w = (True, bp', w')"
  shows "contents w' = (contents w)(a := CDBG_TRAP_BYTE (k_arch K))" "mapped w' = mapped w"
    "bp_saved_byte bp' = contents w a" "bp_enabled bp'" "bp_addr bp' = a" "mapped w a"
proof -
  from assms obtain bs where r: "cdbg_mem_read K pid a 1 w = Some bs"
    and wrt: "cdbg_mem_write K pid a [CDBG_TRAP_BYTE (k_arch K)] w = (True, w')"
    and b: "bp' = bp\<lparr>bp_addr := a, bp_saved_byte := hd bs, bp_enabled := True\<rparr>"
    by (auto simp: cdbg_bp_enable_def Let_def split: option.splits prod.splits bool.splits)
  from byte_patch [OF r wrt] rd_byte_cases [OF r] b
  show "contents w' = (contents w)(a := CDBG_TRAP_BYTE (k_arch K))" "mapped w' = mapped w"
    "bp_saved_byte bp' = contents w a" "bp_enabled bp'" "bp_addr bp' = a" "mapped w a"
    by auto
qed

lemma bp_enable_mapped: "mapped w a \<Longrightarrow> fst (cdbg_bp_enable K bp pid a w)"
  using wr_byte [of w a "CDBG_TRAP_BYTE (k_arch K)"]
  by (auto simp: cdbg_bp_enable_def Let_def rd_byte [unfolded One_nat_def] split: prod.splits bool.splits)

lemma bp_disable_memory:
  assumes "cdbg_bp_disable K bp pid w = (True, bp', w')"
  shows "contents w' = (if bp_enabled bp then (contents w)(bp_addr bp := bp_saved_byte bp) else contents w)"
    "mapped w' = mapped w" "\<not> bp_enabled bp'"
proof -
  have e: "\<not> bp_enabled bp'" using assms by (rule cdbg_bp_disable_enabled)
  show "contents w' = (if bp_enabled bp then (contents w)(bp_addr bp := bp_saved_byte bp) else contents w)"
    "mapped w' = mapped w" "\<not> bp_enabled bp'"
    using assms e wr_stores [of "bp_addr bp" "[bp_saved_byte bp]" w w']
      wr_mapped [of "bp_addr bp" "[bp_saved_byte bp]" w True w']
    by (auto simp: cdbg_bp_disable_def split: if_splits prod.splits bool.splits)
qed

lemma bp_disable_mapped: "mapped w (bp_addr bp) \<Longrightarrow> fst (cdbg_bp_disable K bp pid w)"
  using wr_byte [of w "bp_addr bp" "bp_saved_byte bp"]
  by (auto simp: cdbg_bp_disable_def split: prod.splits bool.splits)

end

end
