(* ===== verification/Watchpoint.thy ===== *)
theory Watchpoint
  imports Regs
begin

text \<open>
  watchpoint.c: programming one hardware watchpoint slot on every thread of the debuggee, for
  the ARM watchpoint registers (DBGWVR, DBGWCR) and for the x86 debug registers (DR0-DR3, DR7).
\<close>

definition CDBG_WP_MAX_HW :: nat where
  "CDBG_WP_MAX_HW = 4"

datatype cdbg_wp_mode = CDBG_WP_WRITE | CDBG_WP_ACCESS

record cdbg_watchpoint =
  wp_enabled :: bool
  wp_addr :: addr
  wp_size :: nat
  wp_old_value :: u64
  wp_mode :: cdbg_wp_mode
  wp_expr :: string
  wp_type :: string

definition zero_wp :: cdbg_watchpoint where
  "zero_wp = \<lparr>wp_enabled = False, wp_addr = 0, wp_size = 0, wp_old_value = 0,
              wp_mode = CDBG_WP_WRITE, wp_expr = [], wp_type = []\<rparr>"

section \<open>Every thread\<close>

fun run_on_threads :: "(nat \<Rightarrow> 'w \<Rightarrow> bool \<times> 'w) \<Rightarrow> nat list \<Rightarrow> bool \<Rightarrow> 'w \<Rightarrow> bool \<times> 'w" where
  "run_on_threads f [] rc w = (rc, w)"
| "run_on_threads f (t # ts) rc w =
     (case f t w of (ok, w1) \<Rightarrow> run_on_threads f ts (rc \<and> ok) w1)"

definition for_each_thread :: "'w kern \<Rightarrow> int \<Rightarrow> (nat \<Rightarrow> 'w \<Rightarrow> bool \<times> 'w) \<Rightarrow> 'w \<Rightarrow> bool \<times> 'w" where
  "for_each_thread K pid f w =
     (let task = task_for_traced_pid K pid w
      in if task = MACH_PORT_NULL then (False, w)
         else (case k_task_threads K task w of
                 None \<Rightarrow> (False, w)
               | Some threads \<Rightarrow> run_on_threads f threads (threads \<noteq> []) w))"

section \<open>ARM\<close>

definition WCR_E :: u64 where "WCR_E = 1"
definition WCR_PAC_EL0EL1 :: u64 where "WCR_PAC_EL0EL1 = push_bit 1 3"
definition WCR_LSC_STORE :: u64 where "WCR_LSC_STORE = push_bit 3 2"
definition WCR_LSC_ANY :: u64 where "WCR_LSC_ANY = push_bit 3 3"
definition WCR_BAS_SHIFT :: nat where "WCR_BAS_SHIFT = 5"

definition arm_set_slot :: "nat \<Rightarrow> u64 \<Rightarrow> u64 \<Rightarrow> arm_debug_state \<Rightarrow> arm_debug_state" where
  "arm_set_slot slot wvr wcr s = s\<lparr>d_wvr := (d_wvr s)[slot := wvr], d_wcr := (d_wcr s)[slot := wcr]\<rparr>"

definition install_arm_thread :: "'w kern \<Rightarrow> nat \<Rightarrow> u64 \<Rightarrow> u64 \<Rightarrow> nat \<Rightarrow> 'w \<Rightarrow> bool \<times> 'w" where
  "install_arm_thread K slot wvr wcr thread w = (case k_get_debug K thread w of
       Some (ArmDebug s) \<Rightarrow> k_set_debug K thread (ArmDebug (arm_set_slot slot wvr wcr s)) w
     | _ \<Rightarrow> (False, w))"

definition uninstall_arm_thread :: "'w kern \<Rightarrow> nat \<Rightarrow> nat \<Rightarrow> 'w \<Rightarrow> bool \<times> 'w" where
  "uninstall_arm_thread K slot thread w = (case k_get_debug K thread w of
       Some (ArmDebug s) \<Rightarrow> k_set_debug K thread (ArmDebug (arm_set_slot slot 0 0 s)) w
     | _ \<Rightarrow> (False, w))"

text \<open>The two register values of a slot; \<open>None\<close> when size and address cannot be represented.\<close>

definition arm_wp_encode :: "addr \<Rightarrow> nat \<Rightarrow> cdbg_wp_mode \<Rightarrow> (u64 \<times> u64) option" where
  "arm_wp_encode a sz mode =
     (if sz \<noteq> 1 \<and> sz \<noteq> 2 \<and> sz \<noteq> 4 \<and> sz \<noteq> 8 then None
      else let offset = unat (a AND 7)
           in if 8 < offset + sz then None
              else let lsc = (if mode = CDBG_WP_ACCESS then WCR_LSC_ANY else WCR_LSC_STORE);
                       bas = (ucast (push_bit offset (push_bit sz (1 :: u32) - 1)) :: u64)
                   in Some (a AND NOT 7,
                            WCR_E OR WCR_PAC_EL0EL1 OR lsc OR push_bit WCR_BAS_SHIFT bas))"

section \<open>x86\<close>

text \<open>\<open>*dr_slot_ptr(&state, slot) = v\<close>.\<close>

definition dr_slot_set :: "nat \<Rightarrow> u64 \<Rightarrow> x86_debug_state \<Rightarrow> x86_debug_state" where
  "dr_slot_set slot v s =
     (if slot = 0 then s\<lparr>d_dr0 := v\<rparr> else if slot = 1 then s\<lparr>d_dr1 := v\<rparr>
      else if slot = 2 then s\<lparr>d_dr2 := v\<rparr> else if slot = 3 then s\<lparr>d_dr3 := v\<rparr> else s)"

definition dr7_install :: "nat \<Rightarrow> u64 \<Rightarrow> cdbg_wp_mode \<Rightarrow> u64 \<Rightarrow> u64" where
  "dr7_install slot len_bits mode dr7 =
     (let rw_bits = (if mode = CDBG_WP_ACCESS then 3 else 1);
          local_enable_bit = slot * 2;
          rw_shift = 16 + slot * 4;
          len_shift = 18 + slot * 4;
          d1 = dr7 AND NOT (push_bit rw_shift 3);
          d2 = d1 AND NOT (push_bit len_shift 3);
          d3 = d2 OR push_bit rw_shift rw_bits;
          d4 = d3 OR push_bit len_shift len_bits
      in d4 OR push_bit local_enable_bit 1)"

definition dr7_uninstall :: "nat \<Rightarrow> u64 \<Rightarrow> u64" where
  "dr7_uninstall slot dr7 = dr7 AND NOT (push_bit (slot * 2) 1)"

definition install_x86_thread ::
  "'w kern \<Rightarrow> nat \<Rightarrow> addr \<Rightarrow> u64 \<Rightarrow> cdbg_wp_mode \<Rightarrow> nat \<Rightarrow> 'w \<Rightarrow> bool \<times> 'w" where
  "install_x86_thread K slot a len_bits mode thread w = (case k_get_debug K thread w of
       Some (X86Debug s) \<Rightarrow>
         let s1 = dr_slot_set slot a s
         in k_set_debug K thread (X86Debug (s1\<lparr>d_dr7 := dr7_install slot len_bits mode (d_dr7 s1)\<rparr>)) w
     | _ \<Rightarrow> (False, w))"

definition uninstall_x86_thread :: "'w kern \<Rightarrow> nat \<Rightarrow> nat \<Rightarrow> 'w \<Rightarrow> bool \<times> 'w" where
  "uninstall_x86_thread K slot thread w = (case k_get_debug K thread w of
       Some (X86Debug s) \<Rightarrow>
         let s1 = dr_slot_set slot 0 s
         in k_set_debug K thread (X86Debug (s1\<lparr>d_dr7 := dr7_uninstall slot (d_dr7 s1)\<rparr>)) w
     | _ \<Rightarrow> (False, w))"

definition x86_wp_len_bits :: "addr \<Rightarrow> nat \<Rightarrow> u64 option" where
  "x86_wp_len_bits a sz =
     (let len = (if sz = 1 then Some 0 else if sz = 2 then Some 1
                 else if sz = 8 then Some 2 else if sz = 4 then Some 3 else None)
      in if len \<noteq> None \<and> a AND (of_nat sz - 1) \<noteq> 0 then None else len)"

section \<open>Install and uninstall\<close>

definition cdbg_wp_hw_install ::
  "'w kern \<Rightarrow> int \<Rightarrow> int \<Rightarrow> addr \<Rightarrow> nat \<Rightarrow> cdbg_wp_mode \<Rightarrow> 'w \<Rightarrow> bool \<times> 'w" where
  "cdbg_wp_hw_install K pid slot a sz mode w =
     (if slot < 0 \<or> int CDBG_WP_MAX_HW \<le> slot then (False, w)
      else case k_arch K of
        AArch64 \<Rightarrow> (case arm_wp_encode a sz mode of
            None \<Rightarrow> (False, w)
          | Some (wvr, wcr) \<Rightarrow> for_each_thread K pid (install_arm_thread K (nat slot) wvr wcr) w)
      | X86_64 \<Rightarrow> (case x86_wp_len_bits a sz of
            None \<Rightarrow> (False, w)
          | Some len_bits \<Rightarrow> for_each_thread K pid (install_x86_thread K (nat slot) a len_bits mode) w))"

definition cdbg_wp_hw_uninstall :: "'w kern \<Rightarrow> int \<Rightarrow> int \<Rightarrow> 'w \<Rightarrow> bool \<times> 'w" where
  "cdbg_wp_hw_uninstall K pid slot w =
     (if slot < 0 \<or> int CDBG_WP_MAX_HW \<le> slot then (False, w)
      else case k_arch K of
        AArch64 \<Rightarrow> for_each_thread K pid (uninstall_arm_thread K (nat slot)) w
      | X86_64 \<Rightarrow> for_each_thread K pid (uninstall_x86_thread K (nat slot)) w)"

section \<open>Choosing a width (debugger.c)\<close>

definition watch_hw_size_for :: "nat \<Rightarrow> nat" where
  "watch_hw_size_for requested =
     (if requested = 0 then 8 else if requested \<le> 1 then 1
      else if requested \<le> 2 then 2 else if requested \<le> 4 then 4 else 8)"

text \<open>\<open>while (hw_size >= 1) { try; hw_size /= 2; }\<close>: the width installed, if any.\<close>

function install_shrinking ::
  "'w kern \<Rightarrow> int \<Rightarrow> int \<Rightarrow> addr \<Rightarrow> nat \<Rightarrow> cdbg_wp_mode \<Rightarrow> 'w \<Rightarrow> nat option \<times> 'w" where
  "install_shrinking K pid slot a hw_size mode w =
     (if hw_size < 1 then (None, w)
      else case cdbg_wp_hw_install K pid slot a hw_size mode w of
        (True, w1) \<Rightarrow> (Some hw_size, w1)
      | (False, w1) \<Rightarrow> install_shrinking K pid slot a (hw_size div 2) mode w1)"
  by pat_completeness auto
termination
  by (relation "measure (\<lambda>(K, pid, slot, a, hw_size, mode, w). hw_size)") auto

declare install_shrinking.simps [simp del]

section \<open>What the encodings mean\<close>

text \<open>Byte \<open>i\<close> of the aligned eight-byte window lies in the watched range.\<close>

definition covers :: "addr \<Rightarrow> nat \<Rightarrow> nat \<Rightarrow> bool" where
  "covers a sz i \<longleftrightarrow> unat (a AND 7) \<le> i \<and> i < unat (a AND 7) + sz"

lemma ones_mask: "push_bit n (1 :: 'a :: len word) - 1 = mask n"
  by (simp add: mask_eq_exp_minus_1)

lemma and_7_lt: "unat (a AND 7 :: 'a :: len word) < 8"
proof -
  have "a AND 7 \<le> 7" by (rule word_and_le1)
  then have "unat (a AND 7) \<le> unat (7 :: 'a word)" by (simp add: word_le_nat_alt)
  also have "\<dots> \<le> 7" by (simp add: unat_mod)
  finally show ?thesis by simp
qed

lemma bit_three: "bit (3 :: 'a :: len word) n \<longleftrightarrow> n < 2 \<and> n < LENGTH('a)"
proof -
  have e: "(3 :: 'a word) = mask 2" by (simp add: mask_eq_exp_minus_1)
  show ?thesis by (subst e) (auto simp only: bit_mask_iff min_less_iff_conj possible_bit_word)
qed

lemma bit_two: "bit (2 :: 'a :: len word) n \<longleftrightarrow> n = 1 \<and> n < LENGTH('a)"
proof -
  have e: "(2 :: 'a word) = push_bit 1 1" by simp
  show ?thesis by (subst e) (auto simp only: bit_push_bit_iff bit_1_iff possible_bit_word)
qed

lemma upto_8: "(i :: nat) < 8 \<Longrightarrow> i \<in> {0, 1, 2, 3, 4, 5, 6, 7}"
  by auto

lemma arm_wcr_bits:
  fixes bas :: u64
  assumes "i < 8"
  shows "bit (WCR_E OR WCR_PAC_EL0EL1 OR lsc OR push_bit WCR_BAS_SHIFT bas) (5 + i) \<longleftrightarrow> bit lsc (5 + i) \<or> bit bas i"
  using upto_8 [OF assms]
  by (elim insertE) (simp_all add: WCR_E_def WCR_PAC_EL0EL1_def WCR_BAS_SHIFT_def bit_or_iff bit_push_bit_iff bit_1_iff)

lemma arm_lsc_bits:
  "i < 8 \<Longrightarrow> \<not> bit WCR_LSC_ANY (5 + i)" "i < 8 \<Longrightarrow> \<not> bit WCR_LSC_STORE (5 + i)"
  by (drule upto_8, elim insertE; simp add: WCR_LSC_ANY_def WCR_LSC_STORE_def)+

lemma arm_bas_bits:
  assumes "i < 8" "offset + sz \<le> 8"
  shows "bit (ucast (push_bit offset (push_bit sz (1 :: u32) - 1)) :: u64) i \<longleftrightarrow> offset \<le> i \<and> i < offset + sz"
proof -
  have u: "push_bit sz (1 :: u32) - 1 = mask sz" by (rule ones_mask)
  show ?thesis unfolding u using assms by (auto simp: bit_ucast_iff bit_push_bit_iff bit_mask_iff)
qed

lemma and_not_plus_and: "(a AND NOT m) + (a AND m) = (a :: 'a :: len word)"
proof -
  have "(a AND NOT m) + (a AND m) = (a AND NOT m) OR (a AND m)"
    by (rule disjunctive_add_eq_or) (simp add: bit_eq_iff bit_simps)
  also have "\<dots> = a"
    by (rule bit_word_eqI) (auto simp: bit_simps)
  finally show ?thesis .
qed

lemma arm_wp_encode_bits:
  assumes "arm_wp_encode a sz mode = Some (wvr, wcr)" "i < 8"
  shows "bit wcr (5 + i) \<longleftrightarrow> covers a sz i" "wvr = a AND NOT 7"
proof -
  from assms(1) have v: "wvr = a AND NOT 7" "\<not> 8 < unat (a AND 7) + sz"
    "wcr = WCR_E OR WCR_PAC_EL0EL1 OR (if mode = CDBG_WP_ACCESS then WCR_LSC_ANY else WCR_LSC_STORE) OR
       push_bit WCR_BAS_SHIFT (ucast (push_bit (unat (a AND 7)) (push_bit sz (1 :: u32) - 1)))"
    unfolding arm_wp_encode_def Let_def by (auto simp only: option.inject prod.inject split: if_split_asm)
  show "wvr = a AND NOT 7" by (rule v)
  show "bit wcr (5 + i) \<longleftrightarrow> covers a sz i"
    unfolding v(3) arm_wcr_bits [OF assms(2)] covers_def
    using arm_bas_bits [OF assms(2), of "unat (a AND 7)" sz] v(2) arm_lsc_bits [OF assms(2)]
    by (auto simp only: not_less split: if_split)
qed

lemma covers_address:
  assumes "i < 8"
  shows "covers a sz i \<longleftrightarrow> (\<exists>k < sz. (a AND NOT 7) + of_nat i = a + of_nat k \<and> i = unat (a AND 7) + k)"
proof -
  have w: "a = (a AND NOT 7) + of_nat (unat (a AND 7))" 
  proof -
    have u: "of_nat (unat (a AND 7)) = a AND 7" by simp
    show ?thesis unfolding u by (rule and_not_plus_and [symmetric])
  qed
  show ?thesis
  proof
    assume c: "covers a sz i"
    let ?k = "i - unat (a AND 7)"
    from c have k: "?k < sz" "i = unat (a AND 7) + ?k" by (auto simp: covers_def)
    have "(a AND NOT 7) + of_nat i = (a AND NOT 7) + (of_nat (unat (a AND 7)) + of_nat ?k)"
      by (simp only: k(2) [symmetric] of_nat_add [symmetric])
    also have "\<dots> = a + of_nat ?k" by (simp only: add.assoc [symmetric] w [symmetric])
    finally have "(a AND NOT 7) + of_nat i = a + of_nat ?k" .
    with k show "\<exists>k < sz. (a AND NOT 7) + of_nat i = a + of_nat k \<and> i = unat (a AND 7) + k" by blast
  qed (auto simp: covers_def)
qed

text \<open>The fields of one slot in DR7.\<close>

definition dr7_enabled :: "nat \<Rightarrow> u64 \<Rightarrow> bool" where
  "dr7_enabled slot d = bit d (slot * 2)"

definition dr7_rw :: "nat \<Rightarrow> u64 \<Rightarrow> u64" where
  "dr7_rw slot d = drop_bit (16 + slot * 4) d AND 3"

definition dr7_len :: "nat \<Rightarrow> u64 \<Rightarrow> u64" where
  "dr7_len slot d = drop_bit (18 + slot * 4) d AND 3"

lemma slot_cases: "(slot :: nat) < 4 \<Longrightarrow> slot = 0 \<or> slot = 1 \<or> slot = 2 \<or> slot = 3"
  by arith

lemma bit_push_three: "k < 63 \<Longrightarrow> bit (push_bit k (3 :: u64)) n \<longleftrightarrow> n = k \<or> n = k + 1"
  by (auto simp only: bit_push_bit_iff bit_three possible_bit_word len_num1 len_bit0 len_num0)

lemma bit_push_one: "k < 64 \<Longrightarrow> bit (push_bit k (1 :: u64)) n \<longleftrightarrow> n = k"
  by (auto simp: bit_push_bit_iff bit_1_iff simp del: push_bit_of_1)

lemma bit_push_len:
  assumes "k < 63" "len \<in> {0, 1, 2, 3 :: u64}"
  shows "bit (push_bit k len) n \<longleftrightarrow> n = k \<and> bit len 0 \<or> n = k + 1 \<and> bit len 1"
proof -
  have l: "bit len m \<Longrightarrow> m < 2" for m
    using assms(2) bit_three [of m, where 'a = 64] bit_two [of m, where 'a = 64]
    by (auto simp: bit_1_iff simp del: bit_numeral_word_iff)
  have "bit (push_bit k len) n \<longleftrightarrow> k \<le> n \<and> n < 64 \<and> bit len (n - k)"
    by (auto simp: bit_push_bit_iff)
  also have "\<dots> \<longleftrightarrow> n = k \<and> bit len 0 \<or> n = k + 1 \<and> bit len 1"
    using assms(1) l [of "n - k"] by (auto simp: less_2_cases_iff)
  finally show ?thesis .
qed

lemma dr7_install_bits:
  assumes "slot < 4" "len \<in> {0, 1, 2, 3}"
  shows "bit (dr7_install slot len mode d) n \<longleftrightarrow>
    (if n = slot * 2 then True
     else if n = 16 + slot * 4 then True
     else if n = 17 + slot * 4 then mode = CDBG_WP_ACCESS
     else if n = 18 + slot * 4 then bit len 0
     else if n = 19 + slot * 4 then bit len 1
     else bit d n)"
proof -
  let ?r = "16 + slot * 4" and ?l = "18 + slot * 4" and ?e = "slot * 2"
  have k: "?r < 63" "?l < 63" "?e < 64" "?r < 64" using assms(1) by auto
  have rw: "bit (push_bit ?r (if mode = CDBG_WP_ACCESS then 3 else (1 :: u64))) n \<longleftrightarrow>
      n = ?r \<or> n = ?r + 1 \<and> mode = CDBG_WP_ACCESS"
    using bit_push_three [OF k(1)] bit_push_one [OF k(4)] by (simp split: if_split)
  show ?thesis
  proof (cases "n < 64")
    case True
    then show ?thesis
      unfolding dr7_install_def Let_def bit_or_iff bit_and_iff bit_not_iff
        rw bit_push_three [OF k(1)] bit_push_three [OF k(2)] bit_push_one [OF k(3)]
        bit_push_len [OF k(2) assms(2)] possible_bit_word
      using assms(1) by auto
  next
    case False
    then show ?thesis using assms(1) by (auto dest!: bit_imp_le_length)
  qed
qed

lemma dr7_uninstall_bits:
  "slot < 4 \<Longrightarrow> bit (dr7_uninstall slot d) n \<longleftrightarrow> n \<noteq> slot * 2 \<and> bit d n"
  using bit_push_one [of "slot * 2" n]
  by (auto simp: dr7_uninstall_def bit_and_iff bit_not_iff dest: bit_imp_le_length simp del: push_bit_of_1)

text \<open>
  The slot that cmd_watch ends up with: the first of \<open>n, n/2, n/4, \<dots>\<close> that installs.
\<close>

lemma install_shrinking_bound:
  "install_shrinking K pid slot a n mode w = (Some m, w') \<Longrightarrow> 1 \<le> m \<and> m \<le> n"
proof (induction K pid slot a n mode w rule: install_shrinking.induct)
  case (1 K pid slot a n mode w)
  show ?case
  proof (cases "n < 1")
    case True
    with "1.prems" show ?thesis by (subst (asm) install_shrinking.simps) simp
  next
    case False
    obtain ok w1 where i: "cdbg_wp_hw_install K pid slot a n mode w = (ok, w1)" by fastforce
    show ?thesis
    proof (cases ok)
      case True
      with "1.prems" False i show ?thesis by (subst (asm) install_shrinking.simps) simp
    next
      case no: False
      with "1.prems" False i have "install_shrinking K pid slot a (n div 2) mode w1 = (Some m, w')"
        by (subst (asm) install_shrinking.simps) simp
      from "1.IH" [OF False i [symmetric] _ this] no have "1 \<le> m \<and> m \<le> n div 2" by simp
      then show ?thesis by (meson div_le_dividend le_trans)
    qed
  qed
qed

end
