(* ===== verification/Cursor.thy ===== *)
theory Cursor
  imports Prelude
begin

text \<open>
  The byte cursor of lineno.c and its readers. A cursor is a pair of pointers into the mapped
  file; pointers are 64-bit words and the file is a function from addresses to bytes, so the
  pointer comparisons and differences of the code are those of the machine.
\<close>

record parse_cursor =
  c_mem :: "addr \<Rightarrow> u8"
  c_data :: addr
  c_end :: addr

abbreviation advance :: "parse_cursor \<Rightarrow> addr \<Rightarrow> parse_cursor" where
  "advance c n \<equiv> c\<lparr>c_data := c_data c + n\<rparr>"

definition cursor_ok :: "parse_cursor \<Rightarrow> nat \<Rightarrow> bool" where
  "cursor_ok c n \<longleftrightarrow> n \<le> unat (c_end c - c_data c)"

section \<open>Readers\<close>

definition read_u8 :: "parse_cursor \<Rightarrow> u8 \<times> parse_cursor" where
  "read_u8 c = (if \<not> cursor_ok c 1 then (0, c) else (c_mem c (c_data c), advance c 1))"

definition read_u16 :: "parse_cursor \<Rightarrow> u16 \<times> parse_cursor" where
  "read_u16 c =
     (if \<not> cursor_ok c 2 then (0, c)
      else (ucast (c_mem c (c_data c)) OR push_bit 8 (ucast (c_mem c (c_data c + 1))), advance c 2))"

definition read_u32 :: "parse_cursor \<Rightarrow> u32 \<times> parse_cursor" where
  "read_u32 c =
     (if \<not> cursor_ok c 4 then (0, c)
      else (ucast (c_mem c (c_data c))
            OR push_bit 8 (ucast (c_mem c (c_data c + 1)))
            OR push_bit 16 (ucast (c_mem c (c_data c + 2)))
            OR push_bit 24 (ucast (c_mem c (c_data c + 3))), advance c 4))"

text \<open>\<open>read_u64\<close>: eight single-byte reads, \<open>k\<close> of them left, the next one at bit \<open>8 * (8 - k)\<close>.\<close>

fun read_u64_loop :: "nat \<Rightarrow> u64 \<Rightarrow> parse_cursor \<Rightarrow> u64 \<times> parse_cursor" where
  "read_u64_loop 0 value c = (value, c)"
| "read_u64_loop (Suc k) value c =
     (let (byte, c1) = read_u8 c
      in read_u64_loop k (value OR push_bit (8 * (7 - k)) (ucast byte)) c1)"

definition read_u64 :: "parse_cursor \<Rightarrow> u64 \<times> parse_cursor" where
  "read_u64 c = read_u64_loop 8 0 c"

fun uleb_loop :: "nat \<Rightarrow> nat \<Rightarrow> u64 \<Rightarrow> parse_cursor \<Rightarrow> u64 \<times> parse_cursor" where
  "uleb_loop 0 shift value c = (value, c)"
| "uleb_loop (Suc k) shift value c =
     (let (byte, c1) = read_u8 c;
          value1 = value OR push_bit shift (ucast (byte AND 0x7f))
      in if byte AND 0x80 = 0 then (value1, c1) else uleb_loop k (shift + 7) value1 c1)"

definition read_uleb128 :: "parse_cursor \<Rightarrow> u64 \<times> parse_cursor" where
  "read_uleb128 c = uleb_loop 10 0 0 c"

text \<open>The loop of \<open>read_sleb128\<close> returns the last byte, the shift and the value.\<close>

fun sleb_loop :: "nat \<Rightarrow> nat \<Rightarrow> u64 \<Rightarrow> u8 \<Rightarrow> parse_cursor \<Rightarrow> (u8 \<times> nat \<times> u64) \<times> parse_cursor" where
  "sleb_loop 0 shift value byte c = ((byte, shift, value), c)"
| "sleb_loop (Suc k) shift value _ c =
     (let (byte, c1) = read_u8 c;
          value1 = value OR push_bit shift (ucast (byte AND 0x7f));
          shift1 = shift + 7
      in if byte AND 0x80 = 0 then ((byte, shift1, value1), c1)
         else sleb_loop k shift1 value1 byte c1)"

definition read_sleb128 :: "parse_cursor \<Rightarrow> u64 \<times> parse_cursor" where
  "read_sleb128 c =
     (let ((byte, shift, value), c1) = sleb_loop 10 0 0 0 c
      in (if byte AND 0x40 \<noteq> 0 \<and> shift < 64 then value OR push_bit shift (- 1) else value, c1))"

text \<open>
  \<open>read_cstr\<close>: the pointer stops behind the terminator, or at the end when there is none. The
  result is the text; \<open>None\<close> stands for the pointer to an unterminated text, which its users
  would follow past the end of the cursor.
\<close>

function cstr_scan :: "parse_cursor \<Rightarrow> string \<Rightarrow> string \<times> parse_cursor" where
  "cstr_scan c acc =
     (if c_data c < c_end c \<and> c_mem c (c_data c) \<noteq> 0
      then cstr_scan (advance c 1) (acc @ [char_of (unat (c_mem c (c_data c)))])
      else (acc, c))"
  by pat_completeness auto
termination
proof (relation "measure (\<lambda>(c, acc). unat (c_end c - c_data c))", goal_cases)
  case 1
  then show ?case by simp
next
  case (2 c acc)
  then have "c_data c < c_end c" by simp
  then have "unat (c_end c - (c_data c + 1)) < unat (c_end c - c_data c)"
    by unat_arith
  then show ?case by simp
qed

declare cstr_scan.simps [simp del]

definition read_cstr :: "parse_cursor \<Rightarrow> string option \<times> parse_cursor" where
  "read_cstr c =
     (let (s, c1) = cstr_scan c []
      in if c_end c1 \<le> c_data c1 then (None, c1) else (Some s, advance c1 1))"

function skip_padding_zeros :: "parse_cursor \<Rightarrow> parse_cursor" where
  "skip_padding_zeros c =
     (if c_data c < c_end c \<and> c_mem c (c_data c) = 0 then skip_padding_zeros (advance c 1) else c)"
  by pat_completeness auto
termination
proof (relation "measure (\<lambda>c. unat (c_end c - c_data c))", goal_cases)
  case 1
  then show ?case by simp
next
  case (2 c)
  then have "c_data c < c_end c" by simp
  then have "unat (c_end c - (c_data c + 1)) < unat (c_end c - c_data c)"
    by unat_arith
  then show ?case by simp
qed

declare skip_padding_zeros.simps [simp del]

section \<open>No reader leaves the cursor's range\<close>

text \<open>
  The contract of a reader: it keeps the memory and the end, and a pointer that starts inside
  the range moves forward and stays inside.
\<close>

definition inside :: "parse_cursor \<Rightarrow> bool" where
  "inside c \<longleftrightarrow> c_data c \<le> c_end c"

definition advanced :: "parse_cursor \<Rightarrow> parse_cursor \<Rightarrow> bool" where
  "advanced c c' \<longleftrightarrow> c_mem c' = c_mem c \<and> c_end c' = c_end c \<and>
     (inside c \<longrightarrow> c_data c \<le> c_data c' \<and> c_data c' \<le> c_end c)"

lemma advanced_refl [simp, reader_intros]: "advanced c c"
  by (simp add: advanced_def inside_def)

lemma advanced_trans: "advanced c d \<Longrightarrow> advanced d e \<Longrightarrow> advanced c e"
  by (auto simp: advanced_def inside_def)

lemma advanced_inside: "advanced c d \<Longrightarrow> inside c \<Longrightarrow> inside d"
  by (simp add: advanced_def inside_def)

lemma word_size_bound: "unat (x :: u64) < 2 ^ 64"
  using unsigned_less [of x] by simp

lemma advance_ok: "cursor_ok c n \<Longrightarrow> advanced c (advance c (of_nat n))"
proof -
  assume ok: "cursor_ok c n"
  have "c_data c \<le> c_data c + of_nat n \<and> c_data c + of_nat n \<le> c_end c" if le: "c_data c \<le> c_end c"
  proof -
    have d: "unat (c_end c - c_data c) = unat (c_end c) - unat (c_data c)"
      using le by (simp add: unat_sub)
    with ok le have "unat (c_data c) + n \<le> unat (c_end c)"
      by (simp add: cursor_ok_def word_le_nat_alt)
    moreover from this have "n < 2 ^ 64" using word_size_bound by (meson le_add2 le_less_trans)
    ultimately have "unat (c_data c + of_nat n) = unat (c_data c) + n"
      using le_less_trans [OF _ word_size_bound [of "c_end c"], of "unat (c_data c) + n"]
      by (simp add: unat_word_ariths unat_of_nat)
    with \<open>unat (c_data c) + n \<le> unat (c_end c)\<close> show ?thesis by (simp add: word_le_nat_alt)
  qed
  then show ?thesis by (simp add: advanced_def inside_def)
qed

lemma advance_one: "c_data c < c_end c \<Longrightarrow> advanced c (advance c 1)"
  by (auto simp: advanced_def inside_def) (unat_arith+)

locale cursor_reader =
  fixes rd :: "parse_cursor \<Rightarrow> 'a \<times> parse_cursor"
  assumes rd_advanced: "advanced c (snd (rd c))"
begin

lemma rd_result: "rd c = (v, c') \<Longrightarrow> advanced c c'"
  using rd_advanced [of c] by simp

lemma rd_inside: "rd c = (v, c') \<Longrightarrow> inside c \<Longrightarrow> inside c'"
  by (rule advanced_inside [OF rd_result])

lemma rd_then: "rd c = (v, c') \<Longrightarrow> advanced c' d \<Longrightarrow> advanced c d"
  by (rule advanced_trans [OF rd_result])

end

lemma uleb_loop_advanced:
  assumes "\<And>c. advanced c (snd (read_u8 c))"
  shows "advanced c (snd (uleb_loop k shift v c))"
proof (induction k arbitrary: shift v c)
  case 0
  then show ?case by simp
next
  case (Suc k)
  obtain b c1 where r: "read_u8 c = (b, c1)" by fastforce
  with assms [of c] have "advanced c c1" by simp
  with Suc.IH [of c1] r show ?case by (auto simp: Let_def intro: advanced_trans)
qed

lemma read_u8_advanced: "advanced c (snd (read_u8 c))"
  using advance_ok [of c 1] by (simp add: read_u8_def)

interpretation rd_u8: cursor_reader read_u8
  by unfold_locales (rule read_u8_advanced)

interpretation rd_u16: cursor_reader read_u16
  using advance_ok [of _ 2] by unfold_locales (simp add: read_u16_def)

interpretation rd_u32: cursor_reader read_u32
  using advance_ok [of _ 4] by unfold_locales (simp add: read_u32_def)

lemma read_u64_loop_advanced: "advanced c (snd (read_u64_loop k v c))"
proof (induction k arbitrary: v c)
  case 0
  then show ?case by simp
next
  case (Suc k)
  obtain b c1 where r: "read_u8 c = (b, c1)" by fastforce
  with Suc.IH [of c1] show ?case by (auto simp: Let_def intro: rd_u8.rd_then)
qed

interpretation rd_u64: cursor_reader read_u64
  by unfold_locales (simp add: read_u64_def read_u64_loop_advanced)

interpretation rd_uleb: cursor_reader read_uleb128
  by unfold_locales (simp only: read_uleb128_def uleb_loop_advanced [OF read_u8_advanced])

lemma sleb_loop_advanced: "advanced c (snd (sleb_loop k shift v byte c))"
proof (induction k arbitrary: shift v byte c)
  case 0
  then show ?case by simp
next
  case (Suc k)
  obtain b c1 where r: "read_u8 c = (b, c1)" by fastforce
  with Suc.IH [of c1] show ?case by (auto simp: Let_def intro: rd_u8.rd_then)
qed

interpretation rd_sleb: cursor_reader read_sleb128
proof unfold_locales
  fix c
  obtain b s v c1 where "sleb_loop 10 0 0 0 c = ((b, s, v), c1)" by (metis prod.exhaust)
  with sleb_loop_advanced [of c 10 0 0 0] show "advanced c (snd (read_sleb128 c))"
    by (simp add: read_sleb128_def Let_def)
qed

lemma cstr_scan_advanced: "advanced c (snd (cstr_scan c acc))"
proof (induction c acc rule: cstr_scan.induct)
  case (1 c acc)
  show ?case
  proof (cases "c_data c < c_end c \<and> c_mem c (c_data c) \<noteq> 0")
    case True
    with 1 advanced_trans [OF advance_one] show ?thesis by (subst cstr_scan.simps) simp
  next
    case False
    then show ?thesis by (subst cstr_scan.simps) auto
  qed
qed

interpretation rd_cstr: cursor_reader read_cstr
proof unfold_locales
  fix c
  obtain s c1 where s: "cstr_scan c [] = (s, c1)" by fastforce
  with cstr_scan_advanced [of c "[]"] have a: "advanced c c1" by simp
  show "advanced c (snd (read_cstr c))"
  proof (cases "c_end c1 \<le> c_data c1")
    case True
    with s a show ?thesis by (simp add: read_cstr_def)
  next
    case False
    then have "advanced c1 (advance c1 1)" by (intro advance_one) simp
    with s a False show ?thesis by (auto simp: read_cstr_def intro: advanced_trans)
  qed
qed

lemma skip_padding_zeros_advanced: "advanced c (skip_padding_zeros c)"
proof (induction c rule: skip_padding_zeros.induct)
  case (1 c)
  show ?case
  proof (cases "c_data c < c_end c \<and> c_mem c (c_data c) = 0")
    case True
    with 1 advanced_trans [OF advance_one] show ?thesis by (subst skip_padding_zeros.simps) simp
  next
    case False
    then show ?thesis by (subst skip_padding_zeros.simps) auto
  qed
qed

text \<open>A text read inside the range uses up at least one byte.\<close>

definition remaining :: "parse_cursor \<Rightarrow> nat" where
  "remaining c = unat (c_end c - c_data c)"

lemma advanced_remaining:
  assumes "advanced c c'" "inside c"
  shows "remaining c' \<le> remaining c"
proof -
  from assms have e: "c_end c' = c_end c" "c_data c \<le> c_data c'" "c_data c' \<le> c_end c"
    by (auto simp: advanced_def)
  show ?thesis unfolding remaining_def e(1) using e(2,3) by unat_arith
qed

lemma advance_remaining: "c_data c < c_end c \<Longrightarrow> remaining (advance c 1) < remaining c"
  unfolding remaining_def by simp unat_arith

lemma read_cstr_progress:
  assumes "c_data c < c_end c" "read_cstr c = (s, c')"
  shows "remaining c' < remaining c"
proof -
  obtain t c1 where t: "cstr_scan c [] = (t, c1)" by fastforce
  show ?thesis
  proof (cases "c_mem c (c_data c) = 0")
    case True
    with t have "c1 = c" by (simp add: cstr_scan.simps)
    with assms t have "c' = advance c 1" by (auto simp: read_cstr_def not_le [symmetric] split: if_splits)
    with advance_remaining [OF assms(1)] show ?thesis by simp
  next
    case False
    with assms(1) t have "cstr_scan (advance c 1) ([] @ [char_of (unat (c_mem c (c_data c)))]) = (t, c1)"
      by (simp add: cstr_scan.simps [of c])
    then have "advanced (advance c 1) c1" by (metis cstr_scan_advanced snd_conv)
    moreover have a1: "advanced c (advance c 1)" using assms(1) by (rule advance_one)
    ultimately have "remaining c1 \<le> remaining (advance c 1)"
      using assms(1) advanced_inside [OF a1] by (intro advanced_remaining) (simp_all add: inside_def)
    with advance_remaining [OF assms(1)] have lt: "remaining c1 < remaining c" by simp
    from assms(2) t have "c' = c1 \<or> c' = advance c1 1 \<and> c_data c1 < c_end c1"
      by (auto simp: read_cstr_def split: if_splits)
    with lt advance_remaining [of c1] show ?thesis by auto
  qed
qed

lemmas [reader_intros] = rd_u8.rd_result rd_u16.rd_result rd_u32.rd_result rd_u64.rd_result
  rd_uleb.rd_result rd_sleb.rd_result rd_cstr.rd_result skip_padding_zeros_advanced

section \<open>Reading what was encoded\<close>

text \<open>The cursor is at a given byte sequence.\<close>

definition at_bytes :: "parse_cursor \<Rightarrow> u8 list \<Rightarrow> bool" where
  "at_bytes c bs \<longleftrightarrow> length bs \<le> unat (c_end c - c_data c) \<and>
     (\<forall>i < length bs. c_mem c (c_data c + of_nat i) = bs ! i)"

lemma unat_minus_one: "(x :: 'a :: len word) \<noteq> 0 \<Longrightarrow> unat (x - 1) = unat x - 1"
  by (rule unat_minus_one)

lemma at_bytes_Cons:
  assumes "at_bytes c (b # bs)"
  shows "read_u8 c = (b, advance c 1)" "at_bytes (advance c 1) bs"
proof -
  from assms have len: "Suc (length bs) \<le> unat (c_end c - c_data c)"
    and el: "\<And>i. i < Suc (length bs) \<Longrightarrow> c_mem c (c_data c + of_nat i) = (b # bs) ! i"
    by (auto simp: at_bytes_def)
  from el [of 0] len show "read_u8 c = (b, advance c 1)"
    by (simp add: read_u8_def cursor_ok_def)
  have nz: "c_end c - c_data c \<noteq> 0" using len by auto
  have "unat (c_end c - (c_data c + 1)) = unat (c_end c - c_data c) - 1"
    using unat_minus_one [OF nz] by (simp add: diff_diff_eq)
  moreover have "c_mem c (c_data c + 1 + of_nat i) = bs ! i" if "i < length bs" for i
    using el [of "Suc i"] that by (simp add: add.assoc)
  ultimately show "at_bytes (advance c 1) bs"
    using len by (simp add: at_bytes_def)
qed

fun uleb_encode :: "nat \<Rightarrow> u8 list" where
  "uleb_encode n =
     (if n < 128 then [of_nat n] else of_nat (n mod 128 + 128) # uleb_encode (n div 128))"

declare uleb_encode.simps [simp del]

text \<open>The two masks of the loop, on a byte that carries seven bits and the continuation bit.\<close>

lemma byte_split:
  "m < 128 \<Longrightarrow> (of_nat m :: u8) AND 0x7f = of_nat m"
  "m < 128 \<Longrightarrow> (of_nat m :: u8) AND 0x80 = 0"
  "m < 128 \<Longrightarrow> (of_nat (m + 128) :: u8) AND 0x7f = of_nat m"
  "m < 128 \<Longrightarrow> (of_nat (m + 128) :: u8) AND 0x80 \<noteq> 0"
proof -
  have seven: "(0x7f :: u8) = mask 7" by (simp add: mask_eq_exp_minus_1)
  have low: "(of_nat m :: u8) AND 0x7f = of_nat (m mod 128)" for m
    unfolding seven
    by (simp only: take_bit_eq_mask [symmetric] take_bit_of_nat)
       (simp add: take_bit_eq_mod)
  show "m < 128 \<Longrightarrow> (of_nat m :: u8) AND 0x7f = of_nat m" by (simp only: low) simp
  show "m < 128 \<Longrightarrow> (of_nat (m + 128) :: u8) AND 0x7f = of_nat m" by (simp only: low) simp
  have high: "(b :: u8) AND 0x80 = 0 \<longleftrightarrow> \<not> bit b 7" for b
  proof -
    have "(0x80 :: u8) = push_bit 7 1" by simp
    then have e: "b AND 0x80 = b AND push_bit 7 1" by simp
    have "bit (push_bit 7 1 :: u8) n \<longleftrightarrow> n = 7" for n
      by (auto simp: bit_push_bit_iff bit_1_iff simp del: push_bit_of_1)
    then have b7: "bit (b AND push_bit 7 1) n \<longleftrightarrow> n = 7 \<and> bit b 7" for n
      by (auto simp: bit_and_iff simp del: push_bit_of_1)
    show ?thesis unfolding e
    proof
      assume "b AND push_bit 7 1 = 0"
      with b7 [of 7] show "\<not> bit b 7" by (simp only: bit_0_eq bot_apply bot_bool_def) simp
    next
      assume "\<not> bit b 7"
      with b7 show "b AND push_bit 7 1 = 0" by (intro bit_word_eqI) (simp only: bit_0_eq bot_apply bot_bool_def simp_thms)
    qed
  qed
  show "m < 128 \<Longrightarrow> (of_nat m :: u8) AND 0x80 = 0"
    by (simp only: high bit_of_nat_iff) (simp add: bit_iff_odd)
  show "m < 128 \<Longrightarrow> (of_nat (m + 128) :: u8) AND 0x80 \<noteq> 0"
    by (simp only: high not_not bit_of_nat_iff) (simp add: bit_iff_odd div_add_self2)
qed

lemma ucast_small: "m < 128 \<Longrightarrow> (ucast (of_nat m :: u8) :: u64) = of_nat m"
  by (rule word_unat_eq_iff [THEN iffD2]) (simp add: unsigned_ucast_eq unat_of_nat take_bit_eq_mod)

lemma split_or: "(of_nat n :: u64) = of_nat (n mod 128) OR push_bit 7 (of_nat (n div 128))"
proof -
  have "(of_nat n :: u64) = of_nat (n mod 128 + 128 * (n div 128))" by (simp only: mod_mult_div_eq)
  also have "\<dots> = of_nat (n mod 128) + push_bit 7 (of_nat (n div 128))"
    by (simp only: of_nat_add of_nat_mult push_bit_eq_mult) simp
  also have "\<dots> = of_nat (n mod 128) OR push_bit 7 (of_nat (n div 128))"
  proof (rule disjunctive_add_eq_or, rule bit_eqI)
    fix k
    have "n mod 128 = take_bit 7 n" by (simp add: take_bit_eq_mod)
    then have "bit (of_nat (n mod 128) :: u64) k \<Longrightarrow> k < 7"
      by (simp only: bit_of_nat_iff bit_take_bit_iff)
    then show "bit (of_nat (n mod 128) AND push_bit 7 (of_nat (n div 128) :: u64)) k \<longleftrightarrow> bit 0 k"
      by (auto simp: bit_and_iff bit_push_bit_iff)
  qed
  finally show ?thesis .
qed

lemma uleb_loop_encode:
  "at_bytes c (uleb_encode n) \<Longrightarrow> n < 2 ^ (7 * Suc k) \<Longrightarrow>
     uleb_loop (Suc k) shift v c =
       (v OR push_bit shift (of_nat n), advance c (of_nat (length (uleb_encode n))))"
proof (induction k arbitrary: c n shift v)
  case 0
  then have n: "n < 128" by simp
  then have e: "uleb_encode n = [of_nat n]" by (subst uleb_encode.simps) simp
  from 0 e at_bytes_Cons(1) [of c "of_nat n" "[]"] show ?case
    by (simp add: byte_split [OF n] ucast_small [OF n] Let_def)
next
  case (Suc k)
  show ?case
  proof (cases "n < 128")
    case True
    then have e: "uleb_encode n = [of_nat n]" by (subst uleb_encode.simps) simp
    from Suc.prems e at_bytes_Cons(1) [of c "of_nat n" "[]"] show ?thesis
      by (simp add: byte_split [OF True] ucast_small [OF True] Let_def)
  next
    case False
    let ?m = "n mod 128" and ?d = "n div 128"
    have m: "?m < 128" by simp
    have e: "uleb_encode n = of_nat (?m + 128) # uleb_encode ?d"
      using False by (subst uleb_encode.simps) simp
    from at_bytes_Cons [OF Suc.prems(1) [unfolded e]]
    have r: "read_u8 c = (of_nat (?m + 128), advance c 1)"
      and rest: "at_bytes (advance c 1) (uleb_encode ?d)" by auto
    have d: "?d < 2 ^ (7 * Suc k)" using Suc.prems(2) by (simp add: less_mult_imp_div_less power_add mult.commute)
    have or: "(v OR push_bit shift (of_nat ?m)) OR push_bit (shift + 7) (of_nat ?d) =
        v OR push_bit shift (of_nat n :: u64)"
      by (subst (3) split_or) (simp add: push_bit_or or.assoc push_bit_push_bit add.commute)
    have step: "uleb_loop (Suc (Suc k)) shift v c =
        uleb_loop (Suc k) (shift + 7) (v OR push_bit shift (of_nat ?m)) (advance c 1)"
      by (subst uleb_loop.simps(2))
         (simp only: r Let_def prod.case byte_split [OF m] ucast_small [OF m] if_False)
    show ?thesis
      unfolding step Suc.IH [OF rest d] or by (simp add: e)
  qed
qed

text \<open>C32: every 64-bit number comes back from its ULEB128 encoding: with the encoding at the cursor the reader returns the number
  and moves the cursor exactly behind it (ten groups of seven bits are enough).\<close>

theorem read_uleb128_encode:
  assumes "at_bytes c (uleb_encode n)" "n < 2 ^ 64"
  shows "read_uleb128 c = (of_nat n, advance c (of_nat (length (uleb_encode n))))"
proof -
  have "n < 2 ^ (7 * Suc 9)" using assms(2) by simp
  from uleb_loop_encode [OF assms(1) this, of 0 0] show ?thesis
    by (simp only: read_uleb128_def numeral_eq_Suc pred_numeral_simps BitM.simps Suc_eq_numeral) simp
qed

theorem read_uleb128_encode_witness:
  "read_uleb128 \<lparr>c_mem = (\<lambda>p. if p = 0x1000 then 0xe5 else if p = 0x1001 then 0x8e else 0x26), c_data = 0x1000, c_end = 0x1003\<rparr>
     = (624485, \<lparr>c_mem = (\<lambda>p. if p = 0x1000 then 0xe5 else if p = 0x1001 then 0x8e else 0x26), c_data = 0x1003, c_end = 0x1003\<rparr>)"
proof -
  let ?c = "\<lparr>c_mem = (\<lambda>p. if p = 0x1000 then 0xe5 else if p = 0x1001 then 0x8e else 0x26), c_data = 0x1000, c_end = 0x1003\<rparr>"
  have e: "uleb_encode 624485 = [0xe5, 0x8e, 0x26]" by (simp add: uleb_encode.simps)
  have "\<forall>i < 3. c_mem ?c (c_data ?c + of_nat i) = [0xe5, 0x8e, 0x26] ! i"
    by (simp add: less_Suc_eq all_conj_distrib numeral_3_eq_3)
  then have "at_bytes ?c (uleb_encode 624485)" by (simp add: at_bytes_def e)
  from read_uleb128_encode [OF this] show ?thesis by (simp add: e)
qed

end
