(* ===== verification/LineTable.thy ===== *)
theory LineTable
  imports Cursor CText
begin

text \<open>
  The DWARF line-number parser of lineno.c: the directory and file tables of a unit, the line
  program with its state machine, and the loop over the units of a section. Allocation does not
  fail in the model. A parser returns an error or its value: \<open>Malformed\<close> is the code's \<open>-1\<close>,
  \<open>Undefined\<close> marks the inputs on which the C code leaves defined behaviour (it follows an
  unterminated text out of its section, divides by a zero line range, or indexes the sixteen
  operand counts out of range). The loops that need not end are
  \<open>partial_function (option)\<close>: \<open>None\<close> is a run that never returns.
\<close>

datatype parse_err = Malformed | Undefined

section \<open>Tables\<close>

definition CDBG_LINENO_MAX_FILE :: nat where
  "CDBG_LINENO_MAX_FILE = 512"

record line_entry =
  le_address :: addr
  le_line :: u32
  le_column :: u32
  le_file :: string

record cdbg_lineno =
  ln_entries :: "line_entry list"
  ln_link_base :: addr
  ln_slide :: addr
  ln_comp_dir :: string
  ln_exe_dir :: string

definition empty_lineno :: cdbg_lineno where
  "empty_lineno = \<lparr>ln_entries = [], ln_link_base = 0, ln_slide = 0, ln_comp_dir = [], ln_exe_dir = []\<rparr>"

text \<open>\<open>int64_t line\<close> is its 64-bit pattern, read with \<^term>\<open>sint\<close>; its additions wrap.\<close>

record line_state =
  ls_address :: u64
  ls_line :: u64
  ls_file_index :: u64
  ls_column :: u64
  ls_is_stmt :: bool
  ls_end_sequence :: bool

type_synonym str_table = "string list"
type_synonym file_table = "(string \<times> u64) list"

definition str_table_push :: "str_table \<Rightarrow> string \<Rightarrow> str_table" where
  "str_table_push table s = table @ [s]"

definition file_table_push :: "file_table \<Rightarrow> string \<Rightarrow> u64 \<Rightarrow> file_table" where
  "file_table_push table name dir_index = table @ [(name, dir_index)]"

definition build_file_path :: "nat \<Rightarrow> str_table \<Rightarrow> file_table \<Rightarrow> u64 \<Rightarrow> string option" where
  "build_file_path out_len dirs files file_index =
     (if length files \<le> unat file_index \<or> file_index = 0 then None
      else let (file, dir_index) = files ! unat file_index;
               dir = (if 0 < length dirs \<and> unat dir_index < length dirs then dirs ! unat dir_index else [])
           in Some (snprintf_s out_len (if dir = [] then file else dir @ ''/'' @ file)))"

definition entries_push :: "cdbg_lineno \<Rightarrow> line_state \<Rightarrow> str_table \<Rightarrow> file_table \<Rightarrow> cdbg_lineno" where
  "entries_push ln state dirs files =
     (case build_file_path CDBG_LINENO_MAX_FILE dirs files (ls_file_index state) of
        None \<Rightarrow> ln
      | Some full_path \<Rightarrow>
          ln\<lparr>ln_entries := ln_entries ln @
            [\<lparr>le_address = ls_address state, le_line = ucast (ls_line state),
              le_column = ucast (ls_column state),
              le_file = snprintf_s CDBG_LINENO_MAX_FILE full_path\<rparr>]\<rparr>)"

definition emit_row :: "cdbg_lineno \<Rightarrow> line_state \<Rightarrow> str_table \<Rightarrow> file_table \<Rightarrow> cdbg_lineno" where
  "emit_row ln state dirs files =
     (if sint (ls_line state) \<le> 0 then ln else entries_push ln state dirs files)"

section \<open>Entry formats\<close>

definition DW_LNCT_path :: u64 where "DW_LNCT_path = 1"
definition DW_LNCT_directory_index :: u64 where "DW_LNCT_directory_index = 2"
definition DW_LNCT_MD5 :: u64 where "DW_LNCT_MD5 = 5"
definition DW_FORM_string :: u64 where "DW_FORM_string = 0x08"
definition DW_FORM_udata :: u64 where "DW_FORM_udata = 0x0f"
definition DW_FORM_data16 :: u64 where "DW_FORM_data16 = 0x1e"
definition DW_FORM_line_strp :: u64 where "DW_FORM_line_strp = 0x1f"

record format_desc =
  fd_type :: u64
  fd_form :: u64

text \<open>
  The string section: \<open>None\<close> is the null pointer, else the section as a cursor at its start.
\<close>

definition lookup_line_str :: "parse_cursor option \<Rightarrow> u64 \<Rightarrow> parse_err + string" where
  "lookup_line_str line_str offset = (case line_str of
       None \<Rightarrow> Inr []
     | Some sec \<Rightarrow>
         if c_end sec - c_data sec \<le> offset then Inr []
         else (case fst (read_cstr (advance sec offset)) of
                 None \<Rightarrow> Inl Undefined
               | Some s \<Rightarrow> Inr s))"

fun read_descs :: "nat \<Rightarrow> parse_cursor \<Rightarrow> format_desc list \<times> parse_cursor" where
  "read_descs 0 c = ([], c)"
| "read_descs (Suc n) c =
     (let (t, c1) = read_uleb128 c;
          (f, c2) = read_uleb128 c1;
          (ds, c3) = read_descs n c2
      in (\<lparr>fd_type = t, fd_form = f\<rparr> # ds, c3))"

definition read_format_descriptors :: "parse_cursor \<Rightarrow> format_desc list \<times> parse_cursor" where
  "read_format_descriptors c = (let (count, c1) = read_u8 c in read_descs (unat count) c1)"

definition read_form_string ::
  "parse_cursor \<Rightarrow> u64 \<Rightarrow> parse_cursor option \<Rightarrow> nat \<Rightarrow> parse_err + (string \<times> parse_cursor)" where
  "read_form_string c form line_str out_len =
     (if form = DW_FORM_line_strp then
        (if \<not> cursor_ok c 1 then Inl Malformed
         else let (offset, c1) = read_uleb128 c
              in bindE (lookup_line_str line_str offset) (\<lambda>s. Inr (snprintf_s out_len s, c1)))
      else if form = DW_FORM_string then
        (case read_cstr c of
           (None, c1) \<Rightarrow> Inl Undefined
         | (Some s, c1) \<Rightarrow> Inr (snprintf_s out_len s, c1))
      else Inl Malformed)"

definition skip_form_value :: "parse_cursor \<Rightarrow> u64 \<Rightarrow> parse_err + parse_cursor" where
  "skip_form_value c form =
     (if form = DW_FORM_udata then Inr (snd (read_uleb128 c))
      else if form = DW_FORM_data16 then (if \<not> cursor_ok c 16 then Inl Malformed else Inr (advance c 16))
      else if form = DW_FORM_string then Inr (snd (read_cstr c))
      else if form = DW_FORM_line_strp then Inr (snd (read_uleb128 c))
      else Inl Malformed)"

text \<open>One directory entry: the attributes its descriptors list, the last path wins.\<close>

fun read_dir_entry ::
  "format_desc list \<Rightarrow> parse_cursor option \<Rightarrow> string \<Rightarrow> parse_cursor \<Rightarrow> parse_err + (string \<times> parse_cursor)" where
  "read_dir_entry [] line_str path c = Inr (path, c)"
| "read_dir_entry (d # ds) line_str path c =
     (if fd_type d = DW_LNCT_path
      then bindE (read_form_string c (fd_form d) line_str CDBG_LINENO_MAX_FILE)
             (\<lambda>(path1, c1). read_dir_entry ds line_str path1 c1)
      else bindE (skip_form_value c (fd_form d)) (\<lambda>c1. read_dir_entry ds line_str path c1))"

fun read_dir_entries ::
  "nat \<Rightarrow> format_desc list \<Rightarrow> parse_cursor option \<Rightarrow> str_table \<Rightarrow> parse_cursor \<Rightarrow> parse_err + (str_table \<times> parse_cursor)" where
  "read_dir_entries 0 descs line_str dirs c = Inr (dirs, c)"
| "read_dir_entries (Suc n) descs line_str dirs c =
     bindE (read_dir_entry descs line_str [] c)
       (\<lambda>(path, c1). read_dir_entries n descs line_str (str_table_push dirs path) c1)"

definition parse_v5_directories ::
  "parse_cursor \<Rightarrow> parse_cursor option \<Rightarrow> str_table \<Rightarrow> parse_err + (str_table \<times> parse_cursor)" where
  "parse_v5_directories c line_str dirs =
     (let (descs, c1) = read_format_descriptors c
      in if length descs = 0 then Inr (dirs, c1)
         else let (entry_count, c2) = read_uleb128 c1
              in bindE (read_dir_entries (unat entry_count) descs line_str dirs c2)
                   (\<lambda>(dirs1, c3). Inr (dirs1, skip_padding_zeros c3)))"

fun read_file_entry ::
  "format_desc list \<Rightarrow> parse_cursor option \<Rightarrow> string \<Rightarrow> u64 \<Rightarrow> parse_cursor
     \<Rightarrow> parse_err + (string \<times> u64 \<times> parse_cursor)" where
  "read_file_entry [] line_str name dir_index c = Inr (name, dir_index, c)"
| "read_file_entry (d # ds) line_str name dir_index c =
     (if fd_type d = DW_LNCT_path
      then bindE (read_form_string c (fd_form d) line_str CDBG_LINENO_MAX_FILE)
             (\<lambda>(name1, c1). read_file_entry ds line_str name1 dir_index c1)
      else if fd_type d = DW_LNCT_directory_index \<and> fd_form d = DW_FORM_udata
      then (let (dir_index1, c1) = read_uleb128 c in read_file_entry ds line_str name dir_index1 c1)
      else if fd_type d = DW_LNCT_MD5 \<and> fd_form d = DW_FORM_data16
      then (if \<not> cursor_ok c 16 then Inl Malformed
            else read_file_entry ds line_str name dir_index (advance c 16))
      else bindE (skip_form_value c (fd_form d))
             (\<lambda>c1. read_file_entry ds line_str name dir_index c1))"

fun read_file_entries ::
  "nat \<Rightarrow> format_desc list \<Rightarrow> parse_cursor option \<Rightarrow> file_table \<Rightarrow> parse_cursor \<Rightarrow> parse_err + (file_table \<times> parse_cursor)" where
  "read_file_entries 0 descs line_str files c = Inr (files, c)"
| "read_file_entries (Suc n) descs line_str files c =
     bindE (read_file_entry descs line_str [] 0 c)
       (\<lambda>(name, dir_index, c1).
          read_file_entries n descs line_str (file_table_push files name dir_index) c1)"

definition parse_v5_file_names ::
  "parse_cursor \<Rightarrow> parse_cursor option \<Rightarrow> file_table \<Rightarrow> parse_err + (file_table \<times> parse_cursor)" where
  "parse_v5_file_names c line_str files =
     (let (descs, c1) = read_format_descriptors c
      in if length descs = 0 then Inr (files, c1)
         else let (entry_count, c2) = read_uleb128 c1
              in read_file_entries (unat entry_count) descs line_str files c2)"

section \<open>Version 4 tables\<close>

text \<open>Both loops stop at an empty text and use up at least one byte a round.\<close>

function parse_dirs_v4 :: "parse_cursor \<Rightarrow> str_table \<Rightarrow> parse_err + (str_table \<times> parse_cursor)" where
  "parse_dirs_v4 c dirs =
     (if c_data c < c_end c
      then (case read_cstr c of
              (None, c1) \<Rightarrow> Inl Undefined
            | (Some dir, c1) \<Rightarrow>
                if dir = [] then Inr (dirs, c1) else parse_dirs_v4 c1 (str_table_push dirs dir))
      else Inr (dirs, c))"
  by pat_completeness auto
termination
  by (relation "measure (\<lambda>(c, dirs). remaining c)") (auto intro: read_cstr_progress sym)

declare parse_dirs_v4.simps [simp del]

lemma file_entry_v4_progress:
  assumes "c_data c < c_end c" "read_cstr c = (s, c1)" "read_uleb128 c1 = (d, c2)" "cursor_ok c2 16"
  shows "remaining (advance c2 16) < remaining c"
proof -
  have "advanced c c1" using assms(2) by (rule rd_cstr.rd_result)
  moreover have i: "inside c" using assms(1) by (simp add: inside_def)
  ultimately have i1: "inside c1" by (rule advanced_inside)
  have a2: "advanced c1 c2" using assms(3) by (rule rd_uleb.rd_result)
  have "advanced c2 (advance c2 16)" using advance_ok [OF assms(4)] by simp
  with a2 have "advanced c1 (advance c2 16)" by (rule advanced_trans)
  from advanced_remaining [OF this i1] read_cstr_progress [OF assms(1,2)] show ?thesis by simp
qed

function parse_file_names_v4 :: "parse_cursor \<Rightarrow> file_table \<Rightarrow> parse_err + (file_table \<times> parse_cursor)" where
  "parse_file_names_v4 c files =
     (if c_data c < c_end c
      then (case read_cstr c of
              (None, c1) \<Rightarrow> Inl Undefined
            | (Some name, c1) \<Rightarrow>
                if name = [] then Inr (files, c1)
                else (case read_uleb128 c1 of (dir_index, c2) \<Rightarrow>
                        if \<not> cursor_ok c2 16 then Inl Malformed
                        else parse_file_names_v4 (advance c2 16) (file_table_push files name dir_index)))
      else Inr (files, c))"
  by pat_completeness auto
termination
  by (relation "measure (\<lambda>(c, files). remaining c)") (auto intro: file_entry_v4_progress sym)

declare parse_file_names_v4.simps [simp del]

section \<open>The line program\<close>

text \<open>The arguments of \<open>parse_line_program\<close> that stay fixed; \<open>lp_line_base\<close> is an \<open>int8_t\<close> pattern.\<close>

record line_params =
  lp_dirs :: str_table
  lp_files :: file_table
  lp_opcode_base :: u8
  lp_line_base :: u8
  lp_line_range :: u8
  lp_min_inst_length :: u8
  lp_default_is_stmt :: u8
  lp_address_size :: u8
  lp_std_lengths :: "u8 list"

definition initial_state :: "line_params \<Rightarrow> line_state" where
  "initial_state p = \<lparr>ls_address = 0, ls_line = 1, ls_file_index = 1, ls_column = 0,
     ls_is_stmt = (lp_default_is_stmt p \<noteq> 0), ls_end_sequence = False\<rparr>"

type_synonym program_state = "cdbg_lineno \<times> line_state \<times> parse_cursor"

definition extended_op :: "line_params \<Rightarrow> program_state \<Rightarrow> parse_err + program_state" where
  "extended_op p s = (case s of (ln, state, unit) \<Rightarrow>
     let (ext_len, u1) = read_uleb128 unit;
         ext_end = c_data u1 + ext_len
     in if c_end u1 < ext_end then Inl Malformed
        else let (sub, u2) = read_u8 u1
             in if sub = 1
                then let state1 = state\<lparr>ls_end_sequence := True\<rparr>
                     in Inr (emit_row ln state1 (lp_dirs p) (lp_files p), initial_state p,
                             u2\<lparr>c_data := ext_end\<rparr>)
                else if sub = 2
                then (if lp_address_size p = 8
                      then (case read_u64 u2 of (a, u3) \<Rightarrow>
                              Inr (ln, state\<lparr>ls_address := a\<rparr>, u3\<lparr>c_data := ext_end\<rparr>))
                      else if lp_address_size p = 4
                      then (case read_u32 u2 of (a, u3) \<Rightarrow>
                              Inr (ln, state\<lparr>ls_address := ucast a\<rparr>, u3\<lparr>c_data := ext_end\<rparr>))
                      else Inr (ln, state, u2\<lparr>c_data := ext_end\<rparr>))
                else Inr (ln, state, u2\<lparr>c_data := ext_end\<rparr>))"

definition standard_op :: "line_params \<Rightarrow> u8 \<Rightarrow> program_state \<Rightarrow> parse_err + program_state" where
  "standard_op p opcode s = (case s of (ln, state, unit) \<Rightarrow>
     if opcode = 1 then Inr (emit_row ln state (lp_dirs p) (lp_files p), state, unit)
     else if opcode = 2 then
       (case read_uleb128 unit of (delta, u1) \<Rightarrow>
          Inr (ln, state\<lparr>ls_address := ls_address state + delta * ucast (lp_min_inst_length p)\<rparr>, u1))
     else if opcode = 3 then
       (case read_sleb128 unit of (delta, u1) \<Rightarrow> Inr (ln, state\<lparr>ls_line := ls_line state + delta\<rparr>, u1))
     else if opcode = 4 then
       (case read_uleb128 unit of (v, u1) \<Rightarrow> Inr (ln, state\<lparr>ls_file_index := v\<rparr>, u1))
     else if opcode = 5 then
       (case read_uleb128 unit of (v, u1) \<Rightarrow> Inr (ln, state\<lparr>ls_column := v\<rparr>, u1))
     else if opcode = 8 then
       (if lp_line_range p = 0 then Inl Undefined
        else Inr (ln, state\<lparr>ls_address := ls_address state +
               (255 - ucast (lp_opcode_base p)) div ucast (lp_line_range p) * ucast (lp_min_inst_length p)\<rparr>, unit))
     else if opcode = 9 then
       (case read_u16 unit of (delta, u1) \<Rightarrow>
          Inr (ln, state\<lparr>ls_address := ls_address state + ucast delta\<rparr>, u1))
     else if length (lp_std_lengths p) \<le> unat opcode then Inl Undefined
     else Inr (ln, state,
            if 0 < lp_std_lengths p ! unat opcode
            then advance unit (ucast (lp_std_lengths p ! unat opcode)) else unit))"

text \<open>A special opcode; the row advance is cast to \<open>int8_t\<close> and sign-extended.\<close>

definition special_op :: "line_params \<Rightarrow> u8 \<Rightarrow> program_state \<Rightarrow> parse_err + program_state" where
  "special_op p opcode s = (case s of (ln, state, unit) \<Rightarrow>
     if lp_line_range p = 0 then Inl Undefined
     else let adjusted = opcode - lp_opcode_base p;
              operation_advance = adjusted div lp_line_range p;
              line_increment = lp_line_base p + adjusted mod lp_line_range p;
              state1 = state\<lparr>ls_line := ls_line state + scast line_increment,
                             ls_address := ls_address state +
                               ucast operation_advance * ucast (lp_min_inst_length p)\<rparr>
          in Inr (emit_row ln state1 (lp_dirs p) (lp_files p), state1, unit))"

definition program_step :: "line_params \<Rightarrow> program_state \<Rightarrow> parse_err + program_state" where
  "program_step p s = (case s of (ln, state, unit) \<Rightarrow>
     let (opcode, u1) = read_u8 unit
     in if opcode = 0 then extended_op p (ln, state, u1)
        else if opcode < lp_opcode_base p then standard_op p opcode (ln, state, u1)
        else special_op p opcode (ln, state, u1))"

text \<open>Rows pushed before an error stay in the table, so the table is returned either way.\<close>

partial_function (option) program_loop ::
  "line_params \<Rightarrow> program_state \<Rightarrow> (parse_err option \<times> cdbg_lineno) option" where
  "program_loop p s =
     (if c_data (snd (snd s)) < c_end (snd (snd s))
      then (case program_step p s of
              Inl e \<Rightarrow> Some (Some e, fst s)
            | Inr s1 \<Rightarrow> program_loop p s1)
      else Some (None, fst s))"

definition parse_line_program ::
  "line_params \<Rightarrow> cdbg_lineno \<Rightarrow> parse_cursor \<Rightarrow> (parse_err option \<times> cdbg_lineno) option" where
  "parse_line_program p ln unit = program_loop p (ln, initial_state p, unit)"

section \<open>The units of a section\<close>

text \<open>\<open>for (i = 1; i < opcode_base && i < 16; i++) std_lengths[i] = read_u8(&prologue);\<close>\<close>

fun read_std_lengths :: "nat \<Rightarrow> parse_cursor \<Rightarrow> u8 list \<times> parse_cursor" where
  "read_std_lengths 0 c = ([], c)"
| "read_std_lengths (Suc n) c =
     (let (b, c1) = read_u8 c; (bs, c2) = read_std_lengths n c1 in (b # bs, c2))"

definition std_length_table :: "u8 \<Rightarrow> parse_cursor \<Rightarrow> u8 list \<times> parse_cursor" where
  "std_length_table opcode_base c =
     (let (bs, c1) = read_std_lengths (min (unat opcode_base) 16 - 1) c
      in (0 # bs @ replicate (15 - length bs) 0, c1))"

definition set_comp_dir :: "cdbg_lineno \<Rightarrow> string \<Rightarrow> cdbg_lineno" where
  "set_comp_dir ln d = ln\<lparr>ln_comp_dir := snprintf_s CDBG_LINENO_MAX_FILE d\<rparr>"

text \<open>The directory and file tables of a unit of the given version.\<close>

definition unit_tables ::
  "u16 \<Rightarrow> parse_cursor \<Rightarrow> parse_cursor option \<Rightarrow> cdbg_lineno
     \<Rightarrow> parse_err + (str_table \<times> file_table \<times> cdbg_lineno \<times> parse_cursor)" where
  "unit_tables version prologue line_str ln =
     (let dirs0 = (if version \<noteq> 5 then str_table_push [] [] else []);
          files0 = file_table_push [] [] 0
      in if version = 5
         then bindE (parse_v5_directories prologue line_str dirs0) (\<lambda>(dirs, c1).
              bindE (parse_v5_file_names c1 line_str files0) (\<lambda>(files, c2).
                Inr (dirs, files,
                     if 0 < length dirs \<and> ln_comp_dir ln = [] then set_comp_dir ln (dirs ! 0) else ln, c2)))
         else bindE (parse_dirs_v4 prologue dirs0) (\<lambda>(dirs, c1).
              bindE (parse_file_names_v4 c1 files0) (\<lambda>(files, c2).
                Inr (dirs, files,
                     if ln_comp_dir ln = []
                     then (case List.find (\<lambda>d. d \<noteq> []) dirs of None \<Rightarrow> ln | Some d \<Rightarrow> set_comp_dir ln d)
                     else ln, c2))))"

text \<open>
  One round of \<open>parse_line_table\<close>: skip or parse a unit. The result is the error with the table, or the
  table and the cursor behind the unit; \<open>None\<close> when the line program does not return.
\<close>

definition table_step ::
  "parse_cursor option \<Rightarrow> cdbg_lineno \<Rightarrow> parse_cursor
     \<Rightarrow> ((parse_err \<times> cdbg_lineno) + (cdbg_lineno \<times> parse_cursor)) option" where
  "table_step line_str ln cursor =
     (let (unit_length, c1) = read_u32 cursor;
          unit_end = c_data c1 + ucast unit_length
      in if unit_length = 0xffffffff then Some (Inl (Malformed, ln))
         else if c_end c1 < unit_end then Some (Inl (Malformed, ln))
         else let (version, u1) = read_u16 (c1\<lparr>c_end := unit_end\<rparr>)
              in if version \<noteq> 5 \<and> version \<noteq> 4 then Some (Inr (ln, c1\<lparr>c_data := unit_end\<rparr>))
              else let (address_size, u2) = (if version = 5 then read_u8 u1 else (8, u1));
                       u3 = (if version = 5 then snd (read_u8 u2) else u2);
                       (prologue_length, u4) = read_u32 u3;
                       prologue_end = c_data u4 + ucast prologue_length
                   in if c_end u4 < prologue_end then Some (Inl (Malformed, ln))
                   else let (min_inst_length, p1) = read_u8 (u4\<lparr>c_end := prologue_end\<rparr>);
                            p2 = (if version = 5 then snd (read_u8 p1) else p1);
                            (default_is_stmt, p3) = read_u8 p2;
                            (line_base, p4) = read_u8 p3;
                            (line_range, p5) = read_u8 p4;
                            (opcode_base, p6) = read_u8 p5;
                            (std_lengths, p7) = std_length_table opcode_base p6
                        in (case unit_tables version p7 line_str ln of
                              Inl e \<Rightarrow> Some (Inl (e, ln))
                            | Inr (dirs, files, ln1, p8) \<Rightarrow>
                                (case parse_line_program
                                        \<lparr>lp_dirs = dirs, lp_files = files, lp_opcode_base = opcode_base,
                                         lp_line_base = line_base, lp_line_range = line_range,
                                         lp_min_inst_length = min_inst_length,
                                         lp_default_is_stmt = default_is_stmt,
                                         lp_address_size = address_size, lp_std_lengths = std_lengths\<rparr>
                                        ln1 (u4\<lparr>c_data := (if version = 5 then prologue_end - 1 else c_data p8)\<rparr>) of
                                   None \<Rightarrow> None
                                 | Some (Some e, ln2) \<Rightarrow> Some (Inl (e, ln2))
                                 | Some (None, ln2) \<Rightarrow> Some (Inr (ln2, c1\<lparr>c_data := unit_end\<rparr>)))))"

partial_function (option) table_loop ::
  "parse_cursor option \<Rightarrow> cdbg_lineno \<Rightarrow> parse_cursor \<Rightarrow> (parse_err option \<times> cdbg_lineno) option" where
  "table_loop line_str ln cursor =
     (if c_data cursor < c_end cursor
      then Option.bind (table_step line_str ln cursor)
             (\<lambda>r. case r of
                Inl (e, ln1) \<Rightarrow> Some (Some e, ln1)
              | Inr (ln1, c1) \<Rightarrow> table_loop line_str ln1 c1)
      else Some (None, ln))"

definition parse_line_table ::
  "cdbg_lineno \<Rightarrow> parse_cursor \<Rightarrow> parse_cursor option \<Rightarrow> (parse_err option \<times> cdbg_lineno) option" where
  "parse_line_table ln sec line_str = table_loop line_str ln sec"

section \<open>Which inputs the loops return on\<close>

lemma short_tail_step:
  assumes "c_data c < c_end c" "remaining c < 4"
  shows "table_step line_str ln c = Some (Inr (ln, c))"
proof -
  have n4: "\<not> cursor_ok c 4" using assms(2) by (simp add: cursor_ok_def remaining_def)
  have n2: "\<not> cursor_ok (c\<lparr>c_end := c_data c\<rparr>) 2" by (simp add: cursor_ok_def)
  have le: "\<not> c_end c < c_data c" using assms(1) by simp
  show ?thesis
    unfolding table_step_def read_u32_def read_u16_def if_P [OF n4]
    using n2 le by (simp add: Let_def)
qed

lemma table_loop_short_tail:
  assumes "c_data c < c_end c" "remaining c < 4"
  shows "table_loop line_str ln c = None"
proof -
  have "\<not> (c_data c < c_end c \<and> remaining c < 4)" if "table_loop line_str ln c = Some r" for line_str ln c r
    by (rule table_loop.raw_induct [OF _ that]) (auto simp: short_tail_step)
  with assms show ?thesis by (metis not_Some_eq)
qed

text \<open>A cursor that moved forward over the same bytes; it may stand past the end.\<close>

definition moved :: "parse_cursor \<Rightarrow> parse_cursor \<Rightarrow> bool" where
  "moved c c' \<longleftrightarrow> c_mem c' = c_mem c \<and> c_end c' = c_end c \<and> c_data c < c_data c'"

lemma advanced_moved: "advanced c c1 \<Longrightarrow> inside c \<Longrightarrow> c_data c0 < c_data c \<Longrightarrow> moved c0 c \<Longrightarrow> moved c0 c1"
  by (auto simp: advanced_def moved_def)

text \<open>The states the loop passes through, and an extended opcode whose length wraps the 64-bit pointer around.\<close>

inductive passes :: "line_params \<Rightarrow> program_state \<Rightarrow> program_state \<Rightarrow> bool" for p s0 where
  passes_start: "passes p s0 s0"
| passes_step: "passes p s0 (ln, st, c) \<Longrightarrow> c_data c < c_end c \<Longrightarrow> program_step p (ln, st, c) = Inr s1 \<Longrightarrow> passes p s0 s1"

definition ext_wraps :: "parse_cursor \<Rightarrow> bool" where
  "ext_wraps c = (case read_u8 c of (opcode, c1) \<Rightarrow> case read_uleb128 c1 of (ext_len, u) \<Rightarrow>
     opcode = 0 \<and> c_data u + ext_len < c_data u)"

text \<open>The end of the cursor is not among the last 255 addresses, where an operand count would wrap the pointer.\<close>

definition room_behind :: "parse_cursor \<Rightarrow> bool" where
  "room_behind c \<longleftrightarrow> unat (c_end c) + 255 < 2 ^ 64"

lemma read_u8_moved: "c_data c < c_end c \<Longrightarrow> read_u8 c = (b, c1) \<Longrightarrow> moved c c1 \<and> inside c1"
proof -
  assume lt: "c_data c < c_end c" and r: "read_u8 c = (b, c1)"
  have "cursor_ok c 1" using lt unfolding cursor_ok_def by unat_arith
  with r have "c1 = advance c 1" by (simp add: read_u8_def)
  with lt show ?thesis by (auto simp: moved_def inside_def) (unat_arith+)
qed

lemma small_advance_moved:
  assumes "moved c c1" "inside c1" "room_behind c" "unat n \<le> 255"
  shows "moved c (advance c1 n)"
proof -
  have "unat (c_data c1) + unat n < 2 ^ 64"
    using assms by (simp add: moved_def inside_def room_behind_def word_le_nat_alt)
  then have "unat (c_data c1 + n) = unat (c_data c1) + unat n" by (simp add: unat_add_lem [THEN iffD1])
  with assms show ?thesis by (simp add: moved_def word_less_nat_alt)
qed

lemma moved_then: "moved c c1 \<Longrightarrow> inside c1 \<Longrightarrow> advanced c1 c2 \<Longrightarrow> moved c c2"
  by (auto simp: advanced_def moved_def)

lemma byte_small: "unat (ucast (n :: u8) :: u64) \<le> 255"
proof -
  have "unat n < 2 ^ 8" using unsigned_less [of n] by simp
  then show ?thesis by (simp add: unsigned_ucast_eq take_bit_eq_mod)
qed

lemma standard_op_moved:
  assumes "standard_op p opcode (ln, st, c1) = Inr (ln', st', c')" "moved c c1" "inside c1" "room_behind c"
  shows "moved c c'"
proof -
  have "advanced c1 c' \<or> (\<exists>n :: u8. c' = advance c1 (ucast n))"
    using assms(1) unfolding standard_op_def
    by (auto split: if_splits prod.splits intro: reader_intros)
  then show ?thesis
  proof
    assume "advanced c1 c'"
    with assms(2,3) show ?thesis by (rule moved_then)
  next
    assume "\<exists>n :: u8. c' = advance c1 (ucast n)"
    then obtain n :: u8 where n: "c' = advance c1 (ucast n)" by blast
    have "unat (ucast n :: u64) \<le> 255" by (rule byte_small)
    with assms n show ?thesis by (auto intro: small_advance_moved)
  qed
qed

lemma extended_op_moved:
  assumes "extended_op p (ln, st, c1) = Inr (ln', st', c')" "moved c c1" "inside c1"
    and "\<not> (case read_uleb128 c1 of (l, u) \<Rightarrow> c_data u + l < c_data u)"
  shows "moved c c'"
proof -
  obtain l u where r: "read_uleb128 c1 = (l, u)" by fastforce
  then have a: "advanced c1 u" by (rule rd_uleb.rd_result)
  from assms(4) r have "c_data u \<le> c_data u + l" by (simp add: not_less)
  moreover have "c_data c1 \<le> c_data u" using a assms(3) by (simp add: advanced_def)
  moreover have "c_mem c' = c_mem u \<and> c_end c' = c_end u \<and> c_data c' = c_data u + l"
  proof -
    obtain b u2 where r2: "read_u8 u = (b, u2)" by fastforce
    obtain v3 u3 where r3: "read_u64 u2 = (v3, u3)" by fastforce
    obtain v4 u4 where r4: "read_u32 u2 = (v4, u4)" by fastforce
    from rd_u8.rd_result [OF r2] rd_u64.rd_result [OF r3] rd_u32.rd_result [OF r4] assms(1) r r2 r3 r4
    show ?thesis by (auto simp: extended_op_def Let_def advanced_def split: if_splits)
  qed
  ultimately show ?thesis using a assms(2) by (auto simp: moved_def advanced_def)
qed

lemma program_step_moved:
  assumes "program_step p (ln, st, c) = Inr (ln', st', c')" "c_data c < c_end c" "\<not> ext_wraps c" "room_behind c"
  shows "moved c c'"
proof -
  obtain b c1 where r: "read_u8 c = (b, c1)" by fastforce
  with read_u8_moved [OF assms(2) r] have m: "moved c c1" "inside c1" by auto
  show ?thesis
  proof (cases "b = 0 \<or> b < lp_opcode_base p")
    case True
    have w: "b = 0 \<Longrightarrow> \<not> (case read_uleb128 c1 of (l, u) \<Rightarrow> c_data u + l < c_data u)"
      using assms(3) r by (auto simp: ext_wraps_def split: prod.splits)
    from assms(1) r True show ?thesis
      using extended_op_moved [OF _ m w] standard_op_moved [OF _ m assms(4)]
      by (auto simp: program_step_def split: if_splits)
  next
    case False
    with assms(1) r have "special_op p b (ln, st, c1) = Inr (ln', st', c')" by (simp add: program_step_def)
    then have "c' = c1" by (auto simp: special_op_def Let_def split: if_splits)
    with m show ?thesis by simp
  qed
qed

lemma passes_first:
  assumes "c_data c < c_end c" "program_step p (ln, st, c) = Inr s1" "passes p s1 s"
  shows "passes p (ln, st, c) s"
  using assms(3)
proof (induction rule: passes.induct)
  case passes_start
  from passes.passes_start assms(1,2) show ?case by (rule passes.passes_step)
next
  case (passes_step ln2 st2 c2 s2)
  show ?case by (rule passes.passes_step [OF passes_step.IH passes_step.hyps(2,3)])
qed

lemma program_loop_returns:
  "\<forall>ln1 st1 c1. passes p (ln, st, c) (ln1, st1, c1) \<longrightarrow> \<not> ext_wraps c1 \<Longrightarrow> room_behind c \<Longrightarrow>
     \<exists>r. program_loop p (ln, st, c) = Some r"
proof (induction "unat (c_end c) - unat (c_data c)" arbitrary: ln st c rule: less_induct)
  case less
  show ?case
  proof (cases "c_data c < c_end c")
    case False
    then show ?thesis by (subst program_loop.simps) simp
  next
    case True
    show ?thesis
    proof (cases "program_step p (ln, st, c)")
      case (Inl e)
      with True show ?thesis by (subst program_loop.simps) simp
    next
      case (Inr s1)
      obtain ln1 st1 c1 where s1: "s1 = (ln1, st1, c1)" by (cases s1)
      have "\<not> ext_wraps c" using less.prems(1) passes_start [of p "(ln, st, c)"] by blast
      from program_step_moved [OF Inr [unfolded s1] True this less.prems(2)] have m: "moved c c1" .
      then have mu: "unat (c_end c1) - unat (c_data c1) < unat (c_end c) - unat (c_data c)"
        using True by (auto simp: moved_def word_less_nat_alt)
      have "\<forall>ln2 st2 c2. passes p (ln1, st1, c1) (ln2, st2, c2) \<longrightarrow> \<not> ext_wraps c2"
        using less.prems(1) passes_first [OF True Inr [unfolded s1]] by blast
      moreover have "room_behind c1" using m less.prems(2) by (simp add: room_behind_def moved_def)
      ultimately obtain r where "program_loop p (ln1, st1, c1) = Some r" using less.hyps [OF mu] by blast
      with True Inr s1 show ?thesis by (subst program_loop.simps) simp
    qed
  qed
qed

section \<open>The rows a line program pushes\<close>

text \<open>The row of a state of the line program: only a positive line has one.\<close>

definition row_of :: "line_params \<Rightarrow> line_state \<Rightarrow> line_entry \<Rightarrow> bool" where
  "row_of p st e \<longleftrightarrow> 0 < sint (ls_line st) \<and> le_address e = ls_address st \<and> le_line e = ucast (ls_line st)
     \<and> le_column e = ucast (ls_column st)
     \<and> build_file_path CDBG_LINENO_MAX_FILE (lp_dirs p) (lp_files p) (ls_file_index st) = Some (le_file e)"

lemma file_path_text: "build_file_path n dirs files i = Some path \<Longrightarrow> \<exists>s. path = snprintf_s n s"
  by (auto simp: build_file_path_def Let_def split: if_splits prod.splits)

lemma row_file_bound: "row_of p st e \<Longrightarrow> length (le_file e) < CDBG_LINENO_MAX_FILE"
proof -
  assume "row_of p st e"
  then obtain s where "le_file e = snprintf_s CDBG_LINENO_MAX_FILE s" unfolding row_of_def using file_path_text by blast
  then show ?thesis by (simp add: snprintf_s_def CDBG_LINENO_MAX_FILE_def)
qed

lemma emit_row_cases:
  obtains "emit_row ln st (lp_dirs p) (lp_files p) = ln"
  | e where "emit_row ln st (lp_dirs p) (lp_files p) = ln\<lparr>ln_entries := ln_entries ln @ [e]\<rparr>" "row_of p st e"
proof (cases "build_file_path CDBG_LINENO_MAX_FILE (lp_dirs p) (lp_files p) (ls_file_index st)")
  case None
  then have "emit_row ln st (lp_dirs p) (lp_files p) = ln" by (simp add: emit_row_def entries_push_def)
  then show ?thesis by (rule that(1))
next
  case (Some path)
  then have same: "snprintf_s CDBG_LINENO_MAX_FILE path = path"
    using file_path_text [OF Some] by (auto simp: snprintf_s_def)
  show ?thesis
  proof (cases "sint (ls_line st) \<le> 0")
    case True
    then have "emit_row ln st (lp_dirs p) (lp_files p) = ln" by (simp add: emit_row_def)
    then show ?thesis by (rule that(1))
  next
    case False
    let ?e = "\<lparr>le_address = ls_address st, le_line = ucast (ls_line st), le_column = ucast (ls_column st), le_file = path\<rparr>"
    from False Some same have "emit_row ln st (lp_dirs p) (lp_files p) = ln\<lparr>ln_entries := ln_entries ln @ [?e]\<rparr>"
      by (simp add: emit_row_def entries_push_def)
    moreover from False Some have "row_of p st ?e" by (simp add: row_of_def)
    ultimately show ?thesis by (rule that(2))
  qed
qed

text \<open>One step keeps the table or pushes the row of the state before or behind it.\<close>

definition step_rows :: "line_params \<Rightarrow> program_state \<Rightarrow> program_state \<Rightarrow> bool" where
  "step_rows p s s1 \<longleftrightarrow> fst s1 = fst s
     \<or> (\<exists>e. fst s1 = (fst s)\<lparr>ln_entries := ln_entries (fst s) @ [e]\<rparr> \<and> (row_of p (fst (snd s)) e \<or> row_of p (fst (snd s1)) e))"

lemma keep_rows: "step_rows p (ln, st, c) (ln, st', c')"
  by (simp add: step_rows_def)

lemma emit_step_rows:
  assumes "\<And>e. row_of p st1 e \<Longrightarrow> row_of p st e \<or> row_of p st' e"
  shows "step_rows p (ln, st, c) (emit_row ln st1 (lp_dirs p) (lp_files p), st', c')"
proof (rule emit_row_cases [of ln st1 p])
  assume "emit_row ln st1 (lp_dirs p) (lp_files p) = ln"
  then show ?thesis by (simp add: step_rows_def)
next
  fix e
  assume "emit_row ln st1 (lp_dirs p) (lp_files p) = ln\<lparr>ln_entries := ln_entries ln @ [e]\<rparr>" "row_of p st1 e"
  with assms show ?thesis by (auto simp: step_rows_def)
qed

lemma end_sequence_row: "row_of p (st\<lparr>ls_end_sequence := b\<rparr>) e = row_of p st e"
  by (simp add: row_of_def)

lemma program_step_rows: "program_step p (ln, st, c) = Inr (ln', st', c') \<Longrightarrow> step_rows p (ln, st, c) (ln', st', c')"
  unfolding program_step_def extended_op_def standard_op_def special_op_def Let_def
  by (auto split: prod.splits if_splits simp: end_sequence_row intro!: keep_rows emit_step_rows)

text \<open>The appended rows belong to states the program passes through.\<close>

definition rows_from :: "line_params \<Rightarrow> program_state \<Rightarrow> cdbg_lineno \<Rightarrow> bool" where
  "rows_from p s ln' \<longleftrightarrow> (\<exists>rows. ln' = (fst s)\<lparr>ln_entries := ln_entries (fst s) @ rows\<rparr>
     \<and> (\<forall>e \<in> set rows. \<exists>ln1 st1 c1. passes p s (ln1, st1, c1) \<and> row_of p st1 e))"

lemma rows_from_refl: "rows_from p s (fst s)"
  by (auto simp: rows_from_def intro: exI [of _ "[]"])

lemma rows_from_step:
  assumes "c_data c < c_end c" "program_step p (ln, st, c) = Inr (ln1, st1, c1)" "rows_from p (ln1, st1, c1) ln'"
  shows "rows_from p (ln, st, c) ln'"
proof -
  let ?s = "(ln, st, c)" and ?s1 = "(ln1, st1, c1)"
  note pass = passes_first [OF assms(1,2)]
  obtain rows where rows: "ln' = ln1\<lparr>ln_entries := ln_entries ln1 @ rows\<rparr>"
    "\<forall>e \<in> set rows. \<exists>ln2 st2 c2. passes p ?s1 (ln2, st2, c2) \<and> row_of p st2 e"
    using assms(3) by (auto simp: rows_from_def)
  then have later: "\<forall>e \<in> set rows. \<exists>ln2 st2 c2. passes p ?s (ln2, st2, c2) \<and> row_of p st2 e"
    using pass by blast
  from program_step_rows [OF assms(2)] consider "ln1 = ln"
    | e where "ln1 = ln\<lparr>ln_entries := ln_entries ln @ [e]\<rparr>" "row_of p st e \<or> row_of p st1 e"
    by (auto simp: step_rows_def)
  then show ?thesis
  proof cases
    case 1
    with rows(1) later show ?thesis by (auto simp: rows_from_def)
  next
    case (2 e)
    have "\<exists>ln2 st2 c2. passes p ?s (ln2, st2, c2) \<and> row_of p st2 e"
      using 2(2) passes_start [of p ?s] pass [OF passes_start] by blast
    with later have "\<forall>x \<in> set (e # rows). \<exists>ln2 st2 c2. passes p ?s (ln2, st2, c2) \<and> row_of p st2 x" by simp
    moreover have "ln' = ln\<lparr>ln_entries := ln_entries ln @ e # rows\<rparr>" using rows(1) 2(1) by simp
    ultimately show ?thesis unfolding rows_from_def fst_conv by (intro exI [of _ "e # rows"] conjI)
  qed
qed

lemma program_loop_rows: "program_loop p s = Some r \<Longrightarrow> rows_from p s (snd r)"
proof (erule program_loop.raw_induct [rotated, where P = "\<lambda>p s r. rows_from p s (snd r)"])
  fix loop p s r
  assume IH: "\<And>p s r. loop p s = Some r \<Longrightarrow> rows_from p s (snd r)"
    and run: "(if c_data (snd (snd s)) < c_end (snd (snd s))
      then (case program_step p s of Inl e \<Rightarrow> Some (Some e, fst s) | Inr s1 \<Rightarrow> loop p s1)
      else Some (None, fst s)) = Some r"
  obtain ln st c where s: "s = (ln, st, c)" by (cases s)
  show "rows_from p s (snd r)"
  proof (cases "c_data c < c_end c \<and> (\<exists>s1. program_step p s = Inr s1)")
    case False
    with run s have "snd r = fst s" by (auto split: if_splits sum.splits)
    then show ?thesis using rows_from_refl [of p s] by simp
  next
    case True
    then obtain ln1 st1 c1 where s1: "program_step p s = Inr (ln1, st1, c1)" by auto
    with True run s have "loop p (ln1, st1, c1) = Some r" by simp
    from IH [OF this] True s1 s show ?thesis by (auto intro: rows_from_step)
  qed
qed

text \<open>What has been pushed on the way stays in the table.\<close>

lemma passes_loop: "passes p s0 s \<Longrightarrow> program_loop p s0 = program_loop p s"
proof (induction rule: passes.induct)
  case (passes_step ln st c s1)
  from passes_step.hyps have "program_loop p (ln, st, c) = program_loop p s1"
    by (subst program_loop.simps) simp
  with passes_step.IH show ?case by simp
qed simp

section \<open>Special opcodes\<close>





section \<open>Properties\<close>

text \<open>The header values clang writes (line base -5, range 14, opcode base 13), for the examples.\<close>

definition sample_params :: line_params where
  "sample_params = \<lparr>lp_dirs = [''/src''], lp_files = [([], 0), (''a.c'', 0)], lp_opcode_base = 13,
     lp_line_base = 251, lp_line_range = 14, lp_min_inst_length = 1, lp_default_is_stmt = 1,
     lp_address_size = 8, lp_std_lengths = [0, 0, 1, 1, 1, 1, 0, 0, 0, 1, 0, 0, 1, 0, 0, 0]\<rparr>"



text \<open>C24: The loop over the line program of a unit returns (with its rows or with an error) unless it reaches an
  extended opcode whose length wraps the 64-bit pointer around: only the states that the program itself passes through
  count, not other bytes of the file. The section must end at least 255 bytes below the top of the address space,
  since the operand count of an unknown standard opcode is added to the pointer unchecked.\<close>

theorem parse_line_program_returns:
  assumes "\<forall>ln1 st1 c1. passes p (ln, initial_state p, c) (ln1, st1, c1) \<longrightarrow> \<not> ext_wraps c1"
    and "room_behind c"
  shows "\<exists>err ln'. parse_line_program p ln c = Some (err, ln')"
proof -
  obtain r where "parse_line_program p ln c = Some r"
    using program_loop_returns [OF assms] unfolding parse_line_program_def by (rule exE)
  then show ?thesis by (cases r) blast
qed

text \<open>A program of copies, in the middle of bytes that would all wrap.\<close>

definition copies_unit :: "addr \<Rightarrow> parse_cursor" where
  "copies_unit a = \<lparr>c_mem = (\<lambda>p. if 100 \<le> p \<and> p < 103 then 1 else 0xff), c_data = a, c_end = 103\<rparr>"

lemma copies_step:
  assumes "100 \<le> a" "a < 103"
  shows "read_u8 (copies_unit a) = (1, copies_unit (a + 1))"
proof -
  have "1 \<le> unat (103 - a)" using assms(2) by unat_arith
  with assms show ?thesis by (simp add: read_u8_def cursor_ok_def copies_unit_def)
qed

lemma copies_pass:
  "passes sample_params (ln0, st0, copies_unit 100) s \<Longrightarrow> \<exists>ln st a. s = (ln, st, copies_unit a) \<and> 100 \<le> a \<and> a \<le> 103"
proof (induction rule: passes.induct)
  case passes_start
  show ?case by (intro exI conjI) (rule refl, simp_all)
next
  case (passes_step ln st c s1)
  then obtain a where a: "c = copies_unit a" "100 \<le> a" "a < 103" by (auto simp: copies_unit_def)
  have "a \<noteq> - 1" using a(3) by auto
  then have "a < a + 1" using inc_less_eq_self_iff_eq [of a] by (simp add: not_le)
  with a(2) have b: "100 \<le> a + 1" "a + 1 \<le> 103" using inc_le [OF a(3)] by auto
  from passes_step.hyps(3) have "s1 = (emit_row ln st (lp_dirs sample_params) (lp_files sample_params), st, copies_unit (a + 1))"
    by (simp add: program_step_def a(1) copies_step [OF a(2,3)] standard_op_def sample_params_def)
  with b show ?case by blast
qed

lemma copies_no_wrap:
  assumes "100 \<le> a" "a \<le> 103"
  shows "\<not> ext_wraps (copies_unit a)"
proof (cases "a = 103")
  case True
  have "read_u8 (copies_unit 103) = (0, copies_unit 103)" by (simp add: read_u8_def cursor_ok_def copies_unit_def)
  with True show ?thesis by (simp add: ext_wraps_def read_uleb128_def uleb_loop.simps(2) [of 9, simplified] copies_unit_def)
next
  case False
  with assms(2) have "a < 103" by unat_arith
  from copies_step [OF assms(1) this] show ?thesis by (simp add: ext_wraps_def split: prod.splits)
qed

theorem parse_line_program_returns_witness:
  "\<exists>err ln'. parse_line_program sample_params empty_lineno (copies_unit 100) = Some (err, ln')"
proof (rule parse_line_program_returns)
  show "room_behind (copies_unit 100)" by (simp add: room_behind_def copies_unit_def)
  show "\<forall>ln1 st1 c1. passes sample_params (empty_lineno, initial_state sample_params, copies_unit 100) (ln1, st1, c1)
      \<longrightarrow> \<not> ext_wraps c1"
    using copies_pass copies_no_wrap by fastforce
qed

text \<open>C37: A section whose last unit is followed by one to three bytes hangs the parser: the
  length is read as zero without moving, and the loop over the units never ends.\<close>

theorem parse_line_table_short_tail:
  assumes "c_data c < c_end c" "remaining c < 4"
  shows "parse_line_table ln c line_str = None"
  using table_loop_short_tail [OF assms] by (simp add: parse_line_table_def)

theorem parse_line_table_short_tail_witness:
  "parse_line_table empty_lineno \<lparr>c_mem = (\<lambda>_. 0), c_data = 0, c_end = 2\<rparr> None = None"
  by (rule parse_line_table_short_tail) (simp_all add: remaining_def)

text \<open>C30: Whatever a line program contains, and whether it ends or fails, it only appends rows: every appended row has
  the address, the line, the column and the file of a state the program passes through, whose line is positive, with a file
  name of at most 511 characters; and no row that was pushed on the way is lost.\<close>

theorem parse_line_program_appends:
  assumes "parse_line_program p ln c = Some (err, ln')"
  shows "\<exists>rows. ln' = ln\<lparr>ln_entries := ln_entries ln @ rows\<rparr>
      \<and> (\<forall>e \<in> set rows. length (le_file e) \<le> 511
           \<and> (\<exists>ln1 st1 c1. passes p (ln, initial_state p, c) (ln1, st1, c1) \<and> row_of p st1 e))
      \<and> (\<forall>ln1 st1 c1. passes p (ln, initial_state p, c) (ln1, st1, c1)
           \<longrightarrow> (\<exists>more. ln_entries ln' = ln_entries ln1 @ more))"
proof -
  let ?s = "(ln, initial_state p, c)"
  have run: "program_loop p ?s = Some (err, ln')" using assms by (simp add: parse_line_program_def)
  have later: "\<exists>more. ln_entries ln' = ln_entries ln1 @ more" if "passes p ?s (ln1, st1, c1)" for ln1 st1 c1
  proof -
    from passes_loop [OF that] run have "program_loop p (ln1, st1, c1) = Some (err, ln')" by simp
    from program_loop_rows [OF this] show ?thesis by (auto simp: rows_from_def)
  qed
  obtain rows where rows: "ln' = ln\<lparr>ln_entries := ln_entries ln @ rows\<rparr>"
    "\<forall>e \<in> set rows. \<exists>ln1 st1 c1. passes p ?s (ln1, st1, c1) \<and> row_of p st1 e"
    using program_loop_rows [OF run] by (auto simp: rows_from_def)
  then have "\<forall>e \<in> set rows. length (le_file e) \<le> 511"
    using row_file_bound by (fastforce simp: CDBG_LINENO_MAX_FILE_def)
  with rows later show ?thesis by blast
qed

theorem parse_line_program_appends_witness:
  "\<exists>ln' e. parse_line_program sample_params empty_lineno \<lparr>c_mem = (\<lambda>_. 1), c_data = 0, c_end = 1\<rparr> = Some (None, ln')
     \<and> ln_entries ln' = [e] \<and> le_file e = ''/src/a.c''
     \<and> (\<exists>ln1 st1 c1. passes sample_params (empty_lineno, initial_state sample_params, \<lparr>c_mem = (\<lambda>_. 1), c_data = 0, c_end = 1\<rparr>)
          (ln1, st1, c1) \<and> row_of sample_params st1 e)"
proof -
  let ?c = "\<lparr>c_mem = (\<lambda>_. 1), c_data = 0, c_end = 1\<rparr>" and ?e = "\<lparr>le_address = 0, le_line = 1, le_column = 0, le_file = ''/src/a.c''\<rparr>"
  have run: "parse_line_program sample_params empty_lineno ?c = Some (None, empty_lineno\<lparr>ln_entries := [?e]\<rparr>)"
    by (simp add: parse_line_program_def program_loop.simps program_step_def read_u8_def cursor_ok_def standard_op_def
        emit_row_def entries_push_def build_file_path_def snprintf_s_def CDBG_LINENO_MAX_FILE_def
        sample_params_def initial_state_def empty_lineno_def)
  from parse_line_program_appends [OF run] have
    "\<exists>ln1 st1 c1. passes sample_params (empty_lineno, initial_state sample_params, ?c) (ln1, st1, c1) \<and> row_of sample_params st1 ?e"
    by (auto simp: empty_lineno_def)
  with run show ?thesis by auto
qed

end
