(* ===== verification/Stdio.thy ===== *)
theory Stdio
  imports Memory
begin

text \<open>
  The C library calls the loaders read their inputs with: \<open>fgets\<close> over a text, the \<open>sscanf\<close> formats
  the sources use, \<open>dirname\<close> and \<open>basename\<close>, and little-endian fields of a mapped file.
\<close>

section \<open>Lines\<close>

text \<open>
  \<open>fgets(buf, n, fp)\<close>: up to \<open>n - 1\<close> characters, through the first newline. The buffer is then read
  as a C string, so a NUL in the line ends it.
\<close>

definition fgets_chunk :: "nat \<Rightarrow> string \<Rightarrow> string" where
  "fgets_chunk n s = (let t = take (n - 1) s; a = takeWhile (\<lambda>c. c \<noteq> CHR 0x0A) t
     in if length a < length t then a @ [CHR 0x0A] else t)"

lemma fgets_chunk_length: "2 \<le> n \<Longrightarrow> s \<noteq> [] \<Longrightarrow> fgets_chunk n s \<noteq> []"
  by (cases s) (auto simp: fgets_chunk_def Let_def take_Cons' split: if_splits)

function fgets_raw :: "nat \<Rightarrow> string \<Rightarrow> string list" where
  "fgets_raw n s =
     (if n < 2 \<or> s = [] then [] else fgets_chunk n s # fgets_raw n (drop (length (fgets_chunk n s)) s))"
  by pat_completeness auto
termination
  by (relation "measure (length \<circ> snd)") (auto simp: diff_less fgets_chunk_length not_less)

declare fgets_raw.simps [simp del]

definition c_string :: "string \<Rightarrow> string" where
  "c_string s = takeWhile (\<lambda>c. c \<noteq> CHR 0x00) s"

definition fgets_lines :: "nat \<Rightarrow> string \<Rightarrow> string list" where
  "fgets_lines n s = map c_string (fgets_raw n s)"

text \<open>\<open>while (len > 0 && (buf[len-1] == '\n' || buf[len-1] == '\r')) buf[--len] = 0;\<close>\<close>

definition strip_newlines :: "string \<Rightarrow> string" where
  "strip_newlines s = rev (dropWhile (\<lambda>c. c = CHR 0x0A \<or> c = CHR 0x0D) (rev s))"

section \<open>The conversions of sscanf\<close>

text \<open>Each takes the rest of the input and returns the value and what is left.\<close>

definition scan_lit :: "string \<Rightarrow> string \<Rightarrow> string option" where
  "scan_lit lit s = (if strncmp_eq s lit then Some (drop (length lit) s) else None)"

definition scan_hex :: "string \<Rightarrow> (u64 \<times> string) option" where
  "scan_hex s = strtoull 16 s"

definition scan_uint :: "string \<Rightarrow> (u32 \<times> string) option" where
  "scan_uint s = map_option (\<lambda>(v, r). (ucast v, r)) (strtoull 10 s)"

definition scan_int :: "string \<Rightarrow> (int \<times> string) option" where
  "scan_int s = map_option (\<lambda>(v, r). (sint (of_int v :: u32), r)) (strtoll 10 s)"

fun scan_char :: "string \<Rightarrow> (char \<times> string) option" where
  "scan_char [] = None"
| "scan_char (c # s) = Some (c, s)"

definition scan_word :: "nat \<Rightarrow> string \<Rightarrow> (string \<times> string) option" where
  "scan_word n s = (let t = dropWhile isspace s; w = take n (takeWhile (\<lambda>c. \<not> isspace c) t)
     in if w = [] then None else Some (w, drop (length w) t))"

section \<open>Paths\<close>

definition PATH_MAX :: nat where
  "PATH_MAX = 1024"

definition strip_slashes :: "string \<Rightarrow> string" where
  "strip_slashes s = rev (dropWhile (\<lambda>c. c = CHR ''/'') (rev s))"

definition basename :: "string \<Rightarrow> string" where
  "basename s = (if s = [] then ''.'' else let t = strip_slashes s in
     if t = [] then ''/'' else (case split_last (CHR ''/'') t of None \<Rightarrow> t | Some (_, b) \<Rightarrow> b))"

definition dirname :: "string \<Rightarrow> string" where
  "dirname s = (if s = [] then ''.'' else let t = strip_slashes s in
     if t = [] then ''/''
     else (case split_last (CHR ''/'') t of
             None \<Rightarrow> ''.''
           | Some (d, _) \<Rightarrow> let d' = strip_slashes d in if d' = [] then ''/'' else d'))"

text \<open>The debug-symbol object beside an executable (\<open>dsym_dwarf_path\<close>, \<open>dsym_object_path\<close> and
  \<open>debugger_dsym_path\<close> are the same function).\<close>

definition dsym_dwarf_path :: "'w kern \<Rightarrow> string \<Rightarrow> nat \<Rightarrow> 'w \<Rightarrow> string option" where
  "dsym_dwarf_path K executable_path out_len w =
     (if PATH_MAX \<le> length executable_path then None
      else let out = executable_path @ ''.dSYM/Contents/Resources/DWARF/'' @ basename executable_path
           in if out_len \<le> length out then None
              else if k_access_r K out w then Some out else None)"

section \<open>Fields of a mapped file\<close>

definition map_file :: "'w kern \<Rightarrow> string \<Rightarrow> 'w \<Rightarrow> u8 list option" where
  "map_file K path w = (case k_file K path w of
       None \<Rightarrow> None
     | Some data \<Rightarrow> if data = [] then None else Some data)"

text \<open>A field past the end of the mapping: \<open>None\<close>, the load that faults.\<close>

definition field :: "u8 list \<Rightarrow> nat \<Rightarrow> nat \<Rightarrow> u8 list option" where
  "field data off n = (if off + n \<le> length data then Some (take n (drop off data)) else None)"

definition field_u32 :: "u8 list \<Rightarrow> nat \<Rightarrow> u32 option" where
  "field_u32 data off = map_option (\<lambda>bs. ucast (word_of bs)) (field data off 4)"

definition field_u64 :: "u8 list \<Rightarrow> nat \<Rightarrow> u64 option" where
  "field_u64 data off = map_option word_of (field data off 8)"

text \<open>A character array of 16 bytes: the text up to its NUL; when there is none, \<open>strcmp\<close> with a
  short literal still differs within the array.\<close>

definition field_name16 :: "u8 list \<Rightarrow> nat \<Rightarrow> string option" where
  "field_name16 data off =
     map_option (\<lambda>bs. c_string (map (\<lambda>b. char_of (unat b)) bs)) (field data off 16)"

end
