(* ===== verification/LineLoad.thy ===== *)
theory LineLoad
  imports LineTable Stdio
begin

text \<open>
  Loading the line table (lineno.c): the text output of dwarfdump first, the \<open>__debug_line\<close> section of the
  Mach-O file when that fails, and the slide of the running process. The structure offsets are
  those of the mach-o headers. A load that follows the file out of its mapping is \<open>Undefined\<close>.
\<close>

section \<open>The dwarfdump text\<close>

definition lineno_push :: "cdbg_lineno \<Rightarrow> addr \<Rightarrow> u32 \<Rightarrow> u32 \<Rightarrow> string \<Rightarrow> cdbg_lineno" where
  "lineno_push ln a line column file =
     ln\<lparr>ln_entries := ln_entries ln @
       [\<lparr>le_address = a, le_line = line, le_column = column,
         le_file = snprintf_s CDBG_LINENO_MAX_FILE file\<rparr>]\<rparr>"

definition dwarfdump_resolve_path :: "str_table \<Rightarrow> file_table \<Rightarrow> u32 \<Rightarrow> nat \<Rightarrow> string" where
  "dwarfdump_resolve_path dirs files file_idx out_len =
     (let (name, dir_index) = (if unat file_idx < length files then files ! unat file_idx else ([], 0));
          dir = (if unat dir_index < length dirs then dirs ! unat dir_index else [])
      in snprintf_s out_len
           (if name = [] then ''<unknown>''
            else if strchr name (CHR ''/'') \<noteq> None \<or> dir = [] then name
            else dir @ ''/'' @ name))"

record dump_state =
  dd_ln :: cdbg_lineno
  dd_dirs :: str_table
  dd_files :: file_table
  dd_pending :: bool
  dd_name :: string

definition pad_to :: "'a \<Rightarrow> nat \<Rightarrow> 'a list \<Rightarrow> 'a list" where
  \<comment> \<open>\<open>while (count <= idx) push(x)\<close>\<close>
  "pad_to x idx xs = xs @ replicate (Suc idx - length xs) x"

definition scan_indexed :: "string \<Rightarrow> string \<Rightarrow> nat option" where
  \<comment> \<open>\<open>sscanf(line, " <name>[%d]", &idx) == 1 && idx >= 0\<close>\<close>
  "scan_indexed name line =
     (case scan_lit (name @ ''['') (dropWhile isspace line) of
        None \<Rightarrow> None
      | Some r \<Rightarrow> (case scan_int r of
          None \<Rightarrow> None
        | Some (idx, _) \<Rightarrow> if 0 \<le> idx then Some (nat idx) else None))"

definition quoted_prefix :: "string \<Rightarrow> string option" where
  \<comment> \<open>the text up to the closing quote, cut to the buffer\<close>
  "quoted_prefix s = (if strchr s (CHR 0x22) = None then None
     else Some (take (CDBG_LINENO_MAX_FILE - 1) (before (CHR 0x22) s)))"

definition dump_directory :: "dump_state \<Rightarrow> nat \<Rightarrow> string \<Rightarrow> dump_state" where
  "dump_directory st idx line =
     (let dir = (case strchr line (CHR 0x22) of
                   None \<Rightarrow> []
                 | Some q \<Rightarrow> (case quoted_prefix (tl q) of None \<Rightarrow> [] | Some d \<Rightarrow> d))
      in st\<lparr>dd_dirs := (pad_to [] idx (dd_dirs st))[idx := dir]\<rparr>)"

text \<open>The data row: \<open>sscanf(line, "0x%llx %u %u %u", ...) == 4\<close>.\<close>

definition scan_row :: "string \<Rightarrow> (u64 \<times> u32 \<times> u32 \<times> u32) option" where
  "scan_row line =
     Option.bind (scan_lit ''0x'' line) (\<lambda>r0.
     Option.bind (scan_hex r0) (\<lambda>(a, r1).
     Option.bind (scan_uint r1) (\<lambda>(l, r2).
     Option.bind (scan_uint r2) (\<lambda>(c, r3).
     Option.bind (scan_uint r3) (\<lambda>(f, r4). Some (a, l, c, f))))))"

definition dump_row :: "dump_state \<Rightarrow> string \<Rightarrow> dump_state" where
  "dump_row st line = (case scan_row line of
       None \<Rightarrow> st
     | Some (a, l, c, f) \<Rightarrow>
         st\<lparr>dd_ln := lineno_push (dd_ln st) a l c
              (dwarfdump_resolve_path (dd_dirs st) (dd_files st) f CDBG_LINENO_MAX_FILE)\<rparr>)"

definition scan_dir_index :: "string \<Rightarrow> u32 option" where
  "scan_dir_index line =
     Option.bind (scan_lit ''dir_index:'' (dropWhile isspace line)) (\<lambda>r. map_option fst (scan_uint r))"

definition dump_line :: "dump_state \<Rightarrow> string \<Rightarrow> dump_state" where
  "dump_line st line =
     (if strncmp_eq line ''debug_line['' then st\<lparr>dd_dirs := [], dd_files := [], dd_pending := False\<rparr>
      else case scan_indexed ''include_directories'' line of
        Some idx \<Rightarrow> dump_directory st idx line
      | None \<Rightarrow>
      (case scan_indexed ''file_names'' line of
        Some idx \<Rightarrow> st\<lparr>dd_pending := True, dd_name := [], dd_files := pad_to ([], 0) idx (dd_files st)\<rparr>
      | None \<Rightarrow>
        if \<not> dd_pending st then dump_row st line
        else (case strstr line ''name: \"'' of
            Some marker \<Rightarrow>
              (case quoted_prefix (drop 7 marker) of
                 None \<Rightarrow> st
               | Some n \<Rightarrow> st\<lparr>dd_name := n\<rparr>)
          | None \<Rightarrow>
            (case scan_dir_index line of
               Some dir_index \<Rightarrow>
                 st\<lparr>dd_files := (dd_files st)[length (dd_files st) - 1 := (dd_name st, ucast dir_index)]\<rparr>
             | None \<Rightarrow>
                 if has_sub line ''mtime:'' \<or> has_sub line ''length:'' \<or> has_sub line ''md5_checksum:'' then st
                 else dump_row (st\<lparr>dd_pending := False\<rparr>) line))))"

definition first_comp_dir :: "cdbg_lineno \<Rightarrow> str_table \<Rightarrow> cdbg_lineno" where
  "first_comp_dir ln dirs =
     (if ln_comp_dir ln = []
      then (case List.find (\<lambda>d. d \<noteq> []) dirs of None \<Rightarrow> ln | Some d \<Rightarrow> set_comp_dir ln d)
      else ln)"

definition lineno_load_from_dwarfdump ::
  "'w kern \<Rightarrow> cdbg_lineno \<Rightarrow> string \<Rightarrow> 'w \<Rightarrow> bool \<times> cdbg_lineno" where
  "lineno_load_from_dwarfdump K ln debug_obj w =
     (let cmd = ''dwarfdump --debug-line '' @ [CHR 0x27] @ debug_obj @ [CHR 0x27] @ '' 2>/dev/null''
      in if PATH_MAX + 64 \<le> length cmd then (False, ln)
         else (case k_popen K cmd w of
                 None \<Rightarrow> (False, ln)
               | Some (text, close_rc) \<Rightarrow>
                   let st = foldl dump_line
                              \<lparr>dd_ln = ln, dd_dirs = [], dd_files = [], dd_pending = False, dd_name = []\<rparr>
                              (fgets_lines 512 text);
                       ln1 = first_comp_dir (dd_ln st) (dd_dirs st)
                   in (close_rc = 0 \<and> ln_entries ln1 \<noteq> [], ln1)))"

section \<open>The Mach-O file\<close>

definition MH_MAGIC_64 :: u32 where "MH_MAGIC_64 = 0xfeedfacf"
definition LC_SEGMENT_64 :: u32 where "LC_SEGMENT_64 = 0x19"

fun text_vmaddr_loop :: "u8 list \<Rightarrow> nat \<Rightarrow> nat \<Rightarrow> u64 option" where
  "text_vmaddr_loop data 0 cursor = Some 0"
| "text_vmaddr_loop data (Suc n) cursor =
     (if length data < cursor + 8 then Some 0
      else case (field_u32 data cursor, field_u32 data (cursor + 4)) of
        (Some cmd, Some cmdsize) \<Rightarrow>
          if cmd = LC_SEGMENT_64
          then (case field_name16 data (cursor + 8) of
                  None \<Rightarrow> None
                | Some segname \<Rightarrow>
                    if segname = ''__TEXT'' then field_u64 data (cursor + 24)
                    else text_vmaddr_loop data n (cursor + unat cmdsize))
          else text_vmaddr_loop data n (cursor + unat cmdsize)
      | _ \<Rightarrow> None)"

definition macho_text_vmaddr :: "u8 list \<Rightarrow> u64 option" where
  "macho_text_vmaddr data =
     (if length data < 32 then Some 0
      else case (field_u32 data 0, field_u32 data 16) of
        (Some magic, Some ncmds) \<Rightarrow>
          if magic \<noteq> MH_MAGIC_64 then Some 0 else text_vmaddr_loop data (unat ncmds) 32
      | _ \<Rightarrow> None)"

text \<open>The sections of one segment: \<open>Some None\<close> when the search runs through them.\<close>

fun find_section_in :: "u8 list \<Rightarrow> string \<Rightarrow> string \<Rightarrow> nat \<Rightarrow> nat \<Rightarrow> (u32 \<times> u32) option option" where
  "find_section_in data segname sectname 0 sec = Some None"
| "find_section_in data segname sectname (Suc n) sec =
     (case (field_name16 data (sec + 16), field_name16 data sec) of
        (Some seg, Some sect) \<Rightarrow>
          if seg = segname \<and> sect = sectname
          then (case (field_u32 data (sec + 48), field_u64 data (sec + 40)) of
                  (Some offset, Some sz) \<Rightarrow> Some (Some (offset, ucast sz))
                | _ \<Rightarrow> None)
          else find_section_in data segname sectname n (sec + 80)
      | _ \<Rightarrow> None)"

fun find_section_loop :: "u8 list \<Rightarrow> string \<Rightarrow> string \<Rightarrow> nat \<Rightarrow> nat \<Rightarrow> (u32 \<times> u32) option option" where
  "find_section_loop data segname sectname 0 cursor = Some None"
| "find_section_loop data segname sectname (Suc n) cursor =
     (if length data < cursor + 8 then Some None
      else case (field_u32 data cursor, field_u32 data (cursor + 4)) of
        (Some cmd, Some cmdsize) \<Rightarrow>
          (case (if cmd = LC_SEGMENT_64
                 then (case field_u32 data (cursor + 64) of
                         None \<Rightarrow> None
                       | Some nsects \<Rightarrow> find_section_in data segname sectname (unat nsects) (cursor + 72))
                 else Some None) of
             None \<Rightarrow> None
           | Some (Some r) \<Rightarrow> Some (Some r)
           | Some None \<Rightarrow> find_section_loop data segname sectname n (cursor + unat cmdsize))
      | _ \<Rightarrow> None)"

definition macho_find_section :: "u8 list \<Rightarrow> string \<Rightarrow> string \<Rightarrow> (u32 \<times> u32) option option" where
  "macho_find_section data segname sectname =
     (if length data < 32 then Some None
      else case (field_u32 data 0, field_u32 data 16) of
        (Some magic, Some ncmds) \<Rightarrow>
          if magic \<noteq> MH_MAGIC_64 then Some None
          else find_section_loop data segname sectname (unat ncmds) 32
      | _ \<Rightarrow> None)"

section \<open>Loading\<close>

text \<open>A section of the file as a cursor; the file is mapped at \<open>base\<close>.\<close>

definition section_cursor :: "addr \<Rightarrow> u8 list \<Rightarrow> u32 \<Rightarrow> u32 \<Rightarrow> parse_cursor" where
  "section_cursor base data offset sz =
     \<lparr>c_mem = (\<lambda>a. let i = unat (a - base) in if i < length data then data ! i else 0),
      c_data = base + ucast offset, c_end = base + ucast offset + ucast sz\<rparr>"

definition load_base_of :: "'w kern \<Rightarrow> string \<Rightarrow> 'w \<Rightarrow> parse_err + addr" where
  "load_base_of K path w = (case map_file K path w of
       None \<Rightarrow> Inl Malformed
     | Some exe \<Rightarrow> (case macho_text_vmaddr exe of None \<Rightarrow> Inl Undefined | Some b \<Rightarrow> Inr b))"

definition load_debug_line ::
  "addr \<Rightarrow> u8 list \<Rightarrow> cdbg_lineno \<Rightarrow> (parse_err option \<times> cdbg_lineno) option" where
  "load_debug_line base dwarf ln =
     (case (macho_find_section dwarf ''__DWARF'' ''__debug_line'',
            macho_find_section dwarf ''__DWARF'' ''__debug_line_str'') of
        (Some (Some (line_offset, line_size)), Some str) \<Rightarrow>
          (if length dwarf < unat line_offset + unat line_size then Some (Some Malformed, ln)
           else let line_str = (case str of
                        None \<Rightarrow> None
                      | Some (str_offset, str_size) \<Rightarrow>
                          if 0 < str_size \<and> unat str_offset + unat str_size \<le> length dwarf
                          then Some (section_cursor base dwarf str_offset str_size) else None)
                in (case parse_line_table ln (section_cursor base dwarf line_offset line_size) line_str of
                      None \<Rightarrow> None
                    | Some (Some Undefined, ln1) \<Rightarrow> Some (Some Undefined, ln1)
                    | Some (err, ln1) \<Rightarrow>
                        if err \<noteq> None \<or> ln_entries ln1 = [] then Some (Some Malformed, empty_lineno)
                        else Some (None, ln1)))
      | (Some None, _) \<Rightarrow> Some (Some Malformed, ln)
      | _ \<Rightarrow> Some (Some Undefined, ln))"

definition cdbg_lineno_load ::
  "'w kern \<Rightarrow> addr \<Rightarrow> string \<Rightarrow> 'w \<Rightarrow> (parse_err option \<times> cdbg_lineno) option" where
  "cdbg_lineno_load K base executable_path w =
     (let dir = snprintf_s CDBG_LINENO_MAX_FILE (dirname (snprintf_s CDBG_LINENO_MAX_FILE executable_path));
          ln0 = empty_lineno\<lparr>ln_exe_dir := dir\<rparr>
      in (case load_base_of K executable_path w of
            Inl e \<Rightarrow> Some (Some e, ln0)
          | Inr link_base \<Rightarrow>
              let debug_obj = (case dsym_dwarf_path K executable_path PATH_MAX w of
                                 None \<Rightarrow> executable_path | Some d \<Rightarrow> d)
              in (case lineno_load_from_dwarfdump K (ln0\<lparr>ln_link_base := link_base\<rparr>) debug_obj w of
                    (True, ln1) \<Rightarrow> Some (None, ln1)
                  | (False, _) \<Rightarrow>
                      (case map_file K debug_obj w of
                         None \<Rightarrow> Some (Some Malformed, ln0\<lparr>ln_link_base := link_base\<rparr>)
                       | Some dwarf \<Rightarrow> load_debug_line base dwarf (ln0\<lparr>ln_link_base := link_base\<rparr>)))))"

section \<open>The slide\<close>

text \<open>The first readable and executable region; the walk ends when the kernel has no further one.\<close>

partial_function (option) first_text_region ::
  "'w kern \<Rightarrow> nat \<Rightarrow> addr \<Rightarrow> 'w \<Rightarrow> addr option option" where
  "first_text_region K task a w = (case k_region K task a w of
       None \<Rightarrow> Some None
     | Some (start, sz, rx) \<Rightarrow>
         if rx then Some (Some start) else first_text_region K task (start + sz) w)"

definition cdbg_lineno_update_slide :: "'w kern \<Rightarrow> cdbg_lineno \<Rightarrow> int \<Rightarrow> 'w \<Rightarrow> (bool \<times> cdbg_lineno) option" where
  "cdbg_lineno_update_slide K ln pid w = (case k_task_for_pid K pid w of
       None \<Rightarrow> Some (False, ln)
     | Some task \<Rightarrow> (case first_text_region K task 0 w of
         None \<Rightarrow> None
       | Some None \<Rightarrow> Some (False, ln)
       | Some (Some a) \<Rightarrow> Some (True, ln\<lparr>ln_slide := a - ln_link_base ln\<rparr>)))"

end
