(* ===== verification/LineLookup.thy ===== *)
theory LineLookup
  imports LineLoad
begin

text \<open>
  The queries on a loaded line table (lineno.c): the row of a program counter, the rows of a source
  line, the next line of the same file, the source window around a line, and the listing.
\<close>

definition cdbg_lineno_runtime_addr :: "cdbg_lineno \<Rightarrow> addr \<Rightarrow> addr" where
  "cdbg_lineno_runtime_addr ln link_addr = link_addr + ln_slide ln"

abbreviation row_addr :: "cdbg_lineno \<Rightarrow> line_entry \<Rightarrow> addr" where
  "row_addr ln e \<equiv> cdbg_lineno_runtime_addr ln (le_address e)"

section \<open>Lookups\<close>

definition cdbg_lineno_lookup_pc :: "cdbg_lineno \<Rightarrow> addr \<Rightarrow> line_entry option" where
  "cdbg_lineno_lookup_pc ln pc =
     foldl (best_step (\<lambda>e. row_addr ln e \<le> pc) (\<lambda>a b. row_addr ln b < row_addr ln a)) None (ln_entries ln)"

definition file_matches :: "string \<Rightarrow> string \<Rightarrow> bool" where
  \<comment> \<open>an absent filter is the empty one\<close>
  "file_matches entry_file flt =
     (if flt = [] then True
      else let base = (case split_last (CHR ''/'') entry_file of None \<Rightarrow> entry_file | Some (_, b) \<Rightarrow> b)
           in has_sub entry_file flt \<or> base = flt)"

definition cdbg_lineno_lookup_line :: "cdbg_lineno \<Rightarrow> string \<Rightarrow> u32 \<Rightarrow> line_entry option" where
  "cdbg_lineno_lookup_line ln flt line =
     foldl (best_step (\<lambda>e. le_line e = line \<and> file_matches (le_file e) flt)
                      (\<lambda>a b. le_address a < le_address b)) None (ln_entries ln)"

text \<open>The candidate of the loop is the file of the first match with the best row so far.\<close>

fun lookup_line_unique_loop ::
  "u32 \<Rightarrow> (string \<times> line_entry) option \<Rightarrow> line_entry list \<Rightarrow> line_entry option" where
  "lookup_line_unique_loop line found [] = map_option snd found"
| "lookup_line_unique_loop line found (e # es) =
     (if le_line e \<noteq> line then lookup_line_unique_loop line found es
      else case found of
        None \<Rightarrow> lookup_line_unique_loop line (Some (le_file e, e)) es
      | Some (only_file, m) \<Rightarrow>
          if only_file \<noteq> le_file e then None
          else if le_address e < le_address m then lookup_line_unique_loop line (Some (only_file, e)) es
          else lookup_line_unique_loop line (Some (only_file, m)) es)"

definition cdbg_lineno_lookup_line_unique :: "cdbg_lineno \<Rightarrow> u32 \<Rightarrow> line_entry option" where
  "cdbg_lineno_lookup_line_unique ln line = lookup_line_unique_loop line None (ln_entries ln)"

text \<open>The row of a program counter, given up when the counter is too far behind it.\<close>

definition shrink_max_pc :: "cdbg_lineno \<Rightarrow> addr \<Rightarrow> addr \<Rightarrow> line_entry \<Rightarrow> addr" where
  "shrink_max_pc ln entry_runtime max_pc e =
     (if entry_runtime < row_addr ln e \<and> row_addr ln e < max_pc then row_addr ln e - 1 else max_pc)"

definition lineno_entry_at_pc :: "cdbg_lineno \<Rightarrow> addr \<Rightarrow> line_entry option" where
  "lineno_entry_at_pc ln pc =
     (case cdbg_lineno_lookup_pc ln pc of
        None \<Rightarrow> None
      | Some entry \<Rightarrow>
          if le_line entry = 0 then None
          else let entry_runtime = row_addr ln entry;
                   max_pc = foldl (shrink_max_pc ln entry_runtime) (entry_runtime + 128) (ln_entries ln)
               in if max_pc < pc then None else Some entry)"

definition cdbg_lineno_line_at_pc :: "cdbg_lineno \<Rightarrow> addr \<Rightarrow> nat \<Rightarrow> (string \<times> u32) option" where
  "cdbg_lineno_line_at_pc ln pc file_len =
     map_option (\<lambda>e. (snprintf_s file_len (le_file e), le_line e)) (lineno_entry_at_pc ln pc)"

definition cdbg_lineno_lookup_next_line_after_pc :: "cdbg_lineno \<Rightarrow> addr \<Rightarrow> line_entry option" where
  "cdbg_lineno_lookup_next_line_after_pc ln pc =
     (case cdbg_lineno_lookup_pc ln pc of
        None \<Rightarrow> None
      | Some current \<Rightarrow>
          foldl (best_step
                   (\<lambda>e. \<not> row_addr ln e \<le> pc \<and> \<not> (le_file e \<noteq> le_file current \<or> le_line e = le_line current))
                   (\<lambda>a b. le_address a < le_address b)) None (ln_entries ln))"

section \<open>Source text\<close>

definition text_of_file :: "'w kern \<Rightarrow> string \<Rightarrow> 'w \<Rightarrow> string option" where
  "text_of_file K path w = map_option (map (\<lambda>b. char_of (unat b))) (k_file K path w)"

definition lineno_open_source :: "'w kern \<Rightarrow> cdbg_lineno \<Rightarrow> string \<Rightarrow> 'w \<Rightarrow> string option" where
  "lineno_open_source K ln path w =
     (let rel = \<not> (path \<noteq> [] \<and> hd path = CHR ''/'');
          under = (\<lambda>d. if rel \<and> d \<noteq> []
                       then text_of_file K (snprintf_s CDBG_LINENO_MAX_FILE (d @ ''/'' @ path)) w else None);
          base = (case split_last (CHR ''/'') path of None \<Rightarrow> path | Some (_, b) \<Rightarrow> b)
      in (case text_of_file K path w of Some t \<Rightarrow> Some t | None \<Rightarrow>
          (case under (ln_comp_dir ln) of Some t \<Rightarrow> Some t | None \<Rightarrow>
           (case under (ln_exe_dir ln) of Some t \<Rightarrow> Some t | None \<Rightarrow> text_of_file K base w))))"

fun print_window ::
  "'w kern \<Rightarrow> u32 \<Rightarrow> u32 \<Rightarrow> u32 \<Rightarrow> u32 \<Rightarrow> bool \<Rightarrow> string list \<Rightarrow> 'w \<Rightarrow> bool \<times> 'w" where
  "print_window K start end target line_no printed [] w = (printed, w)"
| "print_window K start end target line_no printed (l # ls) w =
     (let n = line_no + 1
      in if n < start then print_window K start end target n printed ls w
         else if end < n then (printed, w)
         else let w1 = k_print K (fmtln ''%s%4u | %s'')
                         [Arg_str (if n = target then ''>'' else '' ''), Arg_int (uint n), Arg_str (strip_newlines l)] w
              in print_window K start end target n (printed \<or> n = target) ls w1)"

definition window_start :: "u32 \<Rightarrow> u32 \<Rightarrow> u32" where
  "window_start target total_lines =
     (let before = total_lines div 2 in if before < target then target - before else 1)"

definition lineno_print_source_window ::
  "'w kern \<Rightarrow> cdbg_lineno \<Rightarrow> string \<Rightarrow> u32 \<Rightarrow> u32 \<Rightarrow> 'w \<Rightarrow> bool \<times> 'w" where
  "lineno_print_source_window K ln file target total_lines w =
     (case lineno_open_source K ln file w of
        None \<Rightarrow> (False, w)
      | Some text \<Rightarrow>
          let start = window_start target total_lines;
              end = start + total_lines - 1;
              w1 = k_print K (CHR 0x0A # fmtln ''%s:%u'') [Arg_str file, Arg_int (uint target)] w;
              (printed, w2) = print_window K start end target 0 False (fgets_lines 4096 text) w1
          in (printed, k_print K [CHR 0x0A] [] w2))"

definition cdbg_lineno_print_source_at_pc :: "'w kern \<Rightarrow> cdbg_lineno \<Rightarrow> addr \<Rightarrow> 'w \<Rightarrow> bool \<times> 'w" where
  "cdbg_lineno_print_source_at_pc K ln pc w = (case lineno_entry_at_pc ln pc of
       None \<Rightarrow> (False, w)
     | Some e \<Rightarrow> lineno_print_source_window K ln (le_file e) (le_line e) 7 w)"

text \<open>The file a filter selects: \<open>Inl\<close> when two match, \<open>Inr None\<close> when none does.\<close>

fun only_matching_file :: "string \<Rightarrow> string option \<Rightarrow> line_entry list \<Rightarrow> unit + string option" where
  "only_matching_file flt found [] = Inr found"
| "only_matching_file flt found (e # es) =
     (if \<not> file_matches (le_file e) flt then only_matching_file flt found es
      else case found of
        None \<Rightarrow> only_matching_file flt (Some (le_file e)) es
      | Some f \<Rightarrow> if f \<noteq> le_file e then Inl () else only_matching_file flt found es)"

definition cdbg_lineno_print_source_at_line ::
  "'w kern \<Rightarrow> cdbg_lineno \<Rightarrow> string \<Rightarrow> u32 \<Rightarrow> 'w \<Rightarrow> bool \<times> 'w" where
  "cdbg_lineno_print_source_at_line K ln flt line w =
     (if ln_entries ln = [] then (False, w)
      else case only_matching_file flt None (ln_entries ln) of
        Inl _ \<Rightarrow> (False, w)
      | Inr None \<Rightarrow> (False, w)
      | Inr (Some f) \<Rightarrow> lineno_print_source_window K ln f line 10 w)"

section \<open>Listing\<close>

text \<open>One row of \<open>print_line_table\<close>: the current file, the last line of the run (if any).\<close>

definition print_table_row ::
  "'w kern \<Rightarrow> cdbg_lineno \<Rightarrow> string \<Rightarrow> bool \<Rightarrow> (string \<times> u32 option \<times> 'w) \<Rightarrow> line_entry \<Rightarrow> (string \<times> u32 option \<times> 'w)" where
  "print_table_row K ln flt grouped s e = (case s of (current_file, last_line, w) \<Rightarrow>
     if \<not> file_matches (le_file e) flt then s
     else let (last1, w1) =
            (if current_file \<noteq> le_file e
             then let wa = (if current_file \<noteq> [] then k_print K [CHR 0x0A] [] w else w);
                      wb = k_print K (fmtln ''File: %s'') [Arg_str (le_file e)] wa;
                      wc = k_print K (fmtln ''%6s  %-18s  %s'') [Arg_str ''Line'', Arg_str ''Address'', Arg_str ''Column''] wb;
                      wd = k_print K (fmtln ''%6s  %-18s  %s'') [Arg_str ''----'', Arg_str ''-------'', Arg_str ''------''] wc
                  in (None, wd)
             else (last_line, w))
          in if grouped \<and> last1 = Some (le_line e) then (le_file e, last1, w1)
             else (le_file e, Some (le_line e),
                   k_print K (fmtln ''%6u  0x%016lx  %u'')
                     [Arg_int (uint (le_line e)), Arg_word (row_addr ln e), Arg_int (uint (le_column e))] w1))"

definition print_line_table :: "'w kern \<Rightarrow> cdbg_lineno \<Rightarrow> string \<Rightarrow> bool \<Rightarrow> 'w \<Rightarrow> 'w" where
  "print_line_table K ln flt grouped w =
     (if ln_entries ln = [] then puts K ''No line number information loaded.'' w
      else snd (snd (foldl (print_table_row K ln flt grouped) ([], None, w) (ln_entries ln))))"

definition cdbg_lineno_print_list :: "'w kern \<Rightarrow> cdbg_lineno \<Rightarrow> string \<Rightarrow> 'w \<Rightarrow> 'w" where
  "cdbg_lineno_print_list K ln flt w = print_line_table K ln flt False w"

definition cdbg_lineno_print_grouped_list :: "'w kern \<Rightarrow> cdbg_lineno \<Rightarrow> string \<Rightarrow> 'w \<Rightarrow> 'w" where
  "cdbg_lineno_print_grouped_list K ln flt w = print_line_table K ln flt True w"

section \<open>The searches are searches for the best row\<close>

interpretation by_pc: best_search "\<lambda>e. row_addr ln e \<le> pc" "\<lambda>a b. row_addr ln b < row_addr ln a"
  for ln pc
  by (rule best_search_largest)

interpretation by_line: best_search "\<lambda>e. le_line e = line \<and> file_matches (le_file e) flt"
  "\<lambda>a b. le_address a < le_address b" for line flt
  by (rule best_search_smallest)

interpretation next_line: best_search
  "\<lambda>e. \<not> row_addr ln e \<le> pc \<and> \<not> (le_file e \<noteq> le_file current \<or> le_line e = le_line current)"
  "\<lambda>a b. le_address a < le_address b" for ln pc current
  by (rule best_search_smallest)

lemma lookup_pc_max:
  "cdbg_lineno_lookup_pc ln pc = Some e \<Longrightarrow>
     e \<in> set (ln_entries ln) \<and> row_addr ln e \<le> pc \<and>
     (\<forall>x \<in> set (ln_entries ln). row_addr ln x \<le> pc \<longrightarrow> row_addr ln x \<le> row_addr ln e)"
  unfolding cdbg_lineno_lookup_pc_def by (drule by_pc.best_is_best) auto

lemma lookup_pc_None:
  "cdbg_lineno_lookup_pc ln pc = None \<longleftrightarrow> (\<forall>x \<in> set (ln_entries ln). pc < row_addr ln x)"
  unfolding cdbg_lineno_lookup_pc_def by_pc.best_None_iff by auto

text \<open>No row between the entry and the counter: the bound never shrinks below the counter.\<close>

lemma shrink_keeps:
  assumes "\<forall>x \<in> set es. r < row_addr ln x \<longrightarrow> pc < row_addr ln x" "pc \<le> m"
  shows "pc \<le> foldl (shrink_max_pc ln r) m es"
  using assms
proof (induction es arbitrary: m)
  case Nil
  then show ?case by simp
next
  case (Cons e es)
  have "pc \<le> shrink_max_pc ln r m e"
  proof (cases "r < row_addr ln e \<and> row_addr ln e < m")
    case True
    with Cons.prems have "pc < row_addr ln e" by simp
    then have "pc \<le> row_addr ln e - 1" by unat_arith
    with True show ?thesis by (simp add: shrink_max_pc_def)
  next
    case False
    with Cons.prems(2) show ?thesis by (auto simp: shrink_max_pc_def)
  qed
  with Cons show ?case by simp
qed

lemma shrink_le: "foldl (shrink_max_pc ln r) m es \<le> m"
proof (induction es arbitrary: m)
  case Nil
  then show ?case by simp
next
  case (Cons e es)
  have "row_addr ln e - 1 \<le> m" if "r < row_addr ln e" "row_addr ln e < m"
    using that by unat_arith
  then have "shrink_max_pc ln r m e \<le> m" by (simp add: shrink_max_pc_def)
  with Cons.IH [of "shrink_max_pc ln r m e"] show ?case by simp
qed

section \<open>Properties\<close>

text \<open>C27: The row found for a program counter is a row of the table at or below the counter, none
  of the others at or below it is closer, and there is no result only when every row lies above.\<close>

theorem lookup_pc_closest:
  "(case cdbg_lineno_lookup_pc ln pc of
      Some e \<Rightarrow> e \<in> set (ln_entries ln) \<and> row_addr ln e \<le> pc \<and>
         {x \<in> set (ln_entries ln). row_addr ln e < row_addr ln x \<and> row_addr ln x \<le> pc} = {}
    | None \<Rightarrow> {x \<in> set (ln_entries ln). row_addr ln x \<le> pc} = {})"
proof (cases "cdbg_lineno_lookup_pc ln pc")
  case None
  with lookup_pc_None [of ln pc] show ?thesis by (auto simp: not_le [symmetric])
next
  case (Some e)
  with lookup_pc_max [OF Some] show ?thesis by (auto simp: not_le [symmetric])
qed

text \<open>C26: The second pass of \<open>lineno_entry_at_pc\<close>, which shrinks the upper bound to the row after
  the entry, changes nothing: the function is the closest row, unless its line is zero or the
  counter is more than 128 bytes behind it.\<close>

theorem entry_at_pc_simple:
  "lineno_entry_at_pc ln pc =
     (case cdbg_lineno_lookup_pc ln pc of
        None \<Rightarrow> None
      | Some e \<Rightarrow> if le_line e \<noteq> 0 \<and> pc \<le> row_addr ln e + 128 then Some e else None)"
proof (cases "cdbg_lineno_lookup_pc ln pc")
  case None
  then show ?thesis by (simp add: lineno_entry_at_pc_def)
next
  case (Some e)
  let ?m = "foldl (shrink_max_pc ln (row_addr ln e)) (row_addr ln e + 128) (ln_entries ln)"
  have "\<forall>x \<in> set (ln_entries ln). row_addr ln e < row_addr ln x \<longrightarrow> pc < row_addr ln x"
    using lookup_pc_max [OF Some] by (metis leD leI)
  from shrink_keeps [OF this] have "pc \<le> row_addr ln e + 128 \<Longrightarrow> pc \<le> ?m" by blast
  with shrink_le have "?m < pc \<longleftrightarrow> \<not> pc \<le> row_addr ln e + 128" by (meson leD leI order_trans)
  with Some show ?thesis by (simp add: lineno_entry_at_pc_def Let_def)
qed

text \<open>C28: The next line after a program counter is a row of the same file as the counter's own
  row, with another line number, above the counter, and of all those the one with the smallest
  link address; there is none exactly when no row qualifies.\<close>

theorem next_line_after_pc_spec:
  "(case cdbg_lineno_lookup_pc ln pc of
      None \<Rightarrow> cdbg_lineno_lookup_next_line_after_pc ln pc = None
    | Some cur \<Rightarrow>
        let others = {x \<in> set (ln_entries ln).
              pc < row_addr ln x \<and> le_file x = le_file cur \<and> le_line x \<noteq> le_line cur}
        in (case cdbg_lineno_lookup_next_line_after_pc ln pc of
              None \<Rightarrow> others = {}
            | Some e \<Rightarrow> e \<in> others \<and> {x \<in> others. le_address x < le_address e} = {}))"
proof (cases "cdbg_lineno_lookup_pc ln pc")
  case None
  then show ?thesis by (simp add: cdbg_lineno_lookup_next_line_after_pc_def)
next
  case (Some cur)
  let ?f = "foldl (best_step
         (\<lambda>e. \<not> row_addr ln e \<le> pc \<and> \<not> (le_file e \<noteq> le_file cur \<or> le_line e = le_line cur))
         (\<lambda>a b. le_address a < le_address b)) None (ln_entries ln)"
  have f: "cdbg_lineno_lookup_next_line_after_pc ln pc = ?f"
    unfolding cdbg_lineno_lookup_next_line_after_pc_def Some option.case by (rule refl)
  show ?thesis
  proof (cases ?f)
    case None
    from next_line.best_None_iff [THEN iffD1, OF None] show ?thesis
      unfolding f None Some option.case Let_def by (auto simp: not_le)
  next
    case (Some e)
    from next_line.best_is_best [OF Some] show ?thesis
      unfolding f Some \<open>cdbg_lineno_lookup_pc ln pc = Some cur\<close> option.case Let_def by (auto simp: not_le)
  qed
qed

end
