(* ===== verification/Syms.thy ===== *)
theory Syms
  imports LineLoad
begin

text \<open>
  syms.c: the symbol table, loaded from the output of nm or from the Mach-O symbol table, and its
  lookups, with the symbol search of debugger.c for a program counter.
\<close>

definition CDBG_SYM_MAX_NAME :: nat where
  "CDBG_SYM_MAX_NAME = 256"

record sym_entry =
  sym_address :: addr
  sym_type :: char
  sym_name :: string

record cdbg_syms =
  sy_entries :: "sym_entry list"
  sy_link_base :: addr
  sy_slide :: addr

definition empty_syms :: cdbg_syms where
  "empty_syms = \<lparr>sy_entries = [], sy_link_base = 0, sy_slide = 0\<rparr>"

section \<open>Loading\<close>

text \<open>The masks and types of mach-o/nlist.h.\<close>

definition N_STAB :: u8 where "N_STAB = 0xe0"
definition N_TYPE :: u8 where "N_TYPE = 0x0e"
definition N_EXT :: u8 where "N_EXT = 0x01"

definition nlist_type_char :: "u8 \<Rightarrow> char" where
  "nlist_type_char ty =
     (let base = ty AND N_TYPE; ext = (ty AND N_EXT \<noteq> 0)
      in if base = 0x0 then (if ext then CHR ''U'' else CHR ''u'')
         else if base = 0x2 then (if ext then CHR ''A'' else CHR ''a'')
         else if base = 0xe then (if ext then CHR ''T'' else CHR ''t'')
         else if base = 0xc then CHR ''Z''
         else if base = 0xa then CHR ''I''
         else CHR ''?'')"

definition sym_name_interesting :: "string \<Rightarrow> char \<Rightarrow> bool" where
  "sym_name_interesting name ty =
     (if name = [] then False
      else if ty = CHR ''?'' \<or> ty = CHR ''-'' then False
      else if hd name = CHR ''.'' \<or> hd name = CHR ''L'' then False
      else isprint (hd name))"

definition syms_push :: "cdbg_syms \<Rightarrow> addr \<Rightarrow> char \<Rightarrow> string \<Rightarrow> cdbg_syms" where
  "syms_push syms a ty name =
     (if \<not> sym_name_interesting name ty then syms
      else syms\<lparr>sy_entries := sy_entries syms @
             [\<lparr>sym_address = a, sym_type = ty, sym_name = snprintf_s CDBG_SYM_MAX_NAME name\<rparr>]\<rparr>)"

text \<open>\<open>sscanf(p, "%llx %c %255s", ...) == 3\<close> and \<open>sscanf(p, "%c %255s", ...) == 2\<close>.\<close>

definition scan_nm_full :: "string \<Rightarrow> (u64 \<times> char \<times> string) option" where
  "scan_nm_full p =
     Option.bind (scan_hex p) (\<lambda>(a, r1).
     Option.bind (scan_char (dropWhile isspace r1)) (\<lambda>(ty, r2).
     Option.bind (scan_word 255 r2) (\<lambda>(name, r3). Some (a, ty, name))))"

definition scan_nm_short :: "string \<Rightarrow> (char \<times> string) option" where
  "scan_nm_short p =
     Option.bind (scan_char p) (\<lambda>(ty, r1).
     Option.bind (scan_word 255 r1) (\<lambda>(name, r2). Some (ty, name)))"

definition nm_line :: "cdbg_syms \<Rightarrow> string \<Rightarrow> cdbg_syms" where
  "nm_line syms line =
     (let p = dropWhile is_blank line
      in if p = [] \<or> hd p = CHR 0x0A then syms
         else case scan_nm_full p of
           Some (a, ty, name) \<Rightarrow> syms_push syms a ty name
         | None \<Rightarrow> (case scan_nm_short p of
             Some (ty, name) \<Rightarrow> syms_push syms 0 ty name
           | None \<Rightarrow> syms))"

definition syms_load_from_nm :: "'w kern \<Rightarrow> cdbg_syms \<Rightarrow> string \<Rightarrow> 'w \<Rightarrow> bool \<times> cdbg_syms" where
  "syms_load_from_nm K syms path w =
     (let cmd = ''nm -n '' @ [CHR 0x27] @ path @ [CHR 0x27] @ '' 2>/dev/null''
      in if PATH_MAX + 32 \<le> length cmd then (False, syms)
         else (case k_popen K cmd w of
                 None \<Rightarrow> (False, syms)
               | Some (text, close_rc) \<Rightarrow>
                   let syms1 = foldl nm_line syms (fgets_lines 512 text)
                   in (close_rc = 0 \<and> sy_entries syms1 \<noteq> [], syms1)))"

definition LC_SYMTAB :: u32 where "LC_SYMTAB = 0x2"

text \<open>The last symbol-table command; \<open>None\<close> stands for a load outside the mapping.\<close>

fun find_symtab :: "u8 list \<Rightarrow> nat \<Rightarrow> nat \<Rightarrow> nat option \<Rightarrow> nat option option" where
  "find_symtab data 0 cursor found = Some found"
| "find_symtab data (Suc n) cursor found =
     (if length data < cursor + 8 then Some found
      else case (field_u32 data cursor, field_u32 data (cursor + 4)) of
        (Some cmd, Some cmdsize) \<Rightarrow>
          find_symtab data n (cursor + unat cmdsize) (if cmd = LC_SYMTAB then Some cursor else found)
      | _ \<Rightarrow> None)"

text \<open>The name at a string-table offset: the bytes to the end of the mapping, cut at the NUL if there is one.\<close>

definition name_tail :: "u8 list \<Rightarrow> nat \<Rightarrow> string" where
  "name_tail data off = map (\<lambda>b. char_of (unat b)) (drop off data)"

fun push_nlists :: "u8 list \<Rightarrow> nat \<Rightarrow> u32 \<Rightarrow> nat \<Rightarrow> nat \<Rightarrow> cdbg_syms \<Rightarrow> parse_err + cdbg_syms" where
  "push_nlists data stroff strsize 0 entry syms = Inr syms"
| "push_nlists data stroff strsize (Suc n) entry syms =
     (case (field_u32 data entry, field data (entry + 4) 1, field_u64 data (entry + 8)) of
        (Some n_strx, Some [n_type], Some n_value) \<Rightarrow>
          if n_type AND N_STAB \<noteq> 0 then push_nlists data stroff strsize n (entry + 16) syms
          else if strsize \<le> n_strx then push_nlists data stroff strsize n (entry + 16) syms
          else let tail = name_tail data (stroff + unat n_strx); ty = nlist_type_char n_type
               in if sym_name_interesting (c_string tail) ty \<and> CHR 0x00 \<notin> set tail then Inl Undefined
                  else push_nlists data stroff strsize n (entry + 16) (syms_push syms n_value ty (c_string tail))
      | _ \<Rightarrow> Inl Undefined)"

definition syms_load_macho :: "cdbg_syms \<Rightarrow> u8 list \<Rightarrow> parse_err option \<times> cdbg_syms" where
  "syms_load_macho syms data =
     (if length data < 32 then (Some Malformed, syms)
      else case (field_u32 data 0, field_u32 data 16) of
        (Some magic, Some ncmds) \<Rightarrow>
          if magic \<noteq> MH_MAGIC_64 then (Some Malformed, syms)
          else (case find_symtab data (unat ncmds) 32 None of
            None \<Rightarrow> (Some Undefined, syms)
          | Some None \<Rightarrow> (Some Malformed, syms)
          | Some (Some st) \<Rightarrow>
            (case (field_u32 data (st + 8), field_u32 data (st + 12), field_u32 data (st + 16), field_u32 data (st + 20)) of
               (Some symoff, Some nsyms, Some stroff, Some strsize) \<Rightarrow>
                 if nsyms = 0 then (Some Malformed, syms)
                 else if length data < unat symoff + unat nsyms * 16 then (Some Malformed, syms)
                 else if length data < unat stroff + unat strsize then (Some Malformed, syms)
                 else (case push_nlists data (unat stroff) strsize (unat nsyms) (unat symoff) syms of
                         Inl e \<Rightarrow> (Some e, syms)
                       | Inr syms1 \<Rightarrow> (if sy_entries syms1 \<noteq> [] then None else Some Malformed, syms1))
             | _ \<Rightarrow> (Some Undefined, syms)))
      | _ \<Rightarrow> (Some Undefined, syms))"

text \<open>The symbol tables of the objects in turn: nm on each, then the Mach-O tables.\<close>

fun try_nm :: "'w kern \<Rightarrow> cdbg_syms \<Rightarrow> string list \<Rightarrow> 'w \<Rightarrow> bool \<times> cdbg_syms" where
  "try_nm K syms [] w = (False, syms)"
| "try_nm K syms (p # ps) w = (case syms_load_from_nm K syms p w of
       (True, syms1) \<Rightarrow> (True, syms1)
     | (False, syms1) \<Rightarrow> try_nm K syms1 ps w)"

definition cdbg_syms_load :: "'w kern \<Rightarrow> string \<Rightarrow> 'w \<Rightarrow> parse_err option \<times> cdbg_syms" where
  "cdbg_syms_load K executable_path w =
     (let dwarf_path = dsym_dwarf_path K executable_path PATH_MAX w;
          objects = executable_path # (case dwarf_path of None \<Rightarrow> [] | Some d \<Rightarrow> [d])
      in (case (case map_file K executable_path w of None \<Rightarrow> Some 0 | Some exe \<Rightarrow> macho_text_vmaddr exe) of
            None \<Rightarrow> (Some Undefined, empty_syms)
          | Some base \<Rightarrow>
            (case try_nm K (empty_syms\<lparr>sy_link_base := base\<rparr>) objects w of
               (True, syms1) \<Rightarrow> (None, syms1)
             | (False, _) \<Rightarrow>
               (case map_file K executable_path w of
                  None \<Rightarrow> (Some Malformed, empty_syms)
                | Some exe \<Rightarrow>
                  (case syms_load_macho (empty_syms\<lparr>sy_link_base := base\<rparr>) exe of
                     (None, syms2) \<Rightarrow> (None, syms2)
                   | (Some Undefined, syms2) \<Rightarrow> (Some Undefined, syms2)
                   | (Some Malformed, syms2) \<Rightarrow>
                     (case Option.bind dwarf_path (\<lambda>d. map_file K d w) of
                        None \<Rightarrow> (Some Malformed, syms2)
                      | Some dsym \<Rightarrow>
                        (case (if sy_link_base syms2 = 0 then macho_text_vmaddr dsym else Some (sy_link_base syms2)) of
                           None \<Rightarrow> (Some Undefined, syms2)
                         | Some b \<Rightarrow> syms_load_macho (syms2\<lparr>sy_link_base := b\<rparr>) dsym)))))))"

definition cdbg_syms_update_slide :: "'w kern \<Rightarrow> cdbg_syms \<Rightarrow> int \<Rightarrow> 'w \<Rightarrow> (bool \<times> cdbg_syms) option" where
  "cdbg_syms_update_slide K syms pid w = (case k_task_for_pid K pid w of
       None \<Rightarrow> Some (False, syms)
     | Some task \<Rightarrow> (case first_text_region K task 0 w of
         None \<Rightarrow> None
       | Some None \<Rightarrow> Some (False, syms)
       | Some (Some a) \<Rightarrow> Some (True, syms\<lparr>sy_slide := a - sy_link_base syms\<rparr>)))"

section \<open>Lookups\<close>

definition cdbg_syms_runtime_addr :: "cdbg_syms \<Rightarrow> addr \<Rightarrow> addr" where
  "cdbg_syms_runtime_addr syms link_addr = link_addr + sy_slide syms"

abbreviation sym_addr :: "cdbg_syms \<Rightarrow> sym_entry \<Rightarrow> addr" where
  "sym_addr syms e \<equiv> cdbg_syms_runtime_addr syms (sym_address e)"

definition cdbg_syms_lookup_name :: "cdbg_syms \<Rightarrow> string \<Rightarrow> sym_entry option" where
  "cdbg_syms_lookup_name syms name =
     (let lookup = (if name \<noteq> [] \<and> hd name = CHR ''_'' then name
                    else snprintf_s CDBG_SYM_MAX_NAME (CHR ''_'' # name))
      in List.find (\<lambda>e. sym_name e = lookup) (sy_entries syms))"

definition sym_matches :: "string \<Rightarrow> string \<Rightarrow> bool" where
  "sym_matches name flt =
     (if flt = [] then True
      else if has_sub name flt then True
      else if name \<noteq> [] \<and> hd name = CHR ''_'' \<and> has_sub (tl name) flt then True
      else False)"

fun print_syms :: "'w kern \<Rightarrow> cdbg_syms \<Rightarrow> string \<Rightarrow> sym_entry list \<Rightarrow> 'w \<Rightarrow> 'w" where
  "print_syms K syms flt [] w = w"
| "print_syms K syms flt (e # es) w =
     (if \<not> sym_matches (sym_name e) flt then print_syms K syms flt es w
      else print_syms K syms flt es
        (if sym_address e = 0
         then k_print K (fmtln ''%18s  %-4c  %s'') [Arg_str [], Arg_str [sym_type e], Arg_str (sym_name e)] w
         else k_print K (fmtln ''0x%016lx  %-4c  %s'')
                [Arg_word (sym_addr syms e), Arg_str [sym_type e], Arg_str (sym_name e)] w))"

definition cdbg_syms_print_list :: "'w kern \<Rightarrow> cdbg_syms \<Rightarrow> string \<Rightarrow> 'w \<Rightarrow> 'w" where
  "cdbg_syms_print_list K syms flt w =
     (if sy_entries syms = [] then puts K ''No symbol information loaded.'' w
      else let w1 = k_print K (fmtln ''%18s  %-4s  %s'') [Arg_str ''Address'', Arg_str ''Type'', Arg_str ''Name''] w;
               w2 = k_print K (fmtln ''%18s  %-4s  %s'') [Arg_str ''-------'', Arg_str ''----'', Arg_str ''----''] w1
           in print_syms K syms flt (sy_entries syms) w2)"

text \<open>debugger.c: the symbol a program counter belongs to, with the offset into it.\<close>

definition CDBG_MAX_SYMBOL_OFFSET :: u64 where
  "CDBG_MAX_SYMBOL_OFFSET = 0x100000"

definition lookup_symbol_for_pc :: "cdbg_syms \<Rightarrow> addr \<Rightarrow> (sym_entry \<times> addr) option" where
  "lookup_symbol_for_pc syms pc =
     (case foldl (best_step
             (\<lambda>e. \<not> (sym_address e = 0 \<or> (sym_type e \<noteq> CHR ''T'' \<and> sym_type e \<noteq> CHR ''t'')) \<and> sym_addr syms e \<le> pc)
             (\<lambda>a b. sym_addr syms b < sym_addr syms a)) None (sy_entries syms) of
        None \<Rightarrow> None
      | Some best \<Rightarrow>
          let offset = pc - sym_addr syms best
          in if CDBG_MAX_SYMBOL_OFFSET < offset then None else Some (best, offset))"

definition display_sym_name :: "sym_entry option \<Rightarrow> string" where
  "display_sym_name found = (case found of
       None \<Rightarrow> ''??''
     | Some s \<Rightarrow> if hd (sym_name s @ [CHR 0x00]) = CHR ''_'' \<and> tl (sym_name s) \<noteq> [] then tl (sym_name s)
                else sym_name s)"

section \<open>Properties\<close>

interpretation pc_sym: best_search
  "\<lambda>e. \<not> (sym_address e = 0 \<or> (sym_type e \<noteq> CHR ''T'' \<and> sym_type e \<noteq> CHR ''t'')) \<and> sym_addr syms e \<le> pc"
  "\<lambda>a b. sym_addr syms b < sym_addr syms a" for syms pc
  by (rule best_search_largest)

definition text_syms :: "cdbg_syms \<Rightarrow> addr \<Rightarrow> sym_entry set" where
  \<comment> \<open>the defined text symbols at or below a program counter\<close>
  "text_syms syms pc = {e \<in> set (sy_entries syms). sym_address e \<noteq> 0 \<and>
     sym_type e \<in> {CHR ''T'', CHR ''t''} \<and> sym_addr syms e \<le> pc}"

text \<open>C29: The symbol of a program counter is the closest defined text symbol at or below it, with
  the distance as offset; there is none exactly when no text symbol lies within one megabyte
  below the counter.\<close>

theorem lookup_symbol_for_pc_spec:
  "(case lookup_symbol_for_pc syms pc of
      Some (e, off) \<Rightarrow> e \<in> text_syms syms pc \<and> off = pc - sym_addr syms e \<and> off \<le> CDBG_MAX_SYMBOL_OFFSET \<and>
        {x \<in> text_syms syms pc. sym_addr syms e < sym_addr syms x} = {}
    | None \<Rightarrow> {x \<in> text_syms syms pc. pc - sym_addr syms x \<le> CDBG_MAX_SYMBOL_OFFSET} = {})"
proof -
  let ?f = "foldl (best_step
       (\<lambda>e. \<not> (sym_address e = 0 \<or> (sym_type e \<noteq> CHR ''T'' \<and> sym_type e \<noteq> CHR ''t'')) \<and> sym_addr syms e \<le> pc)
       (\<lambda>a b. sym_addr syms b < sym_addr syms a)) None (sy_entries syms)"
  have f: "lookup_symbol_for_pc syms pc = (case ?f of None \<Rightarrow> None | Some best \<Rightarrow>
      let offset = pc - sym_addr syms best in if CDBG_MAX_SYMBOL_OFFSET < offset then None else Some (best, offset))"
    unfolding lookup_symbol_for_pc_def by (rule refl)
  show ?thesis
  proof (cases ?f)
    case None
    from pc_sym.best_None_iff [THEN iffD1, OF None] show ?thesis
      unfolding f None option.case text_syms_def by auto
  next
    case (Some b)
    note best = pc_sym.best_is_best [OF Some]
    have b: "b \<in> text_syms syms pc" using best by (simp add: text_syms_def)
    have top: "sym_addr syms x \<le> sym_addr syms b" if "x \<in> text_syms syms pc" for x
      using that best by (auto simp: text_syms_def)
    have far: "pc - sym_addr syms b \<le> pc - sym_addr syms x" if "x \<in> text_syms syms pc" for x
    proof -
      from top [OF that] b have "sym_addr syms x \<le> sym_addr syms b" "sym_addr syms b \<le> pc"
        by (simp_all add: text_syms_def)
      then show ?thesis by unat_arith
    qed
    show ?thesis
    proof (cases "CDBG_MAX_SYMBOL_OFFSET < pc - sym_addr syms b")
      case True
      then have "\<not> pc - sym_addr syms x \<le> CDBG_MAX_SYMBOL_OFFSET" if "x \<in> text_syms syms pc" for x
        using far [OF that] by (meson leD le_less_trans not_le order_trans)
      with True show ?thesis unfolding f Some option.case Let_def by auto
    next
      case False
      have "{x \<in> text_syms syms pc. sym_addr syms b < sym_addr syms x} = {}"
        using top by (auto simp: not_less [symmetric])
      with False b show ?thesis unfolding f Some option.case Let_def by simp
    qed
  qed
qed

end
