(* ===== verification/State.thy ===== *)
theory State
  imports Breakpoint Watchpoint LineLookup Syms
begin

text \<open>
  The state of the debugger: \<open>cdbg_t\<close> of debugger.h with its limits, and the language setting. A
  fixed array with a count is the list of its used elements; the argument storage keeps its
  64 slots because a failing call overwrites them.
\<close>

definition CDBG_MAX_BREAKPOINTS :: nat where "CDBG_MAX_BREAKPOINTS = 64"
definition CDBG_MAX_WATCHPOINTS :: nat where "CDBG_MAX_WATCHPOINTS = CDBG_WP_MAX_HW"
definition CDBG_MAX_CMD :: nat where "CDBG_MAX_CMD = 256"
definition CDBG_MAX_PATH :: nat where "CDBG_MAX_PATH = 1024"
definition CDBG_MAX_RUN_ARGS :: nat where "CDBG_MAX_RUN_ARGS = 64"

datatype cdbg_state = CDBG_STATE_IDLE | CDBG_STATE_RUNNING | CDBG_STATE_STOPPED

datatype cdbg_language = CDBG_LANG_AUTO | CDBG_LANG_C | CDBG_LANG_CXX | CDBG_LANG_OBJC
  | CDBG_LANG_FORTRAN | CDBG_LANG_PASCAL | CDBG_LANG_ADA | CDBG_LANG_MODULA2 | CDBG_LANG_JAVA
  | CDBG_LANG_GO | CDBG_LANG_RUST | CDBG_LANG_ASSEMBLY

record cdbg =
  d_pid :: int
  d_state :: cdbg_state
  d_wait_status :: int
  d_regs :: cdbg_regs
  d_current_tid :: u64
  d_thread_lock_active :: bool
  d_locked_tid :: u64
  d_suspended_tids :: "u64 list"
  d_breakpoints :: "cdbg_breakpoint list"
  d_watchpoints :: "cdbg_watchpoint list"
  d_lineno :: cdbg_lineno
  d_syms :: cdbg_syms
  d_executable_path :: string
  d_debug_info_path :: string
  d_run_argv_storage :: "string list"
  d_run_argc :: nat
  d_print_pretty :: bool
  d_malloc_stack_logging :: bool
  d_language :: cdbg_language

text \<open>\<open>run_argv\<close> points into the storage; it is read up to \<open>run_argc\<close>, which a rejected list of arguments leaves alone. (The code
  overwrites its terminator in that case; neither the \<open>run\<close> command nor \<open>main\<close> goes on with the arguments then.)\<close>

definition d_run_argv :: "cdbg \<Rightarrow> string list" where
  "d_run_argv dbg = take (d_run_argc dbg) (d_run_argv_storage dbg)"

text \<open>The zeroed register file of an architecture (\<open>memset(&dbg->regs, 0, ...)\<close>).\<close>

definition zero_regs :: "arch \<Rightarrow> cdbg_regs" where
  "zero_regs a = (case a of
       AArch64 \<Rightarrow>
         \<lparr>native = ArmGpr \<lparr>a_x = replicate 29 0, a_fp = 0, a_lr = 0, a_sp = 0, a_pc = 0, a_cpsr = 0\<rparr>,
          fpu = ArmNeon \<lparr>n_v = replicate 32 0, n_fpsr = 0, n_fpcr = 0\<rparr>\<rparr>
     | X86_64 \<Rightarrow>
         \<lparr>native = X86Gpr \<lparr>r_rax = 0, r_rbx = 0, r_rcx = 0, r_rdx = 0, r_rdi = 0, r_rsi = 0, r_rbp = 0, r_rsp = 0,
            r_r8 = 0, r_r9 = 0, r_r10 = 0, r_r11 = 0, r_r12 = 0, r_r13 = 0, r_r14 = 0, r_r15 = 0,
            r_rip = 0, r_rflags = 0, r_cs = 0, r_fs = 0, r_gs = 0\<rparr>,
          fpu = X86Fp \<lparr>f_fcw = 0, f_fsw = 0, f_ftw = 0, f_mxcsr = 0, f_stmm = replicate 8 0, f_xmm = replicate 16 0\<rparr>\<rparr>)"

definition cdbg_init :: "arch \<Rightarrow> cdbg" where
  "cdbg_init a = \<lparr>d_pid = 0, d_state = CDBG_STATE_IDLE, d_wait_status = 0, d_regs = zero_regs a,
     d_current_tid = 0, d_thread_lock_active = False, d_locked_tid = 0, d_suspended_tids = [],
     d_breakpoints = [], d_watchpoints = [], d_lineno = empty_lineno, d_syms = empty_syms,
     d_executable_path = [], d_debug_info_path = [],
     d_run_argv_storage = replicate CDBG_MAX_RUN_ARGS [], d_run_argc = 0,
     d_print_pretty = True, d_malloc_stack_logging = False, d_language = CDBG_LANG_AUTO\<rparr>"

section \<open>Languages\<close>

definition k_language_aliases :: "(string \<times> cdbg_language) list" where
  "k_language_aliases = [
     (''auto'', CDBG_LANG_AUTO), (''c'', CDBG_LANG_C), (''c++'', CDBG_LANG_CXX), (''cpp'', CDBG_LANG_CXX),
     (''cxx'', CDBG_LANG_CXX), (''objective-c'', CDBG_LANG_OBJC), (''objc'', CDBG_LANG_OBJC),
     (''fortran'', CDBG_LANG_FORTRAN), (''pascal'', CDBG_LANG_PASCAL), (''ada'', CDBG_LANG_ADA),
     (''modula-2'', CDBG_LANG_MODULA2), (''modula2'', CDBG_LANG_MODULA2), (''java'', CDBG_LANG_JAVA),
     (''go'', CDBG_LANG_GO), (''rust'', CDBG_LANG_RUST), (''assembly'', CDBG_LANG_ASSEMBLY),
     (''asm'', CDBG_LANG_ASSEMBLY)]"

definition cdbg_language_parse :: "string \<Rightarrow> cdbg_language option" where
  "cdbg_language_parse name =
     (if name = [] then None
      else map_option snd (List.find (\<lambda>(a, l). str_ieq name a) k_language_aliases))"

fun cdbg_language_name :: "cdbg_language \<Rightarrow> string" where
  "cdbg_language_name CDBG_LANG_AUTO = ''auto''"
| "cdbg_language_name CDBG_LANG_C = ''c''"
| "cdbg_language_name CDBG_LANG_CXX = ''c++''"
| "cdbg_language_name CDBG_LANG_OBJC = ''objective-c''"
| "cdbg_language_name CDBG_LANG_FORTRAN = ''fortran''"
| "cdbg_language_name CDBG_LANG_PASCAL = ''pascal''"
| "cdbg_language_name CDBG_LANG_ADA = ''ada''"
| "cdbg_language_name CDBG_LANG_MODULA2 = ''modula-2''"
| "cdbg_language_name CDBG_LANG_JAVA = ''java''"
| "cdbg_language_name CDBG_LANG_GO = ''go''"
| "cdbg_language_name CDBG_LANG_RUST = ''rust''"
| "cdbg_language_name CDBG_LANG_ASSEMBLY = ''assembly''"

definition cdbg_language_effective :: "cdbg \<Rightarrow> cdbg_language" where
  "cdbg_language_effective dbg =
     (if d_language dbg = CDBG_LANG_AUTO then CDBG_LANG_C else d_language dbg)"

definition cdbg_language_supports_expr :: "cdbg_language \<Rightarrow> bool" where
  "cdbg_language_supports_expr lang \<longleftrightarrow>
     lang \<in> {CDBG_LANG_AUTO, CDBG_LANG_C, CDBG_LANG_CXX, CDBG_LANG_OBJC}"

definition cdbg_language_check_expr :: "cdbg \<Rightarrow> bool" where
  "cdbg_language_check_expr dbg = cdbg_language_supports_expr (cdbg_language_effective dbg)"

section \<open>Registers of the current thread\<close>

definition cdbg_refresh_regs :: "'w kern \<Rightarrow> cdbg \<Rightarrow> 'w \<Rightarrow> bool \<times> cdbg" where
  "cdbg_refresh_regs K dbg w =
     (case cdbg_regs_get K (d_pid dbg) (d_current_tid dbg) (d_regs dbg) w of
        (ok, r) \<Rightarrow> (ok, dbg\<lparr>d_regs := r\<rparr>))"

lemma cdbg_refresh_regs_frame [frame_simps]:
  "cdbg_refresh_regs K dbg w = (ok, dbg') \<Longrightarrow> \<exists>r. dbg' = dbg\<lparr>d_regs := r\<rparr>"
  by (auto simp: cdbg_refresh_regs_def split: prod.splits)

section \<open>Properties\<close>

lemma str_ieq_iff: "str_ieq a b \<longleftrightarrow> map tolower a = map tolower b"
  by (induction a b rule: str_ieq.induct) auto

lemma canonical_names_found:
  "map_option snd (List.find (\<lambda>(a, l). cdbg_language_name lang = map tolower a) k_language_aliases) = Some lang"
  by (induction lang; code_simp)

lemma language_name_ne: "cdbg_language_name lang \<noteq> []"
  by (cases lang) simp_all

text \<open>C40: The canonical name of a language, in any mix of upper and lower case letters,
  is parsed back to that language.\<close>

theorem language_name_roundtrip:
  "map tolower s = cdbg_language_name lang \<Longrightarrow> cdbg_language_parse s = Some lang"
proof -
  assume s: "map tolower s = cdbg_language_name lang"
  then have "s \<noteq> []" using language_name_ne [of lang] by auto
  with s canonical_names_found [of lang] show ?thesis
    by (simp add: cdbg_language_parse_def str_ieq_iff)
qed

theorem language_name_roundtrip_witness: "cdbg_language_parse ''Objective-C'' = Some CDBG_LANG_OBJC"
  by (rule language_name_roundtrip) code_simp

end
