(* ===== verification/TypeNames.thy ===== *)
theory TypeNames
  imports State
begin

text \<open>
  The type-name arithmetic of debugger.c and ast_eval.c: a type is its DWARF name, and its
  size, signedness and pointee are read off that text.
\<close>

definition has_star :: "string \<Rightarrow> bool" where
  "has_star ty \<longleftrightarrow> strchr ty (CHR ''*'') \<noteq> None"

definition type_scalar_size :: "string \<Rightarrow> u64" where
  "type_scalar_size ty =
     (if has_star ty then 8
      else if has_sub ty ''char'' then 1
      else if has_sub ty ''short'' then 2
      else if has_sub ty ''long'' then 8
      else if has_sub ty ''int'' \<or> has_sub ty ''bool'' then 4
      else 8)"

definition type_pointee_size :: "string \<Rightarrow> u64" where
  "type_pointee_size ty =
     (if \<not> has_star ty then 0
      else type_scalar_size (trim_space (take 127 (before (CHR ''*'') ty))))"

definition type_is_scalar :: "string \<Rightarrow> bool" where
  "type_is_scalar ty =
     (if ty = [] then False
      else if has_star ty then True
      else has_sub ty ''char'' \<or> has_sub ty ''short'' \<or> has_sub ty ''int'' \<or> has_sub ty ''long'' \<or> has_sub ty ''bool'')"

definition type_unsigned :: "string \<Rightarrow> bool" where
  \<comment> \<open>\<open>strstr(type, "unsigned") != NULL\<close>\<close>
  "type_unsigned ty = has_sub ty ''unsigned''"

definition parse_array_type :: "string \<Rightarrow> nat \<Rightarrow> (string \<times> u64) option" where
  "parse_array_type ty elem_len = (case strchr ty (CHR ''['') of
       None \<Rightarrow> None
     | Some bracket \<Rightarrow>
         if before (CHR ''['') ty = [] then None
         else (case strtoull 10 (tl bracket) of
                 None \<Rightarrow> None
               | Some (count, end) \<Rightarrow>
                   if end = [] \<or> hd end \<noteq> CHR '']'' then None
                   else Some (take (elem_len - 1) (before (CHR ''['') ty), count)))"

definition type_has_struct_union_prefix :: "string \<Rightarrow> bool" where
  "type_has_struct_union_prefix ty \<longleftrightarrow> strncmp_eq ty ''struct '' \<or> strncmp_eq ty ''union ''"

definition strip_blanks :: "string \<Rightarrow> string" where
  \<comment> \<open>\<open>while (len > 0 && s[len - 1] == ' ') len--\<close>\<close>
  "strip_blanks s = rev (dropWhile (\<lambda>c. c = CHR '' '') (rev s))"

definition pointee_of_type :: "string \<Rightarrow> nat \<Rightarrow> string" where
  \<comment> \<open>\<open>pointer_pointee_type\<close> on \<open>var->type\<close>\<close>
  "pointee_of_type ty out_len =
     (if \<not> has_star ty then snprintf_s out_len ty
      else take (out_len - 1) (strip_blanks (before (CHR ''*'') ty)))"

definition make_pointer_type :: "string \<Rightarrow> nat \<Rightarrow> string" where
  "make_pointer_type base_type out_len =
     (if base_type = [] then []
      else let base = strip_blanks base_type;
               len = (if out_len - 3 \<le> length base then out_len - 4 else length base)
           in take len base @ '' *'')"

section \<open>Variables\<close>

record cdbg_struct_member =
  sm_name :: string
  sm_type :: string
  sm_offset :: u64
  sm_size :: u64
  sm_is_signed :: bool

definition zero_member :: cdbg_struct_member where
  "zero_member = \<lparr>sm_name = [], sm_type = [], sm_offset = 0, sm_size = 0, sm_is_signed = False\<rparr>"

record cdbg_var_info =
  vi_name :: string
  vi_type :: string
  vi_element_type :: string
  vi_fbreg_offset :: int
  vi_size :: u64
  vi_element_size :: u64
  vi_pointee_size :: u64
  vi_array_count :: u64
  vi_has_location :: bool
  vi_is_pointer :: bool
  vi_is_signed :: bool
  vi_is_array :: bool

definition zero_var :: cdbg_var_info where
  "zero_var = \<lparr>vi_name = [], vi_type = [], vi_element_type = [], vi_fbreg_offset = 0, vi_size = 0,
     vi_element_size = 0, vi_pointee_size = 0, vi_array_count = 0, vi_has_location = False,
     vi_is_pointer = False, vi_is_signed = False, vi_is_array = False\<rparr>"

section \<open>Properties\<close>

lemma strip_blanks_id: "s \<noteq> [] \<Longrightarrow> last s \<noteq> CHR '' '' \<Longrightarrow> strip_blanks s = s"
  by (cases s rule: rev_cases) (simp_all add: strip_blanks_def)

lemma strip_blanks_snoc [simp]: "strip_blanks (s @ [CHR '' '']) = strip_blanks s"
  by (simp add: strip_blanks_def)

lemma strip_blanks_last: "strip_blanks s = [] \<or> last (strip_blanks s) \<noteq> CHR '' ''"
proof -
  let ?t = "dropWhile (\<lambda>c. c = CHR '' '') (rev s)"
  have "?t = [] \<or> hd ?t \<noteq> CHR '' ''" by (metis (full_types) hd_dropWhile)
  then show ?thesis by (auto simp: strip_blanks_def last_rev)
qed

lemma has_star_iff: "has_star ty \<longleftrightarrow> CHR ''*'' \<in> set ty"
  by (simp add: has_star_def strchr_None)

text \<open>C39: The pointee of the type that \<open>&\<close> gives an expression, \<open>make_pointer_type\<close>, for a type name that does not end in a
  blank and fits the buffer: the type itself when it carries no star; but for a pointer type it is the pointee of that
  type (the text before the first star), so \<open>*&p\<close> has lost a level of pointers.\<close>

theorem pointee_of_make_pointer:
  assumes "ty \<noteq> []" "last ty \<noteq> CHR '' ''" "length ty < out_len - 3"
  shows "pointee_of_type (make_pointer_type ty out_len) out_len = (if CHR ''*'' \<in> set ty then pointee_of_type ty out_len else ty)"
proof -
  have m: "make_pointer_type ty out_len = ty @ '' *''"
    using assms by (simp add: make_pointer_type_def strip_blanks_id)
  show ?thesis
  proof (cases "CHR ''*'' \<in> set ty")
    case True
    then obtain s r where s: "ty = s @ CHR ''*'' # r" "CHR ''*'' \<notin> set s" using split_list_first by metis
    then have "before (CHR ''*'') ty = s" "before (CHR ''*'') (ty @ '' *'') = s"
      by (simp_all add: before_append)
    with True show ?thesis by (simp add: m pointee_of_type_def has_star_iff)
  next
    case False
    then have "before (CHR ''*'') (ty @ '' *'') = ty @ '' ''"
      using before_append [of "CHR ''*''" "ty @ '' ''" "[]"] by simp
    moreover have "strip_blanks (ty @ '' '') = ty"
      using assms by (simp add: strip_blanks_id)
    ultimately show ?thesis
      using False assms(3) by (simp add: m pointee_of_type_def has_star_iff)
  qed
qed

theorem pointee_of_make_pointer_witness:
  "pointee_of_type (make_pointer_type ''unsigned int'' 128) 128 = ''unsigned int''
    \<and> pointee_of_type (make_pointer_type ''int *'' 128) 128 = pointee_of_type ''int *'' 128"
  using pointee_of_make_pointer [of "''unsigned int''" 128] pointee_of_make_pointer [of "''int *''" 128] by simp

end
