(* ===== verification/DwarfText.thy ===== *)
theory DwarfText
  imports TypeNames
begin

text \<open>
  debugger.c: what the debugger reads off the text of \<open>dwarfdump --debug-info\<close>. Each scan is a step
  function over the lines with the local variables of the C loop as its state; a step says whether the loop
  breaks. The scans cover the members of a structure, the kind of an aggregate, a local or
  global variable by name, and the variables \<open>show\<close> lists.
\<close>

datatype 's scan = Stop 's | Next 's

fun scan_lines :: "('s \<Rightarrow> string \<Rightarrow> 's scan) \<Rightarrow> 's \<Rightarrow> string list \<Rightarrow> 's scan" where
  "scan_lines step s [] = Next s"
| "scan_lines step s (l # ls) = (case step s l of Stop s' \<Rightarrow> Stop s' | Next s' \<Rightarrow> scan_lines step s' ls)"

fun scan_state :: "'s scan \<Rightarrow> 's" where
  "scan_state (Stop s) = s"
| "scan_state (Next s) = s"

text \<open>The output of dwarfdump in lines of the 1024-byte buffer; \<open>None\<close> when it cannot be run.\<close>

definition debug_info_lines :: "'w kern \<Rightarrow> cdbg \<Rightarrow> 'w \<Rightarrow> string list option" where
  "debug_info_lines K dbg w =
     (let cmd = ''dwarfdump --debug-info '' @ [CHR 0x27] @ d_debug_info_path dbg @ [CHR 0x27] @ '' 2>/dev/null''
      in if d_debug_info_path dbg = [] then None
         else if CDBG_MAX_PATH + 64 \<le> length cmd then None
         else map_option (\<lambda>(text, rc). fgets_lines 1024 text) (k_popen K cmd w))"

section \<open>Aggregates\<close>

datatype cdbg_aggregate_kind = CDBG_AGG_NONE | CDBG_AGG_STRUCT | CDBG_AGG_UNION

text \<open>State: inside an aggregate, its kind, and the kind found.\<close>

definition aggregate_step ::
  "string \<Rightarrow> bool \<times> cdbg_aggregate_kind \<times> cdbg_aggregate_kind \<Rightarrow> string
     \<Rightarrow> (bool \<times> cdbg_aggregate_kind \<times> cdbg_aggregate_kind) scan" where
  "aggregate_step name s line = (case s of (in_aggregate, current_kind, found) \<Rightarrow>
     if dwarf_starts_die line \<and> has_sub line ''DW_TAG_structure_type'' then Next (True, CDBG_AGG_STRUCT, found)
     else if dwarf_starts_die line \<and> has_sub line ''DW_TAG_union_type'' then Next (True, CDBG_AGG_UNION, found)
     else let in1 = (if dwarf_starts_die line then False else in_aggregate)
          in if \<not> in1 then Next (in1, current_kind, found)
             else if has_sub line ''DW_AT_name'' \<and> parse_quoted_value line 128 = Some name
             then Stop (in1, current_kind, current_kind)
             else Next (in1, current_kind, found))"

definition dwarf_lookup_aggregate_kind :: "'w kern \<Rightarrow> cdbg \<Rightarrow> string \<Rightarrow> 'w \<Rightarrow> cdbg_aggregate_kind" where
  "dwarf_lookup_aggregate_kind K dbg name w =
     (if name = [] \<or> type_is_scalar name then CDBG_AGG_NONE
      else case debug_info_lines K dbg w of
        None \<Rightarrow> CDBG_AGG_NONE
      | Some ls \<Rightarrow>
          (case scan_state (scan_lines (aggregate_step name) (False, CDBG_AGG_NONE, CDBG_AGG_NONE) ls) of
             (_, _, found) \<Rightarrow> found))"

text \<open>The work buffer is cut at the bracket first, then at the star.\<close>

definition format_type_for_display :: "'w kern \<Rightarrow> cdbg \<Rightarrow> string \<Rightarrow> nat \<Rightarrow> 'w \<Rightarrow> string" where
  "format_type_for_display K dbg ty out_len w =
     (if ty = [] then []
      else if type_has_struct_union_prefix ty then snprintf_s out_len ty
      else let work = snprintf_s 256 ty;
               array_suffix = (case strchr work (CHR ''['') of None \<Rightarrow> [] | Some b \<Rightarrow> snprintf_s 64 b);
               work1 = before (CHR ''['') work;
               ptr_suffix = (if has_star work1 then '' *'' else []);
               base = trim_space (before (CHR ''*'') work1)
           in (case dwarf_lookup_aggregate_kind K dbg base w of
                 CDBG_AGG_STRUCT \<Rightarrow> snprintf_s out_len (''struct '' @ base @ array_suffix @ ptr_suffix)
               | CDBG_AGG_UNION \<Rightarrow> snprintf_s out_len (''union '' @ base @ array_suffix @ ptr_suffix)
               | CDBG_AGG_NONE \<Rightarrow> snprintf_s out_len ty))"

section \<open>Structures\<close>

record struct_scan =
  ss_in_struct :: bool
  ss_matches :: bool
  ss_reading :: bool
  ss_member :: cdbg_struct_member
  ss_members :: "cdbg_struct_member list"
  ss_byte_size :: u64

definition flush_member :: "nat \<Rightarrow> struct_scan \<Rightarrow> struct_scan" where
  "flush_member max_members s =
     (let m = ss_member s
      in if sm_name m \<noteq> [] \<and> length (ss_members s) < max_members
         then s\<lparr>ss_members := ss_members s @
                 [m\<lparr>sm_size := type_scalar_size (sm_type m), sm_is_signed := \<not> type_unsigned (sm_type m)\<rparr>]\<rparr>
         else s)"

definition struct_attribute :: "string \<Rightarrow> struct_scan \<Rightarrow> string \<Rightarrow> struct_scan" where
  "struct_attribute name s line =
     (if \<not> ss_in_struct s then s
      else if has_sub line ''DW_AT_name'' \<and> \<not> ss_reading s then
        (if parse_quoted_value line 128 = Some name then s\<lparr>ss_matches := True\<rparr> else s)
      else if \<not> ss_matches s then s
      else if has_sub line ''DW_AT_byte_size'' then
        (case strchr line (CHR ''('') of
           None \<Rightarrow> s
         | Some open \<Rightarrow> (case strtoull 16 (tl open) of None \<Rightarrow> s | Some (v, _) \<Rightarrow> s\<lparr>ss_byte_size := v\<rparr>))
      else if \<not> ss_reading s then s
      else if has_sub line ''DW_AT_name'' then
        (case parse_quoted_value line 64 of None \<Rightarrow> s | Some n \<Rightarrow> s\<lparr>ss_member := (ss_member s)\<lparr>sm_name := n\<rparr>\<rparr>)
      else if has_sub line ''DW_AT_type'' then
        (case parse_quoted_value line 64 of None \<Rightarrow> s | Some t \<Rightarrow> s\<lparr>ss_member := (ss_member s)\<lparr>sm_type := t\<rparr>\<rparr>)
      else if has_sub line ''DW_AT_data_member_location'' then
        (case parse_member_offset line of None \<Rightarrow> s | Some v \<Rightarrow> s\<lparr>ss_member := (ss_member s)\<lparr>sm_offset := v\<rparr>\<rparr>)
      else s)"

definition struct_step :: "string \<Rightarrow> nat \<Rightarrow> struct_scan \<Rightarrow> string \<Rightarrow> struct_scan scan" where
  "struct_step name max_members s line =
     (let die = dwarf_starts_die line;
          s1 = (if ss_reading s \<and> die
                then (flush_member max_members s)\<lparr>ss_member := zero_member, ss_reading := False\<rparr> else s)
      in if ss_reading s \<and> die \<and> ss_in_struct s1 \<and> ss_matches s1 \<and> has_sub line ''NULL'' then Stop s1
         else if die \<and> has_sub line ''DW_TAG_structure_type''
         then Next (s1\<lparr>ss_in_struct := True, ss_matches := False, ss_byte_size := 0\<rparr>)
         else if die \<and> ss_in_struct s1 \<and> ss_matches s1 \<and> has_sub line ''DW_TAG_member''
         then Next (s1\<lparr>ss_member := zero_member, ss_reading := True\<rparr>)
         else if die \<and> ss_in_struct s1 \<and> ss_matches s1 \<and> has_sub line ''NULL'' then Stop s1
         else let s2 = (if die \<and> ss_in_struct s1 \<and> \<not> ss_matches s1 then s1\<lparr>ss_in_struct := False\<rparr> else s1)
              in Next (struct_attribute name s2 line))"

definition dwarf_lookup_struct ::
  "'w kern \<Rightarrow> cdbg \<Rightarrow> string \<Rightarrow> nat \<Rightarrow> 'w \<Rightarrow> (cdbg_struct_member list \<times> u64) option" where
  "dwarf_lookup_struct K dbg name max_members w =
     (if name = [] then None
      else case debug_info_lines K dbg w of
        None \<Rightarrow> None
      | Some ls \<Rightarrow>
          let s = scan_state (scan_lines (struct_step name max_members)
                    \<lparr>ss_in_struct = False, ss_matches = False, ss_reading = False, ss_member = zero_member,
                     ss_members = [], ss_byte_size = 0\<rparr> ls);
              s1 = (if ss_reading s then flush_member max_members s else s)
          in if ss_members s1 = [] then None else Some (ss_members s1, ss_byte_size s1))"

definition lookup_struct_member ::
  "'w kern \<Rightarrow> cdbg \<Rightarrow> string \<Rightarrow> string \<Rightarrow> 'w \<Rightarrow> cdbg_struct_member option" where
  "lookup_struct_member K dbg struct_type member_name w =
     (case dwarf_lookup_struct K dbg struct_type 32 w of
        None \<Rightarrow> None
      | Some (members, _) \<Rightarrow> List.find (\<lambda>m. sm_name m = member_name) members)"

definition type_element_size :: "'w kern \<Rightarrow> cdbg \<Rightarrow> string \<Rightarrow> 'w \<Rightarrow> u64" where
  "type_element_size K dbg ty w =
     (if ty = [] then 0
      else if type_is_scalar ty then type_scalar_size ty
      else case dwarf_lookup_struct K dbg ty 32 w of
        Some (_, byte_size) \<Rightarrow> if 0 < byte_size then byte_size else 8
      | None \<Rightarrow> 8)"

definition complete_var_type :: "'w kern \<Rightarrow> cdbg \<Rightarrow> cdbg_var_info \<Rightarrow> 'w \<Rightarrow> cdbg_var_info" where
  "complete_var_type K dbg var w =
     (let var1 = var\<lparr>vi_is_pointer := has_star (vi_type var), vi_is_signed := \<not> type_unsigned (vi_type var)\<rparr>
      in case parse_array_type (vi_type var) 128 of
        Some (element_type, array_count) \<Rightarrow>
          let sz = type_element_size K dbg element_type w
          in var1\<lparr>vi_is_array := True, vi_element_type := snprintf_s 128 element_type,
                  vi_array_count := array_count, vi_element_size := sz,
                  vi_size := sz * array_count, vi_pointee_size := sz\<rparr>
      | None \<Rightarrow>
          let p = type_pointee_size (vi_type var)
          in var1\<lparr>vi_is_array := False, vi_element_type := [], vi_array_count := 0, vi_element_size := 0,
                  vi_size := type_scalar_size (vi_type var), vi_pointee_size := (if p = 0 then 8 else p)\<rparr>)"

section \<open>Variables by name\<close>

definition var_ready :: "cdbg_var_info \<Rightarrow> string \<Rightarrow> bool" where
  "var_ready var name \<longleftrightarrow> vi_has_location var \<and> vi_name var \<noteq> [] \<and> vi_name var = name"

definition set_name :: "cdbg_var_info \<Rightarrow> string \<Rightarrow> cdbg_var_info" where
  "set_name var line = (case parse_quoted_value line 128 of None \<Rightarrow> var | Some n \<Rightarrow> var\<lparr>vi_name := n\<rparr>)"

definition set_type :: "cdbg_var_info \<Rightarrow> string \<Rightarrow> cdbg_var_info" where
  "set_type var line = (case parse_quoted_value line 128 of None \<Rightarrow> var | Some t \<Rightarrow> var\<lparr>vi_type := t\<rparr>)"

definition or_keep :: "'a option \<Rightarrow> 'a \<Rightarrow> 'a" where
  \<comment> \<open>an output argument that a failing parser leaves alone\<close>
  "or_keep r x = (case r of None \<Rightarrow> x | Some y \<Rightarrow> y)"

record local_scan =
  lv_in_func :: bool
  lv_matches :: bool
  lv_depth :: nat
  lv_low :: addr
  lv_high :: addr
  lv_reading :: bool
  lv_var :: cdbg_var_info

definition local_attribute :: "addr \<Rightarrow> local_scan \<Rightarrow> string \<Rightarrow> local_scan" where
  "local_attribute link_pc s line =
     (if lv_in_func s \<and> has_sub line ''DW_AT_low_pc'' then
        let low = or_keep (parse_hex_value line) (lv_low s)
        in s\<lparr>lv_low := low, lv_matches := pc_in_range link_pc low (lv_high s)\<rparr>
      else if lv_in_func s \<and> has_sub line ''DW_AT_high_pc'' then
        let high = or_keep (parse_hex_value line) (lv_high s)
        in s\<lparr>lv_high := high, lv_matches := pc_in_range link_pc (lv_low s) high\<rparr>
      else if \<not> lv_reading s then s
      else case (if has_sub line ''DW_AT_location'' then parse_fbreg_offset line else None) of
        Some off \<Rightarrow> s\<lparr>lv_var := (lv_var s)\<lparr>vi_fbreg_offset := off, vi_has_location := True\<rparr>\<rparr>
      | None \<Rightarrow>
          if has_sub line ''DW_AT_name'' then s\<lparr>lv_var := set_name (lv_var s) line\<rparr>
          else if has_sub line ''DW_AT_type'' then s\<lparr>lv_var := set_type (lv_var s) line\<rparr>
          else s)"

definition local_step :: "addr \<Rightarrow> string \<Rightarrow> local_scan \<Rightarrow> string \<Rightarrow> local_scan scan" where
  "local_step link_pc name s line =
     (let die = dwarf_starts_die line; flush = lv_reading s \<and> die
      in if flush \<and> var_ready (lv_var s) name then Stop s
         else let s1 = (if flush then s\<lparr>lv_var := zero_var, lv_reading := False\<rparr> else s);
                  depth = dwarf_line_depth line
              in if die \<and> has_sub line ''DW_TAG_subprogram''
                 then Next (s1\<lparr>lv_in_func := True, lv_matches := False, lv_depth := depth, lv_low := 0, lv_high := 0\<rparr>)
                 else let s2 = (if die \<and> lv_in_func s1 \<and> depth \<le> lv_depth s1
                                then s1\<lparr>lv_in_func := False, lv_matches := False\<rparr> else s1)
                      in if die \<and> lv_in_func s2 \<and> lv_matches s2 \<and>
                            (has_sub line ''DW_TAG_variable'' \<or> has_sub line ''DW_TAG_formal_parameter'')
                         then Next (s2\<lparr>lv_var := zero_var, lv_reading := True\<rparr>)
                         else Next (local_attribute link_pc s2 line))"

definition find_local_var :: "'w kern \<Rightarrow> cdbg \<Rightarrow> string \<Rightarrow> 'w \<Rightarrow> cdbg_var_info option" where
  "find_local_var K dbg name w =
     (case debug_info_lines K dbg w of
        None \<Rightarrow> None
      | Some ls \<Rightarrow>
          let link_pc = cdbg_regs_pc (d_regs dbg) - ln_slide (d_lineno dbg)
          in (case scan_lines (local_step link_pc name)
                     \<lparr>lv_in_func = False, lv_matches = False, lv_depth = 0, lv_low = 0, lv_high = 0,
                      lv_reading = False, lv_var = zero_var\<rparr> ls of
                Stop s \<Rightarrow> Some (complete_var_type K dbg (lv_var s) w)
              | Next s \<Rightarrow>
                  if lv_reading s \<and> var_ready (lv_var s) name
                  then Some (complete_var_type K dbg (lv_var s) w) else None))"

record global_scan =
  gv_in_func :: bool
  gv_depth :: nat
  gv_reading :: bool
  gv_var :: cdbg_var_info
  gv_link_addr :: addr

definition global_attribute :: "global_scan \<Rightarrow> string \<Rightarrow> global_scan" where
  "global_attribute s line =
     (if \<not> gv_reading s \<or> gv_in_func s then s
      else if has_sub line ''DW_AT_location'' then s\<lparr>gv_link_addr := or_keep (parse_addr_location line) (gv_link_addr s)\<rparr>
      else if has_sub line ''DW_AT_name'' then s\<lparr>gv_var := set_name (gv_var s) line\<rparr>
      else if has_sub line ''DW_AT_type'' then s\<lparr>gv_var := set_type (gv_var s) line\<rparr>
      else s)"

definition global_ready :: "string \<Rightarrow> global_scan \<Rightarrow> bool" where
  "global_ready name s \<longleftrightarrow> \<not> gv_in_func s \<and> gv_link_addr s \<noteq> 0 \<and> vi_name (gv_var s) = name"

definition global_step :: "string \<Rightarrow> global_scan \<Rightarrow> string \<Rightarrow> global_scan scan" where
  "global_step name s line =
     (let die = dwarf_starts_die line; flush = gv_reading s \<and> die
      in if flush \<and> global_ready name s then Stop s
         else let s1 = (if flush then s\<lparr>gv_var := zero_var, gv_reading := False, gv_link_addr := 0\<rparr> else s);
                  depth = dwarf_line_depth line
              in if die \<and> has_sub line ''DW_TAG_subprogram'' then Next (s1\<lparr>gv_in_func := True, gv_depth := depth\<rparr>)
                 else let s2 = (if die \<and> gv_in_func s1 \<and> depth \<le> gv_depth s1 then s1\<lparr>gv_in_func := False\<rparr> else s1)
                      in if die \<and> \<not> gv_in_func s2 \<and> has_sub line ''DW_TAG_variable''
                         then Next (s2\<lparr>gv_var := zero_var, gv_reading := True, gv_link_addr := 0\<rparr>)
                         else Next (global_attribute s2 line))"

definition find_global_var :: "'w kern \<Rightarrow> cdbg \<Rightarrow> string \<Rightarrow> 'w \<Rightarrow> (cdbg_var_info \<times> addr) option" where
  "find_global_var K dbg name w =
     (case debug_info_lines K dbg w of
        None \<Rightarrow> None
      | Some ls \<Rightarrow>
          let r = scan_lines (global_step name)
                    \<lparr>gv_in_func = False, gv_depth = 0, gv_reading = False, gv_var = zero_var, gv_link_addr = 0\<rparr> ls;
              s = scan_state r
          in if (case r of Stop _ \<Rightarrow> True | Next _ \<Rightarrow> gv_reading s \<and> global_ready name s)
             then Some (complete_var_type K dbg (gv_var s) w,
                        cdbg_syms_runtime_addr (d_syms dbg) (gv_link_addr s))
             else None)"

text \<open>Local variable, then global variable, then symbol; the flag says it was a local.\<close>

definition frame_address :: "cdbg \<Rightarrow> cdbg_var_info \<Rightarrow> addr" where
  "frame_address dbg var = cdbg_regs_fp (d_regs dbg) + of_int (vi_fbreg_offset var)"

definition resolve_variable_address ::
  "'w kern \<Rightarrow> cdbg \<Rightarrow> string \<Rightarrow> 'w \<Rightarrow> (cdbg_var_info \<times> addr \<times> bool) option" where
  "resolve_variable_address K dbg name w =
     (case find_local_var K dbg name w of
        Some var \<Rightarrow> Some (var, frame_address dbg var, True)
      | None \<Rightarrow> (case find_global_var K dbg name w of
          Some (var, a) \<Rightarrow> Some (var, a, False)
        | None \<Rightarrow> (case cdbg_syms_lookup_name (d_syms dbg) name of
            None \<Rightarrow> None
          | Some e \<Rightarrow>
              if sym_address e = 0 \<or> sym_type e = CHR ''U'' \<or> sym_type e = CHR ''u'' then None
              else Some (complete_var_type K dbg
                           (zero_var\<lparr>vi_name := snprintf_s 128 name, vi_type := ''unsigned long''\<rparr>) w,
                         cdbg_syms_runtime_addr (d_syms dbg) (sym_address e), False))))"

end
