(* ===== verification/AstEval.thy ===== *)
theory AstEval
  imports DwarfText
begin

text \<open>
  ast.c and ast_eval.c: the expression trees, their evaluation and their resolution to an address
  and a type. Both only read the debuggee. An expression fails (\<open>Eval_Failed\<close>, the code's \<open>-1\<close>) or, for
  a shift by 64 or more, leaves defined C behaviour (\<open>Eval_Undefined\<close>). A \<open>double\<close> is its bit pattern.
\<close>

datatype cdbg_ast_op = OP_ADD | OP_SUB | OP_MUL | OP_DIV | OP_MOD | OP_SHL | OP_SHR
  | OP_LT | OP_GT | OP_LE | OP_GE | OP_EQ | OP_NE | OP_BAND | OP_BOR | OP_BXOR | OP_LAND | OP_LOR

datatype unop_kind = AST_POS | AST_NEG | AST_NOT | AST_BNOT | AST_ADDR | AST_DEREF

datatype cdbg_ast =
    AST_NUM u64
  | AST_FLOAT u64
  | AST_IDENT string
  | AST_BINOP cdbg_ast_op cdbg_ast cdbg_ast
  | AST_UNOP unop_kind cdbg_ast
  | AST_MEMBER cdbg_ast string
  | AST_ARROW cdbg_ast string
  | AST_INDEX cdbg_ast cdbg_ast

text \<open>The constructors of ast.c; allocation does not fail.\<close>

definition cdbg_ast_new_num :: "u64 \<Rightarrow> cdbg_ast" where "cdbg_ast_new_num v = AST_NUM v"
definition cdbg_ast_new_float :: "u64 \<Rightarrow> cdbg_ast" where "cdbg_ast_new_float v = AST_FLOAT v"
definition cdbg_ast_new_ident :: "string \<Rightarrow> cdbg_ast" where "cdbg_ast_new_ident s = AST_IDENT s"
definition cdbg_ast_new_binop :: "cdbg_ast_op \<Rightarrow> cdbg_ast \<Rightarrow> cdbg_ast \<Rightarrow> cdbg_ast" where
  "cdbg_ast_new_binop oper l r = AST_BINOP oper l r"
definition cdbg_ast_new_unop :: "unop_kind \<Rightarrow> cdbg_ast \<Rightarrow> cdbg_ast" where "cdbg_ast_new_unop k e = AST_UNOP k e"
definition cdbg_ast_new_member :: "cdbg_ast \<Rightarrow> string \<Rightarrow> cdbg_ast" where "cdbg_ast_new_member e n = AST_MEMBER e n"
definition cdbg_ast_new_arrow :: "cdbg_ast \<Rightarrow> string \<Rightarrow> cdbg_ast" where "cdbg_ast_new_arrow e n = AST_ARROW e n"
definition cdbg_ast_new_index :: "cdbg_ast \<Rightarrow> cdbg_ast \<Rightarrow> cdbg_ast" where "cdbg_ast_new_index e i = AST_INDEX e i"

datatype eval_err = Eval_Failed | Eval_Undefined

abbreviation truth :: "bool \<Rightarrow> u64" where
  "truth b \<equiv> (if b then 1 else 0)"

fun combine_binary :: "u64 \<Rightarrow> u64 \<Rightarrow> cdbg_ast_op \<Rightarrow> eval_err + u64" where
  "combine_binary l r OP_ADD = Inr (l + r)"
| "combine_binary l r OP_SUB = Inr (l - r)"
| "combine_binary l r OP_MUL = Inr (l * r)"
| "combine_binary l r OP_DIV = (if r = 0 then Inl Eval_Failed else Inr (l div r))"
| "combine_binary l r OP_MOD = (if r = 0 then Inl Eval_Failed else Inr (l mod r))"
| "combine_binary l r OP_SHL = (if 64 \<le> r then Inl Eval_Undefined else Inr (push_bit (unat r) l))"
| "combine_binary l r OP_SHR = (if 64 \<le> r then Inl Eval_Undefined else Inr (drop_bit (unat r) l))"
| "combine_binary l r OP_LT = Inr (truth (l < r))"
| "combine_binary l r OP_GT = Inr (truth (r < l))"
| "combine_binary l r OP_LE = Inr (truth (l \<le> r))"
| "combine_binary l r OP_GE = Inr (truth (r \<le> l))"
| "combine_binary l r OP_EQ = Inr (truth (l = r))"
| "combine_binary l r OP_NE = Inr (truth (l \<noteq> r))"
| "combine_binary l r OP_BAND = Inr (l AND r)"
| "combine_binary l r OP_BXOR = Inr (l XOR r)"
| "combine_binary l r OP_BOR = Inr (l OR r)"
| "combine_binary l r OP_LAND = Inr (truth (l \<noteq> 0 \<and> r \<noteq> 0))"
| "combine_binary l r OP_LOR = Inr (truth (l \<noteq> 0 \<or> r \<noteq> 0))"

fun cdbg_ast_is_lvalue_shaped :: "cdbg_ast \<Rightarrow> bool" where
  "cdbg_ast_is_lvalue_shaped (AST_IDENT _) = True"
| "cdbg_ast_is_lvalue_shaped (AST_MEMBER _ _) = True"
| "cdbg_ast_is_lvalue_shaped (AST_ARROW _ _) = True"
| "cdbg_ast_is_lvalue_shaped (AST_INDEX _ _) = True"
| "cdbg_ast_is_lvalue_shaped (AST_UNOP AST_DEREF _) = True"
| "cdbg_ast_is_lvalue_shaped _ = False"

record cdbg_expr_result =
  er_value :: u64
  er_fvalue :: u64
  er_is_float :: bool
  er_is_address :: bool
  er_type :: string

definition zero_result :: cdbg_expr_result where
  "zero_result = \<lparr>er_value = 0, er_fvalue = 0, er_is_float = False, er_is_address = False, er_type = []\<rparr>"

abbreviation value_result :: "u64 \<Rightarrow> cdbg_expr_result" where
  "value_result v \<equiv> zero_result\<lparr>er_value := v\<rparr>"

definition or_fail :: "'a option \<Rightarrow> eval_err + 'a" where
  "or_fail r = (case r of None \<Rightarrow> Inl Eval_Failed | Some x \<Rightarrow> Inr x)"

lemma or_fail_simps [simp]: "or_fail None = Inl Eval_Failed" "or_fail (Some x) = Inr x"
  by (simp_all add: or_fail_def)

lemma or_fail_Inr [simp]: "or_fail r = Inr x \<longleftrightarrow> r = Some x"
  by (cases r) simp_all

text \<open>\<open>read_scalar_value(dbg->pid, addr, size, ...)\<close> with the size as a machine word.\<close>

definition read_var :: "'w kern \<Rightarrow> cdbg \<Rightarrow> addr \<Rightarrow> u64 \<Rightarrow> 'w \<Rightarrow> eval_err + u64" where
  "read_var K dbg a sz w = or_fail (read_scalar_value K (d_pid dbg) a (unat sz) w)"

text \<open>The variable a typed address stands for: size, signedness and pointer flag from the type name.\<close>

definition typed_var :: "string \<Rightarrow> u64 \<Rightarrow> cdbg_var_info" where
  "typed_var ty sz = zero_var\<lparr>vi_type := snprintf_s 128 ty, vi_size := sz,
     vi_is_signed := \<not> type_unsigned ty, vi_is_pointer := has_star ty\<rparr>"

definition member_var :: "string \<Rightarrow> cdbg_struct_member \<Rightarrow> cdbg_var_info" where
  "member_var name m = zero_var\<lparr>vi_name := snprintf_s 128 name, vi_type := snprintf_s 128 (sm_type m),
     vi_size := sm_size m, vi_is_signed := sm_is_signed m, vi_is_pointer := has_star (sm_type m)\<rparr>"

text \<open>The member of the structure at an address.\<close>

definition member_at ::
  "'w kern \<Rightarrow> cdbg \<Rightarrow> string \<Rightarrow> addr \<Rightarrow> string \<Rightarrow> 'w \<Rightarrow> eval_err + (addr \<times> cdbg_var_info)" where
  "member_at K dbg struct_type struct_addr name w =
     bindE (or_fail (lookup_struct_member K dbg struct_type name w))
       (\<lambda>m. Inr (struct_addr + sm_offset m, member_var name m))"

text \<open>Element \<open>index\<close> of the array or pointer variable at an address.\<close>

definition index_into ::
  "'w kern \<Rightarrow> cdbg \<Rightarrow> addr \<Rightarrow> cdbg_var_info \<Rightarrow> u64 \<Rightarrow> 'w \<Rightarrow> eval_err + (addr \<times> cdbg_var_info)" where
  "index_into K dbg base_addr base_var index w =
     (if vi_is_array base_var then
        (if vi_array_count base_var \<le> index then Inl Eval_Failed
         else Inr (base_addr + index * vi_element_size base_var,
                   typed_var (vi_element_type base_var) (vi_element_size base_var)))
      else if vi_is_pointer base_var then
        bindE (read_var K dbg base_addr 8 w) (\<lambda>ptr.
          let pointee_type = pointee_of_type (vi_type base_var) 128;
              elem_size = type_element_size K dbg pointee_type w
          in Inr (ptr + index * elem_size, typed_var pointee_type elem_size))
      else Inl Eval_Failed)"

text \<open>The type of \<open>*e\<close>: the pointee when \<open>e\<close> names a pointer variable, else eight untyped bytes.\<close>

definition deref_var :: "'w kern \<Rightarrow> cdbg \<Rightarrow> cdbg_ast \<Rightarrow> 'w \<Rightarrow> cdbg_var_info" where
  "deref_var K dbg e w =
     (case e of
        AST_IDENT name \<Rightarrow>
          (case resolve_variable_address K dbg name w of
             Some (ptr_var, _, _) \<Rightarrow>
               if vi_is_pointer ptr_var
               then (let pointee_type = pointee_of_type (vi_type ptr_var) 128
                     in typed_var pointee_type (type_element_size K dbg pointee_type w))
               else zero_var\<lparr>vi_size := 8\<rparr>
           | None \<Rightarrow> zero_var\<lparr>vi_size := 8\<rparr>)
      | _ \<Rightarrow> zero_var\<lparr>vi_size := 8\<rparr>)"

fun cdbg_ast_resolve_lvalue :: "'w kern \<Rightarrow> cdbg \<Rightarrow> cdbg_ast \<Rightarrow> 'w \<Rightarrow> eval_err + (addr \<times> cdbg_var_info)"
  and cdbg_ast_eval :: "'w kern \<Rightarrow> cdbg \<Rightarrow> cdbg_ast \<Rightarrow> 'w \<Rightarrow> eval_err + cdbg_expr_result" where
  "cdbg_ast_resolve_lvalue K dbg (AST_IDENT name) w =
     bindE (or_fail (resolve_variable_address K dbg name w)) (\<lambda>(var, a, _). Inr (a, var))"
| "cdbg_ast_resolve_lvalue K dbg (AST_MEMBER e name) w =
     bindE (cdbg_ast_resolve_lvalue K dbg e w) (\<lambda>(base_addr, base_var).
       member_at K dbg (snprintf_s 128 (vi_type base_var)) base_addr name w)"
| "cdbg_ast_resolve_lvalue K dbg (AST_ARROW e name) w =
     bindE (cdbg_ast_resolve_lvalue K dbg e w) (\<lambda>(base_addr, base_var).
       if \<not> vi_is_pointer base_var then Inl Eval_Failed
       else bindE (read_var K dbg base_addr 8 w) (\<lambda>ptr.
              member_at K dbg (pointee_of_type (vi_type base_var) 128) ptr name w))"
| "cdbg_ast_resolve_lvalue K dbg (AST_INDEX e i) w =
     bindE (cdbg_ast_resolve_lvalue K dbg e w) (\<lambda>(base_addr, base_var).
     bindE (cdbg_ast_eval K dbg i w) (\<lambda>idx.
       index_into K dbg base_addr base_var (er_value idx) w))"
| "cdbg_ast_resolve_lvalue K dbg (AST_UNOP k e) w =
     (if k = AST_DEREF
      then bindE (cdbg_ast_eval K dbg e w) (\<lambda>inner. Inr (er_value inner, deref_var K dbg e w))
      else Inl Eval_Failed)"
| "cdbg_ast_resolve_lvalue K dbg (AST_NUM _) w = Inl Eval_Failed"
| "cdbg_ast_resolve_lvalue K dbg (AST_FLOAT _) w = Inl Eval_Failed"
| "cdbg_ast_resolve_lvalue K dbg (AST_BINOP _ _ _) w = Inl Eval_Failed"

| "cdbg_ast_eval K dbg (AST_NUM v) w = Inr (value_result v)"
| "cdbg_ast_eval K dbg (AST_FLOAT bits) w =
     Inr (zero_result\<lparr>er_value := bits, er_fvalue := bits, er_is_float := True\<rparr>)"
| "cdbg_ast_eval K dbg (AST_IDENT name) w =
     bindE (or_fail (resolve_variable_address K dbg name w)) (\<lambda>(var, a, _).
     bindE (read_var K dbg a (vi_size var) w) (\<lambda>v. Inr (value_result v)))"
| "cdbg_ast_eval K dbg (AST_BINOP oper l r) w =
     bindE (cdbg_ast_eval K dbg l w) (\<lambda>lhs.
     bindE (cdbg_ast_eval K dbg r w) (\<lambda>rhs.
     bindE (combine_binary (er_value lhs) (er_value rhs) oper) (\<lambda>v.
       Inr (zero_result\<lparr>er_value := v, er_is_float := er_is_float lhs, er_fvalue := er_fvalue lhs\<rparr>))))"
| "cdbg_ast_eval K dbg (AST_UNOP k e) w =
     (case k of
        AST_POS \<Rightarrow> cdbg_ast_eval K dbg e w
      | AST_NEG \<Rightarrow> bindE (cdbg_ast_eval K dbg e w) (\<lambda>inner.
          if er_is_float inner
          then (let f = er_fvalue inner XOR push_bit 63 1
                in Inr (zero_result\<lparr>er_value := f, er_fvalue := f, er_is_float := True\<rparr>))
          else Inr (value_result (- er_value inner)))
      | AST_NOT \<Rightarrow> bindE (cdbg_ast_eval K dbg e w) (\<lambda>inner. Inr (value_result (if er_value inner \<noteq> 0 then 0 else 1)))
      | AST_BNOT \<Rightarrow> bindE (cdbg_ast_eval K dbg e w) (\<lambda>inner. Inr (value_result (NOT (er_value inner))))
      | AST_ADDR \<Rightarrow>
          if \<not> cdbg_ast_is_lvalue_shaped e then Inl Eval_Failed
          else bindE (cdbg_ast_resolve_lvalue K dbg e w) (\<lambda>(a, var).
                 Inr (zero_result\<lparr>er_value := a, er_is_address := True,
                        er_type := make_pointer_type (vi_type var) 128\<rparr>))
      | AST_DEREF \<Rightarrow> bindE (cdbg_ast_eval K dbg e w) (\<lambda>inner.
          bindE (read_var K dbg (er_value inner) 8 w) (\<lambda>v. Inr (value_result v))))"
| "cdbg_ast_eval K dbg (AST_MEMBER e name) w =
     bindE (cdbg_ast_resolve_lvalue K dbg (AST_MEMBER e name) w) (\<lambda>(a, var).
     bindE (read_var K dbg a (vi_size var) w) (\<lambda>v. Inr (value_result v)))"
| "cdbg_ast_eval K dbg (AST_ARROW e name) w =
     bindE (cdbg_ast_resolve_lvalue K dbg (AST_ARROW e name) w) (\<lambda>(a, var).
     bindE (read_var K dbg a (vi_size var) w) (\<lambda>v. Inr (value_result v)))"
| "cdbg_ast_eval K dbg (AST_INDEX e i) w =
     bindE (cdbg_ast_resolve_lvalue K dbg (AST_INDEX e i) w) (\<lambda>(a, var).
     bindE (read_var K dbg a (vi_size var) w) (\<lambda>v. Inr (value_result v)))"

end
