(* ===== verification/ExprParse.thy ===== *)
theory ExprParse
  imports AstEval
begin

text \<open>
  The expression language: the scanner of ast_expr.l (longest match, earlier rule first) and the
  parser of ast_expr.y. The parser is the shift-reduce machine that the precedence declarations
  of the grammar describe: it shifts one token at a time onto a stack of pending operators and
  reduces those that bind at least as tightly as the next operator. Every token is consumed
  once, so it is structural on the input. \<open>strtod\<close>, the conversion of a decimal to a double,
  is a parameter.
\<close>

section \<open>The scanner\<close>

datatype tok = T_NUMBER u64 | T_FLOATNUM u64 | T_IDENT string
  | T_ARROW | T_LSHIFT | T_RSHIFT | T_LE | T_GE | T_EQ | T_NE | T_ANDAND | T_OROR
  | T_CHAR char | T_INVALID_CHAR

definition ident_start :: "char \<Rightarrow> bool" where
  "ident_start c = (let n = of_char c :: nat in 97 \<le> n \<and> n \<le> 122 \<or> 65 \<le> n \<and> n \<le> 90 \<or> c = CHR ''_'')"

definition ident_char :: "char \<Rightarrow> bool" where
  "ident_char c \<longleftrightarrow> ident_start c \<or> isdigit c"

definition digits_len :: "string \<Rightarrow> nat" where
  "digits_len s = length (takeWhile isdigit s)"

text \<open>\<open>([eE][+-]?{DIGIT}+)?\<close> and \<open>[fFlL]?\<close>: the length of the longest match.\<close>

definition exponent_len :: "string \<Rightarrow> nat" where
  "exponent_len s = (case s of
       [] \<Rightarrow> 0
     | c # t \<Rightarrow>
         if c \<noteq> CHR ''e'' \<and> c \<noteq> CHR ''E'' then 0
         else let sign = (if t \<noteq> [] \<and> hd t \<in> {CHR ''+'', CHR ''-''} then 1 else 0);
                  d = digits_len (drop sign t)
              in if d = 0 then 0 else 1 + sign + d)"

definition suffix_len :: "string \<Rightarrow> nat" where
  "suffix_len s = (if s \<noteq> [] \<and> hd s \<in> set ''fFlL'' then 1 else 0)"

definition tail_len :: "string \<Rightarrow> nat" where
  "tail_len s = (let e = exponent_len s in e + suffix_len (drop e s))"

definition float_len :: "string \<Rightarrow> nat" where
  "float_len s =
     (let d = digits_len s; r = drop d s
      in if r \<noteq> [] \<and> hd r = CHR ''.'' then
           (let d2 = digits_len (tl r); n = d + 1 + d2
            in if d = 0 \<and> d2 = 0 then 0 else n + tail_len (drop n s))
         else if 0 < d \<and> 0 < exponent_len r then d + tail_len r
         else 0)"

definition hex_len :: "string \<Rightarrow> nat" where
  "hex_len s = (if hex_prefixed s then 2 + length (takeWhile (is_dig 16) (drop 2 s)) else 0)"

fun two_char :: "char \<Rightarrow> char \<Rightarrow> tok option" where
  "two_char a b =
     (if a = CHR ''-'' \<and> b = CHR ''>'' then Some T_ARROW
      else if a = CHR ''<'' \<and> b = CHR ''<'' then Some T_LSHIFT
      else if a = CHR ''>'' \<and> b = CHR ''>'' then Some T_RSHIFT
      else if a = CHR ''<'' \<and> b = CHR ''='' then Some T_LE
      else if a = CHR ''>'' \<and> b = CHR ''='' then Some T_GE
      else if a = CHR ''='' \<and> b = CHR ''='' then Some T_EQ
      else if a = CHR ''!'' \<and> b = CHR ''='' then Some T_NE
      else if a = CHR ''&'' \<and> b = CHR ''&'' then Some T_ANDAND
      else if a = CHR ''|'' \<and> b = CHR ''|'' then Some T_OROR
      else None)"

definition operator_chars :: string where
  "operator_chars = ''-+*/%&|^!~<>().[]''"

text \<open>The token at the start of a non-empty input and the number of characters it takes, at
  least one. A newline matches no rule and is only echoed.\<close>

definition next_token :: "(string \<Rightarrow> u64) \<Rightarrow> string \<Rightarrow> tok option \<times> nat" where
  "next_token strtod s =
     (let c = hd s; h = hex_len s; f = float_len s; d = digits_len s;
          i = (if ident_start c then length (takeWhile ident_char s) else 0)
      in if is_blank c then (None, 1)
         else if 0 < h then (Some (T_NUMBER (case strtoull 16 (take h s) of None \<Rightarrow> 0 | Some (v, _) \<Rightarrow> v)), h)
         else if d < f then (Some (T_FLOATNUM (strtod (take f s))), f)
         else if 0 < d then (Some (T_NUMBER (case strtoull 0 (take d s) of None \<Rightarrow> 0 | Some (v, _) \<Rightarrow> v)), d)
         else if 0 < i then (Some (T_IDENT (take i s)), i)
         else case (if tl s = [] then None else two_char c (hd (tl s))) of
           Some t \<Rightarrow> (Some t, 2)
         | None \<Rightarrow>
             if c \<in> set operator_chars then (Some (T_CHAR c), 1)
             else if c = CHR 0x0A then (None, 1)
             else (Some T_INVALID_CHAR, 1))"

function exprp_scan :: "(string \<Rightarrow> u64) \<Rightarrow> string \<Rightarrow> tok list" where
  "exprp_scan strtod s =
     (if s = [] then []
      else let (t, n) = next_token strtod s; rest = exprp_scan strtod (drop (max 1 n) s)
           in (case t of None \<Rightarrow> rest | Some x \<Rightarrow> x # rest))"
  by pat_completeness auto
termination
  by (relation "measure (length \<circ> snd)") auto

declare exprp_scan.simps [simp del]

section \<open>The parser\<close>

text \<open>The binary operators with their precedence level, 1 for \<open>||\<close> up to 10 for \<open>* / %\<close>.\<close>

definition binary_op :: "tok \<Rightarrow> (nat \<times> cdbg_ast_op) option" where
  "binary_op t =
     (if t = T_OROR then Some (1, OP_LOR)
      else if t = T_ANDAND then Some (2, OP_LAND)
      else if t = T_CHAR (CHR ''|'') then Some (3, OP_BOR)
      else if t = T_CHAR (CHR ''^'') then Some (4, OP_BXOR)
      else if t = T_CHAR (CHR ''&'') then Some (5, OP_BAND)
      else if t = T_EQ then Some (6, OP_EQ)
      else if t = T_NE then Some (6, OP_NE)
      else if t = T_CHAR (CHR ''<'') then Some (7, OP_LT)
      else if t = T_CHAR (CHR ''>'') then Some (7, OP_GT)
      else if t = T_LE then Some (7, OP_LE)
      else if t = T_GE then Some (7, OP_GE)
      else if t = T_LSHIFT then Some (8, OP_SHL)
      else if t = T_RSHIFT then Some (8, OP_SHR)
      else if t = T_CHAR (CHR ''+'') then Some (9, OP_ADD)
      else if t = T_CHAR (CHR ''-'') then Some (9, OP_SUB)
      else if t = T_CHAR (CHR ''*'') then Some (10, OP_MUL)
      else if t = T_CHAR (CHR ''/'') then Some (10, OP_DIV)
      else if t = T_CHAR (CHR ''%'') then Some (10, OP_MOD)
      else None)"

definition prefix_op :: "tok \<Rightarrow> unop_kind option" where
  "prefix_op t =
     (if t = T_CHAR (CHR ''+'') then Some AST_POS
      else if t = T_CHAR (CHR ''-'') then Some AST_NEG
      else if t = T_CHAR (CHR ''!'') then Some AST_NOT
      else if t = T_CHAR (CHR ''~'') then Some AST_BNOT
      else if t = T_CHAR (CHR ''&'') then Some AST_ADDR
      else if t = T_CHAR (CHR ''*'') then Some AST_DEREF
      else None)"

text \<open>What waits on the stack for its right-hand part.\<close>

datatype frame = F_BIN nat cdbg_ast_op cdbg_ast | F_UN unop_kind | F_PAREN | F_INDEX cdbg_ast

text \<open>Reducing before an operator of level \<open>q\<close>: unary operators and operators of level \<open>q\<close> or more
  are applied (the binary operators are all left-associative).\<close>

fun reduce :: "nat \<Rightarrow> frame list \<Rightarrow> cdbg_ast \<Rightarrow> frame list \<times> cdbg_ast" where
  "reduce q (F_UN k # fs) e = reduce q fs (cdbg_ast_new_unop k e)"
| "reduce q (F_BIN p oper l # fs) e =
     (if q \<le> p then reduce q fs (cdbg_ast_new_binop oper l e) else (F_BIN p oper l # fs, e))"
| "reduce q fs e = (fs, e)"

text \<open>The machine: \<open>None\<close> expects an operand, \<open>Some e\<close> holds the expression read last.\<close>

fun exprp_run :: "frame list \<Rightarrow> cdbg_ast option \<Rightarrow> tok list \<Rightarrow> cdbg_ast option" where
  "exprp_run fs None [] = None"
| "exprp_run fs None (t # ts) =
     (case t of
        T_NUMBER v \<Rightarrow> exprp_run fs (Some (cdbg_ast_new_num v)) ts
      | T_FLOATNUM v \<Rightarrow> exprp_run fs (Some (cdbg_ast_new_float v)) ts
      | T_IDENT n \<Rightarrow> exprp_run fs (Some (cdbg_ast_new_ident n)) ts
      | _ \<Rightarrow>
          if t = T_CHAR (CHR ''('') then exprp_run (F_PAREN # fs) None ts
          else (case prefix_op t of
                  None \<Rightarrow> None
                | Some k \<Rightarrow> exprp_run (F_UN k # fs) None ts))"
| "exprp_run fs (Some e) [] = (case reduce 0 fs e of ([], r) \<Rightarrow> Some r | _ \<Rightarrow> None)"
| "exprp_run fs (Some e) [t] =
     (if t = T_CHAR (CHR '')'')
      then (case reduce 0 fs e of (F_PAREN # fs1, r) \<Rightarrow> exprp_run fs1 (Some r) [] | _ \<Rightarrow> None)
      else if t = T_CHAR (CHR '']'')
      then (case reduce 0 fs e of
              (F_INDEX b # fs1, r) \<Rightarrow> exprp_run fs1 (Some (cdbg_ast_new_index b r)) [] | _ \<Rightarrow> None)
      else None)"
| "exprp_run fs (Some e) (t # u # ts) =
     (if t = T_CHAR (CHR '')'')
      then (case reduce 0 fs e of (F_PAREN # fs1, r) \<Rightarrow> exprp_run fs1 (Some r) (u # ts) | _ \<Rightarrow> None)
      else if t = T_CHAR (CHR '']'')
      then (case reduce 0 fs e of
              (F_INDEX b # fs1, r) \<Rightarrow> exprp_run fs1 (Some (cdbg_ast_new_index b r)) (u # ts) | _ \<Rightarrow> None)
      else if t = T_CHAR (CHR ''['') then exprp_run (F_INDEX e # fs) None (u # ts)
      else if t = T_CHAR (CHR ''.'')
      then (case u of T_IDENT n \<Rightarrow> exprp_run fs (Some (cdbg_ast_new_member e n)) ts | _ \<Rightarrow> None)
      else if t = T_ARROW
      then (case u of T_IDENT n \<Rightarrow> exprp_run fs (Some (cdbg_ast_new_arrow e n)) ts | _ \<Rightarrow> None)
      else (case binary_op t of
              None \<Rightarrow> None
            | Some (q, oper) \<Rightarrow>
                (case reduce q fs e of (fs1, l) \<Rightarrow> exprp_run (F_BIN q oper l # fs1) None (u # ts))))"

definition cdbg_ast_parse :: "(string \<Rightarrow> u64) \<Rightarrow> string \<Rightarrow> cdbg_ast option" where
  "cdbg_ast_parse strtod text = exprp_run [] None (exprp_scan strtod text)"

section \<open>Printing and parsing back\<close>

text \<open>Levels of expressions as C has them, and the tokens with the fewest parentheses.\<close>

fun op_level :: "cdbg_ast_op \<Rightarrow> nat" where
  "op_level OP_LOR = 1" | "op_level OP_LAND = 2" | "op_level OP_BOR = 3" | "op_level OP_BXOR = 4"
| "op_level OP_BAND = 5" | "op_level OP_EQ = 6" | "op_level OP_NE = 6"
| "op_level OP_LT = 7" | "op_level OP_GT = 7" | "op_level OP_LE = 7" | "op_level OP_GE = 7"
| "op_level OP_SHL = 8" | "op_level OP_SHR = 8" | "op_level OP_ADD = 9" | "op_level OP_SUB = 9"
| "op_level OP_MUL = 10" | "op_level OP_DIV = 10" | "op_level OP_MOD = 10"

fun op_tok :: "cdbg_ast_op \<Rightarrow> tok" where
  "op_tok OP_LOR = T_OROR" | "op_tok OP_LAND = T_ANDAND" | "op_tok OP_BOR = T_CHAR (CHR ''|'')"
| "op_tok OP_BXOR = T_CHAR (CHR ''^'')" | "op_tok OP_BAND = T_CHAR (CHR ''&'')"
| "op_tok OP_EQ = T_EQ" | "op_tok OP_NE = T_NE" | "op_tok OP_LT = T_CHAR (CHR ''<'')"
| "op_tok OP_GT = T_CHAR (CHR ''>'')" | "op_tok OP_LE = T_LE" | "op_tok OP_GE = T_GE"
| "op_tok OP_SHL = T_LSHIFT" | "op_tok OP_SHR = T_RSHIFT" | "op_tok OP_ADD = T_CHAR (CHR ''+'')"
| "op_tok OP_SUB = T_CHAR (CHR ''-'')" | "op_tok OP_MUL = T_CHAR (CHR ''*'')"
| "op_tok OP_DIV = T_CHAR (CHR ''/'')" | "op_tok OP_MOD = T_CHAR (CHR ''%'')"

fun unop_tok :: "unop_kind \<Rightarrow> tok" where
  "unop_tok AST_POS = T_CHAR (CHR ''+'')" | "unop_tok AST_NEG = T_CHAR (CHR ''-'')"
| "unop_tok AST_NOT = T_CHAR (CHR ''!'')" | "unop_tok AST_BNOT = T_CHAR (CHR ''~'')"
| "unop_tok AST_ADDR = T_CHAR (CHR ''&'')" | "unop_tok AST_DEREF = T_CHAR (CHR ''*'')"

fun level :: "cdbg_ast \<Rightarrow> nat" where
  "level (AST_BINOP oper _ _) = op_level oper"
| "level (AST_UNOP _ _) = 11"
| "level _ = 12"

definition par :: "nat \<Rightarrow> cdbg_ast \<Rightarrow> tok list \<Rightarrow> tok list" where
  "par q e ts = (if level e < q then T_CHAR (CHR ''('') # ts @ [T_CHAR (CHR '')'')] else ts)"

primrec print_toks :: "cdbg_ast \<Rightarrow> tok list" where
  "print_toks (AST_NUM v) = [T_NUMBER v]"
| "print_toks (AST_FLOAT v) = [T_FLOATNUM v]"
| "print_toks (AST_IDENT n) = [T_IDENT n]"
| "print_toks (AST_BINOP oper l r) =
     par (op_level oper) l (print_toks l) @ op_tok oper # par (Suc (op_level oper)) r (print_toks r)"
| "print_toks (AST_UNOP k e) = unop_tok k # par 11 e (print_toks e)"
| "print_toks (AST_MEMBER e n) = par 12 e (print_toks e) @ [T_CHAR (CHR ''.''), T_IDENT n]"
| "print_toks (AST_ARROW e n) = par 12 e (print_toks e) @ [T_ARROW, T_IDENT n]"
| "print_toks (AST_INDEX e i) =
     par 12 e (print_toks e) @ T_CHAR (CHR ''['') # print_toks i @ [T_CHAR (CHR '']'')]"

lemmas ast_new_defs = cdbg_ast_new_num_def cdbg_ast_new_float_def cdbg_ast_new_ident_def cdbg_ast_new_binop_def
  cdbg_ast_new_unop_def cdbg_ast_new_member_def cdbg_ast_new_arrow_def cdbg_ast_new_index_def

lemma op_level_range [simp]: "0 < op_level oper" "op_level oper \<le> 10" "op_level oper < 11" "op_level oper < 12"
  by (cases oper; simp)+

lemma level_range [simp]: "0 < level e" "level e \<le> 12"
  by (cases e; simp add: order.trans [OF op_level_range(2)])+

lemma binary_op_tok [simp]: "binary_op (op_tok oper) = Some (op_level oper, oper)"
  by (cases oper) (simp_all add: binary_op_def)

lemma op_tok_other [simp]:
  "op_tok oper \<noteq> T_CHAR (CHR '')'')" "op_tok oper \<noteq> T_CHAR (CHR '']'')" "op_tok oper \<noteq> T_CHAR (CHR ''['')"
  "op_tok oper \<noteq> T_CHAR (CHR ''.'')" "op_tok oper \<noteq> T_ARROW"
  by (cases oper; simp)+

lemma print_toks_ne [simp]: "print_toks e \<noteq> []" "par q e (print_toks e) \<noteq> []"
  by (cases e; simp add: par_def)+

text \<open>The machine after an operand, one equation per kind of next token.\<close>

lemma run_rparen:
  "exprp_run fs (Some e) (T_CHAR (CHR '')'') # ts) =
     (case reduce 0 fs e of (F_PAREN # fs1, r) \<Rightarrow> exprp_run fs1 (Some r) ts | _ \<Rightarrow> None)"
  by (cases ts) (auto split: list.splits frame.splits prod.splits)

lemma run_rbracket:
  "exprp_run fs (Some e) (T_CHAR (CHR '']'') # ts) =
     (case reduce 0 fs e of (F_INDEX b # fs1, r) \<Rightarrow> exprp_run fs1 (Some (AST_INDEX b r)) ts | _ \<Rightarrow> None)"
  by (cases ts) (auto simp: ast_new_defs split: list.splits frame.splits prod.splits)

lemma run_lbracket:
  "ts \<noteq> [] \<Longrightarrow> exprp_run fs (Some e) (T_CHAR (CHR ''['') # ts) = exprp_run (F_INDEX e # fs) None ts"
  by (cases ts) simp_all

lemma run_op:
  "ts \<noteq> [] \<Longrightarrow> exprp_run fs (Some e) (op_tok oper # ts) =
     (case reduce (op_level oper) fs e of (fs1, l) \<Rightarrow> exprp_run (F_BIN (op_level oper) oper l # fs1) None ts)"
  by (cases ts) (simp_all split: prod.splits)

lemma run_member: "exprp_run fs (Some e) (T_CHAR (CHR ''.'') # T_IDENT n # ts) = exprp_run fs (Some (AST_MEMBER e n)) ts"
  and run_arrow: "exprp_run fs (Some e) (T_ARROW # T_IDENT n # ts) = exprp_run fs (Some (AST_ARROW e n)) ts"
  by (simp_all add: ast_new_defs)

lemma run_prefix: "exprp_run fs None (unop_tok k # ts) = exprp_run (F_UN k # fs) None ts"
  by (cases k) (simp_all add: prefix_op_def)

text \<open>What may follow an expression of a level without being drawn into it.\<close>

fun follows :: "nat \<Rightarrow> tok list \<Rightarrow> bool" where
  "follows q [] = True"
| "follows q (t # ts) \<longleftrightarrow> t = T_CHAR (CHR '')'') \<or> t = T_CHAR (CHR '']'') \<or>
     (t \<in> {T_CHAR (CHR ''.''), T_ARROW, T_CHAR (CHR ''['')} \<and> 12 \<le> q) \<or>
     (\<exists>p oper. binary_op t = Some (p, oper) \<and> p \<le> q \<and> t \<notin> {T_CHAR (CHR ''.''), T_ARROW, T_CHAR (CHR ''['')})"

lemma follows_mono: "follows q ts \<Longrightarrow> q \<le> q' \<Longrightarrow> follows q' ts"
  by (cases ts) auto

fun bound :: "frame list \<Rightarrow> nat" where
  "bound (F_BIN p _ _ # _) = p"
| "bound (F_UN _ # _) = 10"
| "bound _ = 0"

lemma reduce_bound: "bound fs < q \<Longrightarrow> q \<le> 10 \<Longrightarrow> reduce q fs e = (fs, e)"
  by (cases fs rule: bound.cases) auto

lemma run_binary_done:
  "follows q ts \<Longrightarrow> q \<le> 10 \<Longrightarrow>
     exprp_run (F_BIN q oper l # fs) (Some r) ts = exprp_run fs (Some (AST_BINOP oper l r)) ts"
  by (cases ts; cases "tl ts") (auto simp: ast_new_defs)

lemma run_unary_done:
  "follows 11 ts \<Longrightarrow> exprp_run (F_UN k # fs) (Some e) ts = exprp_run fs (Some (AST_UNOP k e)) ts"
  by (cases ts; cases "tl ts") (auto simp: ast_new_defs)

lemma run_par:
  assumes IH: "\<And>fs ts. bound fs < level e \<Longrightarrow> follows (level e) ts \<Longrightarrow>
      exprp_run fs None (print_toks e @ ts) = exprp_run fs (Some e) ts"
    and "bound fs < q" "follows q ts"
  shows "exprp_run fs None (par q e (print_toks e) @ ts) = exprp_run fs (Some e) ts"
proof (cases "level e < q")
  case True
  have "exprp_run (F_PAREN # fs) None (print_toks e @ T_CHAR (CHR '')'') # ts) =
      exprp_run (F_PAREN # fs) (Some e) (T_CHAR (CHR '')'') # ts)"
    by (rule IH) simp_all
  with True show ?thesis by (simp add: par_def run_rparen)
next
  case False
  then have "bound fs < level e" "follows (level e) ts"
    using assms(2,3) by (auto intro: follows_mono)
  from IH [OF this] False show ?thesis by (simp add: par_def del: exprp_run.simps)
qed

lemma run_print:
  "bound fs < level e \<Longrightarrow> follows (level e) ts \<Longrightarrow>
     exprp_run fs None (print_toks e @ ts) = exprp_run fs (Some e) ts"
proof (induction e arbitrary: fs ts)
  case (AST_BINOP oper l r)
  have l: "exprp_run fs None (par (op_level oper) l (print_toks l) @
        op_tok oper # par (Suc (op_level oper)) r (print_toks r) @ ts) =
      exprp_run fs (Some l) (op_tok oper # par (Suc (op_level oper)) r (print_toks r) @ ts)"
    using AST_BINOP.prems by (intro run_par AST_BINOP.IH(1)) simp_all
  have "exprp_run (F_BIN (op_level oper) oper l # fs) None (par (Suc (op_level oper)) r (print_toks r) @ ts) =
      exprp_run (F_BIN (op_level oper) oper l # fs) (Some r) ts"
    using AST_BINOP.prems by (intro run_par AST_BINOP.IH(2)) (auto elim: follows_mono)
  with l AST_BINOP.prems show ?case
    by (simp add: run_op reduce_bound run_binary_done)
next
  case (AST_UNOP k e)
  have "exprp_run (F_UN k # fs) None (par 11 e (print_toks e) @ ts) = exprp_run (F_UN k # fs) (Some e) ts"
    using AST_UNOP.prems by (intro run_par AST_UNOP.IH) simp_all
  with AST_UNOP.prems show ?case by (simp add: run_prefix run_unary_done del: exprp_run.simps)
next
  case (AST_MEMBER e n)
  have "exprp_run fs None (par 12 e (print_toks e) @ T_CHAR (CHR ''.'') # T_IDENT n # ts) =
      exprp_run fs (Some e) (T_CHAR (CHR ''.'') # T_IDENT n # ts)"
    using AST_MEMBER.prems by (intro run_par AST_MEMBER.IH) simp_all
  then show ?case by (simp add: ast_new_defs)
next
  case (AST_ARROW e n)
  have "exprp_run fs None (par 12 e (print_toks e) @ T_ARROW # T_IDENT n # ts) =
      exprp_run fs (Some e) (T_ARROW # T_IDENT n # ts)"
    using AST_ARROW.prems by (intro run_par AST_ARROW.IH) simp_all
  then show ?case by (simp add: ast_new_defs)
next
  case (AST_INDEX e i)
  have e: "exprp_run fs None (par 12 e (print_toks e) @ T_CHAR (CHR ''['') # print_toks i @ T_CHAR (CHR '']'') # ts) =
      exprp_run fs (Some e) (T_CHAR (CHR ''['') # print_toks i @ T_CHAR (CHR '']'') # ts)"
    using AST_INDEX.prems by (intro run_par AST_INDEX.IH(1)) simp_all
  have "exprp_run (F_INDEX e # fs) None (print_toks i @ T_CHAR (CHR '']'') # ts) =
      exprp_run (F_INDEX e # fs) (Some i) (T_CHAR (CHR '']'') # ts)"
    by (rule AST_INDEX.IH(2)) simp_all
  with e show ?case by (simp add: run_lbracket run_rbracket del: exprp_run.simps)
qed (simp_all add: ast_new_defs)

text \<open>C16: Every expression printed with only the parentheses that the C precedence and left
  associativity call for is parsed back to the same tree.\<close>

theorem parse_print_roundtrip: "exprp_run [] None (print_toks e) = Some e"
  using run_print [of "[]" e "[]"] by simp

end
