(* ===== verification/Disasm.thy ===== *)
theory Disasm
  imports State
begin

text \<open>
  debugger.c: the disassembly shown when a stop has no source line. The text of otool is tried
  first; otherwise a few x86-64 instructions are decoded from memory.
\<close>

section \<open>The otool text\<close>

record disasm_entry =
  da_address :: addr
  da_text :: string

definition disasm_entry_push :: "disasm_entry list \<Rightarrow> addr \<Rightarrow> string \<Rightarrow> disasm_entry list" where
  "disasm_entry_push entries a text = entries @ [\<lparr>da_address = a, da_text = snprintf_s 512 text\<rparr>]"

definition isxdigit :: "char \<Rightarrow> bool" where
  "isxdigit c \<longleftrightarrow> is_dig 16 c"

definition parse_otool_instruction :: "string \<Rightarrow> (addr \<times> string) option" where
  "parse_otool_instruction line =
     (let p = dropWhile isspace line
      in if p = [] \<or> \<not> isxdigit (hd p) then None
         else (case strtoull 16 p of
                 None \<Rightarrow> None
               | Some (value, end) \<Rightarrow>
                   if end = [] \<or> \<not> isspace (hd end) then None
                   else Some (value, strip_newlines (dropWhile isspace end))))"

definition load_otool_disassembly :: "'w kern \<Rightarrow> cdbg \<Rightarrow> 'w \<Rightarrow> disasm_entry list option" where
  "load_otool_disassembly K dbg w =
     (if d_executable_path dbg = [] then None
      else let cmd = ''otool -tvV '' @ [CHR 0x27] @ d_executable_path dbg @ [CHR 0x27] @ '' 2>/dev/null''
           in if CDBG_MAX_PATH + 64 \<le> length cmd then None
              else (case k_popen K cmd w of
                      None \<Rightarrow> None
                    | Some (text, _) \<Rightarrow>
                        let entries = foldl (\<lambda>es line. case parse_otool_instruction line of
                                               None \<Rightarrow> es | Some (a, t) \<Rightarrow> disasm_entry_push es a t)
                                        [] (fgets_lines 1024 text)
                        in if entries = [] then None else Some entries))"

definition disasm_slide :: "cdbg \<Rightarrow> addr" where
  "disasm_slide dbg = (if ln_slide (d_lineno dbg) \<noteq> 0 then ln_slide (d_lineno dbg) else sy_slide (d_syms dbg))"

text \<open>The last entry of the leading run at or below the counter; the loop breaks behind it.\<close>

fun disasm_start :: "addr \<Rightarrow> nat \<Rightarrow> nat \<Rightarrow> disasm_entry list \<Rightarrow> nat" where
  "disasm_start link_pc i start [] = start"
| "disasm_start link_pc i start (e # es) =
     (if da_address e \<le> link_pc then disasm_start link_pc (Suc i) i es else start)"

fun print_disasm_entries :: "'w kern \<Rightarrow> addr \<Rightarrow> addr \<Rightarrow> disasm_entry list \<Rightarrow> 'w \<Rightarrow> 'w" where
  "print_disasm_entries K slide runtime_pc [] w = w"
| "print_disasm_entries K slide runtime_pc (e # es) w =
     (let runtime_addr = da_address e + slide
      in print_disasm_entries K slide runtime_pc es
           (k_print K (fmtln ''%s 0x%016lx: %s'')
              [Arg_str (if runtime_addr = runtime_pc then ''=>'' else ''  ''), Arg_word runtime_addr,
               Arg_str (da_text e)] w))"

definition print_disasm_header :: "'w kern \<Rightarrow> string \<Rightarrow> addr \<Rightarrow> 'w \<Rightarrow> 'w" where
  "print_disasm_header K label pc w =
     (if label \<noteq> []
      then k_print K (CHR 0x0A # fmtln ''Disassembly at %s (0x%lx):'') [Arg_str label, Arg_word pc] w
      else k_print K (CHR 0x0A # fmtln ''Disassembly at 0x%lx:'') [Arg_word pc] w)"

definition print_otool_disassembly_range ::
  "'w kern \<Rightarrow> cdbg \<Rightarrow> addr \<Rightarrow> nat \<Rightarrow> string \<Rightarrow> 'w \<Rightarrow> bool \<times> 'w" where
  "print_otool_disassembly_range K dbg runtime_pc insn_count label w =
     (case load_otool_disassembly K dbg w of
        None \<Rightarrow> (False, w)
      | Some entries \<Rightarrow>
          let slide = disasm_slide dbg; link_pc = runtime_pc - slide; count = length entries;
              start = disasm_start link_pc 0 count entries
          in if start = count \<or> 32 < link_pc - da_address (entries ! start) then (False, w)
             else (True, k_print K [CHR 0x0A] []
                     (print_disasm_entries K slide runtime_pc (take insn_count (drop start entries))
                        (print_disasm_header K label runtime_pc w))))"

definition print_otool_disassembly :: "'w kern \<Rightarrow> cdbg \<Rightarrow> addr \<Rightarrow> 'w \<Rightarrow> bool \<times> 'w" where
  "print_otool_disassembly K dbg pc w = print_otool_disassembly_range K dbg pc 1 [] w"

section \<open>The x86-64 decoder\<close>

definition x86_reg64 :: "u8 \<Rightarrow> string" where
  "x86_reg64 reg =
     [''%rax'', ''%rcx'', ''%rdx'', ''%rbx'', ''%rsp'', ''%rbp'', ''%rsi'', ''%rdi''] ! unat (reg AND 7)"

definition u32_le :: "u8 list \<Rightarrow> u32" where
  "u32_le bs = ucast (bs ! 0) OR push_bit 8 (ucast (bs ! 1)) OR push_bit 16 (ucast (bs ! 2))
     OR push_bit 24 (ucast (bs ! 3))"

definition read_i32_le :: "u8 list \<Rightarrow> u64" where
  "read_i32_le bs = scast (u32_le bs)"

definition hex_word :: "u64 \<Rightarrow> string" where "hex_word v = hex_str (unat v)"
definition hex_byte :: "u8 \<Rightarrow> string" where "hex_byte b = zero_pad 2 (hex_str (unat b))"

definition branch :: "string \<Rightarrow> u64 \<Rightarrow> nat \<Rightarrow> string \<times> nat" where
  "branch mnemonic target used = (mnemonic @ '' 0x'' @ hex_word target, used)"

definition decode_fallback :: "u8 list \<Rightarrow> string \<times> nat" where
  "decode_fallback bytes = (''.byte 0x'' @ hex_byte (hd bytes), 1)"

text \<open>The REX.W instructions: \<open>None\<close> when the bytes fall through to \<open>.byte\<close>.\<close>

definition decode_rex_w :: "u8 list \<Rightarrow> (string \<times> nat) option" where
  "decode_rex_w bytes =
     (let len = length bytes; oper = bytes ! 1; modrm = bytes ! 2;
          md = drop_bit 6 modrm AND 3; reg = drop_bit 3 modrm AND 7; rm = modrm AND 7
      in if oper = 0x89 \<and> md = 3 then Some (''movq '' @ x86_reg64 reg @ '', '' @ x86_reg64 rm, 3)
         else if oper = 0x8b \<and> md = 3 then Some (''movq '' @ x86_reg64 rm @ '', '' @ x86_reg64 reg, 3)
         else case (if oper = 0x83 \<and> 4 \<le> len \<and> md = 3
                    then (if reg = 0 then Some ''addq'' else if reg = 4 then Some ''andq''
                          else if reg = 5 then Some ''subq'' else if reg = 7 then Some ''cmpq'' else None)
                    else None) of
           Some mnemonic \<Rightarrow>
             Some (mnemonic @ '' $0x'' @ hex_str (unat (bytes ! 3)) @ '', '' @ x86_reg64 rm, 4)
         | None \<Rightarrow>
             if oper = 0xc7 \<and> 7 \<le> len \<and> md = 3 \<and> reg = 0
             then Some (''movq $0x'' @ hex_str (unat (u32_le (drop 3 bytes))) @ '', '' @ x86_reg64 rm, 7)
             else None)"

definition decode_x86_64_instruction :: "addr \<Rightarrow> u8 list \<Rightarrow> nat \<Rightarrow> string \<times> nat" where
  "decode_x86_64_instruction pc bytes out_len =
     (let len = length bytes;
          (text, used) =
            (if bytes = [] then ([], 0)
             else let b = hd bytes
                  in if b = 0x55 then (''pushq %rbp'', 1)
                     else if b = 0x5d then (''popq %rbp'', 1)
                     else if b = 0xc3 then (''retq'', 1)
                     else if b = 0x90 then (''nop'', 1)
                     else if b = 0xcc then (''int3'', 1)
                     else if b = 0x6a \<and> 2 \<le> len then (''pushq $0x'' @ hex_byte (bytes ! 1), 2)
                     else if b = 0xe8 \<and> 5 \<le> len then branch ''callq'' (pc + 5 + read_i32_le (tl bytes)) 5
                     else if b = 0xe9 \<and> 5 \<le> len then branch ''jmp'' (pc + 5 + read_i32_le (tl bytes)) 5
                     else if b = 0xeb \<and> 2 \<le> len then branch ''jmp'' (pc + 2 + scast (bytes ! 1)) 2
                     else if (b = 0x74 \<or> b = 0x75) \<and> 2 \<le> len
                     then branch (if b = 0x74 then ''je'' else ''jne'') (pc + 2 + scast (bytes ! 1)) 2
                     else if b = 0x0f \<and> 6 \<le> len \<and> (bytes ! 1 = 0x84 \<or> bytes ! 1 = 0x85)
                     then branch (if bytes ! 1 = 0x84 then ''je'' else ''jne'') (pc + 6 + read_i32_le (drop 2 bytes)) 6
                     else (case (if b = 0x48 \<and> 3 \<le> len then decode_rex_w bytes else None) of
                             Some r \<Rightarrow> r
                           | None \<Rightarrow> decode_fallback bytes))
      in (snprintf_s out_len text, used))"

section \<open>Disassembly of memory\<close>

definition decode_at :: "arch \<Rightarrow> addr \<Rightarrow> u8 list \<Rightarrow> string \<times> nat" where
  "decode_at a pc bytes =
     (let (text, used) = (case a of
            X86_64 \<Rightarrow> decode_x86_64_instruction pc bytes 128
          | AArch64 \<Rightarrow> if 4 \<le> length bytes
                       then (''.inst 0x'' @ zero_pad 8 (hex_str (unat (u32_le bytes))), 4) else ([], 0))
      in if used = 0 then decode_fallback bytes else (text, used))"

fun print_bytes :: "'w kern \<Rightarrow> u8 list \<Rightarrow> 'w \<Rightarrow> 'w" where
  "print_bytes K [] w = w"
| "print_bytes K (b # bs) w = print_bytes K bs (k_print K '' %02x'' [Arg_int (uint b)] w)"

fun print_memory_insns :: "'w kern \<Rightarrow> addr \<Rightarrow> nat \<Rightarrow> nat \<Rightarrow> u8 list \<Rightarrow> 'w \<Rightarrow> 'w" where
  "print_memory_insns K pc 0 offset bytes w = w"
| "print_memory_insns K pc (Suc n) offset bytes w =
     (if offset < length bytes
      then let here = pc + of_nat offset; rest = drop offset bytes;
               (text, used) = decode_at (k_arch K) here rest;
               w1 = k_print K ''%s 0x%016lx: %-24s ;''
                      [Arg_str (if here = pc then ''=>'' else ''  ''), Arg_word here, Arg_str text] w;
               w2 = k_print K [CHR 0x0A] [] (print_bytes K (take used rest) w1)
           in print_memory_insns K pc n (offset + used) bytes w2
      else w)"

definition print_memory_disassembly_range ::
  "'w kern \<Rightarrow> cdbg \<Rightarrow> addr \<Rightarrow> nat \<Rightarrow> string \<Rightarrow> 'w \<Rightarrow> 'w" where
  "print_memory_disassembly_range K dbg pc insn_count label w =
     (case cdbg_mem_read K (d_pid dbg) pc 256 w of
        None \<Rightarrow> w
      | Some bytes \<Rightarrow>
          k_print K [CHR 0x0A] [] (print_memory_insns K pc insn_count 0 bytes (print_disasm_header K label pc w)))"

definition print_disassembly_range :: "'w kern \<Rightarrow> cdbg \<Rightarrow> addr \<Rightarrow> nat \<Rightarrow> string \<Rightarrow> 'w \<Rightarrow> 'w" where
  "print_disassembly_range K dbg pc count label w =
     (case print_otool_disassembly_range K dbg pc count label w of
        (True, w1) \<Rightarrow> w1
      | (False, w1) \<Rightarrow> print_memory_disassembly_range K dbg pc count label w1)"

definition print_disassembly_at_pc :: "'w kern \<Rightarrow> cdbg \<Rightarrow> addr \<Rightarrow> 'w \<Rightarrow> 'w" where
  "print_disassembly_at_pc K dbg pc w =
     (case print_otool_disassembly K dbg pc w of
        (True, w1) \<Rightarrow> w1
      | (False, w1) \<Rightarrow> print_memory_disassembly_range K dbg pc 1 [] w1)"

definition get_primary_thread_id :: "'w kern \<Rightarrow> int \<Rightarrow> 'w \<Rightarrow> u64" where
  "get_primary_thread_id K pid w = (case k_task_for_pid K pid w of
       None \<Rightarrow> 0
     | Some task \<Rightarrow> (case k_task_threads K task w of
         None \<Rightarrow> 0
       | Some threads \<Rightarrow> if threads = [] then 0 else tid_of_thread K (hd threads) w))"

definition print_stop_header :: "'w kern \<Rightarrow> cdbg \<Rightarrow> 'w \<Rightarrow> 'w" where
  "print_stop_header K dbg w =
     (let tid = (if d_current_tid dbg = CDBG_TID_PRIMARY then get_primary_thread_id K (d_pid dbg) w
                 else d_current_tid dbg)
      in if tid \<noteq> 0 then k_print K (fmtln ''[PID: %d  TID: %llu]'') [Arg_int (d_pid dbg), Arg_word tid] w
         else k_print K (fmtln ''[PID: %d]'') [Arg_int (d_pid dbg)] w)"

definition print_stop_location :: "'w kern \<Rightarrow> cdbg \<Rightarrow> addr \<Rightarrow> 'w \<Rightarrow> 'w" where
  "print_stop_location K dbg pc w =
     (case cdbg_lineno_print_source_at_pc K (d_lineno dbg) pc w of
        (True, w1) \<Rightarrow> w1
      | (False, w1) \<Rightarrow> print_disassembly_at_pc K dbg pc w1)"

section \<open>Properties\<close>

lemma decode_rex_w_used:
  "decode_rex_w bytes = Some (text, used) \<Longrightarrow> 3 \<le> length bytes \<Longrightarrow> 1 \<le> used \<and> used \<le> length bytes"
  by (auto simp: decode_rex_w_def Let_def split: if_splits option.splits)

text \<open>C36: Every decoded instruction takes at least one byte and no more than there are, so the
  listing moves forward and never reads behind its buffer.\<close>

theorem decode_x86_bounds:
  "bytes \<noteq> [] \<Longrightarrow> snd (decode_x86_64_instruction pc bytes n) \<in> {1..length bytes}"
proof -
  assume ne: "bytes \<noteq> []"
  then have l: "1 \<le> length bytes" by (simp add: Suc_le_eq)
  show ?thesis
  proof (cases "(if hd bytes = 0x48 \<and> 3 \<le> length bytes then decode_rex_w bytes else None)")
    case None
    with ne l show ?thesis
      unfolding decode_x86_64_instruction_def Let_def None
      by (simp add: branch_def decode_fallback_def split: if_split)
  next
    case (Some r)
    then have "1 \<le> snd r \<and> snd r \<le> length bytes"
      by (cases r) (auto dest: decode_rex_w_used split: if_splits)
    with ne l Some show ?thesis
      unfolding decode_x86_64_instruction_def Let_def Some
      by (cases r) (simp add: branch_def split: if_split)
  qed
qed

theorem decode_x86_bounds_witness:
  "snd (decode_x86_64_instruction 0x1000 [0x48, 0x89, 0xe5] 128) \<in> {1..length [0x48 :: u8, 0x89, 0xe5]}"
  by (rule decode_x86_bounds) simp

end
