(* ===== verification/Control.thy ===== *)
theory Control
  imports Disasm
begin

text \<open>
  debugger.c: running the debuggee. Waiting, the breakpoint re-arming after a stop, continue and
  single step, the reports of a stop, and the line-level step commands with their thread guard.
  A result is the return code, the new debugger state and the new machine; \<open>None\<close> means that
  the call never returns, which only \<open>waitpid\<close> can cause: it blocks for ever (\<open>continue\<close> on an endless
  program) or is interrupted for ever. The loops over single
  steps carry the source's own limit of iterations.
\<close>

type_synonym 'w result = "(int \<times> cdbg \<times> 'w) option"

section \<open>Waiting (process.c)\<close>

partial_function (option) cdbg_process_wait :: "'w kern \<Rightarrow> int \<Rightarrow> 'w \<Rightarrow> (int option \<times> 'w) option" where
  "cdbg_process_wait K pid w = (case k_waitpid K pid w of
       None \<Rightarrow> None
     | Some (Wait_Eintr, w1) \<Rightarrow> cdbg_process_wait K pid w1
     | Some (Wait_Status status, w1) \<Rightarrow> Some (Some status, w1)
     | Some (Wait_Error, w1) \<Rightarrow> Some (None, w1))"

text \<open>The status macros of sys/wait.h.\<close>

definition WIFEXITED :: "int \<Rightarrow> bool" where "WIFEXITED st \<longleftrightarrow> st mod 128 = 0"
definition WIFSIGNALED :: "int \<Rightarrow> bool" where "WIFSIGNALED st \<longleftrightarrow> st mod 128 \<noteq> 127 \<and> st mod 128 \<noteq> 0"
definition WEXITSTATUS :: "int \<Rightarrow> int" where "WEXITSTATUS st = st div 256 mod 256"
definition WTERMSIG :: "int \<Rightarrow> int" where "WTERMSIG st = st mod 128"

section \<open>Re-arming breakpoints\<close>

definition disabled_breakpoint_at_pc :: "cdbg \<Rightarrow> addr \<Rightarrow> cdbg_breakpoint option" where
  "disabled_breakpoint_at_pc dbg pc = List.find (\<lambda>bp. \<not> bp_enabled bp \<and> bp_addr bp = pc) (d_breakpoints dbg)"

fun reenable_loop ::
  "'w kern \<Rightarrow> int \<Rightarrow> addr \<Rightarrow> cdbg_breakpoint list \<Rightarrow> 'w \<Rightarrow> bool \<times> cdbg_breakpoint list \<times> 'w" where
  "reenable_loop K pid pc [] w = (True, [], w)"
| "reenable_loop K pid pc (bp # bps) w =
     (if \<not> bp_enabled bp \<and> bp_addr bp \<noteq> pc
      then (case cdbg_bp_enable K bp pid (bp_addr bp) w of
              (False, bp1, w1) \<Rightarrow> (False, bp1 # bps, w1)
            | (True, bp1, w1) \<Rightarrow>
                (case reenable_loop K pid pc bps w1 of (ok, bps1, w2) \<Rightarrow> (ok, bp1 # bps1, w2)))
      else (case reenable_loop K pid pc bps w of (ok, bps1, w1) \<Rightarrow> (ok, bp # bps1, w1)))"

definition reenable_breakpoints_after_step :: "'w kern \<Rightarrow> cdbg \<Rightarrow> 'w \<Rightarrow> bool \<times> cdbg \<times> 'w" where
  "reenable_breakpoints_after_step K dbg w =
     (if d_breakpoints dbg = [] \<or> d_state dbg \<noteq> CDBG_STATE_STOPPED then (True, dbg, w)
      else case cdbg_refresh_regs K dbg w of
        (False, dbg1) \<Rightarrow> (False, dbg1, w)
      | (True, dbg1) \<Rightarrow>
          (case reenable_loop K (d_pid dbg1) (cdbg_regs_pc (d_regs dbg1)) (d_breakpoints dbg1) w of
             (ok, bps, w1) \<Rightarrow> (ok, dbg1\<lparr>d_breakpoints := bps\<rparr>, w1)))"

definition cdbg_wait :: "'w kern \<Rightarrow> cdbg \<Rightarrow> 'w \<Rightarrow> 'w result" where
  "cdbg_wait K dbg w = do {
     (status, w1) \<leftarrow> cdbg_process_wait K (d_pid dbg) w;
     (case status of
        None \<Rightarrow> Some (- 1, dbg, w1)
      | Some st \<Rightarrow>
          let dbg1 = dbg\<lparr>d_wait_status := st\<rparr>
          in if WIFEXITED st \<or> WIFSIGNALED st then Some (1, dbg1\<lparr>d_state := CDBG_STATE_IDLE\<rparr>, w1)
             else (case reenable_breakpoints_after_step K (dbg1\<lparr>d_state := CDBG_STATE_STOPPED\<rparr>) w1 of
                     (ok, dbg2, w2) \<Rightarrow> Some (if ok then 0 else - 1, dbg2, w2)))}"

section \<open>Continue and single step\<close>

definition cdbg_single_step :: "'w kern \<Rightarrow> cdbg \<Rightarrow> 'w \<Rightarrow> int \<times> cdbg \<times> 'w" where
  "cdbg_single_step K dbg w = (case k_pt_step K (d_pid dbg) w of
       (False, w1) \<Rightarrow> (- 1, dbg, w1)
     | (True, w1) \<Rightarrow> (0, dbg\<lparr>d_state := CDBG_STATE_RUNNING\<rparr>, w1))"

definition step_over_disabled_breakpoint :: "'w kern \<Rightarrow> cdbg \<Rightarrow> 'w \<Rightarrow> 'w result" where
  "step_over_disabled_breakpoint K dbg w =
     (if d_state dbg \<noteq> CDBG_STATE_STOPPED \<or> d_breakpoints dbg = [] then Some (0, dbg, w)
      else case cdbg_refresh_regs K dbg w of
        (False, dbg1) \<Rightarrow> Some (- 1, dbg1, w)
      | (True, dbg1) \<Rightarrow>
          if disabled_breakpoint_at_pc dbg1 (cdbg_regs_pc (d_regs dbg1)) = None then Some (0, dbg1, w)
          else (case cdbg_single_step K dbg1 w of
                  (rc, dbg2, w1) \<Rightarrow> if rc \<noteq> 0 then Some (- 1, dbg2, w1) else cdbg_wait K dbg2 w1))"

definition cdbg_continue :: "'w kern \<Rightarrow> cdbg \<Rightarrow> 'w \<Rightarrow> 'w result" where
  "cdbg_continue K dbg w = do {
     (step_rc, dbg1, w1) \<leftarrow> step_over_disabled_breakpoint K dbg w;
     if step_rc \<noteq> 0 then Some (step_rc, dbg1, w1)
     else if d_state dbg1 = CDBG_STATE_IDLE then Some (0, dbg1, w1)
     else (case k_pt_continue K (d_pid dbg1) w1 of
             (False, w2) \<Rightarrow> Some (- 1, dbg1, w2)
           | (True, w2) \<Rightarrow> Some (0, dbg1\<lparr>d_state := CDBG_STATE_RUNNING\<rparr>, w2))}"

section \<open>Reporting a stop\<close>

definition bp_off :: "cdbg_breakpoint \<Rightarrow> cdbg_breakpoint" where
  "bp_off bp = bp\<lparr>bp_enabled := False\<rparr>"

definition wp_off :: "cdbg_watchpoint \<Rightarrow> cdbg_watchpoint" where
  "wp_off wp = wp\<lparr>wp_enabled := False\<rparr>"

definition handle_breakpoint_hit :: "'w kern \<Rightarrow> cdbg \<Rightarrow> nat \<Rightarrow> 'w \<Rightarrow> int \<times> cdbg \<times> 'w" where
  "handle_breakpoint_hit K dbg index w =
     (case cdbg_bp_disable K (d_breakpoints dbg ! index) (d_pid dbg) w of
        (False, bp, w1) \<Rightarrow> (- 1, dbg, w1)
      | (True, bp, w1) \<Rightarrow>
          (case cdbg_refresh_regs K (dbg\<lparr>d_breakpoints := (d_breakpoints dbg)[index := bp]\<rparr>) w1 of
             (False, dbg1) \<Rightarrow> (- 1, dbg1, w1)
           | (True, dbg1) \<Rightarrow>
               let pc = cdbg_regs_pc (d_regs dbg1);
                   (ok, dbg2, w2) =
                     (if 0 < pc
                      then (let dbg2 = dbg1\<lparr>d_regs := cdbg_regs_set_pc (d_regs dbg1) (pc - 1)\<rparr>
                            in (case cdbg_regs_set K (d_pid dbg2) (d_current_tid dbg2) (d_regs dbg2) w1 of
                                  (ok, w2) \<Rightarrow> (ok, dbg2, w2)))
                      else (True, dbg1, w1))
               in if \<not> ok then (- 1, dbg2, w2)
                  else (0, dbg2, print_stop_location K dbg2 (bp_addr bp)
                          (k_print K (fmtln ''Breakpoint hit at 0x%lx'') [Arg_word (bp_addr bp)] w2))))"

text \<open>The watched value: the bytes read, in an eight-byte buffer.\<close>

definition wp_value :: "'w kern \<Rightarrow> int \<Rightarrow> cdbg_watchpoint \<Rightarrow> 'w \<Rightarrow> u64 option" where
  "wp_value K pid wp w = map_option word_of (cdbg_mem_read K pid (wp_addr wp) (wp_size wp) w)"

fun find_watchpoint_loop :: "'w kern \<Rightarrow> int \<Rightarrow> nat \<Rightarrow> cdbg_watchpoint list \<Rightarrow> 'w \<Rightarrow> nat option" where
  "find_watchpoint_loop K pid i [] w = None"
| "find_watchpoint_loop K pid i (wp # wps) w =
     (if \<not> wp_enabled wp then find_watchpoint_loop K pid (Suc i) wps w
      else case wp_value K pid wp w of
        None \<Rightarrow> find_watchpoint_loop K pid (Suc i) wps w
      | Some current \<Rightarrow>
          if current \<noteq> wp_old_value wp then Some i else find_watchpoint_loop K pid (Suc i) wps w)"

definition find_watchpoint_hit :: "'w kern \<Rightarrow> cdbg \<Rightarrow> 'w \<Rightarrow> nat option" where
  "find_watchpoint_hit K dbg w = find_watchpoint_loop K (d_pid dbg) 0 (d_watchpoints dbg) w"

definition report_watchpoint_hit :: "'w kern \<Rightarrow> cdbg \<Rightarrow> nat \<Rightarrow> 'w \<Rightarrow> cdbg \<times> 'w" where
  "report_watchpoint_hit K dbg index w =
     (let wp = d_watchpoints dbg ! index;
          current = (case cdbg_mem_read K (d_pid dbg) (wp_addr wp) (wp_size wp) w of
              None \<Rightarrow> wp_old_value wp
            | Some bs \<Rightarrow> word_of (bs @ drop (length bs) (bytes_of 8 (wp_old_value wp))));
          w1 = k_print K (fmtln ''Watchpoint %zu: %s'') [Arg_int (int index), Arg_str (wp_expr wp)] w;
          w2 = k_print K (fmtln ''  Old value: 0x%llx'') [Arg_word (wp_old_value wp)] w1;
          w3 = k_print K (fmtln ''  New value: 0x%llx'') [Arg_word current] w2;
          dbg1 = dbg\<lparr>d_watchpoints := (d_watchpoints dbg)[index := wp\<lparr>wp_old_value := current\<rparr>]\<rparr>
      in (dbg1, print_stop_location K dbg1 (cdbg_regs_pc (d_regs dbg1)) w3))"

definition report_process_exit :: "'w kern \<Rightarrow> cdbg \<Rightarrow> 'w \<Rightarrow> cdbg \<times> 'w" where
  "report_process_exit K dbg w =
     (if d_state dbg \<noteq> CDBG_STATE_IDLE then (dbg, w)
      else let st = d_wait_status dbg; pid = d_pid dbg;
               w1 = (if WIFEXITED st
                     then k_print K (fmtln ''Process %d exited with code %d'') [Arg_int pid, Arg_int (WEXITSTATUS st)] w
                     else if WIFSIGNALED st
                     then k_print K (fmtln ''Process %d terminated by signal %d'') [Arg_int pid, Arg_int (WTERMSIG st)] w
                     else k_print K (fmtln ''Process %d exited'') [Arg_int pid] w)
           in (dbg\<lparr>d_breakpoints := map bp_off (d_breakpoints dbg),
                   d_watchpoints := map wp_off (d_watchpoints dbg), d_pid := 0\<rparr>, w1))"

fun resync_loop :: "'w kern \<Rightarrow> int \<Rightarrow> nat \<Rightarrow> cdbg_watchpoint list \<Rightarrow> 'w \<Rightarrow> 'w" where
  "resync_loop K pid i [] w = w"
| "resync_loop K pid i (wp # wps) w =
     resync_loop K pid (Suc i) wps
       (if \<not> wp_enabled wp then w
        else snd (cdbg_wp_hw_install K pid (int i) (wp_addr wp) (wp_size wp) (wp_mode wp) w))"

definition resync_watchpoints_to_all_threads :: "'w kern \<Rightarrow> cdbg \<Rightarrow> 'w \<Rightarrow> 'w" where
  "resync_watchpoints_to_all_threads K dbg w = resync_loop K (d_pid dbg) 0 (d_watchpoints dbg) w"

definition tid_of_info :: "cdbg_thread_info \<Rightarrow> u64" where
  "tid_of_info t = (if ti_is_primary t then CDBG_TID_PRIMARY else ti_tid t)"

fun trapped_thread :: "'w kern \<Rightarrow> cdbg \<Rightarrow> cdbg_thread_info list \<Rightarrow> 'w \<Rightarrow> u64 option" where
  "trapped_thread K dbg [] w = None"
| "trapped_thread K dbg (t # ts) w =
     (case cdbg_regs_get K (d_pid dbg) (tid_of_info t) (zero_regs (k_arch K)) w of
        (False, _) \<Rightarrow> trapped_thread K dbg ts w
      | (True, regs) \<Rightarrow>
          if cdbg_bp_is_trap (k_arch K) (cdbg_regs_pc regs) (d_breakpoints dbg)
          then Some (tid_of_info t) else trapped_thread K dbg ts w)"

definition switch_current_tid_to_breakpoint_hit :: "'w kern \<Rightarrow> cdbg \<Rightarrow> 'w \<Rightarrow> cdbg" where
  "switch_current_tid_to_breakpoint_hit K dbg w =
     (if d_breakpoints dbg = [] then dbg
      else case cdbg_threads_list K (d_pid dbg) CDBG_MAX_THREADS w of
        None \<Rightarrow> dbg
      | Some threads \<Rightarrow> (case trapped_thread K dbg threads w of
          None \<Rightarrow> dbg
        | Some tid \<Rightarrow> dbg\<lparr>d_current_tid := tid\<rparr>))"

fun first_matching_bp :: "arch \<Rightarrow> addr \<Rightarrow> nat \<Rightarrow> cdbg_breakpoint list \<Rightarrow> nat option" where
  "first_matching_bp a pc i [] = None"
| "first_matching_bp a pc i (bp # bps) =
     (if cdbg_bp_matches_pc a pc bp then Some i else first_matching_bp a pc (Suc i) bps)"

definition report_stop :: "'w kern \<Rightarrow> cdbg \<Rightarrow> 'w \<Rightarrow> int \<times> cdbg \<times> 'w" where
  "report_stop K dbg w =
     (let w1 = resync_watchpoints_to_all_threads K dbg w;
          dbg1 = switch_current_tid_to_breakpoint_hit K dbg w1
      in (case cdbg_refresh_regs K dbg1 w1 of
            (False, dbg2) \<Rightarrow> (- 1, dbg2, w1)
          | (True, dbg2) \<Rightarrow>
              let w2 = print_stop_header K dbg2 w1; pc = cdbg_regs_pc (d_regs dbg2)
              in (case (if cdbg_bp_is_trap (k_arch K) pc (d_breakpoints dbg2)
                        then first_matching_bp (k_arch K) pc 0 (d_breakpoints dbg2) else None) of
                    Some i \<Rightarrow> handle_breakpoint_hit K dbg2 i w2
                  | None \<Rightarrow>
                      (case find_watchpoint_hit K dbg2 w2 of
                         Some i \<Rightarrow> (case report_watchpoint_hit K dbg2 i w2 of (dbg3, w3) \<Rightarrow> (0, dbg3, w3))
                       | None \<Rightarrow>
                           (0, dbg2, print_stop_location K dbg2 pc
                              (k_print K (fmtln ''Stopped (pc=0x%lx)'') [Arg_word pc] w2))))))"

definition cdbg_print_stop_context :: "'w kern \<Rightarrow> cdbg \<Rightarrow> 'w \<Rightarrow> cdbg \<times> 'w" where
  "cdbg_print_stop_context K dbg w = (case cdbg_refresh_regs K dbg w of
       (False, dbg1) \<Rightarrow> (dbg1, w)
     | (True, dbg1) \<Rightarrow> (dbg1, print_stop_location K dbg1 (cdbg_regs_pc (d_regs dbg1)) w))"

section \<open>Stepping over a call\<close>

definition call_return_address :: "'w kern \<Rightarrow> cdbg \<Rightarrow> addr \<Rightarrow> 'w \<Rightarrow> addr option" where
  "call_return_address K dbg pc w = (case k_arch K of
       X86_64 \<Rightarrow> (case cdbg_mem_read K (d_pid dbg) pc 1 w of
           None \<Rightarrow> None
         | Some bs \<Rightarrow> if hd bs = 0xe8 then Some (pc + 5) else None)
     | AArch64 \<Rightarrow> (case cdbg_mem_read K (d_pid dbg) pc 4 w of
           None \<Rightarrow> None
         | Some bs \<Rightarrow> if u32_le bs AND 0xfc000000 = 0x94000000 then Some (pc + 4) else None))"

text \<open>\<open>(void)cdbg_bp_disable(&temp_bp, dbg->pid)\<close>.\<close>

definition drop_temp :: "'w kern \<Rightarrow> cdbg \<Rightarrow> cdbg_breakpoint \<Rightarrow> 'w \<Rightarrow> 'w" where
  "drop_temp K dbg temp_bp w = snd (snd (cdbg_bp_disable K temp_bp (d_pid dbg) w))"

definition finish_temp_breakpoint :: "'w kern \<Rightarrow> cdbg \<Rightarrow> cdbg_breakpoint \<Rightarrow> 'w \<Rightarrow> int \<times> cdbg \<times> 'w" where
  "finish_temp_breakpoint K dbg temp_bp w = (case cdbg_refresh_regs K dbg w of
       (False, dbg1) \<Rightarrow> (- 1, dbg1, drop_temp K dbg1 temp_bp w)
     | (True, dbg1) \<Rightarrow>
         if \<not> cdbg_bp_matches_pc (k_arch K) (cdbg_regs_pc (d_regs dbg1)) temp_bp
         then report_stop K dbg1 (drop_temp K dbg1 temp_bp w)
         else (case cdbg_bp_disable K temp_bp (d_pid dbg1) w of
                 (False, _, w1) \<Rightarrow> (- 1, dbg1, w1)
               | (True, _, w1) \<Rightarrow>
                   (case k_arch K of
                      AArch64 \<Rightarrow> (0, dbg1, w1)
                    | X86_64 \<Rightarrow>
                        let dbg2 = dbg1\<lparr>d_regs := cdbg_regs_set_pc (d_regs dbg1) (bp_addr temp_bp)\<rparr>
                        in (case cdbg_regs_set K (d_pid dbg2) (d_current_tid dbg2) (d_regs dbg2) w1 of
                              (ok, w2) \<Rightarrow> (if ok then 0 else - 1, dbg2, w2)))))"

definition step_over_call :: "'w kern \<Rightarrow> cdbg \<Rightarrow> addr \<Rightarrow> 'w \<Rightarrow> 'w result" where
  "step_over_call K dbg return_addr w =
     (case cdbg_bp_enable K zero_bp (d_pid dbg) return_addr w of
        (False, temp_bp, w1) \<Rightarrow> Some (- 1, dbg, w1)
      | (True, temp_bp, w1) \<Rightarrow> do {
          (rc, dbg2, w2) \<leftarrow> cdbg_continue K dbg w1;
          if rc \<noteq> 0 then Some (- 1, dbg2, drop_temp K dbg2 temp_bp w2)
          else if d_state dbg2 = CDBG_STATE_IDLE then Some (0, dbg2, drop_temp K dbg2 temp_bp w2)
          else do {
            (rc3, dbg3, w3) \<leftarrow> cdbg_wait K dbg2 w2;
            if rc3 \<noteq> 0
            then Some (if d_state dbg3 = CDBG_STATE_IDLE then 0 else - 1, dbg3, drop_temp K dbg3 temp_bp w3)
            else if d_state dbg3 \<noteq> CDBG_STATE_STOPPED then Some (0, dbg3, drop_temp K dbg3 temp_bp w3)
            else Some (finish_temp_breakpoint K dbg3 temp_bp w3) }})"

section \<open>The thread guard of a step\<close>

fun guard_loop :: "'w kern \<Rightarrow> cdbg \<Rightarrow> u64 list \<Rightarrow> cdbg_thread_info list \<Rightarrow> 'w \<Rightarrow> u64 list \<times> 'w" where
  "guard_loop K dbg guard [] w = (guard, w)"
| "guard_loop K dbg guard (t # ts) w =
     (if CDBG_MAX_THREADS \<le> length guard then (guard, w)
      else if ti_is_primary t \<or> ti_tid t = d_current_tid dbg \<or> ti_tid t \<in> set guard
      then guard_loop K dbg guard ts w
      else (case cdbg_thread_suspend K (d_pid dbg) (ti_tid t) w of
              (True, w1) \<Rightarrow> guard_loop K dbg (guard @ [ti_tid t]) ts w1
            | (False, w1) \<Rightarrow> guard_loop K dbg guard ts w1))"

definition step_thread_guard_catch_up :: "'w kern \<Rightarrow> cdbg \<Rightarrow> u64 list \<Rightarrow> 'w \<Rightarrow> u64 list \<times> 'w" where
  "step_thread_guard_catch_up K dbg guard w =
     (if d_thread_lock_active dbg then (guard, w)
      else case cdbg_threads_list K (d_pid dbg) CDBG_MAX_THREADS w of
        None \<Rightarrow> (guard, w)
      | Some threads \<Rightarrow> guard_loop K dbg guard threads w)"

definition step_thread_guard_begin :: "'w kern \<Rightarrow> cdbg \<Rightarrow> 'w \<Rightarrow> u64 list \<times> 'w" where
  "step_thread_guard_begin K dbg w = step_thread_guard_catch_up K dbg [] w"

fun resume_all :: "'w kern \<Rightarrow> int \<Rightarrow> u64 list \<Rightarrow> 'w \<Rightarrow> bool \<times> 'w" where
  \<comment> \<open>resumes every thread, whatever fails; the flag says that none failed\<close>
  "resume_all K pid [] w = (True, w)"
| "resume_all K pid (t # ts) w =
     (case cdbg_thread_resume K pid t w of (ok, w1) \<Rightarrow>
       (case resume_all K pid ts w1 of (ok1, w2) \<Rightarrow> (ok \<and> ok1, w2)))"

definition step_thread_guard_end :: "'w kern \<Rightarrow> cdbg \<Rightarrow> u64 list \<Rightarrow> 'w \<Rightarrow> 'w" where
  "step_thread_guard_end K dbg guard w = snd (resume_all K (d_pid dbg) guard w)"

definition require_primary_thread_for_step :: "cdbg \<Rightarrow> bool" where
  "require_primary_thread_for_step dbg = (d_current_tid dbg = CDBG_TID_PRIMARY)"

section \<open>Stepping by line\<close>

definition CDBG_MAX_STEP_ITERATIONS :: nat where
  "CDBG_MAX_STEP_ITERATIONS = 100000"

text \<open>One single step, then the wait: \<open>Inl\<close> ends the command with a code, \<open>Inr\<close> goes on.\<close>

definition step_and_wait :: "'w kern \<Rightarrow> cdbg \<Rightarrow> 'w \<Rightarrow> ((int + unit) \<times> cdbg \<times> 'w) option" where
  "step_and_wait K dbg w = (case cdbg_single_step K dbg w of
       (rc, dbg1, w1) \<Rightarrow>
         if rc \<noteq> 0 then Some (Inl (- 1), dbg1, w1)
         else do {
           (rc2, dbg2, w2) \<leftarrow> cdbg_wait K dbg1 w1;
           if rc2 \<noteq> 0 then Some (Inl (if d_state dbg2 = CDBG_STATE_IDLE then 0 else - 1), dbg2, w2)
           else if d_state dbg2 \<noteq> CDBG_STATE_STOPPED then Some (Inl 0, dbg2, w2)
           else Some (Inr (), dbg2, w2) })"

text \<open>What the loop of both commands does after a stop: a trap, a watchpoint or a new source line
  ends the command, anything else goes on. The return code of a watchpoint or line stop is 0.\<close>

definition after_step :: "'w kern \<Rightarrow> string \<Rightarrow> u32 \<Rightarrow> cdbg \<Rightarrow> 'w \<Rightarrow> (int + unit) \<times> cdbg \<times> 'w" where
  "after_step K start_file start_line dbg w = (case cdbg_refresh_regs K dbg w of
       (False, dbg1) \<Rightarrow> (Inl (- 1), dbg1, w)
     | (True, dbg1) \<Rightarrow>
         let pc = cdbg_regs_pc (d_regs dbg1)
         in if cdbg_bp_is_trap (k_arch K) pc (d_breakpoints dbg1)
            then (case report_stop K dbg1 w of (rc, dbg2, w2) \<Rightarrow> (Inl rc, dbg2, w2))
            else (case find_watchpoint_hit K dbg1 w of
                    Some i \<Rightarrow>
                      (case report_watchpoint_hit K dbg1 i (print_stop_header K dbg1 w) of
                         (dbg2, w2) \<Rightarrow> (Inl 0, dbg2, w2))
                  | None \<Rightarrow>
                      (case cdbg_lineno_line_at_pc (d_lineno dbg1) pc CDBG_LINENO_MAX_FILE of
                         None \<Rightarrow> (Inr (), dbg1, w)
                       | Some (cur_file, cur_line) \<Rightarrow>
                           if cur_file \<noteq> start_file \<or> cur_line \<noteq> start_line
                           then (Inl 0, dbg1,
                                 print_stop_location K dbg1 pc
                                   (k_print K (fmtln ''Stopped (pc=0x%lx)'') [Arg_word pc] (print_stop_header K dbg1 w)))
                           else (Inr (), dbg1, w))))"

text \<open>The step of \<open>next\<close>: a call is run to its return address, anything else single-stepped.\<close>

definition next_and_wait :: "'w kern \<Rightarrow> cdbg \<Rightarrow> 'w \<Rightarrow> ((int + unit) \<times> cdbg \<times> 'w) option" where
  "next_and_wait K dbg w =
     (case call_return_address K dbg (cdbg_regs_pc (d_regs dbg)) w of
        Some return_addr \<Rightarrow> do {
          (rc, dbg1, w1) \<leftarrow> step_over_call K dbg return_addr w;
          if rc \<noteq> 0 then Some (Inl (- 1), dbg1, w1)
          else if d_state dbg1 \<noteq> CDBG_STATE_STOPPED then Some (Inl 0, dbg1, w1)
          else Some (Inr (), dbg1, w1) }
      | None \<Rightarrow> step_and_wait K dbg w)"

text \<open>The loop, for one of the two ways to step; the result carries the guard to release.\<close>

fun line_loop ::
  "('w kern \<Rightarrow> cdbg \<Rightarrow> 'w \<Rightarrow> ((int + unit) \<times> cdbg \<times> 'w) option) \<Rightarrow> 'w kern \<Rightarrow> string \<Rightarrow> u32 \<Rightarrow> nat
     \<Rightarrow> u64 list \<Rightarrow> cdbg \<Rightarrow> 'w \<Rightarrow> (int \<times> u64 list \<times> cdbg \<times> 'w) option" where
  "line_loop mv K file line 0 guard dbg w = Some (- 1, guard, dbg, w)"
| "line_loop mv K file line (Suc n) guard dbg w =
     (case step_thread_guard_catch_up K dbg guard w of
        (guard1, w1) \<Rightarrow>
          (case mv K dbg w1 of
             None \<Rightarrow> None
           | Some (Inl rc, dbg2, w2) \<Rightarrow> Some (rc, guard1, dbg2, w2)
           | Some (Inr _, dbg2, w2) \<Rightarrow>
               (case after_step K file line dbg2 w2 of
                  (Inl rc, dbg3, w3) \<Rightarrow> Some (rc, guard1, dbg3, w3)
                | (Inr _, dbg3, w3) \<Rightarrow> line_loop mv K file line n guard1 dbg3 w3)))"

text \<open>Without a source line at the start, the commands take one single step and report it.\<close>

definition step_without_line :: "'w kern \<Rightarrow> cdbg \<Rightarrow> 'w \<Rightarrow> 'w result" where
  "step_without_line K dbg w = do {
     (r, dbg1, w1) \<leftarrow> step_and_wait K dbg w;
     (case r of
        Inl rc \<Rightarrow> Some (rc, dbg1, w1)
      | Inr _ \<Rightarrow> (case report_stop K dbg1 w1 of (_, dbg2, w2) \<Rightarrow> Some (0, dbg2, w2)))}"

definition line_command ::
  "('w kern \<Rightarrow> cdbg \<Rightarrow> 'w \<Rightarrow> ((int + unit) \<times> cdbg \<times> 'w) option) \<Rightarrow> 'w kern \<Rightarrow> cdbg \<Rightarrow> 'w \<Rightarrow> 'w result" where
  "line_command mv K dbg w = (case cdbg_refresh_regs K dbg w of
       (False, dbg1) \<Rightarrow> Some (- 1, dbg1, w)
     | (True, dbg1) \<Rightarrow>
         (case cdbg_lineno_line_at_pc (d_lineno dbg1) (cdbg_regs_pc (d_regs dbg1)) CDBG_LINENO_MAX_FILE of
            None \<Rightarrow> step_without_line K dbg1 w
          | Some (start_file, start_line) \<Rightarrow>
              (case step_thread_guard_begin K dbg1 w of (guard, w1) \<Rightarrow> do {
                 (rc, guard2, dbg2, w2) \<leftarrow>
                   line_loop mv K start_file start_line CDBG_MAX_STEP_ITERATIONS guard dbg1 w1;
                 Some (rc, dbg2, step_thread_guard_end K dbg2 guard2 w2) })))"

definition cdbg_step_next_line :: "'w kern \<Rightarrow> cdbg \<Rightarrow> 'w \<Rightarrow> 'w result" where
  "cdbg_step_next_line K dbg w = line_command step_and_wait K dbg w"

definition cdbg_next_source_line :: "'w kern \<Rightarrow> cdbg \<Rightarrow> 'w \<Rightarrow> 'w result" where
  "cdbg_next_source_line K dbg w = line_command next_and_wait K dbg w"

definition cdbg_frame_up :: "'w kern \<Rightarrow> cdbg \<Rightarrow> 'w \<Rightarrow> int \<times> cdbg \<times> 'w" where
  "cdbg_frame_up K dbg w = (case cdbg_refresh_regs K dbg w of
       (False, dbg1) \<Rightarrow> (- 1, dbg1, w)
     | (True, dbg1) \<Rightarrow>
         (case cdbg_regs_frame_up K (d_pid dbg1) (d_regs dbg1) w of
            None \<Rightarrow> (- 1, dbg1, w)
          | Some regs \<Rightarrow>
              (case cdbg_regs_set K (d_pid dbg1) (d_current_tid dbg1) regs w of
                 (False, w1) \<Rightarrow> (- 1, dbg1\<lparr>d_regs := regs\<rparr>, w1)
               | (True, w1) \<Rightarrow>
                   let dbg2 = dbg1\<lparr>d_regs := regs\<rparr>; pc = cdbg_regs_pc regs
                   in (0, dbg2, print_stop_location K dbg2 pc
                         (k_print K (fmtln ''Now at caller frame (pc=0x%lx)'') [Arg_word pc] w1)))))"

end
