(* ===== verification/Output.thy ===== *)
theory Output
  imports Control
begin

text \<open>
  Printing leaves the debuggee alone. \<open>quiet_output\<close> is the interface: an observation of the machine that
  \<open>printf\<close> does not change; the lemmas carry it through every printing routine. \<open>traced_process\<close> adds to
  \<open>traced_task\<close> that output and the register files are not the debuggee's memory.
\<close>

section \<open>The interface\<close>

locale quiet_output =
  fixes K :: "'w kern" and obs :: "'w \<Rightarrow> 'o"
  assumes quiet_print: "obs (k_print K f args w) = obs w"
begin

lemma quiet_puts: "obs (puts K s w) = obs w"
  by (simp add: puts_def quiet_print)

lemma quiet_print_window: "obs (snd (print_window K st en tg n p ls w)) = obs w"
  by (induction ls arbitrary: n p w) (simp_all add: Let_def quiet_print)

lemma quiet_source_window: "obs (snd (lineno_print_source_window K ln f t n w)) = obs w"
  by (auto simp: lineno_print_source_window_def Let_def quiet_print split: option.split prod.split
      dest!: arg_cong [where f = "\<lambda>r. obs (snd r)"] simp: quiet_print_window)

lemma quiet_source_at_pc: "obs (snd (cdbg_lineno_print_source_at_pc K ln pc w)) = obs w"
  by (simp add: cdbg_lineno_print_source_at_pc_def quiet_source_window split: option.split)

lemma quiet_source_at_line: "obs (snd (cdbg_lineno_print_source_at_line K ln f l w)) = obs w"
  by (simp add: cdbg_lineno_print_source_at_line_def quiet_source_window split: option.split sum.split)

lemma quiet_table_rows:
  "obs (snd (snd (foldl (print_table_row K ln flt g) s es))) = obs (snd (snd s))"
proof (induction es arbitrary: s)
  case Nil
  then show ?case by simp
next
  case (Cons e es)
  have "obs (snd (snd (print_table_row K ln flt g s e))) = obs (snd (snd s))"
    by (cases s) (simp add: print_table_row_def Let_def quiet_print split: prod.split)
  with Cons.IH show ?case by simp
qed

lemma quiet_line_table: "obs (print_line_table K ln flt g w) = obs w"
  by (simp add: print_line_table_def quiet_puts quiet_table_rows)

lemma quiet_print_syms: "obs (print_syms K syms flt es w) = obs w"
  by (induction es arbitrary: w) (simp_all add: quiet_print)

lemma quiet_syms_list: "obs (cdbg_syms_print_list K syms flt w) = obs w"
  by (simp add: cdbg_syms_print_list_def Let_def quiet_print_syms quiet_puts quiet_print)

lemma quiet_disasm_entries: "obs (print_disasm_entries K sl pc es w) = obs w"
  by (induction es arbitrary: w) (simp_all add: Let_def quiet_print)

lemma quiet_disasm_header: "obs (print_disasm_header K l pc w) = obs w"
  by (simp add: print_disasm_header_def quiet_print)

lemma quiet_otool_range: "obs (snd (print_otool_disassembly_range K dbg pc n l w)) = obs w"
  by (simp add: print_otool_disassembly_range_def Let_def quiet_print quiet_disasm_entries quiet_disasm_header
      split: option.split)

lemma quiet_print_bytes: "obs (print_bytes K bs w) = obs w"
  by (induction bs arbitrary: w) (simp_all add: quiet_print)

lemma quiet_memory_insns: "obs (print_memory_insns K pc n off bs w) = obs w"
  by (induction n arbitrary: off w) (simp_all add: Let_def quiet_print quiet_print_bytes split: prod.split)

lemma quiet_memory_range: "obs (print_memory_disassembly_range K dbg pc n l w) = obs w"
  by (simp add: print_memory_disassembly_range_def quiet_print quiet_memory_insns quiet_disasm_header
      split: option.split)

lemma quiet_disassembly_range: "obs (print_disassembly_range K dbg pc n l w) = obs w"
proof -
  obtain ok w1 where r: "print_otool_disassembly_range K dbg pc n l w = (ok, w1)" by fastforce
  with quiet_otool_range [of dbg pc n l w] show ?thesis
    by (cases ok) (simp_all add: print_disassembly_range_def quiet_memory_range)
qed

lemma quiet_disassembly_at_pc: "obs (print_disassembly_at_pc K dbg pc w) = obs w"
proof -
  obtain ok w1 where r: "print_otool_disassembly_range K dbg pc 1 [] w = (ok, w1)" by fastforce
  with quiet_otool_range [of dbg pc 1 "[]" w] show ?thesis
    by (cases ok) (simp_all add: print_disassembly_at_pc_def print_otool_disassembly_def quiet_memory_range)
qed

lemma quiet_stop_header: "obs (print_stop_header K dbg w) = obs w"
  by (simp add: print_stop_header_def Let_def quiet_print)

lemma quiet_stop_location: "obs (print_stop_location K dbg pc w) = obs w"
proof -
  obtain ok w1 where r: "cdbg_lineno_print_source_at_pc K (d_lineno dbg) pc w = (ok, w1)" by fastforce
  with quiet_source_at_pc [of "d_lineno dbg" pc w] show ?thesis
    by (cases ok) (simp_all add: print_stop_location_def quiet_disassembly_at_pc)
qed

lemma quiet_stop_context: "obs (snd (cdbg_print_stop_context K dbg w)) = obs w"
  by (simp add: cdbg_print_stop_context_def quiet_stop_location split: prod.split bool.split)

lemma quiet_process_exit: "obs (snd (report_process_exit K dbg w)) = obs w"
  by (simp add: report_process_exit_def Let_def quiet_print)

lemma quiet_watchpoint_report: "obs (snd (report_watchpoint_hit K dbg i w)) = obs w"
  by (simp add: report_watchpoint_hit_def Let_def quiet_print quiet_stop_location)

lemmas quiet = quiet_print quiet_puts quiet_source_window quiet_source_at_pc quiet_source_at_line
  quiet_line_table quiet_syms_list quiet_disassembly_range quiet_disassembly_at_pc quiet_stop_header
  quiet_stop_location quiet_stop_context quiet_process_exit quiet_watchpoint_report

end

interpretation sim_quiet: quiet_output "sim_kern a" "\<lambda>w. w\<lparr>s_out := []\<rparr>"
  by unfold_locales (simp add: sim_kern_def)

section \<open>The process\<close>

text \<open>
  What Mach documents beyond \<open>traced_task\<close>: the thread states, the suspend counts and the output are not
  part of the memory of the task, so setting them changes no byte and no mapping.
\<close>

locale traced_process = traced_task +
  assumes print_memory: "contents (k_print K f args w) = contents w" "mapped (k_print K f args w) = mapped w"
    and set_native: "k_set_native K t r w = (ok, w') \<Longrightarrow> contents w' = contents w \<and> mapped w' = mapped w"
    and set_fpu: "k_set_fpu K t fr w = (ok, w') \<Longrightarrow> contents w' = contents w \<and> mapped w' = mapped w"
    and set_debug: "k_set_debug K t d w = (ok, w') \<Longrightarrow> contents w' = contents w \<and> mapped w' = mapped w"
    and suspend: "k_thread_suspend K t w = (ok, w') \<Longrightarrow> contents w' = contents w \<and> mapped w' = mapped w"
    and resume: "k_thread_resume K t w = (ok, w') \<Longrightarrow> contents w' = contents w \<and> mapped w' = mapped w"

sublocale traced_process \<subseteq> quiet_output K "\<lambda>w. (contents w, mapped w)"
  by unfold_locales (simp add: print_memory)

interpretation sim_process: traced_process "sim_kern a" pid s_mem sim_mapped
  by unfold_locales (auto simp: sim_kern_def sim_mapped_def)

context traced_process
begin

lemma regs_set_memory:
  "cdbg_regs_set K p tid regs w = (ok, w') \<Longrightarrow> contents w' = contents w \<and> mapped w' = mapped w"
  by (auto simp: cdbg_regs_set_def split: option.splits dest: set_native)

lemma regs_set_fp_memory:
  "cdbg_regs_set_fp K p tid regs w = (ok, w') \<Longrightarrow> contents w' = contents w \<and> mapped w' = mapped w"
  by (auto simp: cdbg_regs_set_fp_def split: option.splits dest: set_fpu)

lemma run_on_threads_memory:
  assumes "\<And>t u u' ok. fn t u = (ok, u') \<Longrightarrow> contents u' = contents u \<and> mapped u' = mapped u"
  shows "run_on_threads fn ts ok w = (ok', w') \<Longrightarrow> contents w' = contents w \<and> mapped w' = mapped w"
proof (induction ts arbitrary: ok w)
  case Nil
  then show ?case by simp
next
  case (Cons t ts)
  obtain b u where u: "fn t w = (b, u)" by fastforce
  with Cons.prems have "\<exists>ok1. run_on_threads fn ts ok1 u = (ok', w')" by auto
  with Cons.IH assms [OF u] show ?case by auto
qed

lemma for_each_thread_memory:
  assumes "\<And>t u u' ok. fn t u = (ok, u') \<Longrightarrow> contents u' = contents u \<and> mapped u' = mapped u"
    and "for_each_thread K p fn w = (ok, w')"
  shows "contents w' = contents w \<and> mapped w' = mapped w"
proof -
  have "contents u' = contents u \<and> mapped u' = mapped u" if "run_on_threads fn ts b u = (b', u')" for ts b b' u u'
    using _ that by (rule run_on_threads_memory) (rule assms(1))
  with assms(2) show ?thesis by (auto simp: for_each_thread_def Let_def split: if_splits option.splits)
qed

lemma wp_thread_memory:
  "install_arm_thread K s wv wc t w = (ok, w') \<Longrightarrow> contents w' = contents w \<and> mapped w' = mapped w"
  "uninstall_arm_thread K s t w = (ok, w') \<Longrightarrow> contents w' = contents w \<and> mapped w' = mapped w"
  "install_x86_thread K s a l m t w = (ok, w') \<Longrightarrow> contents w' = contents w \<and> mapped w' = mapped w"
  "uninstall_x86_thread K s t w = (ok, w') \<Longrightarrow> contents w' = contents w \<and> mapped w' = mapped w"
  by (auto simp: install_arm_thread_def uninstall_arm_thread_def install_x86_thread_def uninstall_x86_thread_def
      Let_def split: option.splits debug_regs.splits dest: set_debug)

lemma hw_install_memory:
  "cdbg_wp_hw_install K p s a n m w = (ok, w') \<Longrightarrow> contents w' = contents w \<and> mapped w' = mapped w"
  by (auto simp: cdbg_wp_hw_install_def split: if_splits arch.splits option.splits
      dest!: for_each_thread_memory [rotated] dest: wp_thread_memory)

lemma hw_uninstall_memory:
  "cdbg_wp_hw_uninstall K p s w = (ok, w') \<Longrightarrow> contents w' = contents w \<and> mapped w' = mapped w"
  by (auto simp: cdbg_wp_hw_uninstall_def split: if_splits arch.splits
      dest!: for_each_thread_memory [rotated] dest: wp_thread_memory)

lemma resync_memory:
  "contents (resync_loop K p i wps w) = contents w \<and> mapped (resync_loop K p i wps w) = mapped w"
proof (induction wps arbitrary: i w)
  case (Cons wp wps)
  obtain ok w1 where i: "cdbg_wp_hw_install K p (int i) (wp_addr wp) (wp_size wp) (wp_mode wp) w = (ok, w1)"
    by fastforce
  show ?case using Cons.IH hw_install_memory [OF i] by (simp add: i)
qed simp

lemma suspend_or_resume_memory:
  "suspend_or_resume_thread K p tid s w = (ok, w') \<Longrightarrow> contents w' = contents w \<and> mapped w' = mapped w"
  by (auto simp: suspend_or_resume_thread_def split: option.splits if_splits dest: suspend resume)

lemma stop_header_memory:
  "contents (print_stop_header K dbg w) = contents w" "mapped (print_stop_header K dbg w) = mapped w"
  and stop_location_memory:
  "contents (print_stop_location K dbg pc w) = contents w" "mapped (print_stop_location K dbg pc w) = mapped w"
  using quiet_stop_header quiet_stop_location by simp_all

end

end
