(* ===== verification/Traps.thy ===== *)
theory Traps
  imports Output
begin

text \<open>
  The contract of the software breakpoints. \<open>underlying\<close> is the abstract memory: the debuggee's own bytes,
  with every armed trap byte replaced by the byte saved under it. \<open>traps_ok\<close> says that the addresses are
  distinct and that each enabled breakpoint holds the trap byte. The operations of breakpoint.c and the
  re-arming and reporting code of debugger.c refine the identity on the abstract memory.
\<close>

section \<open>The abstract memory\<close>

definition underlying :: "cdbg_breakpoint list \<Rightarrow> (addr \<Rightarrow> u8) \<Rightarrow> addr \<Rightarrow> u8" where
  "underlying bps m p = (case List.find (\<lambda>bp. bp_enabled bp \<and> bp_addr bp = p) bps of
       Some bp \<Rightarrow> bp_saved_byte bp
     | None \<Rightarrow> m p)"

definition traps_ok :: "arch \<Rightarrow> cdbg_breakpoint list \<Rightarrow> (addr \<Rightarrow> u8) \<Rightarrow> bool" where
  "traps_ok a bps m \<longleftrightarrow> distinct (map bp_addr bps)
     \<and> list_all (\<lambda>bp. bp_enabled bp \<longrightarrow> m (bp_addr bp) = CDBG_TRAP_BYTE a) bps"

lemma underlying_Nil [simp]: "underlying [] m = m"
  by (simp add: underlying_def fun_eq_iff)

lemma underlying_Cons [simp]:
  "underlying (bp # bps) m =
     (if bp_enabled bp then (underlying bps m)(bp_addr bp := bp_saved_byte bp) else underlying bps m)"
  by (auto simp: underlying_def fun_eq_iff)

lemma underlying_upd: "p \<notin> bp_addr ` set bps \<Longrightarrow> underlying bps (m(p := b)) = (underlying bps m)(p := b)"
  by (induction bps) (auto simp: fun_upd_twist)

lemma underlying_outside: "p \<notin> bp_addr ` set bps \<Longrightarrow> underlying bps m p = m p"
  by (induction bps) auto

lemma underlying_split:
  "bp_addr bp \<notin> bp_addr ` set xs \<Longrightarrow>
     underlying (xs @ bp # ys) m =
       (if bp_enabled bp then (underlying (xs @ ys) m)(bp_addr bp := bp_saved_byte bp) else underlying (xs @ ys) m)"
  by (induction xs) (auto simp: fun_upd_twist)

lemma underlying_none: "(\<forall>bp \<in> set bps. \<not> bp_enabled bp) \<Longrightarrow> underlying bps m = m"
  by (induction bps) auto

lemma traps_ok_Cons:
  "traps_ok a (bp # bps) m \<longleftrightarrow>
     bp_addr bp \<notin> bp_addr ` set bps \<and> (bp_enabled bp \<longrightarrow> m (bp_addr bp) = CDBG_TRAP_BYTE a) \<and> traps_ok a bps m"
  by (auto simp: traps_ok_def)

lemma traps_ok_append:
  "traps_ok a (xs @ ys) m \<longleftrightarrow> traps_ok a xs m \<and> traps_ok a ys m \<and> bp_addr ` set xs \<inter> bp_addr ` set ys = {}"
  by (auto simp: traps_ok_def)

lemma traps_ok_upd: "p \<notin> bp_addr ` set bps \<Longrightarrow> traps_ok a bps (m(p := b)) = traps_ok a bps m"
  by (auto simp: traps_ok_def list_all_iff)

lemma traps_ok_cong:
  "(\<And>p. p \<in> bp_addr ` set bps \<Longrightarrow> m p = m' p) \<Longrightarrow> traps_ok a bps m = traps_ok a bps m'"
  by (auto simp: traps_ok_def list_all_iff)

section \<open>Arming and disarming one breakpoint\<close>

context traced_process
begin

lemma bp_enable_fails:
  assumes "cdbg_bp_enable K bp pid a w = (False, bp', w')"
  shows "w' = w" "bp' = bp"
proof -
  have "cdbg_mem_read K pid a 1 w = None"
  proof (rule ccontr)
    assume "cdbg_mem_read K pid a 1 w \<noteq> None"
    then obtain bs where r: "cdbg_mem_read K pid a 1 w = Some bs" by auto
    from rd_byte_cases [OF r] have "mapped w a" by simp
    from bp_enable_mapped [OF this, of bp] assms show False by simp
  qed
  with assms show "w' = w" "bp' = bp" by (simp_all add: cdbg_bp_enable_def)
qed

lemma bp_disable_fails:
  assumes "cdbg_bp_disable K bp pid w = (False, bp', w')"
  shows "contents w' = contents w" "mapped w' = mapped w" "bp' = bp"
proof -
  from assms have e: "bp_enabled bp" "cdbg_mem_write K pid (bp_addr bp) [bp_saved_byte bp] w = (False, w')" "bp' = bp"
    by (auto simp: cdbg_bp_disable_def split: if_splits prod.splits bool.splits)
  have "\<not> mapped w (bp_addr bp)" using bp_disable_mapped [of w bp] assms by auto
  from wr_byte_unmapped [OF this e(2)] wr_mapped [OF e(2)] e
  show "contents w' = contents w" "mapped w' = mapped w" "bp' = bp" by auto
qed

lemma disable_refines:
  assumes "cdbg_bp_disable K bp pid w = (ok, bp', w')"
    and "traps_ok (k_arch K) (xs @ bp # ys) (contents w)"
  shows "underlying (xs @ bp' # ys) (contents w') = underlying (xs @ bp # ys) (contents w)
    \<and> traps_ok (k_arch K) (xs @ bp' # ys) (contents w') \<and> mapped w' = mapped w"
proof (cases ok)
  case False
  with assms bp_disable_fails [of bp w bp' w'] show ?thesis by simp
next
  case True
  with assms(1) have d: "cdbg_bp_disable K bp pid w = (True, bp', w')" by simp
  note f = bp_disable_memory [OF d] and a = cdbg_bp_disable_frame [OF d]
  from assms(2) have fresh: "bp_addr bp \<notin> bp_addr ` set xs" "bp_addr bp \<notin> bp_addr ` set ys"
    "traps_ok (k_arch K) xs (contents w)" "traps_ok (k_arch K) ys (contents w)"
    "bp_addr ` set xs \<inter> bp_addr ` set ys = {}"
    by (auto simp: traps_ok_append traps_ok_Cons)
  then have n: "bp_addr bp \<notin> bp_addr ` set (xs @ ys)" by auto
  show ?thesis using fresh n a f
    by (auto simp: underlying_split underlying_upd traps_ok_append traps_ok_Cons traps_ok_upd)
qed

lemma enable_refines:
  assumes "cdbg_bp_enable K bp pid a w = (ok, bp', w')"
    and "a \<notin> bp_addr ` set (xs @ ys)" "traps_ok (k_arch K) (xs @ ys) (contents w)" "\<not> bp_enabled bp"
  shows "underlying (xs @ bp' # ys) (contents w') = underlying (xs @ ys) (contents w)
    \<and> mapped w' = mapped w \<and> (ok \<longrightarrow> traps_ok (k_arch K) (xs @ bp' # ys) (contents w') \<and> bp_addr bp' = a)
    \<and> (\<forall>p. p \<noteq> a \<longrightarrow> contents w' p = contents w p)"
proof (cases ok)
  case False
  with assms(1) bp_enable_fails [of bp a w bp' w'] have e: "w' = w" "bp' = bp" by auto
  have "underlying (xs @ bp # ys) m = underlying (xs @ ys) m" for m
    using assms(4) by (induction xs) auto
  with e False show ?thesis by simp
next
  case True
  with assms(1) have d: "cdbg_bp_enable K bp pid a w = (True, bp', w')" by simp
  note f = bp_enable_memory [OF d]
  let ?T = "CDBG_TRAP_BYTE (k_arch K)"
  from assms(2) have fresh: "a \<notin> bp_addr ` set xs" "a \<notin> bp_addr ` set ys" by auto
  have "underlying (xs @ bp' # ys) (contents w') = (underlying (xs @ ys) ((contents w)(a := ?T)))(a := contents w a)"
    using f fresh by (simp add: underlying_split)
  also have "\<dots> = underlying (xs @ ys) (contents w)"
    using underlying_outside [OF assms(2), of "contents w"]
    by (simp only: underlying_upd [OF assms(2)] fun_upd_upd fun_upd_idem)
  finally have u: "underlying (xs @ bp' # ys) (contents w') = underlying (xs @ ys) (contents w)" .
  have "traps_ok (k_arch K) (xs @ bp' # ys) ((contents w)(a := ?T))"
    using assms(3) f(4,5) fresh by (auto simp: traps_ok_append traps_ok_Cons traps_ok_upd)
  with u f show ?thesis by simp
qed

section \<open>Re-arming\<close>

lemma reenable_refines:
  assumes "reenable_loop K pid pc bps w = (ok, bps', w')" "traps_ok (k_arch K) bps (contents w)"
  shows "map bp_addr bps' = map bp_addr bps \<and> traps_ok (k_arch K) bps' (contents w')
    \<and> underlying bps' (contents w') = underlying bps (contents w) \<and> mapped w' = mapped w
    \<and> (\<forall>p. p \<notin> bp_addr ` set bps \<longrightarrow> contents w' p = contents w p)"
  using assms
proof (induction bps arbitrary: w ok bps' w')
  case Nil
  then show ?case by simp
next
  case (Cons bp bps)
  let ?a = "bp_addr bp"
  from Cons.prems(2) have pre: "?a \<notin> bp_addr ` set bps" "traps_ok (k_arch K) bps (contents w)"
    "bp_enabled bp \<Longrightarrow> contents w ?a = CDBG_TRAP_BYTE (k_arch K)"
    by (simp_all add: traps_ok_Cons)
  show ?case
  proof (cases "\<not> bp_enabled bp \<and> ?a \<noteq> pc")
    case False
    obtain ok1 bps1 w1 where r: "reenable_loop K pid pc bps w = (ok1, bps1, w1)" by (metis prod_cases3)
    note ih = Cons.IH [OF r pre(2)]
    have sets: "bp_addr ` set bps1 = bp_addr ` set bps" using ih by (metis list.set_map)
    from Cons.prems(1) False r have "bps' = bp # bps1" "w' = w1" by auto
    with ih pre sets show ?thesis by (simp add: traps_ok_Cons)
  next
    case True
    obtain b bp1 w1 where e: "cdbg_bp_enable K bp pid ?a w = (b, bp1, w1)" by (metis prod_cases3)
    show ?thesis
    proof (cases b)
      case False
      with e bp_enable_fails [of bp ?a w bp1 w1] have "w1 = w" "bp1 = bp" by auto
      with Cons.prems e True False show ?thesis by auto
    next
      case b: True
      with e have e: "cdbg_bp_enable K bp pid ?a w = (True, bp1, w1)" by simp
      note f = bp_enable_memory [OF e]
      obtain ok2 bps2 w2 where r: "reenable_loop K pid pc bps w1 = (ok2, bps2, w2)" by (metis prod_cases3)
      have "traps_ok (k_arch K) bps (contents w1)" using pre f by (simp add: traps_ok_upd)
      note ih = Cons.IH [OF r this]
      from Cons.prems(1) True e r have res: "bps' = bp1 # bps2" "w' = w2" by auto
      have sets: "bp_addr ` set bps2 = bp_addr ` set bps" using ih by (metis list.set_map)
      have "underlying bps2 (contents w2) = (underlying bps (contents w))(?a := CDBG_TRAP_BYTE (k_arch K))"
        using ih by (simp only: f(1) underlying_upd [OF pre(1)])
      then have "underlying bps' (contents w') = underlying (bp # bps) (contents w)"
        using f(3-5) True underlying_outside [OF pre(1), of "contents w"] by (simp add: res fun_upd_idem)
      moreover have "traps_ok (k_arch K) bps' (contents w')"
        using ih f pre sets by (simp add: res traps_ok_Cons)
      ultimately show ?thesis using ih f res by auto
    qed
  qed
qed

end

lemma reenable_all:
  "reenable_loop K pid pc bps w = (True, bps', w') \<Longrightarrow> list_all (\<lambda>bp. bp_enabled bp \<or> bp_addr bp = pc) bps'"
proof (induction bps arbitrary: w bps' w')
  case Nil
  then show ?case by simp
next
  case (Cons bp bps)
  then show ?case
    by (auto split: if_splits prod.splits bool.splits dest!: cdbg_bp_enable_fields)
qed


section \<open>The debugger\<close>

text \<open>The breakpoints of a debugger state against the memory of the machine.\<close>

definition dbg_traps_ok :: "'w kern \<Rightarrow> ('w \<Rightarrow> addr \<Rightarrow> u8) \<Rightarrow> cdbg \<Rightarrow> 'w \<Rightarrow> bool" where
  "dbg_traps_ok K contents dbg w = traps_ok (k_arch K) (d_breakpoints dbg) (contents w)"

definition program_memory :: "('w \<Rightarrow> addr \<Rightarrow> u8) \<Rightarrow> cdbg \<Rightarrow> 'w \<Rightarrow> addr \<Rightarrow> u8" where
  "program_memory contents dbg w = underlying (d_breakpoints dbg) (contents w)"

lemmas program_defs = dbg_traps_ok_def program_memory_def

lemma refresh_regs_cases:
  "cdbg_refresh_regs K dbg w = (ok, dbg') \<Longrightarrow>
     d_breakpoints dbg' = d_breakpoints dbg \<and> d_pid dbg' = d_pid dbg \<and> d_state dbg' = d_state dbg
     \<and> d_current_tid dbg' = d_current_tid dbg \<and> d_watchpoints dbg' = d_watchpoints dbg"
  by (auto dest!: cdbg_refresh_regs_frame)

lemma reenable_after_step_all:
  assumes "reenable_breakpoints_after_step K dbg w = (True, dbg', w')" "d_state dbg = CDBG_STATE_STOPPED"
  shows "d_state dbg' = CDBG_STATE_STOPPED
    \<and> list_all (\<lambda>bp. bp_enabled bp \<or> bp_addr bp = cdbg_regs_pc (d_regs dbg')) (d_breakpoints dbg')"
  using assms
  by (auto simp: reenable_breakpoints_after_step_def split: if_splits prod.splits bool.splits
      dest!: reenable_all refresh_regs_cases)

context traced_process
begin

lemma reenable_after_step_refines:
  assumes "d_pid dbg = pid" "dbg_traps_ok K contents dbg w"
    and "reenable_breakpoints_after_step K dbg w = (ok, dbg', w')"
  shows "dbg_traps_ok K contents dbg' w' \<and> program_memory contents dbg' w' = program_memory contents dbg w
    \<and> map bp_addr (d_breakpoints dbg') = map bp_addr (d_breakpoints dbg) \<and> mapped w' = mapped w"
proof (cases "d_breakpoints dbg = [] \<or> d_state dbg \<noteq> CDBG_STATE_STOPPED")
  case True
  with assms show ?thesis by (auto simp: reenable_breakpoints_after_step_def)
next
  case False
  obtain b dbg1 where r: "cdbg_refresh_regs K dbg w = (b, dbg1)" by fastforce
  note eq = refresh_regs_cases [OF r]
  show ?thesis
  proof (cases b)
    case False
    with assms r eq \<open>\<not> (d_breakpoints dbg = [] \<or> _)\<close> show ?thesis
      by (auto simp: reenable_breakpoints_after_step_def program_defs)
  next
    case True
    obtain ok1 bps w1 where l: "reenable_loop K pid (cdbg_regs_pc (d_regs dbg1)) (d_breakpoints dbg) w = (ok1, bps, w1)"
      by (metis prod_cases3)
    from assms r eq l True False have "dbg' = dbg1\<lparr>d_breakpoints := bps\<rparr>" "w' = w1"
      by (auto simp: reenable_breakpoints_after_step_def)
    with reenable_refines [OF l] assms(2) show ?thesis by (simp add: program_defs)
  qed
qed

lemma handle_hit_refines:
  assumes "d_pid dbg = pid" "dbg_traps_ok K contents dbg w" "i < length (d_breakpoints dbg)"
    and h: "handle_breakpoint_hit K dbg i w = (rc, dbg', w')"
  shows "dbg_traps_ok K contents dbg' w' \<and> program_memory contents dbg' w' = program_memory contents dbg w
    \<and> mapped w' = mapped w"
proof -
  let ?bps = "d_breakpoints dbg"
  obtain ok bp w1 where d: "cdbg_bp_disable K (?bps ! i) pid w = (ok, bp, w1)" by (metis prod_cases3)
  have split: "?bps = take i ?bps @ ?bps ! i # drop (Suc i) ?bps" using assms(3) by (simp add: id_take_nth_drop)
  have upd: "?bps[i := bp] = take i ?bps @ bp # drop (Suc i) ?bps" using assms(3) by (simp add: upd_conv_take_nth_drop)
  from assms(2) have "traps_ok (k_arch K) (take i ?bps @ ?bps ! i # drop (Suc i) ?bps) (contents w)"
    unfolding dbg_traps_ok_def using split by simp
  from disable_refines [OF d this]
  have mem: "underlying (?bps[i := bp]) (contents w1) = underlying ?bps (contents w)"
    "traps_ok (k_arch K) (?bps[i := bp]) (contents w1)" "mapped w1 = mapped w"
    unfolding upd using split by simp_all
  show ?thesis
  proof (cases ok)
    case False
    with h d assms(1) bp_disable_fails [of "?bps ! i" w bp w1] assms(2) show ?thesis
      by (auto simp: handle_breakpoint_hit_def program_defs)
  next
    case True
    let ?d = "dbg\<lparr>d_breakpoints := ?bps[i := bp]\<rparr>"
    obtain b dbg1 where r: "cdbg_refresh_regs K ?d w1 = (b, dbg1)" by fastforce
    from refresh_regs_cases [OF r] have bps1: "d_breakpoints dbg1 = ?bps[i := bp]" by simp
    from h d True r assms(1) bps1 have
      "d_breakpoints dbg' = ?bps[i := bp] \<and> contents w' = contents w1 \<and> mapped w' = mapped w1"
      by (auto simp: handle_breakpoint_hit_def Let_def stop_location_memory print_memory
          split: bool.splits prod.splits if_splits dest: regs_set_memory)
    with mem show ?thesis by (simp add: program_defs)
  qed
qed

end

section \<open>Properties\<close>

text \<open>C5: A software breakpoint is invisible after it is removed: when arming it at an address and
  then disarming it both succeed, the memory of the debuggee is what it was, byte for byte.\<close>

theorem breakpoint_round_trip:
  assumes "traced_process K pid contents mapped"
    and "cdbg_bp_enable K bp pid a w = (True, bp1, w1)" "cdbg_bp_disable K bp1 pid w1 = (True, bp2, w2)"
  shows "contents w2 = contents w \<and> contents w1 a = CDBG_TRAP_BYTE (k_arch K) \<and> \<not> bp_enabled bp2"
proof -
  note tp = traced_process.axioms(1) [OF assms(1)]
  note e = traced_task.bp_enable_memory [OF tp assms(2)] and d = traced_task.bp_disable_memory [OF tp assms(3)]
  show ?thesis using e d by simp
qed

definition armed_machine :: sim where
  \<comment> \<open>the machine after a breakpoint was armed at 0x400 on x86-64\<close>
  "armed_machine = (sim_machine X86_64 0x401)\<lparr>s_mem := (\<lambda>p. ucast p)(0x400 := 0xcc)\<rparr>"

definition armed_bp :: cdbg_breakpoint where
  "armed_bp = \<lparr>bp_addr = 0x400, bp_saved_byte = 0, bp_enabled = True, bp_spec = ''main''\<rparr>"

lemmas sim_memory_defs = cdbg_mem_read_def cdbg_mem_write_def mem_write_mach_def task_for_traced_pid_def
  sim_kern_def sim_machine_def sim_range_def sim_mapped_def MACH_PORT_NULL_def bytes_at_def

lemma arm_0x400:
  "cdbg_bp_enable (sim_kern X86_64) (zero_bp\<lparr>bp_spec := ''main''\<rparr>) 7 0x400 (sim_machine X86_64 0x401) =
     (True, armed_bp, armed_machine)"
  by (simp add: cdbg_bp_enable_def sim_memory_defs armed_machine_def armed_bp_def zero_bp_def CDBG_TRAP_BYTE_def)

lemma disarm_0x400:
  "cdbg_bp_disable (sim_kern X86_64) armed_bp 7 armed_machine =
     (True, armed_bp\<lparr>bp_enabled := False\<rparr>, sim_machine X86_64 0x401)"
  by (simp add: cdbg_bp_disable_def sim_memory_defs armed_machine_def armed_bp_def fun_upd_idem)

theorem breakpoint_round_trip_witness:
  "s_mem armed_machine 0x400 = 0xcc \<and> s_mem (sim_machine X86_64 0x401) = (\<lambda>p. ucast p)"
proof -
  have "s_mem armed_machine 0x400 = CDBG_TRAP_BYTE (k_arch (sim_kern X86_64))"
    using breakpoint_round_trip [OF sim_process.traced_process_axioms arm_0x400 disarm_0x400] by simp
  then show ?thesis by (simp add: sim_kern_def CDBG_TRAP_BYTE_def sim_machine_def)
qed

text \<open>C2: Re-arming after a stop refines the identity on the debuggee's own memory: whatever the
  code does, succeed or fail, the bytes seen through the breakpoints stay the same, the addresses stay
  distinct, and every enabled breakpoint holds the trap byte.\<close>

theorem reenable_keeps_program_memory:
  assumes "traced_process K (d_pid dbg) contents mapped" "dbg_traps_ok K contents dbg w"
    and "reenable_breakpoints_after_step K dbg w = (ok, dbg', w')"
  shows "program_memory contents dbg' w' = program_memory contents dbg w \<and> dbg_traps_ok K contents dbg' w'
    \<and> map bp_addr (d_breakpoints dbg') = map bp_addr (d_breakpoints dbg)"
  using traced_process.reenable_after_step_refines [OF assms(1) refl assms(2,3)] by simp

definition stopped_dbg :: "cdbg_breakpoint list \<Rightarrow> cdbg" where
  "stopped_dbg bps = (cdbg_init X86_64)\<lparr>d_pid := 7, d_state := CDBG_STATE_STOPPED, d_breakpoints := bps\<rparr>"

lemma regs_get_primary:
  "s_threads w = [1, 2] \<Longrightarrow>
     cdbg_regs_get (sim_kern a) p 0 r w = (True, \<lparr>native = s_native w 1, fpu = s_fpu w 1\<rparr>)"
  by (simp add: cdbg_regs_get_def thread_port_def task_for_traced_pid_def sim_kern_def MACH_PORT_NULL_def
      thread_for_task_tid_def CDBG_TID_PRIMARY_def)

lemma refresh_at_0x401:
  assumes "s_native w 1 = x86_thread 0x401 0x200" "s_threads w = [1, 2]"
  shows "cdbg_refresh_regs (sim_kern X86_64) (stopped_dbg bps) w =
    (True, (stopped_dbg bps)\<lparr>d_regs := \<lparr>native = x86_thread 0x401 0x200, fpu = s_fpu w 1\<rparr>\<rparr>)"
  using assms
  by (simp add: regs_get_primary cdbg_refresh_regs_def stopped_dbg_def cdbg_init_def)

theorem reenable_keeps_program_memory_witness:
  "program_memory s_mem
      (snd (cdbg_refresh_regs (sim_kern X86_64) (stopped_dbg [armed_bp]) (sim_machine X86_64 0x401)))
        armed_machine = (\<lambda>p. ucast p)"
proof -
  let ?off = "armed_bp\<lparr>bp_enabled := False\<rparr>" and ?K = "sim_kern X86_64" and ?w = "sim_machine X86_64 0x401"
  let ?r = "\<lparr>native = x86_thread 0x401 0x200, fpu = s_fpu ?w 1\<rparr>"
  have tp: "traced_process ?K (d_pid (stopped_dbg [?off])) s_mem sim_mapped"
    by (rule sim_process.traced_process_axioms)
  have ok: "dbg_traps_ok ?K s_mem (stopped_dbg [?off]) ?w"
    by (simp add: dbg_traps_ok_def traps_ok_def stopped_dbg_def)
  have ref: "cdbg_refresh_regs ?K (stopped_dbg bps) ?w = (True, (stopped_dbg bps)\<lparr>d_regs := ?r\<rparr>)" for bps
    by (rule refresh_at_0x401) (simp_all add: sim_machine_def)
  have arm: "cdbg_bp_enable ?K ?off 7 0x400 ?w = (True, armed_bp, armed_machine)"
    using arm_0x400 by (simp add: cdbg_bp_enable_def armed_bp_def zero_bp_def Let_def split: option.splits prod.splits bool.splits)
  have run: "reenable_breakpoints_after_step ?K (stopped_dbg [?off]) ?w =
      (True, (stopped_dbg [armed_bp])\<lparr>d_regs := ?r\<rparr>, armed_machine)"
    using ref [of "[?off]"] arm
    by (simp add: reenable_breakpoints_after_step_def stopped_dbg_def cdbg_init_def armed_bp_def x86_thread_def
        cdbg_regs_pc_def)
  from reenable_keeps_program_memory [OF tp ok run] show ?thesis
    by (simp add: ref) (simp add: program_memory_def stopped_dbg_def sim_machine_def)
qed

text \<open>C4: When waiting for the debuggee succeeds, the debuggee is stopped and every breakpoint is armed
  again, except one whose address is the program counter (which would trap at once).\<close>

theorem wait_rearms_all:
  assumes "cdbg_wait K dbg w = Some (0, dbg', w')"
  shows "d_state dbg' = CDBG_STATE_STOPPED
    \<and> list_all (\<lambda>bp. bp_enabled bp \<or> bp_addr bp = cdbg_regs_pc (d_regs dbg')) (d_breakpoints dbg')"
proof -
  from assms obtain st w1 where
    "reenable_breakpoints_after_step K (dbg\<lparr>d_wait_status := st, d_state := CDBG_STATE_STOPPED\<rparr>) w1 = (True, dbg', w')"
    by (auto simp: cdbg_wait_def Let_def split: bind_splits option.splits if_splits prod.splits bool.splits)
  from reenable_after_step_all [OF this] show ?thesis by simp
qed

definition waiting_machine :: sim where
  \<comment> \<open>stopped by SIGTRAP at 0x401, nothing armed\<close>
  "waiting_machine = (sim_machine X86_64 0x401)\<lparr>s_waits := [Wait_Eintr, Wait_Status 0x57f]\<rparr>"

theorem wait_rearms_all_witness:
  "d_breakpoints (fst (snd (the (cdbg_wait (sim_kern X86_64) (stopped_dbg [armed_bp\<lparr>bp_enabled := False\<rparr>]) waiting_machine))))
     = [armed_bp]"
proof -
  let ?off = "armed_bp\<lparr>bp_enabled := False\<rparr>" and ?K = "sim_kern X86_64"
  let ?w = "sim_machine X86_64 0x401"
  let ?d = "(stopped_dbg [armed_bp])\<lparr>d_wait_status := 0x57f, d_regs := \<lparr>native = x86_thread 0x401 0x200, fpu = s_fpu ?w 1\<rparr>\<rparr>"
  have p: "cdbg_process_wait ?K 7 waiting_machine = Some (Some 0x57f, ?w)"
    by (simp add: cdbg_process_wait.simps sim_kern_def waiting_machine_def)
      (simp add: sim_machine_def)
  have arm: "cdbg_bp_enable ?K ?off 7 0x400 ?w = (True, armed_bp, armed_machine)"
    using arm_0x400 by (simp add: cdbg_bp_enable_def armed_bp_def zero_bp_def Let_def split: option.splits prod.splits bool.splits)
  have th: "s_threads ?w = [1, 2]" "s_native ?w 1 = x86_thread 0x401 0x200" by (simp_all add: sim_machine_def)
  have run: "cdbg_wait ?K (stopped_dbg [?off]) waiting_machine = Some (0, ?d, armed_machine)"
    using p arm th
    by (simp add: cdbg_wait_def stopped_dbg_def cdbg_init_def WIFEXITED_def WIFSIGNALED_def
        reenable_breakpoints_after_step_def cdbg_refresh_regs_def regs_get_primary armed_bp_def cdbg_regs_pc_def x86_thread_def)
  from wait_rearms_all [OF run] show ?thesis by (simp add: run) (simp add: stopped_dbg_def)
qed

text \<open>C3: Handling a breakpoint hit refines the identity on the debuggee's own memory: disarming the trap
  that fired, moving the program counter and printing the source change no byte that the program sees.\<close>

theorem breakpoint_hit_keeps_program_memory:
  assumes "traced_process K (d_pid dbg) contents mapped" "dbg_traps_ok K contents dbg w"
    and "i < length (d_breakpoints dbg)" "handle_breakpoint_hit K dbg i w = (rc, dbg', w')"
  shows "program_memory contents dbg' w' = program_memory contents dbg w \<and> dbg_traps_ok K contents dbg' w'"
  using traced_process.handle_hit_refines [OF assms(1) refl assms(2-4)] by simp

theorem breakpoint_hit_keeps_program_memory_witness:
  "program_memory s_mem
     (fst (snd (handle_breakpoint_hit (sim_kern X86_64) (stopped_dbg [armed_bp]) 0 armed_machine)))
     (snd (snd (handle_breakpoint_hit (sim_kern X86_64) (stopped_dbg [armed_bp]) 0 armed_machine)))
       = (\<lambda>p. ucast p)"
proof -
  have ok: "dbg_traps_ok (sim_kern X86_64) s_mem (stopped_dbg [armed_bp]) armed_machine"
    by (simp add: dbg_traps_ok_def traps_ok_def stopped_dbg_def armed_bp_def armed_machine_def sim_kern_def
        CDBG_TRAP_BYTE_def)
  have l: "0 < length (d_breakpoints (stopped_dbg [armed_bp]))" by (simp add: stopped_dbg_def)
  obtain rc dbg' w' where h: "handle_breakpoint_hit (sim_kern X86_64) (stopped_dbg [armed_bp]) 0 armed_machine = (rc, dbg', w')"
    by (metis prod_cases3)
  from breakpoint_hit_keeps_program_memory [OF sim_process.traced_process_axioms ok l h] show ?thesis
    by (simp add: h) (simp add: program_memory_def stopped_dbg_def armed_bp_def armed_machine_def fun_upd_idem)
qed

end
