(* ===== verification/Steps.thy ===== *)
theory Steps
  imports Traps
begin

text \<open>
  What running the debuggee leaves alone. \<open>same_setup\<close> relates two debugger states with the same process,
  user settings, tables, breakpoint addresses and watch expressions. Every run and step routine of
  Control stays within it. The line-level commands share one loop over a way to step; \<open>line_mover\<close> is the
  interface of such a step, and \<open>step\<close> and \<open>next\<close> are its two interpretations.
\<close>

definition bp_key :: "cdbg_breakpoint \<Rightarrow> addr \<times> string" where
  "bp_key bp = (bp_addr bp, bp_spec bp)"

definition wp_key :: "cdbg_watchpoint \<Rightarrow> bool \<times> addr \<times> nat \<times> cdbg_wp_mode \<times> string \<times> string" where
  "wp_key wp = (wp_enabled wp, wp_addr wp, wp_size wp, wp_mode wp, wp_expr wp, wp_type wp)"

definition same_setup :: "cdbg \<Rightarrow> cdbg \<Rightarrow> bool" where
  "same_setup d e \<longleftrightarrow> d_pid e = d_pid d \<and> map bp_key (d_breakpoints e) = map bp_key (d_breakpoints d)
     \<and> map wp_key (d_watchpoints e) = map wp_key (d_watchpoints d)
     \<and> d_lineno e = d_lineno d \<and> d_syms e = d_syms d
     \<and> d_executable_path e = d_executable_path d \<and> d_debug_info_path e = d_debug_info_path d
     \<and> d_run_argv_storage e = d_run_argv_storage d \<and> d_run_argc e = d_run_argc d
     \<and> d_print_pretty e = d_print_pretty d \<and> d_malloc_stack_logging e = d_malloc_stack_logging d
     \<and> d_language e = d_language d \<and> d_thread_lock_active e = d_thread_lock_active d
     \<and> d_locked_tid e = d_locked_tid d \<and> d_suspended_tids e = d_suspended_tids d"

named_theorems setup_dests \<open>a routine keeps the setup\<close>

lemma same_setup_refl [simp, intro!]: "same_setup d d"
  by (simp add: same_setup_def)

lemma same_setup_trans: "same_setup a b \<Longrightarrow> same_setup b c \<Longrightarrow> same_setup a c"
  by (simp add: same_setup_def)

lemma same_setup_updates [simp]:
  "same_setup d (e\<lparr>d_regs := r\<rparr>) = same_setup d e"
  "same_setup d (e\<lparr>d_state := s\<rparr>) = same_setup d e"
  "same_setup d (e\<lparr>d_wait_status := st\<rparr>) = same_setup d e"
  "same_setup d (e\<lparr>d_current_tid := t\<rparr>) = same_setup d e"
  "same_setup (e\<lparr>d_regs := r\<rparr>) d = same_setup e d"
  "same_setup (e\<lparr>d_state := s\<rparr>) d = same_setup e d"
  "same_setup (e\<lparr>d_wait_status := st\<rparr>) d = same_setup e d"
  "same_setup (e\<lparr>d_current_tid := t\<rparr>) d = same_setup e d"
  by (simp_all add: same_setup_def)

lemma same_setup_breakpoints:
  "map bp_key bps = map bp_key (d_breakpoints d) \<Longrightarrow> same_setup d (d\<lparr>d_breakpoints := bps\<rparr>)"
  by (simp add: same_setup_def)

lemma map_list_update_same: "f y = f (xs ! i) \<Longrightarrow> map f (xs[i := y]) = map f xs"
  by (metis list_update_id map_update)

section \<open>The routines\<close>

lemma refresh_setup [setup_dests]: "cdbg_refresh_regs K d w = (ok, d') \<Longrightarrow> same_setup d d'"
  by (auto dest: cdbg_refresh_regs_frame)

lemma reenable_loop_keys: "reenable_loop K pid pc bps w = (ok, bps', w') \<Longrightarrow> map bp_key bps' = map bp_key bps"
proof (induction bps arbitrary: w ok bps' w')
  case Nil
  then show ?case by simp
next
  case (Cons bp bps)
  obtain b bp1 w1 where e: "cdbg_bp_enable K bp pid (bp_addr bp) w = (b, bp1, w1)" by (metis prod_cases3)
  then have "bp_key bp1 = bp_key bp"
    by (auto simp: bp_key_def cdbg_bp_enable_def Let_def split: option.splits prod.splits bool.splits)
  with Cons e show ?case by (cases b) (auto split: if_splits prod.splits)
qed

lemma reenable_after_step_setup [setup_dests]:
  "reenable_breakpoints_after_step K d w = (ok, d', w') \<Longrightarrow> same_setup d d'"
  by (auto simp: reenable_breakpoints_after_step_def split: if_splits prod.splits bool.splits
      dest!: cdbg_refresh_regs_frame reenable_loop_keys intro!: same_setup_breakpoints)
    (auto simp: same_setup_def)

lemma wait_setup [setup_dests]: "cdbg_wait K d w = Some (rc, d', w') \<Longrightarrow> same_setup d d'"
  by (auto simp: cdbg_wait_def Let_def split: bind_splits option.splits if_splits prod.splits
      dest!: reenable_after_step_setup)

lemma single_step_setup [setup_dests]: "cdbg_single_step K d w = (rc, d', w') \<Longrightarrow> same_setup d d'"
  by (auto simp: cdbg_single_step_def split: prod.splits bool.splits)

lemma step_over_disabled_setup [setup_dests]:
  "step_over_disabled_breakpoint K d w = Some (rc, d', w') \<Longrightarrow> same_setup d d'"
  by (auto simp: step_over_disabled_breakpoint_def split: if_splits prod.splits bool.splits
      dest!: setup_dests intro: same_setup_trans)

lemma continue_setup [setup_dests]: "cdbg_continue K d w = Some (rc, d', w') \<Longrightarrow> same_setup d d'"
  by (auto simp: cdbg_continue_def split: bind_splits if_splits prod.splits bool.splits dest!: setup_dests)

lemma bp_disable_key: "cdbg_bp_disable K bp pid w = (ok, bp', w') \<Longrightarrow> bp_key bp' = bp_key bp"
  by (auto simp: bp_key_def dest: cdbg_bp_disable_frame)

lemma handle_hit_setup [setup_dests]:
  assumes "handle_breakpoint_hit K d i w = (rc, d', w')"
  shows "same_setup d d'"
proof -
  obtain ok bp w1 where b: "cdbg_bp_disable K (d_breakpoints d ! i) (d_pid d) w = (ok, bp, w1)" by (metis prod_cases3)
  have s: "same_setup d (d\<lparr>d_breakpoints := (d_breakpoints d)[i := bp]\<rparr>)"
    by (rule same_setup_breakpoints) (simp add: map_list_update_same bp_disable_key [OF b])
  from assms b show ?thesis
    by (auto simp: handle_breakpoint_hit_def Let_def split: prod.splits bool.splits if_splits
        dest!: refresh_setup intro: same_setup_trans [OF s])
qed

lemma report_watchpoint_setup [setup_dests]:
  "report_watchpoint_hit K d i w = (d', w') \<Longrightarrow> same_setup d d'"
  by (auto simp: report_watchpoint_hit_def Let_def same_setup_def wp_key_def intro!: map_list_update_same)

lemma switch_tid_setup: "same_setup d (switch_current_tid_to_breakpoint_hit K d w)"
  by (auto simp: switch_current_tid_to_breakpoint_hit_def split: option.split)

lemma report_stop_setup [setup_dests]:
  assumes "report_stop K d w = (rc, d', w')"
  shows "same_setup d d'"
proof -
  let ?w1 = "resync_watchpoints_to_all_threads K d w"
  let ?d1 = "switch_current_tid_to_breakpoint_hit K d ?w1"
  obtain ok d2 where r: "cdbg_refresh_regs K ?d1 ?w1 = (ok, d2)" by fastforce
  have s: "same_setup d d2" using switch_tid_setup refresh_setup [OF r] by (rule same_setup_trans)
  from assms r show ?thesis
    by (auto simp: report_stop_def Let_def split: bool.splits option.splits prod.splits
        dest!: handle_hit_setup report_watchpoint_setup intro: s same_setup_trans [OF s])
qed

lemma finish_temp_setup [setup_dests]: "finish_temp_breakpoint K d bp w = (rc, d', w') \<Longrightarrow> same_setup d d'"
  by (auto simp: finish_temp_breakpoint_def Let_def split: bool.splits prod.splits if_splits arch.splits
      dest!: refresh_setup report_stop_setup intro: same_setup_trans)

lemma step_over_call_setup [setup_dests]: "step_over_call K d ra w = Some (rc, d', w') \<Longrightarrow> same_setup d d'"
  by (auto simp: step_over_call_def split: bool.splits prod.splits if_splits bind_splits
      dest!: continue_setup wait_setup finish_temp_setup intro: same_setup_trans)

lemma step_and_wait_setup [setup_dests]: "step_and_wait K d w = Some (r, d', w') \<Longrightarrow> same_setup d d'"
  by (auto simp: step_and_wait_def split: prod.splits if_splits bind_splits
      dest!: single_step_setup wait_setup intro: same_setup_trans)

lemma next_and_wait_setup [setup_dests]: "next_and_wait K d w = Some (r, d', w') \<Longrightarrow> same_setup d d'"
  by (auto simp: next_and_wait_def split: option.splits prod.splits if_splits bind_splits
      dest!: step_over_call_setup step_and_wait_setup)

lemma after_step_setup [setup_dests]: "after_step K f l d w = (r, d', w') \<Longrightarrow> same_setup d d'"
  by (auto simp: after_step_def Let_def split: prod.splits bool.splits if_splits option.splits
      dest!: refresh_setup report_stop_setup report_watchpoint_setup intro: same_setup_trans)

lemma frame_up_setup: "cdbg_frame_up K d w = (rc, d', w') \<Longrightarrow> same_setup d d'"
  by (auto simp: cdbg_frame_up_def Let_def split: prod.splits bool.splits option.splits dest!: refresh_setup)

section \<open>The line loop over any step\<close>

locale line_mover =
  fixes mv :: "'w kern \<Rightarrow> cdbg \<Rightarrow> 'w \<Rightarrow> ((int + unit) \<times> cdbg \<times> 'w) option"
  assumes mv_setup: "mv K d w = Some (r, d', w') \<Longrightarrow> same_setup d d'"
begin

lemma line_loop_setup: "line_loop mv K f l n g d w = Some (rc, g', d', w') \<Longrightarrow> same_setup d d'"
proof (induction n arbitrary: g d w)
  case 0
  then show ?case by simp
next
  case (Suc n)
  obtain g1 w1 where g: "step_thread_guard_catch_up K d g w = (g1, w1)" by fastforce
  obtain r d2 w2 where m: "mv K d w1 = Some (r, d2, w2)"
    using Suc.prems g by (cases "mv K d w1") auto
  note s = mv_setup [OF m]
  obtain r3 d3 w3 where a: "after_step K f l d2 w2 = (r3, d3, w3)" by (metis prod_cases3)
  note s3 = same_setup_trans [OF s after_step_setup [OF a]]
  from Suc.prems g m a s s3 show ?case
    by (auto split: sum.splits intro: same_setup_trans [OF s3 Suc.IH])
qed

lemma line_command_setup: "line_command mv K d w = Some (rc, d', w') \<Longrightarrow> same_setup d d'"
  by (auto simp: line_command_def step_without_line_def split: prod.splits bool.splits option.splits sum.splits bind_splits
      dest!: refresh_setup line_loop_setup step_and_wait_setup report_stop_setup intro: same_setup_trans)

end

interpretation by_step: line_mover step_and_wait
  by unfold_locales (rule step_and_wait_setup)

interpretation by_next: line_mover next_and_wait
  by unfold_locales (rule next_and_wait_setup)

lemma step_next_setup:
  "cdbg_step_next_line K d w = Some (rc, d', w') \<Longrightarrow> same_setup d d'"
  "cdbg_next_source_line K d w = Some (rc, d', w') \<Longrightarrow> same_setup d d'"
  by (simp_all add: cdbg_step_next_line_def cdbg_next_source_line_def by_step.line_command_setup by_next.line_command_setup)

end
