(* ===== verification/Print.thy ===== *)
theory Print
  imports ExprParse Steps
begin

text \<open>
  debugger.c: the \<open>print\<close> command and what it shares with \<open>set\<close>, \<open>watch\<close> and \<open>show\<close>: output formats, scalar,
  structure and array output, and the resolution of an expression to a sized location. An
  expression whose evaluation leaves defined C behaviour is treated as one that fails. The
  argument of a floating-point conversion is the bit pattern of the number.
\<close>

section \<open>Formats\<close>

datatype print_format_t = PRINT_FMT_DEFAULT | PRINT_FMT_DEC | PRINT_FMT_HEX | PRINT_FMT_OCT | PRINT_FMT_BIN
  | PRINT_FMT_CHAR | PRINT_FMT_STRING | PRINT_FMT_UDEC | PRINT_FMT_ADDR | PRINT_FMT_FLOAT | PRINT_FMT_ZHEX

definition format_letter :: "char \<Rightarrow> print_format_t option" where
  "format_letter c =
     (if c = CHR ''d'' \<or> c = CHR ''i'' then Some PRINT_FMT_DEC
      else if c = CHR ''x'' then Some PRINT_FMT_HEX
      else if c = CHR ''o'' then Some PRINT_FMT_OCT
      else if c = CHR ''t'' then Some PRINT_FMT_BIN
      else if c = CHR ''c'' then Some PRINT_FMT_CHAR
      else if c = CHR ''s'' then Some PRINT_FMT_STRING
      else if c = CHR ''u'' then Some PRINT_FMT_UDEC
      else if c = CHR ''a'' then Some PRINT_FMT_ADDR
      else if c = CHR ''f'' then Some PRINT_FMT_FLOAT
      else if c = CHR ''z'' then Some PRINT_FMT_ZHEX
      else None)"

text \<open>The format and the rest of the expression, which only a recognised format shortens.\<close>

definition parse_print_format :: "string \<Rightarrow> print_format_t \<times> string" where
  "parse_print_format expr =
     (case expr of
        s # c # rest \<Rightarrow>
          if s \<noteq> CHR ''/'' then (PRINT_FMT_DEFAULT, expr)
          else (case format_letter c of
                  None \<Rightarrow> (PRINT_FMT_DEFAULT, expr)
                | Some fmt \<Rightarrow>
                    if rest \<noteq> [] \<and> \<not> isspace (hd rest) then (PRINT_FMT_DEFAULT, expr)
                    else (fmt, trim_space rest))
      | _ \<Rightarrow> (PRINT_FMT_DEFAULT, expr))"

section \<open>Scalars\<close>

definition CDBG_MAX_PRINT_STRING :: nat where
  "CDBG_MAX_PRINT_STRING = 256"

text \<open>The digits of \<open>print_binary_value\<close>, most significant first.\<close>

definition print_binary_value :: "u64 \<Rightarrow> nat \<Rightarrow> string" where
  "print_binary_value value sz =
     (let bits = (if sz = 0 \<or> 8 < sz then 64 else sz * 8); v = mask_to_size value sz
      in map (\<lambda>i. if drop_bit i v AND 1 \<noteq> 0 then CHR ''1'' else CHR ''0'') (rev [0..<bits]))"

fun read_c_string_loop :: "'w kern \<Rightarrow> int \<Rightarrow> addr \<Rightarrow> nat \<Rightarrow> 'w \<Rightarrow> string option" where
  "read_c_string_loop K pid a 0 w = Some []"
| "read_c_string_loop K pid a (Suc n) w = (case cdbg_mem_read K pid a 1 w of
       None \<Rightarrow> None
     | Some bs \<Rightarrow> if hd bs = 0 then Some []
                  else map_option (Cons (char_of (unat (hd bs)))) (read_c_string_loop K pid (a + 1) n w))"

definition read_c_string :: "'w kern \<Rightarrow> int \<Rightarrow> addr \<Rightarrow> nat \<Rightarrow> 'w \<Rightarrow> string option" where
  "read_c_string K pid a out_len w = (if out_len = 0 then None else read_c_string_loop K pid a (out_len - 1) w)"

definition print_char_value :: "'w kern \<Rightarrow> u8 \<Rightarrow> 'w \<Rightarrow> 'w" where
  "print_char_value K ch w =
     (let c = char_of (unat ch)
      in if c = CHR 0x5C then k_print K [CHR 0x27, CHR 0x5C, CHR 0x5C, CHR 0x27] [] w
         else if c = CHR 0x27 then k_print K [CHR 0x27, CHR 0x5C, CHR 0x27, CHR 0x27] [] w
         else if isprint c then k_print K [CHR 0x27, CHR ''%'', CHR ''c'', CHR 0x27] [Arg_str [c]] w
         else k_print K ([CHR 0x27, CHR 0x5C] @ ''x%02x'' @ [CHR 0x27]) [Arg_int (uint ch)] w)"

definition print_type_annotation :: "'w kern \<Rightarrow> cdbg \<Rightarrow> print_format_t \<Rightarrow> string \<Rightarrow> 'w \<Rightarrow> 'w" where
  "print_type_annotation K dbg fmt ty w =
     (if d_print_pretty dbg \<and> fmt = PRINT_FMT_DEFAULT \<and> ty \<noteq> []
      then k_print K ''(%s) '' [Arg_str (format_type_for_display K dbg ty 256 w)] w else w)"

text \<open>\<open>label = (type) \<close>, the start of every scalar line.\<close>

definition print_label :: "'w kern \<Rightarrow> cdbg \<Rightarrow> string \<Rightarrow> print_format_t \<Rightarrow> string \<Rightarrow> 'w \<Rightarrow> 'w" where
  "print_label K dbg label fmt ty w = print_type_annotation K dbg fmt ty (k_print K ''%s = '' [Arg_str label] w)"

definition print_address_value :: "'w kern \<Rightarrow> cdbg \<Rightarrow> u64 \<Rightarrow> 'w \<Rightarrow> 'w" where
  "print_address_value K dbg value w =
     (let w1 = k_print K ''0x%llx'' [Arg_word value] w;
          w2 = (case lookup_symbol_for_pc (d_syms dbg) value of
                  None \<Rightarrow> w1
                | Some (found, offset) \<Rightarrow>
                    let wa = k_print K '' <%s'' [Arg_str (display_sym_name (Some found))] w1;
                        wb = (if offset \<noteq> 0 then k_print K ''+%lu'' [Arg_word offset] wa else wa)
                    in k_print K ''>'' [] wb)
      in k_print K [CHR 0x0A] [] w2)"

definition print_scalar_result_fmt ::
  "'w kern \<Rightarrow> cdbg \<Rightarrow> string \<Rightarrow> print_format_t \<Rightarrow> u64 \<Rightarrow> nat \<Rightarrow> bool \<Rightarrow> bool \<Rightarrow> bool \<Rightarrow> string \<Rightarrow> 'w \<Rightarrow> 'w" where
  "print_scalar_result_fmt K dbg label fmt value0 sz is_signed is_pointer is_address ty w =
     (let value = mask_to_size value0 sz; start = print_label K dbg label fmt ty
      in (case fmt of
            PRINT_FMT_HEX \<Rightarrow> k_print K (fmtln ''0x%llx'') [Arg_word value] (start w)
          | PRINT_FMT_OCT \<Rightarrow> k_print K (fmtln ''%#llo'') [Arg_word value] (start w)
          | PRINT_FMT_BIN \<Rightarrow> k_print K (fmtln ''%s'') [Arg_str (print_binary_value value sz)] (start w)
          | PRINT_FMT_CHAR \<Rightarrow> k_print K [CHR 0x0A] [] (print_char_value K (ucast value) (start w))
          | PRINT_FMT_STRING \<Rightarrow> (case read_c_string K (d_pid dbg) value CDBG_MAX_PRINT_STRING w of
                None \<Rightarrow> w
              | Some str \<Rightarrow> k_print K (fmtln ''\"%s\"'') [Arg_str str] (start w))
          | PRINT_FMT_DEC \<Rightarrow>
              if is_signed then k_print K (fmtln ''%lld'') [Arg_int (sint (sign_extend_value value sz))] (start w)
              else k_print K (fmtln ''%llu'') [Arg_word value] (start w)
          | PRINT_FMT_UDEC \<Rightarrow> k_print K (fmtln ''%llu'') [Arg_word value] (start w)
          | PRINT_FMT_ZHEX \<Rightarrow>
              k_print K (fmtln ''0x%0*llx'') [Arg_int (int ((if sz = 0 \<or> 8 < sz then 8 else sz) * 2)), Arg_word value] (start w)
          | PRINT_FMT_FLOAT \<Rightarrow>
              if sz \<le> 4 then k_print K (fmtln ''%.9g'') [Arg_word (value AND 0xffffffff)] (start w)
              else k_print K (fmtln ''%.17g'') [Arg_word value] (start w)
          | PRINT_FMT_ADDR \<Rightarrow> print_address_value K dbg value (start w)
          | PRINT_FMT_DEFAULT \<Rightarrow>
              if is_pointer \<or> is_address then k_print K (fmtln ''0x%016llx'') [Arg_word value] (start w)
              else if is_signed
              then k_print K (fmtln ''%lld (0x%llx)'') [Arg_int (sint (sign_extend_value value sz)), Arg_word value] (start w)
              else k_print K (fmtln ''%llu (0x%llx)'') [Arg_word value, Arg_word value] (start w)))"

definition print_scalar_inline :: "'w kern \<Rightarrow> u64 \<Rightarrow> nat \<Rightarrow> bool \<Rightarrow> bool \<Rightarrow> 'w \<Rightarrow> 'w" where
  "print_scalar_inline K value sz is_signed is_pointer w =
     (if is_pointer then k_print K ''0x%llx'' [Arg_word value] w
      else if is_signed then k_print K ''%lld'' [Arg_int (sint (sign_extend_value value sz))] w
      else k_print K ''%llu'' [Arg_word value] w)"

section \<open>Structures and arrays\<close>

fun print_members :: "'w kern \<Rightarrow> cdbg \<Rightarrow> addr \<Rightarrow> bool \<Rightarrow> nat \<Rightarrow> cdbg_struct_member list \<Rightarrow> 'w \<Rightarrow> bool \<times> 'w" where
  "print_members K dbg a pretty i [] w = (True, w)"
| "print_members K dbg a pretty i (m # ms) w =
     (case read_scalar_value K (d_pid dbg) (a + sm_offset m) (unat (sm_size m)) w of
        None \<Rightarrow> (False, w)
      | Some value \<Rightarrow>
          let show = print_scalar_inline K value (unat (sm_size m)) (sm_is_signed m) False;
              w1 = (if pretty
                    then k_print K [CHR 0x0A] []
                           (show (print_type_annotation K dbg PRINT_FMT_DEFAULT (sm_type m)
                              (k_print K ''  %s = '' [Arg_str (sm_name m)] w)))
                    else show (k_print K ''%s='' [Arg_str (sm_name m)] (if 0 < i then k_print K '', '' [] w else w)))
          in print_members K dbg a pretty (Suc i) ms w1)"

definition print_struct_element ::
  "'w kern \<Rightarrow> cdbg \<Rightarrow> addr \<Rightarrow> cdbg_struct_member list \<Rightarrow> bool \<Rightarrow> 'w \<Rightarrow> bool \<times> 'w" where
  "print_struct_element K dbg a members pretty w =
     (case print_members K dbg a pretty 0 members (if pretty then puts K ''{'' w else k_print K ''{'' [] w) of
        (False, w1) \<Rightarrow> (False, w1)
      | (True, w1) \<Rightarrow> (True, k_print K ''}'' [] w1))"

definition struct_members_of :: "'w kern \<Rightarrow> cdbg \<Rightarrow> string \<Rightarrow> 'w \<Rightarrow> cdbg_struct_member list option" where
  \<comment> \<open>\<open>!type_is_scalar(t) && dwarf_lookup_struct(...) == 0\<close>\<close>
  "struct_members_of K dbg ty w =
     (if type_is_scalar ty then None else map_option fst (dwarf_lookup_struct K dbg ty 32 w))"

definition print_array_element_value :: "'w kern \<Rightarrow> cdbg \<Rightarrow> cdbg_var_info \<Rightarrow> addr \<Rightarrow> 'w \<Rightarrow> bool \<times> 'w" where
  "print_array_element_value K dbg var elem_addr w =
     (let ty = vi_element_type var; sz = unat (vi_element_size var)
      in case struct_members_of K dbg ty w of
        Some members \<Rightarrow>
          print_struct_element K dbg elem_addr members (d_print_pretty dbg)
            (print_type_annotation K dbg PRINT_FMT_DEFAULT ty w)
      | None \<Rightarrow>
          (case read_scalar_value K (d_pid dbg) elem_addr sz w of
             None \<Rightarrow> (False, w)
           | Some value \<Rightarrow>
               (True, k_print K '' (0x%llx)'' [Arg_word value]
                  (print_scalar_inline K value sz (\<not> type_unsigned ty) (has_star ty)
                     (print_type_annotation K dbg PRINT_FMT_DEFAULT ty w)))))"

definition CDBG_MAX_ARRAY_PRINT :: u64 where
  "CDBG_MAX_ARRAY_PRINT = 256"

fun print_array_elements :: "'w kern \<Rightarrow> cdbg \<Rightarrow> cdbg_var_info \<Rightarrow> addr \<Rightarrow> nat list \<Rightarrow> 'w \<Rightarrow> bool \<times> 'w" where
  "print_array_elements K dbg var base [] w = (True, w)"
| "print_array_elements K dbg var base (i # is) w =
     (let pretty = d_print_pretty dbg;
          w1 = (if pretty then k_print K ''  [%zu] '' [Arg_int (int i)] w
                else if 0 < i then k_print K '', '' [] w else w)
      in case print_array_element_value K dbg var (base + of_nat i * vi_element_size var) w1 of
           (False, w2) \<Rightarrow> (False, w2)
         | (True, w2) \<Rightarrow> print_array_elements K dbg var base is (if pretty then k_print K [CHR 0x0A] [] w2 else w2))"

definition print_array_variable :: "'w kern \<Rightarrow> cdbg \<Rightarrow> string \<Rightarrow> cdbg_var_info \<Rightarrow> addr \<Rightarrow> 'w \<Rightarrow> bool \<times> 'w" where
  "print_array_variable K dbg name var base w =
     (if vi_array_count var = 0 \<or> vi_element_size var = 0 then (False, w)
      else if CDBG_MAX_ARRAY_PRINT < vi_array_count var then (False, w)
      else let w1 = (if d_print_pretty dbg
                     then puts K ''['' (print_type_annotation K dbg PRINT_FMT_DEFAULT (vi_type var)
                                          (k_print K ''%s = '' [Arg_str name] w))
                     else k_print K ''%s = ['' [Arg_str name] w)
           in case print_array_elements K dbg var base [0..<unat (vi_array_count var)] w1 of
                (False, w2) \<Rightarrow> (False, w2)
              | (True, w2) \<Rightarrow> (True, puts K '']'' w2))"

text \<open>A structure on a line of its own, after its label.\<close>

definition print_struct_value ::
  "'w kern \<Rightarrow> cdbg \<Rightarrow> string \<Rightarrow> string \<Rightarrow> addr \<Rightarrow> cdbg_struct_member list \<Rightarrow> 'w \<Rightarrow> bool \<times> 'w" where
  "print_struct_value K dbg label ty a members w =
     (case print_struct_element K dbg a members (d_print_pretty dbg) (print_label K dbg label PRINT_FMT_DEFAULT ty w) of
        (False, w1) \<Rightarrow> (False, w1)
      | (True, w1) \<Rightarrow> (True, k_print K [CHR 0x0A] [] w1))"

text \<open>The value of a variable at an address, in a format; only the default one shows structures.\<close>

definition print_located ::
  "'w kern \<Rightarrow> cdbg \<Rightarrow> string \<Rightarrow> print_format_t \<Rightarrow> cdbg_var_info \<Rightarrow> addr \<Rightarrow> 'w \<Rightarrow> bool \<times> 'w" where
  "print_located K dbg label fmt var a w =
     (if vi_is_array var \<and> fmt = PRINT_FMT_DEFAULT then print_array_variable K dbg label var a w
      else case (if \<not> vi_is_pointer var \<and> fmt = PRINT_FMT_DEFAULT then struct_members_of K dbg (vi_type var) w else None) of
        Some members \<Rightarrow> print_struct_value K dbg label (vi_type var) a members w
      | None \<Rightarrow>
          (case read_scalar_value K (d_pid dbg) a (unat (vi_size var)) w of
             None \<Rightarrow> (False, w)
           | Some value \<Rightarrow>
               (True, print_scalar_result_fmt K dbg label fmt value (unat (vi_size var)) (vi_is_signed var)
                  (vi_is_pointer var) False (vi_type var) w)))"

definition print_named_variable :: "'w kern \<Rightarrow> cdbg \<Rightarrow> cdbg_var_info \<Rightarrow> addr \<Rightarrow> 'w \<Rightarrow> bool \<times> 'w" where
  "print_named_variable K dbg var a w = print_located K dbg (vi_name var) PRINT_FMT_DEFAULT var a w"

section \<open>Expressions\<close>

text \<open>\<open>cdbg_expr_eval\<close> of expr.c, with the registers it refreshes.\<close>

definition cdbg_expr_eval ::
  "(string \<Rightarrow> u64) \<Rightarrow> 'w kern \<Rightarrow> cdbg \<Rightarrow> string \<Rightarrow> 'w \<Rightarrow> cdbg_expr_result option \<times> cdbg" where
  "cdbg_expr_eval strtod K dbg text w =
     (if \<not> cdbg_language_check_expr dbg then (None, dbg)
      else case cdbg_refresh_regs K dbg w of
        (False, dbg1) \<Rightarrow> (None, dbg1)
      | (True, dbg1) \<Rightarrow>
          (case cdbg_ast_parse strtod text of
             None \<Rightarrow> (None, dbg1)
           | Some ast \<Rightarrow> (case cdbg_ast_eval K dbg1 ast w of
                 Inl _ \<Rightarrow> (None, dbg1)
               | Inr r \<Rightarrow> (Some r, dbg1))))"

text \<open>Address, size and type name of an lvalue expression.\<close>

definition cdbg_resolve_lvalue_expr_sized ::
  "(string \<Rightarrow> u64) \<Rightarrow> 'w kern \<Rightarrow> cdbg \<Rightarrow> string \<Rightarrow> nat \<Rightarrow> 'w \<Rightarrow> (addr \<times> nat \<times> string) option" where
  "cdbg_resolve_lvalue_expr_sized strtod K dbg expr type_out_len w =
     (case cdbg_ast_parse strtod expr of
        None \<Rightarrow> None
      | Some ast \<Rightarrow>
          if \<not> cdbg_ast_is_lvalue_shaped ast then None
          else (case cdbg_ast_resolve_lvalue K dbg ast w of
                  Inl _ \<Rightarrow> None
                | Inr (a, var) \<Rightarrow> Some (a, unat (vi_size var), snprintf_s type_out_len (vi_type var))))"

text \<open>The left side of an assignment: a scalar location with its size and signedness.\<close>

definition resolve_set_lhs ::
  "(string \<Rightarrow> u64) \<Rightarrow> 'w kern \<Rightarrow> cdbg \<Rightarrow> string \<Rightarrow> 'w \<Rightarrow> (addr \<times> nat \<times> bool) option \<times> cdbg" where
  "resolve_set_lhs strtod K dbg lhs w =
     (case cdbg_refresh_regs K dbg w of
        (False, dbg1) \<Rightarrow> (None, dbg1)
      | (True, dbg1) \<Rightarrow>
          (case cdbg_ast_parse strtod lhs of
             None \<Rightarrow> (None, dbg1)
           | Some ast \<Rightarrow>
               if \<not> cdbg_ast_is_lvalue_shaped ast then (None, dbg1)
               else (case cdbg_ast_resolve_lvalue K dbg1 ast w of
                       Inl _ \<Rightarrow> (None, dbg1)
                     | Inr (a, var) \<Rightarrow>
                         if vi_type var \<noteq> [] \<and> \<not> type_is_scalar (vi_type var) then (None, dbg1)
                         else (Some (a, unat (vi_size var), vi_is_signed var), dbg1))))"

section \<open>The command\<close>

definition cmd_print :: "(string \<Rightarrow> u64) \<Rightarrow> 'w kern \<Rightarrow> cdbg \<Rightarrow> string \<Rightarrow> 'w \<Rightarrow> int \<times> cdbg \<times> 'w" where
  "cmd_print strtod K dbg expr0 w =
     (let expr1 = trim_space expr0; (fmt, expr) = parse_print_format expr1
      in if expr1 = [] \<or> expr = [] then (- 1, dbg, w)
         else if \<not> cdbg_language_check_expr dbg then (- 1, dbg, w)
         else case cdbg_refresh_regs K dbg w of
           (False, dbg1) \<Rightarrow> (- 1, dbg1, w)
         | (True, dbg1) \<Rightarrow>
             (case cdbg_ast_parse strtod expr of
                None \<Rightarrow> (- 1, dbg1, w)
              | Some ast \<Rightarrow>
                  if cdbg_ast_is_lvalue_shaped ast
                  then (case cdbg_ast_resolve_lvalue K dbg1 ast w of
                          Inl _ \<Rightarrow> (- 1, dbg1, w)
                        | Inr (a, var) \<Rightarrow>
                            (case print_located K dbg1 expr fmt var a w of
                               (ok, w1) \<Rightarrow> (if ok then 0 else - 1, dbg1, w1)))
                  else (case cdbg_ast_eval K dbg1 ast w of
                          Inl _ \<Rightarrow> (- 1, dbg1, w)
                        | Inr r \<Rightarrow>
                            (0, dbg1, print_scalar_result_fmt K dbg1 expr fmt (er_value r) 8 True False
                                        (er_is_address r) (er_type r) w))))"

end
