(* ===== verification/BreakCmds.thy ===== *)
theory BreakCmds
  imports Print
begin

text \<open>
  debugger.c: the commands on breakpoints. Resolving the argument of \<open>break\<close> to an address, arming it,
  deleting breakpoints by number or all of them, and the table that \<open>show bp\<close> prints. A result is
  the return code, the new debugger state and the new machine.
\<close>

section \<open>Where a breakpoint goes\<close>

definition runtime_row :: "cdbg \<Rightarrow> line_entry \<Rightarrow> addr" where
  "runtime_row dbg e = cdbg_lineno_runtime_addr (d_lineno dbg) (le_address e)"

definition line_label :: "nat \<Rightarrow> line_entry \<Rightarrow> string" where
  "line_label n e = snprintf_s n (le_file e @ '':'' @ dec_str (unat (le_line e)))"

definition resolve_break_line :: "cdbg \<Rightarrow> string \<Rightarrow> u32 \<Rightarrow> nat \<Rightarrow> (addr \<times> string) option" where
  "resolve_break_line dbg file line label_len =
     (case (if file \<noteq> [] then cdbg_lineno_lookup_line (d_lineno dbg) file line
            else cdbg_lineno_lookup_line_unique (d_lineno dbg) line) of
        None \<Rightarrow> None
      | Some e \<Rightarrow> Some (runtime_row dbg e, line_label label_len e))"

definition sym_undefined :: "sym_entry \<Rightarrow> bool" where
  "sym_undefined e \<longleftrightarrow> sym_address e = 0 \<or> sym_type e = CHR ''U'' \<or> sym_type e = CHR ''u''"

text \<open>The first line of a function's body, behind its prologue, when the line table knows it.\<close>

definition behind_prologue :: "cdbg \<Rightarrow> addr \<Rightarrow> addr" where
  "behind_prologue dbg a = (case cdbg_lineno_lookup_next_line_after_pc (d_lineno dbg) a of
       None \<Rightarrow> a
     | Some e \<Rightarrow> runtime_row dbg e)"

text \<open>The three forms of the argument: file and line, number, symbol.\<close>

definition break_file_line :: "cdbg \<Rightarrow> string \<Rightarrow> string \<Rightarrow> (addr \<times> string) option" where
  "break_file_line dbg file_part line_part =
     (if file_part = [] \<or> CDBG_LINENO_MAX_FILE \<le> length file_part then None
      else case parse_u64 line_part of
        None \<Rightarrow> None
      | Some n \<Rightarrow> if n = 0 then None
                  else resolve_break_line dbg file_part (ucast n) (CDBG_LINENO_MAX_FILE + 32))"

definition break_number :: "cdbg \<Rightarrow> string \<Rightarrow> u64 \<Rightarrow> addr \<times> string" where
  "break_number dbg target parsed =
     (if strncmp_eq target ''0x'' \<or> strncmp_eq target ''0X'' then (parsed, target)
      else case resolve_break_line dbg [] (ucast parsed) (CDBG_LINENO_MAX_FILE + 32) of
        Some r \<Rightarrow> r
      | None \<Rightarrow> (parsed, target))"

definition break_symbol :: "cdbg \<Rightarrow> string \<Rightarrow> (addr \<times> string) option" where
  "break_symbol dbg target = (case cdbg_syms_lookup_name (d_syms dbg) target of
       None \<Rightarrow> None
     | Some e \<Rightarrow>
         if sym_undefined e then None
         else Some (behind_prologue dbg (cdbg_syms_runtime_addr (d_syms dbg) (sym_address e)), sym_name e))"

definition resolve_break_target :: "cdbg \<Rightarrow> string \<Rightarrow> (addr \<times> string) option" where
  "resolve_break_target dbg target =
     (case split_last (CHR '':'') target of
        Some (file_part, line_part) \<Rightarrow>
          if line_part \<noteq> [] then break_file_line dbg file_part line_part
          else (case parse_u64 target of
                  Some n \<Rightarrow> Some (break_number dbg target n) | None \<Rightarrow> break_symbol dbg target)
      | None \<Rightarrow> (case parse_u64 target of
                Some n \<Rightarrow> Some (break_number dbg target n) | None \<Rightarrow> break_symbol dbg target))"

definition cmd_break :: "'w kern \<Rightarrow> cdbg \<Rightarrow> string \<Rightarrow> 'w \<Rightarrow> int \<times> cdbg \<times> 'w" where
  "cmd_break K dbg target w = (case resolve_break_target dbg target of
       None \<Rightarrow> (- 1, dbg, w)
     | Some (a, label) \<Rightarrow>
         if CDBG_MAX_BREAKPOINTS \<le> length (d_breakpoints dbg) then (- 1, dbg, w)
         else case cdbg_bp_enable K zero_bp (d_pid dbg) a w of
           (False, _, w1) \<Rightarrow> (- 1, dbg, w1)
         | (True, bp, w1) \<Rightarrow>
             (0, dbg\<lparr>d_breakpoints := d_breakpoints dbg @ [bp\<lparr>bp_spec := snprintf_s 128 target\<rparr>]\<rparr>,
              k_print K (fmtln ''Breakpoint %zu at %s (0x%lx)'')
                [Arg_int (int (length (d_breakpoints dbg))), Arg_str label, Arg_word a] w1))"

section \<open>Deleting\<close>

definition process_live :: "cdbg \<Rightarrow> bool" where
  "process_live dbg \<longleftrightarrow> 0 < d_pid dbg \<and> d_state dbg \<noteq> CDBG_STATE_IDLE"

definition delete_breakpoint_at :: "'w kern \<Rightarrow> cdbg \<Rightarrow> nat \<Rightarrow> 'w \<Rightarrow> bool \<times> cdbg \<times> 'w" where
  "delete_breakpoint_at K dbg index w =
     (if length (d_breakpoints dbg) \<le> index then (False, dbg, w)
      else let gone = dbg\<lparr>d_breakpoints := remove_nth index (d_breakpoints dbg)\<rparr>
           in if process_live dbg
              then (case cdbg_bp_disable K (d_breakpoints dbg ! index) (d_pid dbg) w of
                      (False, _, w1) \<Rightarrow> (False, dbg, w1)
                    | (True, _, w1) \<Rightarrow> (True, gone, w1))
              else (True, gone, w))"

text \<open>\<open>while (breakpoint_count > 0)\<close>, counted down by the number of breakpoints left.\<close>

fun delete_all_breakpoints :: "'w kern \<Rightarrow> nat \<Rightarrow> cdbg \<Rightarrow> 'w \<Rightarrow> bool \<times> cdbg \<times> 'w" where
  "delete_all_breakpoints K 0 dbg w = (True, dbg, w)"
| "delete_all_breakpoints K (Suc n) dbg w =
     (case delete_breakpoint_at K dbg n w of
        (False, dbg1, w1) \<Rightarrow> (False, dbg1, w1)
      | (True, dbg1, w1) \<Rightarrow> delete_all_breakpoints K n dbg1 w1)"

text \<open>The numbers of an argument list, each in range, without repetition, in the order given.\<close>

fun parse_indices :: "nat \<Rightarrow> nat list \<Rightarrow> string list \<Rightarrow> nat list option" where
  "parse_indices count found [] = Some found"
| "parse_indices count found (token # tokens) = (case parse_u64 token of
       None \<Rightarrow> None
     | Some number \<Rightarrow>
         if count \<le> unat number then None
         else parse_indices count (if unat number \<in> set found then found else found @ [unat number]) tokens)"

text \<open>The exchange sort of the commands: the largest of the rest is swapped to the front.\<close>

fun exchange_pass :: "nat \<Rightarrow> nat list \<Rightarrow> nat \<times> nat list" where
  "exchange_pass x [] = (x, [])"
| "exchange_pass x (y # ys) =
     (if x < y then (case exchange_pass y ys of (m, r) \<Rightarrow> (m, x # r))
      else (case exchange_pass x ys of (m, r) \<Rightarrow> (m, y # r)))"

lemma exchange_pass_length: "exchange_pass x ys = (m, r) \<Longrightarrow> length r = length ys"
  by (induction x ys arbitrary: m r rule: exchange_pass.induct) (auto split: if_splits prod.splits)

function sort_descending :: "nat list \<Rightarrow> nat list" where
  "sort_descending [] = []"
| "sort_descending (x # xs) = (case exchange_pass x xs of (m, r) \<Rightarrow> m # sort_descending r)"
  by pat_completeness auto
termination
  by (relation "measure length") (auto dest: exchange_pass_length [OF sym])

fun delete_listed_breakpoints :: "'w kern \<Rightarrow> cdbg \<Rightarrow> nat list \<Rightarrow> 'w \<Rightarrow> bool \<times> cdbg \<times> 'w" where
  "delete_listed_breakpoints K dbg [] w = (True, dbg, w)"
| "delete_listed_breakpoints K dbg (i # is) w =
     (case delete_breakpoint_at K dbg i (k_print K (fmtln ''Deleting breakpoint %zu'') [Arg_int (int i)] w) of
        (False, dbg1, w1) \<Rightarrow> (False, dbg1, w1)
      | (True, dbg1, w1) \<Rightarrow> delete_listed_breakpoints K dbg1 is w1)"

definition cmd_del :: "'w kern \<Rightarrow> cdbg \<Rightarrow> string \<Rightarrow> 'w \<Rightarrow> int \<times> cdbg \<times> 'w" where
  "cmd_del K dbg args0 w =
     (let args = trim_space args0
      in if d_breakpoints dbg = [] then (0, dbg, puts K ''No breakpoints.'' w)
         else if args = [] then (- 1, dbg, w)
         else if args = ''all''
         then (case delete_all_breakpoints K (length (d_breakpoints dbg)) dbg w of
                 (False, dbg1, w1) \<Rightarrow> (- 1, dbg1, w1)
               | (True, dbg1, w1) \<Rightarrow> (0, dbg1, puts K ''All breakpoints deleted.'' w1))
         else (case parse_indices (length (d_breakpoints dbg)) []
                      (strtok_all is_blank (snprintf_s CDBG_MAX_CMD args)) of
                 None \<Rightarrow> (- 1, dbg, w)
               | Some indices \<Rightarrow>
                   (case delete_listed_breakpoints K dbg (sort_descending indices) w of
                      (ok, dbg1, w1) \<Rightarrow> (if ok then 0 else - 1, dbg1, w1))))"

section \<open>Listing\<close>

definition breakpoint_symloc :: "cdbg \<Rightarrow> addr \<Rightarrow> string" where
  "breakpoint_symloc dbg a = (case lookup_symbol_for_pc (d_syms dbg) a of
       None \<Rightarrow> []
     | Some (e, offset) \<Rightarrow>
         snprintf_s 64 (if offset = 0 then display_sym_name (Some e)
                        else display_sym_name (Some e) @ ''+0x'' @ hex_str (unat offset)))"

definition breakpoint_location :: "cdbg \<Rightarrow> addr \<Rightarrow> string" where
  "breakpoint_location dbg a =
     (let symloc = breakpoint_symloc dbg a; n = CDBG_LINENO_MAX_FILE + 64
      in case cdbg_lineno_line_at_pc (d_lineno dbg) a CDBG_LINENO_MAX_FILE of
        Some (file, line) \<Rightarrow>
          snprintf_s n ((if symloc \<noteq> [] then symloc @ '' at '' else []) @ file @ '':'' @ dec_str (unat line))
      | None \<Rightarrow> if symloc \<noteq> [] then snprintf_s n symloc else ''<unknown>'')"

fun print_breakpoint_rows :: "'w kern \<Rightarrow> cdbg \<Rightarrow> nat \<Rightarrow> cdbg_breakpoint list \<Rightarrow> 'w \<Rightarrow> 'w" where
  "print_breakpoint_rows K dbg i [] w = w"
| "print_breakpoint_rows K dbg i (bp # bps) w =
     print_breakpoint_rows K dbg (Suc i) bps
       (k_print K (fmtln ''%-4zu %-4s 0x%016lx  %s'')
          [Arg_int (int i), Arg_str (if bp_enabled bp then ''y'' else ''n''), Arg_word (bp_addr bp),
           Arg_str (breakpoint_location dbg (bp_addr bp))] w)"

definition cmd_show_breakpoints :: "'w kern \<Rightarrow> cdbg \<Rightarrow> 'w \<Rightarrow> 'w" where
  "cmd_show_breakpoints K dbg w =
     (if d_breakpoints dbg = [] then puts K ''No breakpoints.'' w
      else print_breakpoint_rows K dbg 0 (d_breakpoints dbg)
             (k_print K (fmtln ''%-4s %-4s %-18s  %s'')
                [Arg_str ''Num'', Arg_str ''Enb'', Arg_str ''Address'', Arg_str ''Location''] w))"

end
