(* ===== verification/BreakFacts.thy ===== *)
theory BreakFacts
  imports BreakCmds "HOL-Library.Multiset"
begin

text \<open>
  What the breakpoint commands guarantee: the sort of the argument list, the list that a deletion
  leaves, and the refinement of the abstract program memory of Traps by \<open>break\<close> and \<open>del\<close>.
\<close>

section \<open>The sort\<close>

lemma exchange_pass_mset: "exchange_pass x ys = (m, r) \<Longrightarrow> mset (m # r) = mset (x # ys)"
  by (induction x ys arbitrary: m r rule: exchange_pass.induct) (auto split: if_splits prod.splits)

lemma exchange_pass_max: "exchange_pass x ys = (m, r) \<Longrightarrow> \<forall>z \<in> set (x # ys). z \<le> m"
  by (induction x ys arbitrary: m r rule: exchange_pass.induct) (auto split: if_splits prod.splits)

lemma sort_descending_mset: "mset (sort_descending xs) = mset xs"
  by (induction xs rule: sort_descending.induct) (auto split: prod.splits dest: exchange_pass_mset)

lemma sort_descending_sorted: "sorted_wrt (\<ge>) (sort_descending xs)"
proof (induction xs rule: sort_descending.induct)
  case (2 x xs)
  obtain m r where p: "exchange_pass x xs = (m, r)" by fastforce
  have "set (sort_descending r) = set r" by (metis sort_descending_mset mset_eq_setD)
  moreover have "set r \<subseteq> set (x # xs)" using exchange_pass_mset [OF p] by (metis mset_eq_setD set_subset_Cons)
  ultimately show ?case using 2 [OF p [symmetric]] exchange_pass_max [OF p] p by auto
qed simp

lemma sort_descending_set: "set (sort_descending xs) = set xs"
  by (metis sort_descending_mset mset_eq_setD)

lemma sorted_distinct_strict: "sorted_wrt (\<ge>) ys \<Longrightarrow> distinct ys \<Longrightarrow> sorted_wrt (>) (ys :: nat list)"
  by (induction ys) (auto simp: less_le)

lemma sort_descending_strict: "distinct xs \<Longrightarrow> sorted_wrt (>) (sort_descending xs)"
  by (rule sorted_distinct_strict [OF sort_descending_sorted])
    (metis sort_descending_mset mset_eq_imp_distinct_iff)

lemma parse_indices_props:
  "parse_indices n found ts = Some is \<Longrightarrow> distinct found \<Longrightarrow> set found \<subseteq> {..<n} \<Longrightarrow>
     distinct is \<and> set is \<subseteq> {..<n}"
proof (induction ts arbitrary: found)
  case Nil
  then show ?case by simp
next
  case (Cons token ts)
  obtain v where v: "parse_u64 token = Some v" "\<not> n \<le> unat v" using Cons.prems(1)
    by (auto split: option.splits if_splits)
  show ?case
    by (rule Cons.IH [of "if unat v \<in> set found then found else found @ [unat v]"]) (use Cons.prems v in auto)
qed

section \<open>What a deletion leaves\<close>

lemma delete_breakpoint_ok:
  "delete_breakpoint_at K dbg i w = (True, dbg', w') \<Longrightarrow>
     i < length (d_breakpoints dbg) \<and> dbg' = dbg\<lparr>d_breakpoints := remove_nth i (d_breakpoints dbg)\<rparr>"
  by (auto simp: delete_breakpoint_at_def Let_def split: if_splits prod.splits bool.splits)

lemma delete_breakpoint_fails: "delete_breakpoint_at K dbg i w = (False, dbg', w') \<Longrightarrow> dbg' = dbg"
  by (auto simp: delete_breakpoint_at_def Let_def split: if_splits prod.splits bool.splits)

lemma delete_listed_without:
  "delete_listed_breakpoints K dbg is w = (True, dbg', w') \<Longrightarrow>
     d_breakpoints dbg = without I bps \<Longrightarrow> sorted_wrt (>) is \<Longrightarrow>
     \<forall>i \<in> set is. i < length bps \<and> (\<forall>j \<in> I. i < j) \<Longrightarrow>
     d_breakpoints dbg' = without (I \<union> set is) bps"
proof (induction "is" arbitrary: dbg w I)
  case Nil
  then show ?case by simp
next
  case (Cons i "is")
  obtain ok dbg1 w1 where d: "delete_breakpoint_at K dbg i (k_print K (fmtln ''Deleting breakpoint %zu'') [Arg_int (int i)] w) = (ok, dbg1, w1)"
    by (metis prod_cases3)
  with Cons.prems(1) have ok: ok and r: "delete_listed_breakpoints K dbg1 is w1 = (True, dbg', w')"
    by (auto split: bool.splits)
  from d ok delete_breakpoint_ok [of K dbg i _ dbg1 w1]
  have "d_breakpoints dbg1 = remove_nth i (without I bps)" using Cons.prems(2) by fastforce
  then have "d_breakpoints dbg1 = without (insert i I) bps"
    using nths_insert_above [of i bps I] Cons.prems(4) by auto
  from Cons.IH [OF r this] Cons.prems(3,4) show ?case by auto
qed

lemma delete_all_empties:
  "delete_all_breakpoints K n dbg w = (True, dbg', w') \<Longrightarrow> n = length (d_breakpoints dbg) \<Longrightarrow>
     d_breakpoints dbg' = []"
proof (induction n arbitrary: dbg w)
  case 0
  then show ?case by simp
next
  case (Suc n)
  obtain ok dbg1 w1 where d: "delete_breakpoint_at K dbg n w = (ok, dbg1, w1)" by (metis prod_cases3)
  with Suc.prems(1) have ok: ok and r: "delete_all_breakpoints K n dbg1 w1 = (True, dbg', w')"
    by (auto split: bool.splits)
  with d delete_breakpoint_ok [of K dbg n w dbg1 w1] Suc.prems(2) have "n = length (d_breakpoints dbg1)"
    by auto
  from Suc.IH [OF r this] show ?case .
qed

section \<open>Deleting and the abstract memory\<close>

context traced_process
begin

lemma remove_refines:
  assumes "i < length bps" "traps_ok (k_arch K) bps (contents w)"
    and d: "cdbg_bp_disable K (bps ! i) pid w = (True, bp', w')"
  shows "underlying (remove_nth i bps) (contents w') = underlying bps (contents w)
    \<and> traps_ok (k_arch K) (remove_nth i bps) (contents w') \<and> mapped w' = mapped w"
proof -
  let ?xs = "take i bps" and ?ys = "drop (Suc i) bps"
  have s: "bps = ?xs @ bps ! i # ?ys" using assms(1) by (simp add: id_take_nth_drop)
  from assms(2) s have t: "traps_ok (k_arch K) (?xs @ bps ! i # ?ys) (contents w)" by simp
  note dr = disable_refines [OF d t]
  have e: "\<not> bp_enabled bp'" using d by (rule cdbg_bp_disable_enabled)
  have "bp_addr bp' = bp_addr (bps ! i)" using cdbg_bp_disable_frame [OF d] by simp
  then have "bp_addr bp' \<notin> bp_addr ` set ?xs" using t by (auto simp: traps_ok_append traps_ok_Cons)
  from underlying_split [OF this, of ?ys] e dr s show ?thesis
    by (auto simp: remove_nth_def traps_ok_append traps_ok_Cons)
qed

lemma delete_refines:
  assumes "delete_breakpoint_at K dbg i w = (ok, dbg', w')" "d_pid dbg = pid" "process_live dbg"
    and "dbg_traps_ok K contents dbg w"
  shows "program_memory contents dbg' w' = program_memory contents dbg w \<and> dbg_traps_ok K contents dbg' w'
    \<and> mapped w' = mapped w \<and> d_pid dbg' = pid \<and> process_live dbg'"
proof (cases "i < length (d_breakpoints dbg)")
  case False
  with assms show ?thesis by (auto simp: delete_breakpoint_at_def)
next
  case True
  obtain b bp w1 where d: "cdbg_bp_disable K (d_breakpoints dbg ! i) pid w = (b, bp, w1)" by (metis prod_cases3)
  show ?thesis
  proof (cases b)
    case b: True
    with d remove_refines [OF True, of w bp w1] assms True show ?thesis
      by (auto simp: delete_breakpoint_at_def program_defs process_live_def)
  next
    case False
    with d bp_disable_fails [of "d_breakpoints dbg ! i" w bp w1] assms True show ?thesis
      by (auto simp: delete_breakpoint_at_def program_defs)
  qed
qed

lemma delete_all_refines:
  "delete_all_breakpoints K n dbg w = (ok, dbg', w') \<Longrightarrow> d_pid dbg = pid \<Longrightarrow> process_live dbg \<Longrightarrow>
     dbg_traps_ok K contents dbg w \<Longrightarrow>
     program_memory contents dbg' w' = program_memory contents dbg w \<and> dbg_traps_ok K contents dbg' w'"
proof (induction n arbitrary: dbg w)
  case 0
  then show ?case by simp
next
  case (Suc n)
  obtain b dbg1 w1 where d: "delete_breakpoint_at K dbg n w = (b, dbg1, w1)" by (metis prod_cases3)
  note dr = delete_refines [OF d Suc.prems(2-4)]
  from Suc.prems(1) d dr Suc.IH [of dbg1 w1] show ?case by (cases b) auto
qed

lemma delete_listed_refines:
  "delete_listed_breakpoints K dbg is w = (ok, dbg', w') \<Longrightarrow> d_pid dbg = pid \<Longrightarrow> process_live dbg \<Longrightarrow>
     dbg_traps_ok K contents dbg w \<Longrightarrow>
     program_memory contents dbg' w' = program_memory contents dbg w \<and> dbg_traps_ok K contents dbg' w'"
proof (induction "is" arbitrary: dbg w)
  case Nil
  then show ?case by simp
next
  case (Cons i "is")
  let ?w = "k_print K (fmtln ''Deleting breakpoint %zu'') [Arg_int (int i)] w"
  obtain b dbg1 w1 where d: "delete_breakpoint_at K dbg i ?w = (b, dbg1, w1)" by (metis prod_cases3)
  have p: "dbg_traps_ok K contents dbg ?w = dbg_traps_ok K contents dbg w"
    "program_memory contents dbg ?w = program_memory contents dbg w"
    by (simp_all add: program_defs print_memory)
  note dr = delete_refines [OF d Cons.prems(2,3) Cons.prems(4) [folded p(1)]]
  from Cons.prems(1) d dr Cons.IH [of dbg1 w1] p(2) show ?case by (cases b) auto
qed

lemma del_refines:
  assumes "cmd_del K dbg args w = (rc, dbg', w')" "d_pid dbg = pid" "process_live dbg"
    and "dbg_traps_ok K contents dbg w"
  shows "program_memory contents dbg' w' = program_memory contents dbg w \<and> dbg_traps_ok K contents dbg' w'"
  using assms
  by (auto simp: cmd_del_def Let_def split: if_splits prod.splits bool.splits option.splits
      dest!: delete_all_refines delete_listed_refines)
    (auto simp: program_defs puts_def print_memory)

lemma break_refines:
  assumes "cmd_break K dbg target w = (rc, dbg', w')" "d_pid dbg = pid" "dbg_traps_ok K contents dbg w"
    and "resolve_break_target dbg target = Some (a, label)" "a \<notin> bp_addr ` set (d_breakpoints dbg)"
  shows "program_memory contents dbg' w' = program_memory contents dbg w \<and> dbg_traps_ok K contents dbg' w'"
proof (cases "CDBG_MAX_BREAKPOINTS \<le> length (d_breakpoints dbg)")
  case True
  with assms show ?thesis by (simp add: cmd_break_def)
next
  case False
  obtain b bp w1 where e: "cdbg_bp_enable K zero_bp pid a w = (b, bp, w1)" by (metis prod_cases3)
  show ?thesis
  proof (cases b)
    case b: False
    with e bp_enable_fails [of zero_bp a w bp w1] assms False show ?thesis by (auto simp: cmd_break_def)
  next
    case True
    have "\<not> bp_enabled zero_bp" by (simp add: zero_bp_def)
    with enable_refines [OF e, of "d_breakpoints dbg" "[]"] assms e True False show ?thesis
      by (auto simp: cmd_break_def program_defs print_memory underlying_split traps_ok_append traps_ok_Cons)
  qed
qed

end

section \<open>Properties\<close>

text \<open>C7: \<open>del all\<close> leaves no trace: when it succeeds on a live process there is no breakpoint left, and
  the memory of the debuggee is the memory that the program itself sees, with every byte that a trap
  had replaced put back.\<close>

theorem del_all_restores_memory:
  assumes "traced_process K (d_pid dbg) contents mapped" "dbg_traps_ok K contents dbg w" "process_live dbg"
    and "trim_space args = ''all''" "cmd_del K dbg args w = (0, dbg', w')"
  shows "d_breakpoints dbg' = [] \<and> contents w' = program_memory contents dbg w"
proof -
  have refl: "d_pid dbg = d_pid dbg" ..
  note r = traced_process.del_refines [OF assms(1,5) refl assms(3,2)]
  have e: "d_breakpoints dbg' = []"
    using assms(4,5) by (auto simp: cmd_del_def Let_def split: if_splits prod.splits bool.splits
        dest!: delete_all_empties)
  with r show ?thesis by (simp add: program_memory_def)
qed

lemma del_all_armed:
  "cmd_del (sim_kern X86_64) (stopped_dbg [armed_bp]) ''all'' armed_machine =
     (0, stopped_dbg [], puts (sim_kern X86_64) ''All breakpoints deleted.'' (sim_machine X86_64 0x401))"
proof -
  have t: "trim_space ''all'' = ''all''" by code_simp
  show ?thesis
    using disarm_0x400
    by (simp add: cmd_del_def t delete_breakpoint_at_def process_live_def stopped_dbg_def remove_nth_def)
qed

theorem del_all_restores_memory_witness:
  "s_mem (puts (sim_kern X86_64) ''All breakpoints deleted.'' (sim_machine X86_64 0x401)) = (\<lambda>p. ucast p)"
proof -
  have ok: "dbg_traps_ok (sim_kern X86_64) s_mem (stopped_dbg [armed_bp]) armed_machine"
    by (simp add: dbg_traps_ok_def traps_ok_def stopped_dbg_def armed_bp_def armed_machine_def sim_kern_def
        CDBG_TRAP_BYTE_def)
  have "process_live (stopped_dbg [armed_bp])" "trim_space ''all'' = ''all''"
    by (simp add: process_live_def stopped_dbg_def) code_simp
  from del_all_restores_memory [OF sim_process.traced_process_axioms ok this del_all_armed] show ?thesis
    by (simp add: program_memory_def stopped_dbg_def armed_bp_def armed_machine_def fun_upd_idem)
qed

text \<open>C18: \<open>del\<close> with a list of numbers removes exactly the breakpoints of these numbers, as numbered when
  the command was typed, in whatever order and however often they are given: the others stay, in their
  order.\<close>

theorem del_removes_listed:
  assumes "cmd_del K dbg args w = (0, dbg', w')" "d_breakpoints dbg \<noteq> []" "trim_space args \<noteq> ''all''"
  shows "\<exists>is. parse_indices (length (d_breakpoints dbg)) [] (strtok_all is_blank (snprintf_s CDBG_MAX_CMD (trim_space args))) = Some is
    \<and> d_breakpoints dbg' = without (set is) (d_breakpoints dbg)"
proof -
  from assms obtain idx where p: "parse_indices (length (d_breakpoints dbg)) []
      (strtok_all is_blank (snprintf_s CDBG_MAX_CMD (trim_space args))) = Some idx"
    and d: "delete_listed_breakpoints K dbg (sort_descending idx) w = (True, dbg', w')"
    by (auto simp: cmd_del_def Let_def split: if_splits prod.splits option.splits)
  from parse_indices_props [OF p] have i: "distinct idx" "set idx \<subseteq> {..<length (d_breakpoints dbg)}" by simp_all
  have "d_breakpoints dbg' = without ({} \<union> set (sort_descending idx)) (d_breakpoints dbg)"
    by (rule delete_listed_without [OF d])
      (use i in \<open>auto simp: sort_descending_set intro: sort_descending_strict\<close>)
  with p show ?thesis by (simp add: sort_descending_set)
qed

definition three_bps :: "cdbg_breakpoint list" where
  "three_bps = map (\<lambda>s. zero_bp\<lparr>bp_spec := s\<rparr>) [''a'', ''b'', ''c'']"

theorem del_removes_listed_witness:
  "map bp_spec (d_breakpoints (fst (snd (cmd_del (sim_kern AArch64) (stopped_dbg three_bps) ''0 2 0'' (sim_machine AArch64 0x400)))))
     = [''b'']"
proof -
  let ?d = "stopped_dbg three_bps" and ?w = "sim_machine AArch64 0x400"
  have t: "trim_space ''0 2 0'' = ''0 2 0''" "sort_descending [0, 2] = [2, 0]"
    "parse_indices (Suc (Suc (Suc 0))) [] (strtok_all is_blank (snprintf_s 256 ''0 2 0'')) = Some [0, 2]" by code_simp+
  obtain d' w' where r: "cmd_del (sim_kern AArch64) ?d ''0 2 0'' ?w = (0, d', w')"
    using t by (auto simp: cmd_del_def stopped_dbg_def three_bps_def zero_bp_def CDBG_MAX_CMD_def
        delete_breakpoint_at_def process_live_def cdbg_bp_disable_def remove_nth_def)
  have ne: "d_breakpoints ?d \<noteq> []" "trim_space ''0 2 0'' \<noteq> ''all''"
    using t by (simp_all add: stopped_dbg_def three_bps_def)
  have "without {0, 2} three_bps = [three_bps ! 1]"
    by (simp add: three_bps_def without_def nths_Cons)
  with del_removes_listed [OF r ne] t have "d_breakpoints d' = [three_bps ! 1]"
    by (simp add: CDBG_MAX_CMD_def stopped_dbg_def three_bps_def zero_bp_def)
  then show ?thesis by (simp add: r) (simp add: three_bps_def)
qed

text \<open>C6: \<open>break\<close> at an address that has no breakpoint yet refines the identity on the debuggee's own memory
  and keeps the contract of the breakpoints, whether the command succeeds or fails.\<close>

theorem break_keeps_program_memory:
  assumes "traced_process K (d_pid dbg) contents mapped" "dbg_traps_ok K contents dbg w"
    and "resolve_break_target dbg target = Some (a, label)" "a \<notin> bp_addr ` set (d_breakpoints dbg)"
    and "cmd_break K dbg target w = (rc, dbg', w')"
  shows "program_memory contents dbg' w' = program_memory contents dbg w \<and> dbg_traps_ok K contents dbg' w'"
  using traced_process.break_refines [OF assms(1,5) refl assms(2-4)] .

theorem break_keeps_program_memory_witness:
  "let (rc, dbg', w') = cmd_break (sim_kern X86_64) (stopped_dbg [armed_bp]) ''0x500'' armed_machine
   in program_memory s_mem dbg' w' = (\<lambda>p. ucast p)"
proof -
  obtain rc dbg' w' where c: "cmd_break (sim_kern X86_64) (stopped_dbg [armed_bp]) ''0x500'' armed_machine = (rc, dbg', w')"
    by (metis prod_cases3)
  have p: "parse_u64 ''0x500'' = Some 0x500" "split_last (CHR '':'') ''0x500'' = None"
    "strncmp_eq ''0x500'' ''0x''" by code_simp+
  then have r: "resolve_break_target (stopped_dbg [armed_bp]) ''0x500'' = Some (0x500, ''0x500'')"
    by (simp add: resolve_break_target_def break_number_def)
  have ok: "dbg_traps_ok (sim_kern X86_64) s_mem (stopped_dbg [armed_bp]) armed_machine"
    by (simp add: dbg_traps_ok_def traps_ok_def stopped_dbg_def armed_bp_def armed_machine_def sim_kern_def
        CDBG_TRAP_BYTE_def)
  have "(0x500 :: addr) \<notin> bp_addr ` set (d_breakpoints (stopped_dbg [armed_bp]))"
    by (simp add: stopped_dbg_def armed_bp_def)
  from break_keeps_program_memory [OF sim_process.traced_process_axioms ok r this c] c show ?thesis
    by (simp add: program_memory_def stopped_dbg_def armed_bp_def armed_machine_def fun_upd_idem)
qed

end
