(* ===== verification/WatchCmds.thy ===== *)
theory WatchCmds
  imports BreakFacts
begin

text \<open>
  debugger.c: the commands on watchpoints. The flags of \<open>watch\<close>, the choice and installation of a hardware slot,
  deletion with the slots of the later watchpoints moved down, and the table that \<open>show watch\<close> prints.
\<close>

section \<open>Flags\<close>

text \<open>The leading \<open>/r\<close> and \<open>/1|/2|/4|/8\<close>; the result is the rest, the mode flag and the explicit size.\<close>

definition watch_flag :: "string \<Rightarrow> bool \<times> nat \<Rightarrow> (bool \<times> nat) option" where
  "watch_flag flag s =
     (if flag = ''r'' then Some (True, snd s)
      else if flag = ''1'' then Some (fst s, 1)
      else if flag = ''2'' then Some (fst s, 2)
      else if flag = ''4'' then Some (fst s, 4)
      else if flag = ''8'' then Some (fst s, 8)
      else None)"

lemma trim_space_length: "length (trim_space s) \<le> length s"
  by (simp add: trim_space_def) (metis length_dropWhile_le length_rev le_trans)

function parse_watch_flags :: "string \<Rightarrow> bool \<times> nat \<Rightarrow> (string \<times> bool \<times> nat) option" where
  "parse_watch_flags p s =
     (if p = [] \<or> hd p \<noteq> CHR ''/'' then Some (p, s)
      else let flag = takeWhile (\<lambda>c. \<not> isspace c) (tl p); rest = dropWhile (\<lambda>c. \<not> isspace c) (tl p)
           in if flag = [] \<or> 16 \<le> length flag then None
              else case watch_flag flag s of
                None \<Rightarrow> None
              | Some s1 \<Rightarrow> parse_watch_flags (trim_space rest) s1)"
  by pat_completeness auto
termination
proof (relation "measure (\<lambda>(p, s). length p)", goal_cases)
  case 1
  then show ?case by simp
next
  case (2 p s flag rest s1)
  then have "length (trim_space rest) \<le> length (tl p)"
    using trim_space_length [of rest] length_dropWhile_le [of "\<lambda>c. \<not> isspace c" "tl p"] by simp
  with 2(1) show ?case by (cases p) auto
qed

declare parse_watch_flags.simps [simp del]

section \<open>Listing\<close>

fun print_watchpoint_rows :: "'w kern \<Rightarrow> nat \<Rightarrow> cdbg_watchpoint list \<Rightarrow> 'w \<Rightarrow> 'w" where
  "print_watchpoint_rows K i [] w = w"
| "print_watchpoint_rows K i (wp # wps) w =
     print_watchpoint_rows K (Suc i) wps
       (k_print K (fmtln ''%-4zu %-4s 0x%016lx %-6zu 0x%-6llx %s'')
          [Arg_int (int i), Arg_str (if wp_enabled wp then ''y'' else ''n''), Arg_word (wp_addr wp),
           Arg_int (int (wp_size wp)), Arg_word (wp_old_value wp), Arg_str (wp_expr wp)] w)"

definition cmd_show_watchpoints :: "'w kern \<Rightarrow> cdbg \<Rightarrow> 'w \<Rightarrow> 'w" where
  "cmd_show_watchpoints K dbg w =
     (if d_watchpoints dbg = [] then puts K ''No watchpoints.'' w
      else print_watchpoint_rows K 0 (d_watchpoints dbg)
             (k_print K (fmtln ''%-4s %-4s %-18s %-6s %-8s %s'')
                [Arg_str ''Num'', Arg_str ''Enb'', Arg_str ''Address'', Arg_str ''Size'', Arg_str ''Value'',
                 Arg_str ''Expression''] w))"

section \<open>Setting\<close>

text \<open>The width installed: the explicit one or none, else the largest that the hardware takes.\<close>

definition install_watch ::
  "'w kern \<Rightarrow> cdbg \<Rightarrow> nat \<Rightarrow> addr \<Rightarrow> nat \<Rightarrow> nat \<Rightarrow> cdbg_wp_mode \<Rightarrow> 'w \<Rightarrow> nat option \<times> 'w" where
  "install_watch K dbg slot a explicit_size value_size mode w =
     (if explicit_size \<noteq> 0
      then (case cdbg_wp_hw_install K (d_pid dbg) (int slot) a explicit_size mode w of
              (ok, w1) \<Rightarrow> (if ok then Some explicit_size else None, w1))
      else install_shrinking K (d_pid dbg) (int slot) a (watch_hw_size_for value_size) mode w)"

definition new_watchpoint ::
  "'w kern \<Rightarrow> cdbg \<Rightarrow> addr \<Rightarrow> nat \<Rightarrow> cdbg_wp_mode \<Rightarrow> string \<Rightarrow> string \<Rightarrow> 'w \<Rightarrow> cdbg_watchpoint" where
  "new_watchpoint K dbg a hw_size mode expr type_buf w =
     \<lparr>wp_enabled = True, wp_addr = a, wp_size = hw_size,
      wp_old_value = (case cdbg_mem_read K (d_pid dbg) a hw_size w of None \<Rightarrow> 0 | Some bs \<Rightarrow> word_of bs),
      wp_mode = mode, wp_expr = snprintf_s 128 expr, wp_type = snprintf_s 64 type_buf\<rparr>"

definition set_watchpoint ::
  "'w kern \<Rightarrow> cdbg \<Rightarrow> string \<Rightarrow> addr \<Rightarrow> nat \<Rightarrow> string \<Rightarrow> bool \<times> nat \<Rightarrow> 'w \<Rightarrow> int \<times> cdbg \<times> 'w" where
  "set_watchpoint K dbg expr a value_size type_buf flags w =
     (let mode = (if fst flags then CDBG_WP_ACCESS else CDBG_WP_WRITE); slot = length (d_watchpoints dbg)
      in (case install_watch K dbg slot a (snd flags) value_size mode w of
            (None, w1) \<Rightarrow> (- 1, dbg, w1)
          | (Some hw_size, w1) \<Rightarrow>
              (0, dbg\<lparr>d_watchpoints := d_watchpoints dbg @ [new_watchpoint K dbg a hw_size mode expr type_buf w1]\<rparr>,
               k_print K (fmtln ''Watchpoint %zu: %s (0x%lx, %zu bytes%s)'')
                 [Arg_int (int slot), Arg_str expr, Arg_word a, Arg_int (int hw_size),
                  Arg_str (if mode = CDBG_WP_ACCESS then '', read/write'' else [])] w1)))"

definition cmd_watch :: "(string \<Rightarrow> u64) \<Rightarrow> 'w kern \<Rightarrow> cdbg \<Rightarrow> string \<Rightarrow> 'w \<Rightarrow> int \<times> cdbg \<times> 'w" where
  "cmd_watch strtod K dbg expr0 w =
     (if d_state dbg = CDBG_STATE_IDLE then (- 1, dbg, w)
      else if trim_space expr0 = [] then (0, dbg, cmd_show_watchpoints K dbg w)
      else case parse_watch_flags (trim_space expr0) (False, 0) of
        None \<Rightarrow> (- 1, dbg, w)
      | Some (expr, flags) \<Rightarrow>
          if expr = [] then (- 1, dbg, w)
          else if CDBG_WP_MAX_HW \<le> length (d_watchpoints dbg) then (- 1, dbg, w)
          else if \<not> cdbg_language_check_expr dbg then (- 1, dbg, w)
          else (case cdbg_refresh_regs K dbg w of
                  (False, dbg1) \<Rightarrow> (- 1, dbg1, w)
                | (True, dbg1) \<Rightarrow>
                    (case cdbg_resolve_lvalue_expr_sized strtod K dbg1 (snprintf_s CDBG_MAX_CMD expr) 128 w of
                       None \<Rightarrow> (- 1, dbg1, w)
                     | Some (a, value_size, type_buf) \<Rightarrow>
                         set_watchpoint K dbg1 expr a value_size type_buf flags w)))"

section \<open>Deleting\<close>

text \<open>The loop that moves entry \<open>i\<close> to \<open>i - 1\<close> and reprograms its slot, for the \<open>n\<close> entries from \<open>i\<close> on.\<close>

fun shift_watchpoints ::
  "'w kern \<Rightarrow> int \<Rightarrow> bool \<Rightarrow> nat \<Rightarrow> nat \<Rightarrow> cdbg_watchpoint list \<Rightarrow> 'w \<Rightarrow> bool \<times> cdbg_watchpoint list \<times> 'w" where
  "shift_watchpoints K pid live i 0 wps w = (True, wps, w)"
| "shift_watchpoints K pid live i (Suc n) wps w =
     (let wp = wps ! i; wps1 = wps[i - 1 := wp]
      in if live
         then (case cdbg_wp_hw_install K pid (int i - 1) (wp_addr wp) (wp_size wp) (wp_mode wp) w of
                 (False, w1) \<Rightarrow> (False, wps1, w1)
               | (True, w1) \<Rightarrow> shift_watchpoints K pid live (Suc i) n wps1 w1)
         else shift_watchpoints K pid live (Suc i) n wps1 w)"

definition delete_watchpoint_at :: "'w kern \<Rightarrow> cdbg \<Rightarrow> nat \<Rightarrow> 'w \<Rightarrow> bool \<times> cdbg \<times> 'w" where
  "delete_watchpoint_at K dbg index w =
     (let wps = d_watchpoints dbg; live = process_live dbg
      in if length wps \<le> index then (False, dbg, w)
         else (case (if live then cdbg_wp_hw_uninstall K (d_pid dbg) (int index) w else (True, w)) of
                 (False, w1) \<Rightarrow> (False, dbg, w1)
               | (True, w1) \<Rightarrow>
                   (case shift_watchpoints K (d_pid dbg) live (Suc index) (length wps - Suc index) wps w1 of
                      (False, wps1, w2) \<Rightarrow> (False, dbg\<lparr>d_watchpoints := wps1\<rparr>, w2)
                    | (True, wps1, w2) \<Rightarrow> (True, dbg\<lparr>d_watchpoints := butlast wps1\<rparr>, w2))))"

fun delete_all_watchpoints :: "'w kern \<Rightarrow> nat \<Rightarrow> cdbg \<Rightarrow> 'w \<Rightarrow> bool \<times> cdbg \<times> 'w" where
  "delete_all_watchpoints K 0 dbg w = (True, dbg, w)"
| "delete_all_watchpoints K (Suc n) dbg w =
     (case delete_watchpoint_at K dbg n w of
        (False, dbg1, w1) \<Rightarrow> (False, dbg1, w1)
      | (True, dbg1, w1) \<Rightarrow> delete_all_watchpoints K n dbg1 w1)"

fun delete_listed_watchpoints :: "'w kern \<Rightarrow> cdbg \<Rightarrow> nat list \<Rightarrow> 'w \<Rightarrow> bool \<times> cdbg \<times> 'w" where
  "delete_listed_watchpoints K dbg [] w = (True, dbg, w)"
| "delete_listed_watchpoints K dbg (i # is) w =
     (case delete_watchpoint_at K dbg i (k_print K (fmtln ''Deleting watchpoint %zu'') [Arg_int (int i)] w) of
        (False, dbg1, w1) \<Rightarrow> (False, dbg1, w1)
      | (True, dbg1, w1) \<Rightarrow> delete_listed_watchpoints K dbg1 is w1)"

definition cmd_unwatch :: "'w kern \<Rightarrow> cdbg \<Rightarrow> string \<Rightarrow> 'w \<Rightarrow> int \<times> cdbg \<times> 'w" where
  "cmd_unwatch K dbg args0 w =
     (let args = trim_space args0
      in if d_watchpoints dbg = [] then (0, dbg, puts K ''No watchpoints.'' w)
         else if args = [] then (- 1, dbg, w)
         else if args = ''all''
         then (case delete_all_watchpoints K (length (d_watchpoints dbg)) dbg w of
                 (False, dbg1, w1) \<Rightarrow> (- 1, dbg1, w1)
               | (True, dbg1, w1) \<Rightarrow> (0, dbg1, puts K ''All watchpoints deleted.'' w1))
         else (case parse_indices (length (d_watchpoints dbg)) []
                      (strtok_all is_blank (snprintf_s CDBG_MAX_CMD args)) of
                 None \<Rightarrow> (- 1, dbg, w)
               | Some indices \<Rightarrow>
                   (case delete_listed_watchpoints K dbg (sort_descending indices) w of
                      (ok, dbg1, w1) \<Rightarrow> (if ok then 0 else - 1, dbg1, w1))))"

end
