(* ===== verification/WatchFacts.thy ===== *)
theory WatchFacts
  imports WatchCmds
begin

text \<open>
  What programming a watchpoint achieves. \<open>watches\<close> says in terms of the architecture's manual that a
  slot of a debug register file traps the accesses to a byte range. The locale \<open>debug_threads\<close> is what Mach
  documents of thread debug states; on it, installing programs the slot on every thread and no other slot.
\<close>

section \<open>One register file\<close>

definition dr_slot :: "nat \<Rightarrow> x86_debug_state \<Rightarrow> u64" where
  "dr_slot slot s = (if slot = 0 then d_dr0 s else if slot = 1 then d_dr1 s else if slot = 2 then d_dr2 s else d_dr3 s)"

text \<open>The length code of DR7: 0, 1, 3 and 2 stand for 1, 2, 4 and 8 bytes.\<close>

definition dr7_width :: "nat \<Rightarrow> u64 \<Rightarrow> nat" where
  "dr7_width slot d =
     (if bit d (18 + slot * 4) then (if bit d (19 + slot * 4) then 4 else 2)
      else (if bit d (19 + slot * 4) then 8 else 1))"

definition watches :: "nat \<Rightarrow> addr \<Rightarrow> nat \<Rightarrow> cdbg_wp_mode \<Rightarrow> debug_regs \<Rightarrow> bool" where
  "watches slot a sz mode d = (case d of
       ArmDebug s \<Rightarrow> d_wvr s ! slot = a AND NOT 7 \<and> bit (d_wcr s ! slot) 0
         \<and> bit (d_wcr s ! slot) 1 \<and> bit (d_wcr s ! slot) 2 \<and> bit (d_wcr s ! slot) 4 \<and> (bit (d_wcr s ! slot) 3 \<longleftrightarrow> mode = CDBG_WP_ACCESS)
         \<and> map (\<lambda>i. bit (d_wcr s ! slot) (5 + i)) [0..<8] = map (covers a sz) [0..<8]
     | X86Debug s \<Rightarrow> dr_slot slot s = a \<and> dr7_enabled slot (d_dr7 s) \<and> bit (d_dr7 s) (16 + slot * 4)
         \<and> (bit (d_dr7 s) (17 + slot * 4) \<longleftrightarrow> mode = CDBG_WP_ACCESS) \<and> dr7_width slot (d_dr7 s) = sz)"

definition slot_enabled :: "nat \<Rightarrow> debug_regs \<Rightarrow> bool" where
  "slot_enabled slot d = (case d of
       ArmDebug s \<Rightarrow> bit (d_wcr s ! slot) 0
     | X86Debug s \<Rightarrow> dr7_enabled slot (d_dr7 s))"

text \<open>Everything a register file holds for one slot.\<close>

definition slot_view :: "nat \<Rightarrow> debug_regs \<Rightarrow> u64 \<times> bool list" where
  "slot_view slot d = (case d of
       ArmDebug s \<Rightarrow> (d_wvr s ! slot, map (bit (d_wcr s ! slot)) [0..<64])
     | X86Debug s \<Rightarrow> (dr_slot slot s, map (bit (d_dr7 s)) (slot * 2 # [16 + slot * 4..<20 + slot * 4])))"

definition debug_wf :: "debug_regs \<Rightarrow> bool" where
  \<comment> \<open>the arrays of \<open>arm_debug_state64_t\<close> have 16 entries\<close>
  "debug_wf d = (case d of ArmDebug s \<Rightarrow> length (d_wvr s) = 16 \<and> length (d_wcr s) = 16 | X86Debug s \<Rightarrow> True)"

text \<open>What installing and uninstalling do to one register file.\<close>

definition arm_program :: "nat \<Rightarrow> u64 \<Rightarrow> u64 \<Rightarrow> debug_regs \<Rightarrow> debug_regs" where
  "arm_program slot wvr wcr d = (case d of ArmDebug s \<Rightarrow> ArmDebug (arm_set_slot slot wvr wcr s) | X86Debug s \<Rightarrow> d)"

definition x86_program :: "nat \<Rightarrow> u64 \<Rightarrow> (u64 \<Rightarrow> u64) \<Rightarrow> debug_regs \<Rightarrow> debug_regs" where
  "x86_program slot v f d = (case d of
       X86Debug s \<Rightarrow> X86Debug ((dr_slot_set slot v s)\<lparr>d_dr7 := f (d_dr7 s)\<rparr>) | ArmDebug s \<Rightarrow> d)"

lemma dr_slot_set_simps [simp]:
  "d_dr7 (dr_slot_set slot v s) = d_dr7 s"
  "slot < 4 \<Longrightarrow> k < 4 \<Longrightarrow> dr_slot k (dr_slot_set slot v s) = (if k = slot then v else dr_slot k s)"
  "dr_slot k (s\<lparr>d_dr7 := x\<rparr>) = dr_slot k s"
  by (auto simp: dr_slot_set_def dr_slot_def)

lemma x86_len_bits: "x86_wp_len_bits a sz = Some len \<Longrightarrow>
    len \<in> {0, 1, 2, 3} \<and> (if bit len 0 then (if bit len 1 then sz = 4 else sz = 2) else (if bit len 1 then sz = 8 else sz = 1))"
  by (auto simp: x86_wp_len_bits_def Let_def bit_1_iff split: if_splits)

lemma x86_programmed:
  assumes "slot < 4" "x86_wp_len_bits a sz = Some len" "d = X86Debug s"
  shows "watches slot a sz mode (x86_program slot a (dr7_install slot len mode) d)"
proof -
  from x86_len_bits [OF assms(2)] have l: "len \<in> {0, 1, 2, 3}" by simp
  note b = dr7_install_bits [OF assms(1) l]
  show ?thesis using assms(1,3) x86_len_bits [OF assms(2)]
    by (auto simp: watches_def x86_program_def dr7_enabled_def dr7_width_def b split: if_splits)
qed

lemma x86_program_other:
  assumes "slot < 4" "k < 4" "k \<noteq> slot" "len \<in> {0, 1, 2, 3}"
  shows "slot_view k (x86_program slot a (dr7_install slot len mode) d) = slot_view k d"
    "slot_view k (x86_program slot a (dr7_uninstall slot) d) = slot_view k d"
proof -
  have n: "n = k * 2 \<or> 16 + k * 4 \<le> n \<and> n < 20 + k * 4 \<Longrightarrow> n \<noteq> slot * 2 \<and> n \<notin> {16 + slot * 4..<20 + slot * 4}" for n
    using assms(1-3) by auto
  show "slot_view k (x86_program slot a (dr7_install slot len mode) d) = slot_view k d"
    using assms n dr7_install_bits [OF assms(1,4)]
    by (auto simp: slot_view_def x86_program_def split: debug_regs.split if_splits)
  show "slot_view k (x86_program slot a (dr7_uninstall slot) d) = slot_view k d"
    using assms n dr7_uninstall_bits [OF assms(1)]
    by (auto simp: slot_view_def x86_program_def split: debug_regs.split)
qed

lemma arm_wcr_fields:
  assumes "arm_wp_encode a sz mode = Some (wvr, wcr)"
  shows "bit wcr 0" "bit wcr 1" "bit wcr 2" "bit wcr 4" "bit wcr 3 \<longleftrightarrow> mode = CDBG_WP_ACCESS"
proof -
  from assms have v: 
    "wcr = WCR_E OR WCR_PAC_EL0EL1 OR (if mode = CDBG_WP_ACCESS then WCR_LSC_ANY else WCR_LSC_STORE) OR
       push_bit WCR_BAS_SHIFT (ucast (push_bit (unat (a AND 7)) (push_bit sz (1 :: u32) - 1)))"
    unfolding arm_wp_encode_def Let_def by (auto simp only: option.inject prod.inject split: if_split_asm)
  show "bit wcr 0" "bit wcr 1" "bit wcr 2" "bit wcr 4" "bit wcr 3 \<longleftrightarrow> mode = CDBG_WP_ACCESS"
    unfolding v bit_or_iff WCR_BAS_SHIFT_def
    by (simp_all add: bit_push_bit_iff WCR_E_def WCR_PAC_EL0EL1_def WCR_LSC_ANY_def WCR_LSC_STORE_def)
qed

lemma arm_programmed:
  assumes "slot < 4" "arm_wp_encode a sz mode = Some (wvr, wcr)" "d = ArmDebug s" "debug_wf d"
  shows "watches slot a sz mode (arm_program slot wvr wcr d)"
proof -
  have "map (\<lambda>i. bit wcr (5 + i)) [0..<8] = map (covers a sz) [0..<8]"
    by (rule map_cong) (simp_all only: refl set_upt atLeastLessThan_iff arm_wp_encode_bits(1) [OF assms(2)])
  with assms arm_wcr_fields [OF assms(2)] arm_wp_encode_bits(2) [OF assms(2), of 0] show ?thesis
    by (simp add: watches_def arm_program_def arm_set_slot_def debug_wf_def)
qed

lemma arm_program_other: "k \<noteq> slot \<Longrightarrow> slot_view k (arm_program slot wvr wcr d) = slot_view k d"
  by (auto simp: slot_view_def arm_program_def arm_set_slot_def split: debug_regs.split)

lemma program_wf:
  "debug_wf (arm_program slot wvr wcr d) = debug_wf d" "debug_wf (x86_program slot v f d) = debug_wf d"
  by (auto simp: debug_wf_def arm_program_def x86_program_def arm_set_slot_def split: debug_regs.split)

text \<open>Only \<open>slot\<close> may differ, on whatever threads.\<close>

definition only_slot ::
  "nat \<Rightarrow> ('w \<Rightarrow> nat list) \<Rightarrow> ('w \<Rightarrow> nat \<Rightarrow> debug_regs) \<Rightarrow> 'w \<Rightarrow> 'w \<Rightarrow> bool" where
  "only_slot slot threads dregs w w' \<longleftrightarrow> threads w' = threads w
     \<and> (\<forall>t. debug_wf (dregs w' t) = debug_wf (dregs w t)
          \<and> (\<forall>k<4. k \<noteq> slot \<longrightarrow> slot_view k (dregs w' t) = slot_view k (dregs w t)))"

lemma only_slot_refl [simp]: "only_slot slot threads dregs w w"
  by (simp add: only_slot_def)

lemma only_slot_trans: "only_slot slot threads dregs w w1 \<Longrightarrow> only_slot slot threads dregs w1 w2 \<Longrightarrow> only_slot slot threads dregs w w2"
  by (auto simp: only_slot_def)

lemma run_on_threads_only_slot:
  assumes "\<And>t u. only_slot slot threads dregs u (snd (fn t u))"
  shows "only_slot slot threads dregs w (snd (run_on_threads fn ts ok w))"
proof (induction ts arbitrary: ok w)
  case (Cons t ts)
  obtain b u where u: "fn t w = (b, u)" by fastforce
  with assms [of w t] Cons.IH [of u "ok \<and> b"] show ?case by (auto intro: only_slot_trans)
qed simp

section \<open>Every thread\<close>

text \<open>
  The debug state of each thread is a variable of its own: it can be read, a successful write
  replaces it, a failed one changes nothing, and the set of threads is not affected by either.
\<close>

locale debug_threads =
  fixes K :: "'w kern" and threads :: "'w \<Rightarrow> nat list" and dregs :: "'w \<Rightarrow> nat \<Rightarrow> debug_regs"
  assumes debug_task: "\<exists>t. k_task_for_pid K pid w = Some t \<and> t \<noteq> MACH_PORT_NULL"
    and debug_thread_list: "k_task_threads K t w = Some (threads w)"
    and debug_get: "k_get_debug K t w = Some (dregs w t)"
    and debug_set: "k_set_debug K t d w = (ok, w') \<Longrightarrow>
          threads w' = threads w \<and> dregs w' = (if ok then (dregs w)(t := d) else dregs w)"
begin

lemma install_thread:
  "install_arm_thread K slot wvr wcr t w = (True, w') \<Longrightarrow>
     threads w' = threads w \<and> dregs w' = (dregs w)(t := arm_program slot wvr wcr (dregs w t)) \<and> (\<exists>s. dregs w t = ArmDebug s)"
  "install_x86_thread K slot a len mode t w = (True, w') \<Longrightarrow>
     threads w' = threads w \<and> dregs w' = (dregs w)(t := x86_program slot a (dr7_install slot len mode) (dregs w t))
     \<and> (\<exists>s. dregs w t = X86Debug s)"
  "uninstall_arm_thread K slot t w = (True, w') \<Longrightarrow>
     threads w' = threads w \<and> dregs w' = (dregs w)(t := arm_program slot 0 0 (dregs w t)) \<and> (\<exists>s. dregs w t = ArmDebug s)"
  "uninstall_x86_thread K slot t w = (True, w') \<Longrightarrow>
     threads w' = threads w \<and> dregs w' = (dregs w)(t := x86_program slot 0 (dr7_uninstall slot) (dregs w t))
     \<and> (\<exists>s. dregs w t = X86Debug s)"
  by (auto simp: install_arm_thread_def install_x86_thread_def uninstall_arm_thread_def uninstall_x86_thread_def Let_def
      debug_get arm_program_def x86_program_def split: debug_regs.splits dest!: debug_set)

lemma set_debug_only_slot:
  assumes "debug_wf d = debug_wf (dregs w t)" "\<forall>k<4. k \<noteq> slot \<longrightarrow> slot_view k d = slot_view k (dregs w t)"
  shows "only_slot slot threads dregs w (snd (k_set_debug K t d w))"
  using assms debug_set [of t d w "fst (k_set_debug K t d w)" "snd (k_set_debug K t d w)"]
  by (auto simp: only_slot_def)

lemma arm_thread_only_slot:
  "only_slot slot threads dregs w (snd (install_arm_thread K slot wvr wcr t w))"
  "only_slot slot threads dregs w (snd (uninstall_arm_thread K slot t w))"
proof -
  have o: "only_slot slot threads dregs w (snd (k_set_debug K t (ArmDebug (arm_set_slot slot wvr wcr s)) w))"
    if "dregs w t = ArmDebug s" for s wvr wcr
    using program_wf(1) [of slot wvr wcr "ArmDebug s"] arm_program_other [of _ slot wvr wcr "ArmDebug s"]
    by (intro set_debug_only_slot) (simp_all add: that arm_program_def)
  show "only_slot slot threads dregs w (snd (install_arm_thread K slot wvr wcr t w))"
    "only_slot slot threads dregs w (snd (uninstall_arm_thread K slot t w))"
    by (auto simp: install_arm_thread_def uninstall_arm_thread_def debug_get o split: debug_regs.split)
qed

lemma x86_thread_only_slot:
  assumes "slot < 4" "len \<in> {0, 1, 2, 3}"
  shows "only_slot slot threads dregs w (snd (install_x86_thread K slot a len mode t w))"
    "only_slot slot threads dregs w (snd (uninstall_x86_thread K slot t w))"
proof -
  have o: "only_slot slot threads dregs w (snd (k_set_debug K t (X86Debug ((dr_slot_set slot v s)\<lparr>d_dr7 := f (d_dr7 s)\<rparr>)) w))"
    if "dregs w t = X86Debug s" "\<forall>k<4. k \<noteq> slot \<longrightarrow> slot_view k (x86_program slot v f (X86Debug s)) = slot_view k (X86Debug s)"
    for s v f
    using that(2) program_wf(2) [of slot v f "X86Debug s"]
    by (intro set_debug_only_slot) (simp_all add: that(1) x86_program_def)
  show "only_slot slot threads dregs w (snd (install_x86_thread K slot a len mode t w))"
    "only_slot slot threads dregs w (snd (uninstall_x86_thread K slot t w))"
    using o x86_program_other [OF assms(1) _ _ assms(2)]
    by (auto simp: install_x86_thread_def uninstall_x86_thread_def Let_def debug_get split: debug_regs.split)
qed

lemma hw_only_slot:
  assumes "slot < 4"
  shows "only_slot slot threads dregs w (snd (cdbg_wp_hw_install K pid (int slot) a sz mode w))"
    "only_slot slot threads dregs w (snd (cdbg_wp_hw_uninstall K pid (int slot) w))"
proof -
  have e: "only_slot slot threads dregs w (snd (for_each_thread K pid fn w))"
    if "\<And>t u. only_slot slot threads dregs u (snd (fn t u))" for fn
    using run_on_threads_only_slot [of slot threads dregs fn, OF that]
    by (auto simp: for_each_thread_def Let_def split: option.split)
  show "only_slot slot threads dregs w (snd (cdbg_wp_hw_install K pid (int slot) a sz mode w))"
    by (auto simp: cdbg_wp_hw_install_def split: arch.split option.split
        intro!: e arm_thread_only_slot x86_thread_only_slot(1) [OF assms] dest!: x86_len_bits)
  show "only_slot slot threads dregs w (snd (cdbg_wp_hw_uninstall K pid (int slot) w))"
    by (auto simp: cdbg_wp_hw_uninstall_def split: arch.split
        intro!: e arm_thread_only_slot x86_thread_only_slot(2) [OF assms, of 0])
qed

text \<open>A routine that replaces the debug state of its thread, run over every thread.\<close>

lemma run_on_threads_updates:
  assumes "\<And>t u u'. fn t u = (True, u') \<Longrightarrow>
      threads u' = threads u \<and> dregs u' = (dregs u)(t := f (dregs u t)) \<and> P (dregs u t)"
  shows "run_on_threads fn ts ok w = (True, w') \<Longrightarrow> distinct ts \<Longrightarrow>
     ok \<and> threads w' = threads w \<and> dregs w' = (\<lambda>t. if t \<in> set ts then f (dregs w t) else dregs w t)
     \<and> (\<forall>t \<in> set ts. P (dregs w t))"
proof (induction ts arbitrary: ok w)
  case Nil
  then show ?case by simp
next
  case (Cons t ts)
  obtain b u where u: "fn t w = (b, u)" by fastforce
  with Cons.prems have r: "run_on_threads fn ts (ok \<and> b) u = (True, w')" "distinct ts" "t \<notin> set ts" by auto
  note ih = Cons.IH [OF r(1,2)]
  then have b: b by simp
  note un = assms [OF u [unfolded eqTrueI [OF b]]]
  have later: "\<forall>ta \<in> set ts. dregs u ta = dregs w ta" using un r(3) by auto
  with ih have "\<forall>ta \<in> set ts. P (dregs w ta)" by metis
  with un b ih later show ?case by (auto simp: fun_eq_iff r(3))
qed

lemma for_each_thread_updates:
  assumes "\<And>t u u'. fn t u = (True, u') \<Longrightarrow>
      threads u' = threads u \<and> dregs u' = (dregs u)(t := f (dregs u t)) \<and> P (dregs u t)"
    and "for_each_thread K pid fn w = (True, w')" "distinct (threads w)"
  shows "threads w' = threads w \<and> dregs w' = (\<lambda>t. if t \<in> set (threads w) then f (dregs w t) else dregs w t)
     \<and> threads w \<noteq> [] \<and> (\<forall>t \<in> set (threads w). P (dregs w t))"
proof -
  from debug_task [of pid w] assms(2) have r: "run_on_threads fn (threads w) (threads w \<noteq> []) w = (True, w')"
    by (auto simp: for_each_thread_def task_for_traced_pid_def debug_thread_list split: if_splits)
  have "(threads w \<noteq> []) \<and> threads w' = threads w
      \<and> dregs w' = (\<lambda>t. if t \<in> set (threads w) then f (dregs w t) else dregs w t)
      \<and> (\<forall>t \<in> set (threads w). P (dregs w t))"
    by (rule run_on_threads_updates [OF _ r assms(3)]) (rule assms(1))
  then show ?thesis by simp
qed

lemma install_some_thread:
  "cdbg_wp_hw_install K pid slot a sz mode w = (True, w') \<Longrightarrow> threads w \<noteq> []"
  using debug_task [of pid w] by (cases "k_arch K")
    (auto simp: cdbg_wp_hw_install_def for_each_thread_def task_for_traced_pid_def debug_thread_list
      split: if_splits option.splits)

lemma uninstall_some_thread:
  "cdbg_wp_hw_uninstall K pid slot w = (True, w') \<Longrightarrow> threads w \<noteq> []"
  using debug_task [of pid w] by (cases "k_arch K")
    (auto simp: cdbg_wp_hw_uninstall_def for_each_thread_def task_for_traced_pid_def debug_thread_list
      split: if_splits option.splits)

lemma install_programs:
  assumes "cdbg_wp_hw_install K pid slot a sz mode w = (True, w')" "distinct (threads w)"
    and "t \<in> set (threads w)" "debug_wf (dregs w t)"
  shows "watches (nat slot) a sz mode (dregs w' t)"
    "k < 4 \<Longrightarrow> k \<noteq> nat slot \<Longrightarrow> slot_view k (dregs w' t) = slot_view k (dregs w t)"
    "threads w' = threads w" "debug_wf (dregs w' t)"
proof -
  from assms(1) have s: "0 \<le> slot" "nat slot < 4"
    by (auto simp: cdbg_wp_hw_install_def CDBG_WP_MAX_HW_def split: if_splits)
  have "watches (nat slot) a sz mode (dregs w' t) \<and> threads w' = threads w \<and> debug_wf (dregs w' t)
    \<and> (k < 4 \<longrightarrow> k \<noteq> nat slot \<longrightarrow> slot_view k (dregs w' t) = slot_view k (dregs w t))"
  proof (cases "k_arch K")
    case AArch64
    with assms(1) s obtain wvr wcr where e: "arm_wp_encode a sz mode = Some (wvr, wcr)"
      and f: "for_each_thread K pid (install_arm_thread K (nat slot) wvr wcr) w = (True, w')"
      by (auto simp: cdbg_wp_hw_install_def split: if_splits option.splits)
    have u: "threads w' = threads w
        \<and> dregs w' = (\<lambda>t. if t \<in> set (threads w) then arm_program (nat slot) wvr wcr (dregs w t) else dregs w t)
        \<and> threads w \<noteq> [] \<and> (\<forall>t \<in> set (threads w). \<exists>s. dregs w t = ArmDebug s)"
      by (rule for_each_thread_updates [OF _ f assms(2)]) (rule install_thread)
    with assms(3) obtain st where d: "dregs w t = ArmDebug st" by blast
    show ?thesis using u assms(3) arm_programmed [OF s(2) e d assms(4)] assms(4)
      by (simp add: program_wf arm_program_other)
  next
    case X86_64
    with assms(1) s obtain len where e: "x86_wp_len_bits a sz = Some len"
      and f: "for_each_thread K pid (install_x86_thread K (nat slot) a len mode) w = (True, w')"
      by (auto simp: cdbg_wp_hw_install_def split: if_splits option.splits)
    have u: "threads w' = threads w
        \<and> dregs w' = (\<lambda>t. if t \<in> set (threads w) then x86_program (nat slot) a (dr7_install (nat slot) len mode) (dregs w t)
             else dregs w t)
        \<and> threads w \<noteq> [] \<and> (\<forall>t \<in> set (threads w). \<exists>s. dregs w t = X86Debug s)"
      by (rule for_each_thread_updates [OF _ f assms(2)]) (rule install_thread)
    with assms(3) obtain st where d: "dregs w t = X86Debug st" by blast
    show ?thesis using u assms(3,4) x86_programmed [OF s(2) e d] x86_len_bits [OF e] s(2)
      by (simp add: program_wf x86_program_other)
  qed
  then show "watches (nat slot) a sz mode (dregs w' t)"
    "k < 4 \<Longrightarrow> k \<noteq> nat slot \<Longrightarrow> slot_view k (dregs w' t) = slot_view k (dregs w t)"
    "threads w' = threads w" "debug_wf (dregs w' t)" by auto
qed

lemma uninstall_disables:
  assumes "cdbg_wp_hw_uninstall K pid slot w = (True, w')" "distinct (threads w)"
    and "t \<in> set (threads w)" "debug_wf (dregs w t)"
  shows "\<not> slot_enabled (nat slot) (dregs w' t)"
    "k < 4 \<Longrightarrow> k \<noteq> nat slot \<Longrightarrow> slot_view k (dregs w' t) = slot_view k (dregs w t)"
    "threads w' = threads w" "debug_wf (dregs w' t)"
proof -
  from assms(1) have s: "0 \<le> slot" "nat slot < 4"
    by (auto simp: cdbg_wp_hw_uninstall_def CDBG_WP_MAX_HW_def split: if_splits)
  have "\<not> slot_enabled (nat slot) (dregs w' t) \<and> threads w' = threads w \<and> debug_wf (dregs w' t)
    \<and> (k < 4 \<longrightarrow> k \<noteq> nat slot \<longrightarrow> slot_view k (dregs w' t) = slot_view k (dregs w t))"
  proof (cases "k_arch K")
    case AArch64
    with assms(1) s have f: "for_each_thread K pid (uninstall_arm_thread K (nat slot)) w = (True, w')"
      by (auto simp: cdbg_wp_hw_uninstall_def split: if_splits)
    have u: "threads w' = threads w
        \<and> dregs w' = (\<lambda>t. if t \<in> set (threads w) then arm_program (nat slot) 0 0 (dregs w t) else dregs w t)
        \<and> threads w \<noteq> [] \<and> (\<forall>t \<in> set (threads w). \<exists>s. dregs w t = ArmDebug s)"
      by (rule for_each_thread_updates [OF _ f assms(2)]) (rule install_thread)
    with assms(3) obtain st where d: "dregs w t = ArmDebug st" by blast
    show ?thesis using u assms(3,4) d s(2)
      by (simp add: program_wf arm_program_other)
        (simp add: slot_enabled_def arm_program_def arm_set_slot_def debug_wf_def)
  next
    case X86_64
    with assms(1) s have f: "for_each_thread K pid (uninstall_x86_thread K (nat slot)) w = (True, w')"
      by (auto simp: cdbg_wp_hw_uninstall_def split: if_splits)
    have u: "threads w' = threads w
        \<and> dregs w' = (\<lambda>t. if t \<in> set (threads w) then x86_program (nat slot) 0 (dr7_uninstall (nat slot)) (dregs w t)
             else dregs w t)
        \<and> threads w \<noteq> [] \<and> (\<forall>t \<in> set (threads w). \<exists>s. dregs w t = X86Debug s)"
      by (rule for_each_thread_updates [OF _ f assms(2)]) (rule install_thread)
    with assms(3) obtain st where d: "dregs w t = X86Debug st" by blast
    show ?thesis using u assms(3,4) d s(2)
      by (simp add: program_wf x86_program_other(2) [of _ _ 0])
        (simp add: slot_enabled_def x86_program_def dr7_enabled_def dr7_uninstall_bits)
  qed
  then show "\<not> slot_enabled (nat slot) (dregs w' t)"
    "k < 4 \<Longrightarrow> k \<noteq> nat slot \<Longrightarrow> slot_view k (dregs w' t) = slot_view k (dregs w t)"
    "threads w' = threads w" "debug_wf (dregs w' t)" by auto
qed

end

interpretation sim_debug: debug_threads "sim_kern a" s_threads s_debug
  by unfold_locales (auto simp: sim_kern_def MACH_PORT_NULL_def)

end
