(* ===== verification/WatchSync.thy ===== *)
theory WatchSync
  imports WatchFacts
begin

text \<open>
  The table of watchpoints against the hardware: \<open>slots_hold\<close> says that entry \<open>i\<close> of the table is what
  slot \<open>i\<close> of a register file watches. Setting a watchpoint and deleting watchpoints keep it on every
  thread; deleting leaves the slot behind the table enabled, though.
\<close>

definition slots_hold :: "cdbg_watchpoint list \<Rightarrow> debug_regs \<Rightarrow> bool" where
  "slots_hold wps d =
     list_all (\<lambda>i. watches i (wp_addr (wps ! i)) (wp_size (wps ! i)) (wp_mode (wps ! i)) d) [0..<length wps]"

definition threads_ok :: "('w \<Rightarrow> nat list) \<Rightarrow> ('w \<Rightarrow> nat \<Rightarrow> debug_regs) \<Rightarrow> 'w \<Rightarrow> bool" where
  "threads_ok threads dregs w \<longleftrightarrow> distinct (threads w) \<and> list_all (\<lambda>t. debug_wf (dregs w t)) (threads w)"

text \<open>The contract between the debugger and the threads of the debuggee.\<close>

definition wp_sync :: "('w \<Rightarrow> nat list) \<Rightarrow> ('w \<Rightarrow> nat \<Rightarrow> debug_regs) \<Rightarrow> cdbg \<Rightarrow> 'w \<Rightarrow> bool" where
  "wp_sync threads dregs dbg w \<longleftrightarrow> threads_ok threads dregs w \<and> length (d_watchpoints dbg) \<le> CDBG_WP_MAX_HW
     \<and> list_all (\<lambda>t. slots_hold (d_watchpoints dbg) (dregs w t)) (threads w)"

text \<open>The first \<open>n\<close> entries of a table are programmed on every thread.\<close>

definition held ::
  "('w \<Rightarrow> nat list) \<Rightarrow> ('w \<Rightarrow> nat \<Rightarrow> debug_regs) \<Rightarrow> nat \<Rightarrow> cdbg_watchpoint list \<Rightarrow> 'w \<Rightarrow> bool" where
  "held threads dregs n wps w \<longleftrightarrow> list_all (\<lambda>t. slots_hold (take n wps) (dregs w t)) (threads w)"

lemma slots_hold_iff:
  "slots_hold wps d \<longleftrightarrow> (\<forall>i<length wps. watches i (wp_addr (wps ! i)) (wp_size (wps ! i)) (wp_mode (wps ! i)) d)"
  by (auto simp: slots_hold_def list_all_iff)

lemma slots_hold_snoc:
  "slots_hold (wps @ [wp]) d \<longleftrightarrow> slots_hold wps d \<and> watches (length wps) (wp_addr wp) (wp_size wp) (wp_mode wp) d"
  by (auto simp: slots_hold_iff nth_append less_Suc_eq)

lemma slots_hold_butlast: "slots_hold wps d \<Longrightarrow> slots_hold (butlast wps) d"
  by (cases wps rule: rev_cases) (simp_all add: slots_hold_snoc)

text \<open>What a slot watches depends on its own fields only.\<close>

lemma watches_view: "slot_view k d = slot_view k d' \<Longrightarrow> watches k a sz mode d = watches k a sz mode d'"
proof (cases d; cases d')
  fix s s'
  assume e: "slot_view k d = slot_view k d'" and d: "d = ArmDebug s" "d' = ArmDebug s'"
  then have b: "d_wvr s ! k = d_wvr s' ! k" "\<forall>i<64. bit (d_wcr s ! k) i = bit (d_wcr s' ! k) i"
    by (auto simp: slot_view_def map_eq_conv)
  then have "d_wcr s ! k = d_wcr s' ! k" by (intro bit_word_eqI) simp
  with b d show ?thesis by (simp add: watches_def)
next
  fix s s'
  assume e: "slot_view k d = slot_view k d'" and d: "d = X86Debug s" "d' = X86Debug s'"
  then have b: "dr_slot k s = dr_slot k s'" "bit (d_dr7 s) (k * 2) = bit (d_dr7 s') (k * 2)"
      "\<forall>i\<in>{16 + k * 4..<20 + k * 4}. bit (d_dr7 s) i = bit (d_dr7 s') i"
    by (auto simp: slot_view_def map_eq_conv)
  from b(3) have "bit (d_dr7 s) (16 + k * 4) = bit (d_dr7 s') (16 + k * 4)" "bit (d_dr7 s) (17 + k * 4) = bit (d_dr7 s') (17 + k * 4)"
      "bit (d_dr7 s) (18 + k * 4) = bit (d_dr7 s') (18 + k * 4)" "bit (d_dr7 s) (19 + k * 4) = bit (d_dr7 s') (19 + k * 4)"
    by auto
  with b d show ?thesis by (simp add: watches_def dr7_width_def dr7_enabled_def)
next
  fix s s'
  assume "slot_view k d = slot_view k d'" "d = ArmDebug s" "d' = X86Debug s'"
  then have "map (bit (d_wcr s ! k)) [0..<64] = map (bit (d_dr7 s')) (k * 2 # [16 + k * 4..<20 + k * 4])"
    by (simp add: slot_view_def)
  then have "length (map (bit (d_wcr s ! k)) [0..<64]) = length (map (bit (d_dr7 s')) (k * 2 # [16 + k * 4..<20 + k * 4]))"
    by (rule arg_cong)
  then show ?thesis by simp
next
  fix s s'
  assume "slot_view k d = slot_view k d'" "d = X86Debug s" "d' = ArmDebug s'"
  then have "map (bit (d_dr7 s)) (k * 2 # [16 + k * 4..<20 + k * 4]) = map (bit (d_wcr s' ! k)) [0..<64]"
    by (simp add: slot_view_def)
  then have "length (map (bit (d_dr7 s)) (k * 2 # [16 + k * 4..<20 + k * 4])) = length (map (bit (d_wcr s' ! k)) [0..<64])"
    by (rule arg_cong)
  then show ?thesis by simp
qed

lemma slots_hold_view:
  assumes "\<forall>k<length wps. slot_view k d = slot_view k d'"
  shows "slots_hold wps d = slots_hold wps d'"
  using assms by (auto simp: slots_hold_iff dest: watches_view)

section \<open>The routines on every thread\<close>

locale debug_console = debug_threads K threads dregs
  for K :: "'w kern" and threads :: "'w \<Rightarrow> nat list" and dregs :: "'w \<Rightarrow> nat \<Rightarrow> debug_regs" +
  assumes debug_print: "threads (k_print K f args w) = threads w" "dregs (k_print K f args w) = dregs w"
begin

lemma install_threads:
  assumes "cdbg_wp_hw_install K pid slot a sz mode w = (True, w')" "threads_ok threads dregs w"
  shows "threads_ok threads dregs w'" "threads w' = threads w"
    "t \<in> set (threads w) \<Longrightarrow> watches (nat slot) a sz mode (dregs w' t)"
    "t \<in> set (threads w) \<Longrightarrow> k < 4 \<Longrightarrow> k \<noteq> nat slot \<Longrightarrow> slot_view k (dregs w' t) = slot_view k (dregs w t)"
proof -
  have d: "distinct (threads w)" "t \<in> set (threads w) \<Longrightarrow> debug_wf (dregs w t)" for t
    using assms(2) by (auto simp: threads_ok_def list_all_iff)
  have n: "threads w \<noteq> []" using assms(1) by (rule install_some_thread)
  then obtain t0 where t0: "t0 \<in> set (threads w)" by (cases "threads w") auto
  show th: "threads w' = threads w" by (rule install_programs(3) [OF assms(1) d(1) t0 d(2) [OF t0]])
  show "threads_ok threads dregs w'"
    using d install_programs(4) [OF assms(1) d(1)] by (auto simp: threads_ok_def list_all_iff th)
  show "t \<in> set (threads w) \<Longrightarrow> watches (nat slot) a sz mode (dregs w' t)"
    using d install_programs(1) [OF assms(1) d(1)] by blast
  show "t \<in> set (threads w) \<Longrightarrow> k < 4 \<Longrightarrow> k \<noteq> nat slot \<Longrightarrow> slot_view k (dregs w' t) = slot_view k (dregs w t)"
    using d install_programs(2) [OF assms(1) d(1)] by blast
qed

lemma uninstall_threads:
  assumes "cdbg_wp_hw_uninstall K pid slot w = (True, w')" "threads_ok threads dregs w"
  shows "threads_ok threads dregs w'" "threads w' = threads w"
    "t \<in> set (threads w) \<Longrightarrow> k < 4 \<Longrightarrow> k \<noteq> nat slot \<Longrightarrow> slot_view k (dregs w' t) = slot_view k (dregs w t)"
proof -
  have d: "distinct (threads w)" "t \<in> set (threads w) \<Longrightarrow> debug_wf (dregs w t)" for t
    using assms(2) by (auto simp: threads_ok_def list_all_iff)
  have n: "threads w \<noteq> []" using assms(1) by (rule uninstall_some_thread)
  then obtain t0 where t0: "t0 \<in> set (threads w)" by (cases "threads w") auto
  show th: "threads w' = threads w" by (rule uninstall_disables(3) [OF assms(1) d(1) t0 d(2) [OF t0]])
  show "threads_ok threads dregs w'"
    using d uninstall_disables(4) [OF assms(1) d(1)] by (auto simp: threads_ok_def list_all_iff th)
  show "t \<in> set (threads w) \<Longrightarrow> k < 4 \<Longrightarrow> k \<noteq> nat slot \<Longrightarrow> slot_view k (dregs w' t) = slot_view k (dregs w t)"
    using d uninstall_disables(2) [OF assms(1) d(1)] by blast
qed

lemma shift_refines:
  "shift_watchpoints K pid True i n wps w = (True, wps1, w') \<Longrightarrow> i + n = length wps \<Longrightarrow> 0 < i \<Longrightarrow>
     length wps \<le> 4 \<Longrightarrow> threads_ok threads dregs w \<Longrightarrow> held threads dregs (i - 1) wps w \<Longrightarrow>
     threads_ok threads dregs w' \<and> threads w' = threads w \<and> held threads dregs (length wps - 1) wps1 w'
     \<and> butlast wps1 = take (i - 1) wps @ drop i wps \<and> length wps1 = length wps
     \<and> (\<forall>t \<in> set (threads w). slot_view (length wps - 1) (dregs w' t) = slot_view (length wps - 1) (dregs w t))"
proof (induction n arbitrary: i wps w)
  case 0
  then show ?case by (simp add: butlast_conv_take)
next
  case (Suc n)
  obtain w1 where inst: "cdbg_wp_hw_install K pid (int i - 1) (wp_addr (wps ! i)) (wp_size (wps ! i)) (wp_mode (wps ! i)) w = (True, w1)"
    and rest: "shift_watchpoints K pid True (Suc i) n (wps[i - 1 := wps ! i]) w1 = (True, wps1, w')"
    using Suc.prems(1) by (auto simp: Let_def split: prod.splits bool.splits)
  have slot: "nat (int i - 1) = i - 1" using Suc.prems(3) by simp
  note f = install_threads [OF inst Suc.prems(5), unfolded slot]
  have keep: "slots_hold (take (i - 1) wps) (dregs w1 t)" if "t \<in> set (threads w)" for t
  proof -
    have "\<forall>k<length (take (i - 1) wps). slot_view k (dregs w1 t) = slot_view k (dregs w t)"
      using f(4) [OF that] Suc.prems(2-4) by simp
    from slots_hold_view [OF this] show ?thesis using Suc.prems(6) that by (simp add: held_def list_all_iff)
  qed
  have tk: "take i (wps[i - 1 := wps ! i]) = take (i - 1) wps @ [wps ! i]"
    using Suc.prems(2,3) by (intro nth_equalityI) (auto simp: nth_append nth_list_update)
  have h: "held threads dregs i (wps[i - 1 := wps ! i]) w1"
    unfolding held_def list_all_iff tk slots_hold_snoc using keep f(2,3) Suc.prems(2,3) by (auto simp: min_def)
  have ih: "threads_ok threads dregs w' \<and> threads w' = threads w1 \<and> held threads dregs (length wps - 1) wps1 w'
     \<and> butlast wps1 = take i (wps[i - 1 := wps ! i]) @ drop (Suc i) (wps[i - 1 := wps ! i]) \<and> length wps1 = length wps
     \<and> (\<forall>t \<in> set (threads w1). slot_view (length wps - 1) (dregs w' t) = slot_view (length wps - 1) (dregs w1 t))"
    using Suc.IH [OF rest] Suc.prems(2-4) f(1) h by simp
  have "take i (wps[i - 1 := wps ! i]) @ drop (Suc i) (wps[i - 1 := wps ! i]) = take (i - 1) wps @ drop i wps"
    unfolding tk using Suc.prems(2,3) by (simp add: Cons_nth_drop_Suc)
  moreover have "slot_view (length wps - 1) (dregs w1 t) = slot_view (length wps - 1) (dregs w t)" if "t \<in> set (threads w)" for t
    using f(4) [OF that, of "length wps - 1"] Suc.prems(2-4) by simp
  ultimately show ?case using ih f(2) by simp
qed

lemma print_threads_ok: "threads_ok threads dregs (k_print K f args w) = threads_ok threads dregs w"
  by (simp add: threads_ok_def debug_print)

lemma print_sync: "wp_sync threads dregs dbg (k_print K f args w) = wp_sync threads dregs dbg w"
  by (simp add: wp_sync_def threads_ok_def debug_print)

lemma sync_holds:
  "wp_sync threads dregs dbg w \<longleftrightarrow> threads_ok threads dregs w \<and> length (d_watchpoints dbg) \<le> 4
     \<and> held threads dregs (length (d_watchpoints dbg)) (d_watchpoints dbg) w"
  by (auto simp: wp_sync_def held_def list_all_iff CDBG_WP_MAX_HW_def)

lemma delete_refines:
  assumes "delete_watchpoint_at K dbg index w = (True, dbg', w')" "process_live dbg" "wp_sync threads dregs dbg w"
  shows "wp_sync threads dregs dbg' w'" "threads w' = threads w"
    "\<exists>wps. dbg' = dbg\<lparr>d_watchpoints := wps\<rparr> \<and> wps = remove_nth index (d_watchpoints dbg)"
    "Suc index < length (d_watchpoints dbg) \<Longrightarrow> t \<in> set (threads w) \<Longrightarrow>
       slot_view (length (d_watchpoints dbg) - 1) (dregs w' t) = slot_view (length (d_watchpoints dbg) - 1) (dregs w t)"
proof -
  let ?wps = "d_watchpoints dbg"
  obtain w1 wps1 where i: "index < length ?wps" and u: "cdbg_wp_hw_uninstall K (d_pid dbg) (int index) w = (True, w1)"
    and s: "shift_watchpoints K (d_pid dbg) True (Suc index) (length ?wps - Suc index) ?wps w1 = (True, wps1, w')"
    and d: "dbg' = dbg\<lparr>d_watchpoints := butlast wps1\<rparr>"
    using assms(1,2) by (auto simp: delete_watchpoint_at_def Let_def split: if_splits prod.splits bool.splits)
  note sy = assms(3) [unfolded sync_holds]
  note f = uninstall_threads [OF u, unfolded nat_int]
  have keep: "slots_hold (take index ?wps) (dregs w1 t)" if t: "t \<in> set (threads w)" for t
  proof -
    have "\<forall>k<length (take index ?wps). slot_view k (dregs w1 t) = slot_view k (dregs w t)"
      using f(3) [OF _ t] sy by auto
    moreover have "slots_hold (take index ?wps) (dregs w t)"
      using sy t i by (auto simp: held_def list_all_iff slots_hold_iff)
    ultimately show ?thesis by (simp only: slots_hold_view)
  qed
  then have h: "held threads dregs index ?wps w1" using f(2) sy by (simp add: held_def list_all_iff)
  have sh: "threads_ok threads dregs w' \<and> threads w' = threads w1 \<and> held threads dregs (length ?wps - 1) wps1 w'
     \<and> butlast wps1 = take index ?wps @ drop (Suc index) ?wps \<and> length wps1 = length ?wps
     \<and> (\<forall>t \<in> set (threads w1). slot_view (length ?wps - 1) (dregs w' t) = slot_view (length ?wps - 1) (dregs w1 t))"
    using shift_refines [OF s] i sy f(1) h by simp
  then show "threads w' = threads w" using f(2) sy by simp
  show "wp_sync threads dregs dbg' w'" 
  proof -
    have "\<forall>t \<in> set (threads w'). slots_hold (butlast wps1) (dregs w' t)"
      using sh by (simp add: held_def list_all_iff butlast_conv_take)
    moreover have "threads_ok threads dregs w'" "length wps1 \<le> 4" using sh sy by simp_all
    moreover from this(2) have "length (butlast wps1) \<le> 4" by simp
    ultimately show ?thesis by (simp add: wp_sync_def d list_all_iff CDBG_WP_MAX_HW_def)
  qed
  show "\<exists>wps. dbg' = dbg\<lparr>d_watchpoints := wps\<rparr> \<and> wps = remove_nth index (d_watchpoints dbg)"
    using sh d by (simp add: remove_nth_def)
  show "Suc index < length ?wps \<Longrightarrow> t \<in> set (threads w) \<Longrightarrow>
       slot_view (length ?wps - 1) (dregs w' t) = slot_view (length ?wps - 1) (dregs w t)"
  proof -
    assume i: "Suc index < length ?wps" and t: "t \<in> set (threads w)"
    then have "length ?wps - 1 < 4" "length ?wps - 1 \<noteq> index" using sy by auto
    with f(3) [OF _ t] sh f(2) sy t show ?thesis by simp
  qed
qed

lemma delete_all_refines:
  "delete_all_watchpoints K n dbg w = (True, dbg', w') \<Longrightarrow> process_live dbg \<Longrightarrow> wp_sync threads dregs dbg w \<Longrightarrow>
     n \<le> length (d_watchpoints dbg) \<Longrightarrow>
     wp_sync threads dregs dbg' w' \<and> d_watchpoints dbg' = drop n (d_watchpoints dbg)"
proof (induction n arbitrary: dbg w)
  case 0
  then show ?case by simp
next
  case (Suc n)
  obtain dbg1 w1 where d: "delete_watchpoint_at K dbg n w = (True, dbg1, w1)"
    and rest: "delete_all_watchpoints K n dbg1 w1 = (True, dbg', w')"
    using Suc.prems(1) by (auto split: prod.splits bool.splits)
  note r = delete_refines [OF d Suc.prems(2,3)]
  from r(3) Suc.prems(2) have "process_live dbg1" by (auto simp: process_live_def)
  from Suc.IH [OF rest this r(1)] r(3) Suc.prems(4) show ?case by (auto simp: remove_nth_def)
qed

lemma delete_listed_refines:
  "delete_listed_watchpoints K dbg is w = (True, dbg', w') \<Longrightarrow> process_live dbg \<Longrightarrow> wp_sync threads dregs dbg w \<Longrightarrow>
     wp_sync threads dregs dbg' w'"
proof (induction "is" arbitrary: dbg w)
  case Nil
  then show ?case by simp
next
  case (Cons i "is")
  obtain dbg1 w1 where
    d: "delete_watchpoint_at K dbg i (k_print K (fmtln ''Deleting watchpoint %zu'') [Arg_int (int i)] w) = (True, dbg1, w1)"
    and rest: "delete_listed_watchpoints K dbg1 is w1 = (True, dbg', w')"
    using Cons.prems(1) by (auto split: prod.splits bool.splits)
  note r = delete_refines [OF d Cons.prems(2), unfolded print_sync, OF Cons.prems(3)]
  from r(3) Cons.prems(2) have "process_live dbg1" by (auto simp: process_live_def)
  from Cons.IH [OF rest this r(1)] show ?case .
qed

lemma unwatch_refines:
  assumes "cmd_unwatch K dbg args w = (0, dbg', w')" "process_live dbg" "wp_sync threads dregs dbg w"
  shows "wp_sync threads dregs dbg' w'"
  using assms by (auto simp: cmd_unwatch_def Let_def puts_def print_sync split: if_splits prod.splits bool.splits option.splits
      dest: delete_all_refines delete_listed_refines)

lemma shrinking_refines:
  "install_shrinking K pid (int slot) a n mode w = (Some sz, w') \<Longrightarrow> threads_ok threads dregs w \<Longrightarrow> slot < 4 \<Longrightarrow>
     only_slot slot threads dregs w w' \<and> (\<forall>t\<in>set (threads w). watches slot a sz mode (dregs w' t))"
proof (induction n arbitrary: w rule: less_induct)
  case (less n)
  obtain ok w1 where i: "cdbg_wp_hw_install K pid (int slot) a n mode w = (ok, w1)" by fastforce
  then have o: "only_slot slot threads dregs w w1" using hw_only_slot(1) [OF less.prems(3), of w pid a n mode] by simp
  have n: "1 \<le> n" using less.prems(1) by (subst (asm) install_shrinking.simps) (simp split: if_splits)
  show ?case
  proof (cases ok)
    case True
    with less.prems(1) n i have "sz = n" "w' = w1" by (auto simp: install_shrinking.simps [of _ _ _ _ n])
    with i True o install_threads(3) [OF i [unfolded eqTrueI [OF True]] less.prems(2)] show ?thesis by simp
  next
    case False
    with less.prems(1) n i have r: "install_shrinking K pid (int slot) a (n div 2) mode w1 = (Some sz, w')"
      by (simp add: install_shrinking.simps [of _ _ _ _ n])
    have "threads_ok threads dregs w1" "threads w1 = threads w"
      using o less.prems(2) by (auto simp: threads_ok_def only_slot_def list_all_iff)
    with less.IH [OF _ r _ less.prems(3)] n o show ?thesis by (auto intro: only_slot_trans)
  qed
qed

lemma install_watch_refines:
  assumes "install_watch K dbg slot a explicit_size value_size mode w = (Some sz, w')" "threads_ok threads dregs w" "slot < 4"
  shows "threads_ok threads dregs w'" "threads w' = threads w"
    "t \<in> set (threads w) \<Longrightarrow> watches slot a sz mode (dregs w' t)"
    "t \<in> set (threads w) \<Longrightarrow> k < 4 \<Longrightarrow> k \<noteq> slot \<Longrightarrow> slot_view k (dregs w' t) = slot_view k (dregs w t)"
proof -
  have "only_slot slot threads dregs w w' \<and> (\<forall>t\<in>set (threads w). watches slot a sz mode (dregs w' t))"
  proof (cases "explicit_size = 0")
    case True
    with assms show ?thesis using shrinking_refines [of "d_pid dbg" slot a "watch_hw_size_for value_size" mode w sz w']
      by (simp add: install_watch_def)
  next
    case False
    with assms(1) have i: "cdbg_wp_hw_install K (d_pid dbg) (int slot) a sz mode w = (True, w')"
      by (auto simp: install_watch_def split: prod.splits if_splits)
    with install_threads(3) [OF i assms(2)] hw_only_slot(1) [OF assms(3), of w "d_pid dbg" a sz mode] show ?thesis
      by simp
  qed
  with assms(2) show "threads_ok threads dregs w'" "threads w' = threads w"
    "t \<in> set (threads w) \<Longrightarrow> watches slot a sz mode (dregs w' t)"
    "t \<in> set (threads w) \<Longrightarrow> k < 4 \<Longrightarrow> k \<noteq> slot \<Longrightarrow> slot_view k (dregs w' t) = slot_view k (dregs w t)"
    by (auto simp: only_slot_def threads_ok_def list_all_iff)
qed

lemma set_refines:
  assumes "set_watchpoint K dbg expr a value_size type_buf flags w = (0, dbg', w')"
    and "wp_sync threads dregs dbg w" "length (d_watchpoints dbg) < CDBG_WP_MAX_HW"
  shows "wp_sync threads dregs dbg' w'"
proof -
  let ?mode = "if fst flags then CDBG_WP_ACCESS else CDBG_WP_WRITE" and ?n = "length (d_watchpoints dbg)"
  obtain sz w1 where i: "install_watch K dbg ?n a (snd flags) value_size ?mode w = (Some sz, w1)"
    and d: "dbg' = dbg\<lparr>d_watchpoints := d_watchpoints dbg @ [new_watchpoint K dbg a sz ?mode expr type_buf w1]\<rparr>"
    and p: "wp_sync threads dregs dbg' w' = wp_sync threads dregs dbg' w1"
    using assms(1) by (auto simp: set_watchpoint_def Let_def print_sync split: prod.splits option.splits)
  have n: "?n < 4" using assms(3) by (simp add: CDBG_WP_MAX_HW_def)
  have ok: "threads_ok threads dregs w" and old: "\<forall>t\<in>set (threads w). slots_hold (d_watchpoints dbg) (dregs w t)"
    using assms(2) by (auto simp: wp_sync_def list_all_iff)
  note f = install_watch_refines [OF i ok n]
  have "slots_hold (d_watchpoints dbg) (dregs w1 t)" if t: "t \<in> set (threads w)" for t
  proof -
    have "\<forall>k<?n. slot_view k (dregs w1 t) = slot_view k (dregs w t)" using f(4) [OF t] n by simp
    from slots_hold_view [OF this] old t show ?thesis by simp
  qed
  then show ?thesis using f(1-3) n unfolding p
    by (simp add: wp_sync_def d list_all_iff slots_hold_snoc new_watchpoint_def CDBG_WP_MAX_HW_def)
qed

lemma rows_sync: "wp_sync threads dregs dbg (print_watchpoint_rows K i wps w) = wp_sync threads dregs dbg w"
  by (induction wps arbitrary: i w) (simp_all add: print_sync)

lemma watch_refines:
  assumes "cmd_watch strtod K dbg expr w = (0, dbg', w')" "wp_sync threads dregs dbg w"
  shows "wp_sync threads dregs dbg' w'"
proof (cases "trim_space expr = []")
  case True
  with assms show ?thesis
    by (auto simp: cmd_watch_def cmd_show_watchpoints_def rows_sync print_sync puts_def split: if_splits)
next
  case False
  with assms(1) obtain e flags dbg1 a vs ty where r: "cdbg_refresh_regs K dbg w = (True, dbg1)"
    and n: "length (d_watchpoints dbg) < CDBG_WP_MAX_HW" and s: "set_watchpoint K dbg1 e a vs ty flags w = (0, dbg', w')"
    by (auto simp: cmd_watch_def split: if_splits option.splits prod.splits bool.splits)
  from cdbg_refresh_regs_frame [OF r] obtain g where d: "dbg1 = dbg\<lparr>d_regs := g\<rparr>" by blast
  show ?thesis using set_refines [OF s] n assms(2) by (simp add: d wp_sync_def)
qed

end

interpretation sim_console: debug_console "sim_kern a" s_threads s_debug
  by unfold_locales (auto simp: sim_kern_def)

text \<open>A debugger that watches four bytes at two addresses.\<close>

definition watching :: "cdbg \<times> sim" where
  "watching = (case cmd_watch (\<lambda>_. 0) (sim_kern AArch64) (stopped_dbg []) ''/4 *1024'' (sim_machine AArch64 0x400) of
     (_, dbg, w) \<Rightarrow> snd (cmd_watch (\<lambda>_. 0) (sim_kern AArch64) dbg ''/4 *1280'' w))"

lemma watching_run:
  "case watching of (dbg, w) \<Rightarrow> wp_sync s_threads s_debug dbg w \<and> process_live dbg \<and> s_threads w = [1, 2]
     \<and> length (d_watchpoints dbg) = 2 \<and> wp_addr (last (d_watchpoints dbg)) = 0x500
     \<and> wp_size (last (d_watchpoints dbg)) = 4 \<and> wp_mode (last (d_watchpoints dbg)) = CDBG_WP_WRITE
     \<and> (case delete_watchpoint_at (sim_kern AArch64) dbg 0 w of
          (ok, dbg', _) \<Rightarrow> ok \<and> map wp_addr (d_watchpoints dbg') = [0x500])
     \<and> fst (cmd_unwatch (sim_kern AArch64) dbg ''0'' w) = 0"
  by code_simp

section \<open>Properties\<close>

text \<open>C8: A successful \<open>watch\<close> keeps the contract between the table of watchpoints and the hardware: on
  every thread of the debuggee, slot \<open>i\<close> traps exactly the accesses of entry \<open>i\<close> (address, width and
  mode, in terms of the architecture's debug registers), the new watchpoint included, also after the
  install loop has tried larger widths in vain.\<close>

theorem watch_programs_every_thread:
  assumes "debug_console K threads dregs" "wp_sync threads dregs dbg w" "cmd_watch strtod K dbg expr w = (0, dbg', w')"
  shows "wp_sync threads dregs dbg' w'"
  by (rule debug_console.watch_refines [OF assms(1,3,2)])

theorem watch_programs_every_thread_witness:
  "let (rc, dbg', w') = cmd_watch (\<lambda>_. 0) (sim_kern AArch64) (stopped_dbg []) ''/r *1024'' (sim_machine AArch64 0x400)
   in wp_sync s_threads s_debug dbg' w'"
proof -
  let ?w = "sim_machine AArch64 0x400"
  obtain rc dbg' w' where c: "cmd_watch (\<lambda>_. 0) (sim_kern AArch64) (stopped_dbg []) ''/r *1024'' ?w = (rc, dbg', w')"
    by (metis prod_cases3)
  have "fst (cmd_watch (\<lambda>_. 0) (sim_kern AArch64) (stopped_dbg []) ''/r *1024'' ?w) = 0" by code_simp
  then have "rc = 0" by (simp add: c)
  have "wp_sync s_threads s_debug (stopped_dbg []) ?w" by code_simp
  from watch_programs_every_thread [OF sim_console.debug_console_axioms this c [unfolded \<open>rc = 0\<close>]] c
  show ?thesis by simp
qed

text \<open>C9: A successful \<open>unwatch\<close>, of listed watchpoints or of all, keeps that contract: the watchpoints
  behind a deleted one move down a slot, and every slot of the new table traps what its entry says.\<close>

theorem unwatch_keeps_slots:
  assumes "debug_console K threads dregs" "wp_sync threads dregs dbg w" "process_live dbg"
    and "cmd_unwatch K dbg args w = (0, dbg', w')"
  shows "wp_sync threads dregs dbg' w'"
  by (rule debug_console.unwatch_refines [OF assms(1,4,3,2)])

theorem unwatch_keeps_slots_witness:
  "let (dbg, w) = watching; (rc, dbg', w') = cmd_unwatch (sim_kern AArch64) dbg ''0'' w
   in wp_sync s_threads s_debug dbg' w'"
proof -
  obtain dbg w where i: "watching = (dbg, w)" by fastforce
  obtain rc dbg' w' where d: "cmd_unwatch (sim_kern AArch64) dbg ''0'' w = (rc, dbg', w')" by (metis prod_cases3)
  note f = watching_run [unfolded i, simplified]
  from f d have r: "rc = 0" by simp
  have "wp_sync s_threads s_debug dbg w" "process_live dbg" using f by simp_all
  from unwatch_keeps_slots [OF sim_console.debug_console_axioms this d [unfolded r]] d show ?thesis by (simp add: i)
qed

text \<open>C20: But deleting a watchpoint that is not the last leaves the hardware slot behind the new table
  as it was: it still traps the accesses of the last watchpoint of the old table, which no entry names.\<close>

theorem unwatch_leaves_stale_slot:
  assumes "debug_console K threads dregs" "wp_sync threads dregs dbg w" "process_live dbg"
    and "delete_watchpoint_at K dbg index w = (True, dbg', w')" "Suc index < length (d_watchpoints dbg)"
    and "t \<in> set (threads w)"
  shows "let n = length (d_watchpoints dbg'); wp = last (d_watchpoints dbg)
    in Suc n = length (d_watchpoints dbg) \<and> watches n (wp_addr wp) (wp_size wp) (wp_mode wp) (dregs w' t)"
proof -
  note r = debug_console.delete_refines [OF assms(1,4,3,2)]
  let ?n = "length (d_watchpoints dbg) - 1" and ?wp = "last (d_watchpoints dbg)"
  from assms(2,6) have "slots_hold (d_watchpoints dbg) (dregs w t)" by (auto simp: wp_sync_def list_all_iff)
  with assms(5) have "watches ?n (wp_addr ?wp) (wp_size ?wp) (wp_mode ?wp) (dregs w t)"
    by (cases "d_watchpoints dbg" rule: rev_cases) (auto simp: slots_hold_snoc)
  with watches_view [OF r(4) [OF assms(5,6)]] have "watches ?n (wp_addr ?wp) (wp_size ?wp) (wp_mode ?wp) (dregs w' t)"
    by simp
  moreover from r(3) assms(5) have "length (d_watchpoints dbg') = ?n" by (auto simp: remove_nth_def)
  ultimately show ?thesis using assms(5) by (simp add: Let_def)
qed

theorem unwatch_leaves_stale_slot_witness:
  "let (dbg, w) = watching; (ok, dbg', w') = delete_watchpoint_at (sim_kern AArch64) dbg 0 w
   in map wp_addr (d_watchpoints dbg') = [0x500] \<and> watches 1 0x500 4 CDBG_WP_WRITE (s_debug w' 2)"
proof -
  obtain dbg w where i: "watching = (dbg, w)" by fastforce
  obtain ok dbg' w' where d: "delete_watchpoint_at (sim_kern AArch64) dbg 0 w = (ok, dbg', w')" by (metis prod_cases3)
  note f = watching_run [unfolded i, simplified]
  from f d have o: ok "map wp_addr (d_watchpoints dbg') = [0x500]" by simp_all
  from o(2) have n: "length (d_watchpoints dbg') = 1" by auto
  have "process_live dbg" "Suc 0 < length (d_watchpoints dbg)" "2 \<in> set (s_threads w)" using f by simp_all
  from unwatch_leaves_stale_slot [OF sim_console.debug_console_axioms _ this(1) d [unfolded eqTrueI [OF o(1)]] this(2,3)] f o
  have "watches 1 0x500 4 CDBG_WP_WRITE (s_debug w' 2)" by (simp add: Let_def n)
  with o d show ?thesis by (simp add: i)
qed

end
