(* ===== verification/ThreadCmds.thy ===== *)
theory ThreadCmds
  imports WatchSync
begin

text \<open>
  debugger.c: the commands on threads and frames. The backtrace over frame records, the thread list and
  the choice of the current thread, and the thread lock: every other thread suspended until \<open>unlock\<close>.
  An absent argument is the empty string.
\<close>

section \<open>Backtrace\<close>

definition CDBG_MAX_BACKTRACE_FRAMES :: nat where
  "CDBG_MAX_BACKTRACE_FRAMES = 64"

text \<open>The tail shared by a frame and a thread line: symbol, offset, source position, line end.\<close>

definition print_pc_symbol :: "'w kern \<Rightarrow> cdbg \<Rightarrow> (sym_entry \<times> addr) option \<Rightarrow> 'w \<Rightarrow> 'w" where
  "print_pc_symbol K dbg found w = (case found of
       Some (_, offset) \<Rightarrow> if offset \<noteq> 0 then k_print K '' + %lu'' [Arg_word offset] w else w
     | None \<Rightarrow> w)"

definition print_pc_line :: "'w kern \<Rightarrow> cdbg \<Rightarrow> addr \<Rightarrow> 'w \<Rightarrow> 'w" where
  "print_pc_line K dbg pc w =
     (case cdbg_lineno_line_at_pc (d_lineno dbg) pc CDBG_LINENO_MAX_FILE of
        Some (file, line) \<Rightarrow> puts K [] (k_print K '' at %s:%u'' [Arg_str file, Arg_word (ucast line)] w)
      | None \<Rightarrow> puts K [] w)"

definition print_backtrace_frame :: "'w kern \<Rightarrow> cdbg \<Rightarrow> nat \<Rightarrow> addr \<Rightarrow> 'w \<Rightarrow> 'w" where
  "print_backtrace_frame K dbg frame_no pc w =
     (let found = lookup_symbol_for_pc (d_syms dbg) pc
      in print_pc_line K dbg pc
           (print_pc_symbol K dbg found
             (k_print K ''#%-2u 0x%016lx in %s''
                [Arg_int (int frame_no), Arg_word pc, Arg_str (display_sym_name (map_option fst found))] w)))"

definition frame_record_next :: "'w kern \<Rightarrow> cdbg \<Rightarrow> addr \<Rightarrow> 'w \<Rightarrow> (addr \<times> addr) option" where
  "frame_record_next K dbg fp w =
     (case cdbg_mem_read_u64 K (d_pid dbg) fp w of
        None \<Rightarrow> None
      | Some saved_fp \<Rightarrow>
          (case cdbg_mem_read_u64 K (d_pid dbg) (fp + 8) w of
             None \<Rightarrow> None
           | Some saved_pc \<Rightarrow>
               if saved_fp = 0 \<or> saved_pc < 0x1000 \<or> saved_fp \<le> fp then None else Some (saved_fp, saved_pc)))"

text \<open>The loop over the frames, for at most \<open>n\<close> more.\<close>

fun backtrace_loop :: "'w kern \<Rightarrow> cdbg \<Rightarrow> nat \<Rightarrow> nat \<Rightarrow> addr \<Rightarrow> 'w \<Rightarrow> 'w" where
  "backtrace_loop K dbg 0 frame_no fp w = w"
| "backtrace_loop K dbg (Suc n) frame_no fp w =
     (if fp = 0 then w
      else case frame_record_next K dbg fp w of
        None \<Rightarrow> w
      | Some (next_fp, ret_addr) \<Rightarrow>
          backtrace_loop K dbg n (Suc frame_no) next_fp (print_backtrace_frame K dbg frame_no ret_addr w))"

definition cmd_backtrace :: "'w kern \<Rightarrow> cdbg \<Rightarrow> 'w \<Rightarrow> int \<times> cdbg \<times> 'w" where
  "cmd_backtrace K dbg w = (case cdbg_refresh_regs K dbg w of
       (False, dbg1) \<Rightarrow> (- 1, dbg1, w)
     | (True, dbg1) \<Rightarrow>
         (0, dbg1, backtrace_loop K dbg1 (CDBG_MAX_BACKTRACE_FRAMES - 1) 1 (cdbg_regs_fp (d_regs dbg1))
            (print_backtrace_frame K dbg1 0 (cdbg_regs_pc (d_regs dbg1)) (puts K ''Backtrace:'' w))))"

section \<open>Threads\<close>

definition thread_is_current :: "cdbg \<Rightarrow> cdbg_thread_info \<Rightarrow> bool" where
  "thread_is_current dbg t =
     (if d_current_tid dbg = CDBG_TID_PRIMARY then ti_is_primary t else ti_tid t = d_current_tid dbg)"

definition thread_is_locked :: "cdbg \<Rightarrow> cdbg_thread_info \<Rightarrow> bool" where
  "thread_is_locked dbg t \<longleftrightarrow> d_thread_lock_active dbg \<and> ti_tid t = d_locked_tid dbg"

definition print_thread_line :: "'w kern \<Rightarrow> cdbg \<Rightarrow> nat \<Rightarrow> cdbg_thread_info \<Rightarrow> 'w \<Rightarrow> 'w" where
  "print_thread_line K dbg index t w =
     (let w1 = k_print K ''%s%s%-4zu tid=0x%-16llx %-9s ''
            [Arg_str (if thread_is_current dbg t then ''*'' else '' ''),
             Arg_str (if thread_is_locked dbg t then ''L '' else ''  ''), Arg_int (int index), Arg_word (ti_tid t),
             Arg_str (if ti_is_primary t then ''(primary)'' else [])] w
      in (case cdbg_regs_get K (d_pid dbg) (ti_tid t) (zero_regs (k_arch K)) w1 of
            (False, _) \<Rightarrow> puts K ''(registers unavailable)'' w1
          | (True, regs) \<Rightarrow>
              let pc = cdbg_regs_pc regs; found = lookup_symbol_for_pc (d_syms dbg) pc
              in print_pc_line K dbg pc
                   (print_pc_symbol K dbg found
                     (k_print K ''0x%016lx in %s'' [Arg_word pc, Arg_str (display_sym_name (map_option fst found))] w1))))"

fun print_threads :: "'w kern \<Rightarrow> cdbg \<Rightarrow> nat \<Rightarrow> cdbg_thread_info list \<Rightarrow> 'w \<Rightarrow> 'w" where
  "print_threads K dbg i [] w = w"
| "print_threads K dbg i (t # ts) w = print_threads K dbg (Suc i) ts (print_thread_line K dbg i t w)"

definition cmd_threads :: "'w kern \<Rightarrow> cdbg \<Rightarrow> 'w \<Rightarrow> int \<times> cdbg \<times> 'w" where
  "cmd_threads K dbg w =
     (if d_state dbg = CDBG_STATE_IDLE then (- 1, dbg, w)
      else case cdbg_threads_list K (d_pid dbg) CDBG_MAX_THREADS w of
        None \<Rightarrow> (- 1, dbg, w)
      | Some threads \<Rightarrow> (0, dbg, print_threads K dbg 0 threads w))"

fun current_thread_index :: "cdbg \<Rightarrow> nat \<Rightarrow> cdbg_thread_info list \<Rightarrow> (nat \<times> cdbg_thread_info) option" where
  "current_thread_index dbg i [] = None"
| "current_thread_index dbg i (t # ts) =
     (if thread_is_current dbg t then Some (i, t) else current_thread_index dbg (Suc i) ts)"

definition primary_suffix :: "cdbg_thread_info \<Rightarrow> out_arg" where
  "primary_suffix t = Arg_str (if ti_is_primary t then '' (primary)'' else [])"

text \<open>The thread a number argument names.\<close>

definition thread_numbered :: "cdbg_thread_info list \<Rightarrow> string \<Rightarrow> (u64 \<times> cdbg_thread_info) option" where
  "thread_numbered threads args = (case parse_u64 args of
       None \<Rightarrow> None
     | Some index \<Rightarrow> if length threads \<le> unat index then None else Some (index, threads ! unat index))"

definition selected_tid :: "cdbg_thread_info \<Rightarrow> u64" where
  "selected_tid t = (if ti_is_primary t then CDBG_TID_PRIMARY else ti_tid t)"

definition cmd_thread :: "'w kern \<Rightarrow> cdbg \<Rightarrow> string \<Rightarrow> 'w \<Rightarrow> int \<times> cdbg \<times> 'w" where
  "cmd_thread K dbg args w =
     (if d_state dbg = CDBG_STATE_IDLE then (- 1, dbg, w)
      else case cdbg_threads_list K (d_pid dbg) CDBG_MAX_THREADS w of
        None \<Rightarrow> (- 1, dbg, w)
      | Some threads \<Rightarrow>
          if trim_space args = []
          then (case current_thread_index dbg 0 threads of
                  None \<Rightarrow> (- 1, dbg, w)
                | Some (i, t) \<Rightarrow>
                    (0, dbg, k_print K (fmtln ''Current thread is #%zu (tid=0x%llx)%s'')
                       [Arg_int (int i), Arg_word (ti_tid t), primary_suffix t] w))
          else (case thread_numbered threads (trim_space args) of
                  None \<Rightarrow> (- 1, dbg, w)
                | Some (index, t) \<Rightarrow>
                    (case cdbg_refresh_regs K (dbg\<lparr>d_current_tid := selected_tid t\<rparr>) w of
                       (False, dbg1) \<Rightarrow> (- 1, dbg1, w)
                     | (True, dbg1) \<Rightarrow>
                         (0, dbg1, print_stop_location K dbg1 (cdbg_regs_pc (d_regs dbg1))
                            (k_print K (fmtln ''Switched to thread #%llu (tid=0x%llx)%s'')
                               [Arg_word index, Arg_word (ti_tid t), primary_suffix t] w)))))"

section \<open>The thread lock\<close>

text \<open>Suspends every thread but the target; when one fails, those suspended so far are resumed.\<close>

fun lock_loop ::
  "'w kern \<Rightarrow> int \<Rightarrow> u64 \<Rightarrow> u64 list \<Rightarrow> cdbg_thread_info list \<Rightarrow> 'w \<Rightarrow> bool \<times> u64 list \<times> 'w" where
  "lock_loop K pid target suspended [] w = (True, suspended, w)"
| "lock_loop K pid target suspended (t # ts) w =
     (if ti_tid t = target then lock_loop K pid target suspended ts w
      else (case cdbg_thread_suspend K pid (ti_tid t) w of
              (False, w1) \<Rightarrow> (False, suspended, snd (resume_all K pid suspended w1))
            | (True, w1) \<Rightarrow> lock_loop K pid target (suspended @ [ti_tid t]) ts w1))"

definition cmd_lock :: "'w kern \<Rightarrow> cdbg \<Rightarrow> string \<Rightarrow> 'w \<Rightarrow> int \<times> cdbg \<times> 'w" where
  "cmd_lock K dbg args w =
     (if d_state dbg = CDBG_STATE_IDLE \<or> trim_space args = [] \<or> d_thread_lock_active dbg then (- 1, dbg, w)
      else case cdbg_threads_list K (d_pid dbg) CDBG_MAX_THREADS w of
        None \<Rightarrow> (- 1, dbg, w)
      | Some threads \<Rightarrow>
          (case thread_numbered threads (trim_space args) of
             None \<Rightarrow> (- 1, dbg, w)
           | Some (index, target) \<Rightarrow>
               (case lock_loop K (d_pid dbg) (ti_tid target) [] threads w of
                  (False, _, w1) \<Rightarrow> (- 1, dbg, w1)
                | (True, suspended, w1) \<Rightarrow>
                    (case cdbg_refresh_regs K
                            (dbg\<lparr>d_thread_lock_active := True, d_locked_tid := ti_tid target,
                                 d_suspended_tids := suspended, d_current_tid := selected_tid target\<rparr>) w1 of
                       (False, dbg1) \<Rightarrow> (- 1, dbg1, w1)
                     | (True, dbg1) \<Rightarrow>
                         (0, dbg1, k_print K (fmtln ''Locked to thread #%llu (tid=0x%llx)%s; %zu other thread(s) suspended'')
                            [Arg_word index, Arg_word (ti_tid target), primary_suffix target,
                             Arg_int (int (length suspended))] w1)))))"

definition cmd_unlock :: "'w kern \<Rightarrow> cdbg \<Rightarrow> 'w \<Rightarrow> int \<times> cdbg \<times> 'w" where
  "cmd_unlock K dbg w =
     (if d_state dbg = CDBG_STATE_IDLE then (- 1, dbg, w)
      else if \<not> d_thread_lock_active dbg then (0, dbg, puts K ''Not locked.'' w)
      else (case resume_all K (d_pid dbg) (d_suspended_tids dbg) w of
              (ok, w1) \<Rightarrow>
                (if ok then 0 else - 1, dbg\<lparr>d_thread_lock_active := False, d_suspended_tids := []\<rparr>,
                 puts K ''Unlocked; all threads resumed.'' w1)))"

end
