(* ===== verification/ThreadFacts.thy ===== *)
theory ThreadFacts
  imports ThreadCmds
begin

text \<open>
  The thread lock and the thread guard against the suspend counts of Mach. The locale states what
  \<open>thread_suspend\<close> and \<open>thread_resume\<close> document: a success changes the susp of its thread by one, a
  failure changes nothing, and a suspended thread can be resumed. On it, the lock suspends every other
  listed thread once or none at all, and unlocking gives every susp back.
\<close>

definition named_threads :: "('w \<Rightarrow> nat list) \<Rightarrow> ('w \<Rightarrow> nat \<Rightarrow> u64) \<Rightarrow> 'w \<Rightarrow> bool" where
  "named_threads threads ident w \<longleftrightarrow>
     distinct (map (ident w) (threads w)) \<and> MACH_PORT_NULL \<notin> set (threads w) \<and> CDBG_TID_PRIMARY \<notin> ident w ` set (threads w)"

text \<open>The counts with one more suspension of each thread of a set.\<close>

definition bump :: "(nat \<Rightarrow> nat) \<Rightarrow> nat set \<Rightarrow> nat \<Rightarrow> nat" where
  "bump c S t = (if t \<in> S then Suc (c t) else c t)"

lemma bump_empty [simp]: "bump c {} = c"
  by (simp add: bump_def fun_eq_iff)

lemma bump_insert: "t \<notin> S \<Longrightarrow> (bump c S)(t := Suc (bump c S t)) = bump c (insert t S)"
  by (auto simp: bump_def fun_eq_iff)

lemma bump_remove: "t \<notin> S \<Longrightarrow> (bump c (insert t S))(t := bump c (insert t S) t - 1) = bump c S"
  by (auto simp: bump_def fun_eq_iff)

lemma distinct_map_imp: "distinct (map f xs) \<Longrightarrow> distinct xs"
  by (simp add: distinct_map)

lemma find_thread_distinct:
  assumes "distinct (map f ts)" "t \<in> set ts" "MACH_PORT_NULL \<notin> set ts" "f t \<noteq> CDBG_TID_PRIMARY"
    and "\<And>u. u \<in> set ts \<Longrightarrow> tid_of_thread K u w = f u"
  shows "find_thread K (f t) i MACH_PORT_NULL ts w = t"
proof -
  have found: "find_thread K (f t) i p ts' w = p" if "p \<noteq> MACH_PORT_NULL" for i p ts'
    using that by (induction ts' arbitrary: i) (simp_all add: Let_def)
  show ?thesis using assms
  proof (induction ts arbitrary: i)
    case (Cons u ts)
    then show ?case using found [of u "Suc i" ts] by (cases "u = t") (auto simp: Let_def image_iff)
  qed simp
qed

locale suspend_counts =
  fixes K :: "'w kern" and threads :: "'w \<Rightarrow> nat list" and ident :: "'w \<Rightarrow> nat \<Rightarrow> u64" and susp :: "'w \<Rightarrow> nat \<Rightarrow> nat"
  assumes counts_task: "\<exists>t. k_task_for_pid K pid w = Some t \<and> t \<noteq> MACH_PORT_NULL"
    and counts_list: "k_task_threads K task w = Some (threads w)"
    and counts_ident: "k_thread_id K t w = Some (ident w t)"
    and counts_suspend: "k_thread_suspend K t w = (ok, w') \<Longrightarrow>
          threads w' = threads w \<and> ident w' = ident w
          \<and> susp w' = (if ok then (susp w)(t := Suc (susp w t)) else susp w)"
    and counts_resume: "k_thread_resume K t w = (ok, w') \<Longrightarrow>
          threads w' = threads w \<and> ident w' = ident w
          \<and> susp w' = (if ok then (susp w)(t := susp w t - 1) else susp w) \<and> (0 < susp w t \<longrightarrow> ok)"
    and counts_print: "threads (k_print K f args w) = threads w" "ident (k_print K f args w) = ident w"
      "susp (k_print K f args w) = susp w"
begin

lemma thread_port_named:
  assumes "named_threads threads ident w" "t \<in> set (threads w)"
  shows "thread_port K pid (ident w t) w = Some t"
proof -
  have "ident w t \<noteq> CDBG_TID_PRIMARY" "t \<noteq> MACH_PORT_NULL"
    using assms unfolding named_threads_def by (metis imageI)+
  then have "find_thread K (ident w t) 0 MACH_PORT_NULL (threads w) w = t"
    using assms by (intro find_thread_distinct) (auto simp: named_threads_def tid_of_thread_def counts_ident)
  with assms(2) \<open>t \<noteq> MACH_PORT_NULL\<close> counts_task [of pid w] show ?thesis
    by (auto simp: thread_port_def Let_def task_for_traced_pid_def thread_for_task_tid_def counts_list)
qed

lemma suspend_named:
  assumes "cdbg_thread_suspend K pid (ident w t) w = (ok, w')" "named_threads threads ident w" "t \<in> set (threads w)"
  shows "threads w' = threads w \<and> ident w' = ident w
    \<and> susp w' = (if ok then (susp w)(t := Suc (susp w t)) else susp w)"
  using assms(1) counts_suspend [of t w ok w']
  by (simp add: cdbg_thread_suspend_def suspend_or_resume_thread_def thread_port_named [OF assms(2,3)])

lemma resume_named:
  assumes "cdbg_thread_resume K pid (ident w t) w = (ok, w')" "named_threads threads ident w" "t \<in> set (threads w)"
  shows "threads w' = threads w \<and> ident w' = ident w
    \<and> susp w' = (if ok then (susp w)(t := susp w t - 1) else susp w) \<and> (0 < susp w t \<longrightarrow> ok)"
  using assms(1) counts_resume [of t w ok w']
  by (simp add: cdbg_thread_resume_def suspend_or_resume_thread_def thread_port_named [OF assms(2,3)])

lemma named_cong: "threads w' = threads w \<Longrightarrow> ident w' = ident w \<Longrightarrow> named_threads threads ident w' = named_threads threads ident w"
  by (simp add: named_threads_def)

lemma resume_all_counts:
  "resume_all K pid (map (ident w) ts) w = (ok, w') \<Longrightarrow> distinct ts \<Longrightarrow> named_threads threads ident w \<Longrightarrow>
     set ts \<subseteq> set (threads w) \<Longrightarrow> susp w = bump c (set ts) \<Longrightarrow>
     ok \<and> threads w' = threads w \<and> ident w' = ident w \<and> susp w' = c"
proof (induction ts arbitrary: w w' ok)
  case Nil
  then show ?case by simp
next
  case (Cons t ts)
  obtain b w1 where r: "cdbg_thread_resume K pid (ident w t) w = (b, w1)" by fastforce
  note f = resume_named [OF r Cons.prems(3)]
  have "0 < susp w t" using Cons.prems(5) by (simp add: bump_def)
  with f Cons.prems(2,4,5) have n: "b" "threads w1 = threads w" "ident w1 = ident w" "susp w1 = bump c (set ts)"
    using bump_remove [of t "set ts" c] by auto
  obtain ok1 w2 where s: "resume_all K pid (map (ident w1) ts) w1 = (ok1, w2)" by fastforce
  have "named_threads threads ident w1" using Cons.prems(3) named_cong [OF n(2,3)] by simp
  with Cons.IH [OF s _ this _ n(4)] Cons.prems(2,4) n
  have ih: "ok1 \<and> threads w2 = threads w1 \<and> ident w2 = ident w1 \<and> susp w2 = c" by simp
  from Cons.prems(1) r s n(1,3) have "ok = ok1" "w' = w2" by auto
  with ih n show ?case by simp
qed

text \<open>Suspending the threads of a list, all but the target, on top of those suspended already.\<close>

lemma lock_loop_counts:
  "lock_loop K pid target (map (ident w) qs) (map (\<lambda>i. \<lparr>ti_tid = ident w (ts ! i), ti_is_primary = p i\<rparr>) [k..<length ts]) w
       = (ok, tids, w') \<Longrightarrow>
     distinct ts \<Longrightarrow> named_threads threads ident w \<Longrightarrow> set ts \<subseteq> set (threads w) \<Longrightarrow> k \<le> length ts \<Longrightarrow>
     qs = filter (\<lambda>t. ident w t \<noteq> target) (take k ts) \<Longrightarrow> susp w = bump c (set qs) \<Longrightarrow>
     threads w' = threads w \<and> ident w' = ident w
     \<and> (if ok then tids = map (ident w) (filter (\<lambda>t. ident w t \<noteq> target) ts)
              \<and> susp w' = bump c {t \<in> set ts. ident w t \<noteq> target}
        else susp w' = c)"
proof (induction "length ts - k" arbitrary: k qs w)
  case 0
  from 0(1,6) have "k = length ts" by simp
  moreover from this 0(2) have "ok" "tids = map (ident w) qs" "w' = w" by auto
  ultimately show ?case using 0(7,8) by simp
next
  case (Suc n)
  let ?t = "ts ! k"
  have k: "k < length ts" "n = length ts - Suc k" using Suc.hyps(2) by simp_all
  have up: "[k..<length ts] = k # [Suc k..<length ts]" using k by (simp add: upt_conv_Cons)
  have tk: "take (Suc k) ts = take k ts @ [?t]" using k by (simp add: take_Suc_conv_app_nth)
  have tin: "?t \<in> set (threads w)" using Suc.prems(4) k nth_mem by blast
  have fresh: "?t \<notin> set qs" using Suc.prems(2,6) k by (auto simp: in_set_conv_nth nth_eq_iff_index_eq)
  show ?case
  proof (cases "ident w ?t = target")
    case True
    then have "qs = filter (\<lambda>t. ident w t \<noteq> target) (take (Suc k) ts)" using Suc.prems(6) by (simp add: tk)
    with Suc.hyps(1) [OF k(2) _ Suc.prems(2-4) _ this Suc.prems(7)] Suc.prems(1) k True show ?thesis by (simp add: up)
  next
    case False
    obtain b w1 where s: "cdbg_thread_suspend K pid (ident w ?t) w = (b, w1)" by fastforce
    note f = suspend_named [OF s Suc.prems(3) tin]
    show ?thesis
    proof (cases b)
      case True
      with f Suc.prems(7) fresh have n: "threads w1 = threads w" "ident w1 = ident w" "susp w1 = bump c (set (qs @ [?t]))"
        using bump_insert [of ?t "set qs" c] by auto
      have q: "qs @ [?t] = filter (\<lambda>t. ident w1 t \<noteq> target) (take (Suc k) ts)" using Suc.prems(6) False n by (simp add: tk)
      have "lock_loop K pid target (map (ident w1) (qs @ [?t]))
          (map (\<lambda>i. \<lparr>ti_tid = ident w1 (ts ! i), ti_is_primary = p i\<rparr>) [Suc k..<length ts]) w1 = (ok, tids, w')"
        using Suc.prems(1) False s True n by (simp add: up)
      from Suc.hyps(1) [OF k(2) this Suc.prems(2) _ _ _ q n(3)] Suc.prems(3,4) k n named_cong [OF n(1,2)] show ?thesis by simp
    next
      case no: False
      obtain r w2 where ra: "resume_all K pid (map (ident w1) qs) w1 = (r, w2)" by fastforce
      have n: "threads w1 = threads w" "ident w1 = ident w" "susp w1 = bump c (set qs)" using f no Suc.prems(7) by simp_all
      have "set qs \<subseteq> set (threads w1)" "distinct qs"
        using Suc.prems(2,4,6) n by (auto dest: in_set_takeD)
      from resume_all_counts [OF ra this(2) _ this(1) n(3)] Suc.prems(3) named_cong [OF n(1,2)]
      have "threads w2 = threads w1 \<and> ident w2 = ident w1 \<and> susp w2 = c" by simp
      moreover from Suc.prems(1) False s no n ra have "w' = w2" "\<not> ok" by (auto simp: up)
      ultimately show ?thesis using n by simp
    qed
  qed
qed

text \<open>\<open>lock\<close> suspends every other listed thread once, or it fails and every susp is as before.\<close>

lemma lock_counts:
  assumes "cmd_lock K dbg args w = (rc, dbg', w')" "named_threads threads ident w"
  shows "threads w' = threads w \<and> ident w' = ident w
    \<and> (dbg' = dbg \<and> susp w' = susp w \<and> rc = - 1
       \<or> d_thread_lock_active dbg' \<and> d_pid dbg' = d_pid dbg \<and> d_state dbg' = d_state dbg
         \<and> (let others = filter (\<lambda>t. ident w t \<noteq> d_locked_tid dbg') (take CDBG_MAX_THREADS (threads w))
            in d_suspended_tids dbg' = map (ident w) others \<and> susp w' = bump (susp w) (set others)))"
proof (cases "dbg' = dbg \<and> w' = w \<and> rc = - 1")
  case False
  let ?ts = "take CDBG_MAX_THREADS (threads w)"
  let ?infos = "map (\<lambda>i. \<lparr>ti_tid = ident w (?ts ! i), ti_is_primary = (i = 0)\<rparr>) [0..<length ?ts]"
  have l: "cdbg_threads_list K (d_pid dbg) CDBG_MAX_THREADS w = Some ?infos"
    using counts_task [of "d_pid dbg" w]
    by (auto simp: cdbg_threads_list_def task_for_traced_pid_def counts_list tid_of_thread_def counts_ident min_def)
  from False assms(1) l obtain index target where nth: "thread_numbered ?infos (trim_space args) = Some (index, target)"
    by (auto simp: cmd_lock_def split: if_splits option.splits)
  obtain ok tids w1 where lp: "lock_loop K (d_pid dbg) (ti_tid target) [] ?infos w = (ok, tids, w1)"
    using prod_cases3 by blast
  have d: "distinct ?ts" "set ?ts \<subseteq> set (threads w)"
    using assms(2) by (auto simp: named_threads_def dest: distinct_map_imp in_set_takeD)
  have c: "threads w1 = threads w \<and> ident w1 = ident w
     \<and> (if ok then tids = map (ident w) (filter (\<lambda>t. ident w t \<noteq> ti_tid target) ?ts)
              \<and> susp w1 = bump (susp w) {t \<in> set ?ts. ident w t \<noteq> ti_tid target}
        else susp w1 = susp w)"
    using lock_loop_counts [of "d_pid dbg" "ti_tid target" w "[]" ?ts "\<lambda>i. i = 0" 0 ok tids w1 "susp w"] lp d assms(2) by simp
  show ?thesis
  proof (cases ok)
    case no: False
    with assms(1) False l nth lp have "dbg' = dbg" "w' = w1" "rc = - 1" by (auto simp: cmd_lock_def split: if_splits)
    with c no show ?thesis by simp
  next
    case yes: True
    obtain b dbg1 where rf: "cdbg_refresh_regs K (dbg\<lparr>d_thread_lock_active := True, d_locked_tid := ti_tid target,
        d_suspended_tids := tids, d_current_tid := selected_tid target\<rparr>) w1 = (b, dbg1)" by fastforce
    from cdbg_refresh_regs_frame [OF rf] obtain g where d1: "dbg1 = dbg\<lparr>d_thread_lock_active := True,
        d_locked_tid := ti_tid target, d_suspended_tids := tids, d_current_tid := selected_tid target, d_regs := g\<rparr>" by auto
    from assms(1) False l nth lp yes rf have "dbg' = dbg1" "threads w' = threads w1" "ident w' = ident w1" "susp w' = susp w1"
      by (auto simp: cmd_lock_def counts_print split: if_splits bool.splits)
    with c yes d1 show ?thesis by (simp add: set_filter)
  qed
qed (use assms in auto)

lemma unlock_counts:
  assumes "cmd_unlock K dbg w = (rc, dbg', w')" "named_threads threads ident w" "d_thread_lock_active dbg"
    and "d_state dbg \<noteq> CDBG_STATE_IDLE" "d_suspended_tids dbg = map (ident w) ts" "distinct ts" "set ts \<subseteq> set (threads w)"
    and "susp w = bump c (set ts)"
  shows "rc = 0 \<and> susp w' = c \<and> \<not> d_thread_lock_active dbg'"
proof -
  obtain ok w1 where r: "resume_all K (d_pid dbg) (map (ident w) ts) w = (ok, w1)" by fastforce
  from resume_all_counts [OF r assms(6,2,7,8)] assms(1,3,4,5) r show ?thesis
    by (auto simp: cmd_unlock_def counts_print puts_def)
qed

end

interpretation sim_counts: suspend_counts "sim_kern a" s_threads "\<lambda>w t. of_nat t + 1000" s_suspended
  by unfold_locales (auto simp: sim_kern_def MACH_PORT_NULL_def)

section \<open>Properties\<close>

text \<open>C11: The thread lock is all or nothing: after \<open>lock\<close> every listed thread but the target has one
  more suspension and the debugger is locked and remembers exactly these threads, or the command has
  failed and the debugger state and every suspend susp are as before, also when a thread in the middle
  of the list could not be suspended.\<close>

theorem lock_all_or_nothing:
  assumes "suspend_counts K threads ident susp" "named_threads threads ident w" "cmd_lock K dbg args w = (rc, dbg', w')"
  shows "dbg' = dbg \<and> susp w' = susp w \<and> rc = - 1
    \<or> d_thread_lock_active dbg'
      \<and> (let others = filter (\<lambda>t. ident w t \<noteq> d_locked_tid dbg') (take CDBG_MAX_THREADS (threads w))
         in d_suspended_tids dbg' = map (ident w) others \<and> susp w' = bump (susp w) (set others))"
  using suspend_counts.lock_counts [OF assms(1,3,2)] by (auto simp: Let_def)

theorem lock_all_or_nothing_witness:
  "let (rc, dbg', w') = cmd_lock (sim_kern AArch64) (stopped_dbg []) ''1'' (sim_machine AArch64 0x400)
   in d_locked_tid dbg' = 1002 \<and> s_suspended w' = (\<lambda>t. if t = 1 then 1 else 0)"
proof -
  let ?w = "sim_machine AArch64 0x400"
  obtain rc dbg' w' where c: "cmd_lock (sim_kern AArch64) (stopped_dbg []) ''1'' ?w = (rc, dbg', w')" by (metis prod_cases3)
  have "named_threads s_threads (\<lambda>w t. of_nat t + 1000) ?w" by code_simp
  note lock_all_or_nothing [OF sim_counts.suspend_counts_axioms this c]
  moreover have "rc = 0 \<and> d_locked_tid dbg' = 1002"
  proof -
    have "case cmd_lock (sim_kern AArch64) (stopped_dbg []) ''1'' ?w of (rc, dbg', w') \<Rightarrow> rc = 0 \<and> d_locked_tid dbg' = 1002"
      by code_simp
    then show ?thesis by (simp add: c)
  qed
  moreover have "take CDBG_MAX_THREADS (s_threads ?w) = [1, 2]" "s_suspended ?w = (\<lambda>t. 0)"
    by (simp_all add: sim_machine_def CDBG_MAX_THREADS_def)
  ultimately have "s_suspended w' = bump (\<lambda>t. 0) {1}" by (simp add: Let_def)
  with c \<open>rc = 0 \<and> d_locked_tid dbg' = 1002\<close> show ?thesis by (simp add: bump_def fun_eq_iff)
qed

text \<open>C10: \<open>unlock\<close> after \<open>lock\<close> gives every suspend susp back: nothing stays suspended, whatever the
  counts were before, and the debugger is unlocked.\<close>

theorem lock_unlock_balanced:
  assumes "suspend_counts K threads ident susp" "named_threads threads ident w"
    and "cmd_lock K dbg args w = (0, dbg1, w1)" "cmd_unlock K dbg1 w1 = (rc, dbg2, w2)"
  shows "rc = 0 \<and> susp w2 = susp w \<and> \<not> d_thread_lock_active dbg2"
proof -
  let ?others = "filter (\<lambda>t. ident w t \<noteq> d_locked_tid dbg1) (take CDBG_MAX_THREADS (threads w))"
  have l: "threads w1 = threads w" "ident w1 = ident w" "d_thread_lock_active dbg1" "d_state dbg1 = d_state dbg"
    "d_suspended_tids dbg1 = map (ident w) ?others" "susp w1 = bump (susp w) (set ?others)"
    using suspend_counts.lock_counts [OF assms(1,3,2)] by (auto simp: Let_def)
  have "d_state dbg \<noteq> CDBG_STATE_IDLE" using assms(3) by (auto simp: cmd_lock_def)
  then have s: "d_state dbg1 \<noteq> CDBG_STATE_IDLE" using l by simp
  have n: "named_threads threads ident w1" "distinct ?others" "set ?others \<subseteq> set (threads w1)"
    using assms(2) l by (auto simp: named_threads_def dest: distinct_map_imp in_set_takeD)
  show ?thesis
    using suspend_counts.unlock_counts [OF assms(1,4) n(1) l(3) s _ n(2,3) l(6)] l(2,5) by simp
qed

theorem lock_unlock_balanced_witness:
  "let (rc1, dbg1, w1) = cmd_lock (sim_kern X86_64) (stopped_dbg []) '' 0 '' (sim_machine X86_64 0x400);
       (rc2, dbg2, w2) = cmd_unlock (sim_kern X86_64) dbg1 w1
   in s_suspended w2 = (\<lambda>t. 0)"
proof -
  let ?w = "sim_machine X86_64 0x400"
  obtain rc1 dbg1 w1 where c: "cmd_lock (sim_kern X86_64) (stopped_dbg []) '' 0 '' ?w = (rc1, dbg1, w1)" by (metis prod_cases3)
  obtain rc2 dbg2 w2 where u: "cmd_unlock (sim_kern X86_64) dbg1 w1 = (rc2, dbg2, w2)" by (metis prod_cases3)
  have "named_threads s_threads (\<lambda>w t. of_nat t + 1000) ?w" by code_simp
  moreover have "fst (cmd_lock (sim_kern X86_64) (stopped_dbg []) '' 0 '' ?w) = 0" by code_simp
  moreover from this have "rc1 = 0" by (simp add: c)
  ultimately have "s_suspended w2 = s_suspended ?w"
    using lock_unlock_balanced [OF sim_counts.suspend_counts_axioms _ c [unfolded \<open>rc1 = 0\<close>] u] by blast
  then show ?thesis using c u by (simp add: sim_machine_def)
qed

end
