(* ===== verification/ShowCmd.thy ===== *)
theory ShowCmd
  imports ThreadFacts
begin

text \<open>
  debugger.c: \<open>show\<close>. The scan of the debug information that lists the arguments and locals of the
  function the program is stopped in, or the globals, completed by the data symbols; and the command.
\<close>

definition CDBG_MAX_SHOW_VARS :: nat where
  "CDBG_MAX_SHOW_VARS = 128"

datatype cdbg_show_scope = CDBG_SHOW_LOCALS | CDBG_SHOW_ARGS | CDBG_SHOW_GLOBALS

record cdbg_show_var =
  shown_var :: cdbg_var_info
  shown_addr :: addr

definition show_var_name_exists :: "cdbg_show_var list \<Rightarrow> string \<Rightarrow> bool" where
  "show_var_name_exists vars name \<longleftrightarrow> list_ex (\<lambda>v. vi_name (shown_var v) = name) vars"

definition show_var_push ::
  "'w kern \<Rightarrow> cdbg \<Rightarrow> nat \<Rightarrow> cdbg_var_info \<Rightarrow> addr \<Rightarrow> 'w \<Rightarrow> cdbg_show_var list \<Rightarrow> cdbg_show_var list" where
  "show_var_push K dbg max_vars var a w vars =
     (if vi_name var = [] \<or> max_vars \<le> length vars \<or> show_var_name_exists vars (vi_name var) then vars
      else vars @ [\<lparr>shown_var = complete_var_type K dbg (var\<lparr>vi_has_location := True\<rparr>) w, shown_addr = a\<rparr>])"

definition sym_is_global_data :: "char \<Rightarrow> bool" where
  "sym_is_global_data c \<longleftrightarrow> c \<in> set ''bBdDgGsSC''"

fun collect_globals_from_syms ::
  "'w kern \<Rightarrow> cdbg \<Rightarrow> nat \<Rightarrow> 'w \<Rightarrow> sym_entry list \<Rightarrow> cdbg_show_var list \<Rightarrow> cdbg_show_var list" where
  "collect_globals_from_syms K dbg max_vars w [] vars = vars"
| "collect_globals_from_syms K dbg max_vars w (e # es) vars =
     (if max_vars \<le> length vars then vars
      else if sym_address e = 0 \<or> \<not> sym_is_global_data (sym_type e) \<or> show_var_name_exists vars (sym_name e)
      then collect_globals_from_syms K dbg max_vars w es vars
      else collect_globals_from_syms K dbg max_vars w es
             (show_var_push K dbg max_vars
                (zero_var\<lparr>vi_name := snprintf_s 128 (sym_name e), vi_type := ''unsigned long''\<rparr>)
                (cdbg_syms_runtime_addr (d_syms dbg) (sym_address e)) w vars))"

section \<open>The scan\<close>

record show_scan =
  sv_in_func :: bool
  sv_func_matches :: bool
  sv_func_depth :: nat
  sv_func_low :: addr
  sv_func_high :: addr
  sv_in_lex :: bool
  sv_lex_matches :: bool
  sv_lex_low :: addr
  sv_lex_high :: addr
  sv_reading :: bool
  sv_formal :: bool
  sv_var :: cdbg_var_info
  sv_fbreg :: bool
  sv_link_addr :: addr
  sv_vars :: "cdbg_show_var list"

definition show_scan_init :: show_scan where
  "show_scan_init = \<lparr>sv_in_func = False, sv_func_matches = False, sv_func_depth = 0, sv_func_low = 0, sv_func_high = 0,
     sv_in_lex = False, sv_lex_matches = False, sv_lex_low = 0, sv_lex_high = 0, sv_reading = False, sv_formal = False,
     sv_var = zero_var, sv_fbreg = False, sv_link_addr = 0, sv_vars = []\<rparr>"

definition show_include :: "cdbg_show_scope \<Rightarrow> show_scan \<Rightarrow> bool" where
  "show_include scope s = (case scope of
       CDBG_SHOW_ARGS \<Rightarrow> sv_formal s \<and> sv_func_matches s \<and> sv_in_func s \<and> sv_fbreg s
     | CDBG_SHOW_LOCALS \<Rightarrow> \<not> sv_formal s \<and> sv_func_matches s \<and> sv_in_func s \<and> sv_fbreg s
         \<and> (\<not> sv_in_lex s \<or> sv_lex_matches s)
     | CDBG_SHOW_GLOBALS \<Rightarrow> \<not> sv_formal s \<and> \<not> sv_in_func s \<and> \<not> sv_in_lex s \<and> sv_link_addr s \<noteq> 0)"

text \<open>What the end of a variable's entry does: push it when it has a name and belongs to the scope.\<close>

definition show_flush :: "'w kern \<Rightarrow> cdbg \<Rightarrow> cdbg_show_scope \<Rightarrow> nat \<Rightarrow> 'w \<Rightarrow> show_scan \<Rightarrow> show_scan" where
  "show_flush K dbg scope max_vars w s =
     (if vi_name (sv_var s) \<noteq> [] \<and> show_include scope s
      then s\<lparr>sv_vars := show_var_push K dbg max_vars (sv_var s)
               (if scope = CDBG_SHOW_GLOBALS then cdbg_syms_runtime_addr (d_syms dbg) (sv_link_addr s)
                else frame_address dbg (sv_var s)) w (sv_vars s)\<rparr>
      else s)"

definition show_start_var :: "bool \<Rightarrow> show_scan \<Rightarrow> show_scan" where
  "show_start_var formal s =
     s\<lparr>sv_var := zero_var, sv_reading := True, sv_formal := formal, sv_fbreg := False, sv_link_addr := 0\<rparr>"

definition show_die :: "show_scan \<Rightarrow> string \<Rightarrow> show_scan" where
  "show_die s line =
     (let depth = dwarf_line_depth line
      in if has_sub line ''DW_TAG_subprogram''
         then s\<lparr>sv_in_func := True, sv_func_matches := False, sv_func_depth := depth, sv_func_low := 0, sv_func_high := 0\<rparr>
         else if sv_in_func s \<and> depth \<le> sv_func_depth s
         then s\<lparr>sv_in_func := False, sv_func_matches := False, sv_in_lex := False, sv_lex_matches := False\<rparr>
         else if sv_in_func s \<and> sv_func_matches s \<and> has_sub line ''DW_TAG_lexical_block''
         then s\<lparr>sv_in_lex := True, sv_lex_matches := False, sv_lex_low := 0, sv_lex_high := 0\<rparr>
         else if sv_in_func s \<and> sv_func_matches s \<and> has_sub line ''DW_TAG_formal_parameter'' then show_start_var True s
         else if has_sub line ''DW_TAG_variable'' then show_start_var False s
         else if sv_in_lex s \<and> has_sub line ''NULL'' then s\<lparr>sv_in_lex := False, sv_lex_matches := False\<rparr>
         else s)"

definition show_attribute :: "addr \<Rightarrow> show_scan \<Rightarrow> string \<Rightarrow> show_scan" where
  "show_attribute link_pc s line =
     (if sv_in_func s \<and> has_sub line ''DW_AT_low_pc'' then
        (if sv_in_lex s
         then (let low = or_keep (parse_hex_value line) (sv_lex_low s)
               in s\<lparr>sv_lex_low := low, sv_lex_matches := pc_in_range link_pc low (sv_lex_high s)\<rparr>)
         else (let low = or_keep (parse_hex_value line) (sv_func_low s)
               in s\<lparr>sv_func_low := low, sv_func_matches := pc_in_range link_pc low (sv_func_high s)\<rparr>))
      else if sv_in_func s \<and> has_sub line ''DW_AT_high_pc'' then
        (if sv_in_lex s
         then (let high = or_keep (parse_hex_value line) (sv_lex_high s)
               in s\<lparr>sv_lex_high := high, sv_lex_matches := pc_in_range link_pc (sv_lex_low s) high\<rparr>)
         else (let high = or_keep (parse_hex_value line) (sv_func_high s)
               in s\<lparr>sv_func_high := high, sv_func_matches := pc_in_range link_pc (sv_func_low s) high\<rparr>))
      else if \<not> sv_reading s then s
      else if has_sub line ''DW_AT_location'' then
        (case parse_fbreg_offset line of
           Some off \<Rightarrow> s\<lparr>sv_var := (sv_var s)\<lparr>vi_fbreg_offset := off\<rparr>, sv_fbreg := True\<rparr>
         | None \<Rightarrow> (case parse_addr_location line of
             Some a \<Rightarrow> s\<lparr>sv_link_addr := a, sv_fbreg := False\<rparr>
           | None \<Rightarrow> s))
      else if has_sub line ''DW_AT_name'' then s\<lparr>sv_var := set_name (sv_var s) line\<rparr>
      else if has_sub line ''DW_AT_type'' then s\<lparr>sv_var := set_type (sv_var s) line\<rparr>
      else s)"

definition show_step ::
  "'w kern \<Rightarrow> cdbg \<Rightarrow> cdbg_show_scope \<Rightarrow> nat \<Rightarrow> addr \<Rightarrow> 'w \<Rightarrow> show_scan \<Rightarrow> string \<Rightarrow> show_scan" where
  "show_step K dbg scope max_vars link_pc w s line =
     (let s1 = (if sv_reading s \<and> dwarf_starts_die line
                then (show_flush K dbg scope max_vars w s)
                       \<lparr>sv_var := zero_var, sv_reading := False, sv_formal := False, sv_fbreg := False, sv_link_addr := 0\<rparr>
                else s);
          s2 = (if dwarf_starts_die line then show_die s1 line else s1)
      in show_attribute link_pc s2 line)"

definition collect_show_vars :: "'w kern \<Rightarrow> cdbg \<Rightarrow> cdbg_show_scope \<Rightarrow> nat \<Rightarrow> 'w \<Rightarrow> cdbg_show_var list" where
  "collect_show_vars K dbg scope max_vars w =
     (let add_syms = (\<lambda>vars. if scope = CDBG_SHOW_GLOBALS
            then collect_globals_from_syms K dbg max_vars w (sy_entries (d_syms dbg)) vars else vars)
      in if d_debug_info_path dbg = [] then add_syms []
         else case debug_info_lines K dbg w of
           None \<Rightarrow> []
         | Some ls \<Rightarrow>
             let link_pc = cdbg_regs_pc (d_regs dbg) - ln_slide (d_lineno dbg);
                 s = foldl (show_step K dbg scope max_vars link_pc w) show_scan_init ls;
                 s1 = (if sv_reading s then show_flush K dbg scope max_vars w s else s)
             in add_syms (sv_vars s1))"

section \<open>The command\<close>

fun print_show_vars :: "'w kern \<Rightarrow> cdbg \<Rightarrow> cdbg_show_var list \<Rightarrow> 'w \<Rightarrow> 'w" where
  "print_show_vars K dbg [] w = w"
| "print_show_vars K dbg (v # vs) w =
     print_show_vars K dbg vs (snd (print_named_variable K dbg (shown_var v) (shown_addr v) w))"

definition show_scope_of :: "string \<Rightarrow> cdbg_show_scope option" where
  "show_scope_of args =
     (if args = ''locals'' then Some CDBG_SHOW_LOCALS
      else if args = ''args'' then Some CDBG_SHOW_ARGS
      else if args = ''globals'' then Some CDBG_SHOW_GLOBALS
      else None)"

definition cmd_show :: "'w kern \<Rightarrow> cdbg \<Rightarrow> string \<Rightarrow> 'w \<Rightarrow> int \<times> cdbg \<times> 'w" where
  "cmd_show K dbg args0 w =
     (let args = trim_space args0
      in if args = ''bp'' then (0, dbg, cmd_show_breakpoints K dbg w)
         else if args = ''watch'' then (0, dbg, cmd_show_watchpoints K dbg w)
         else if d_state dbg \<noteq> CDBG_STATE_STOPPED then (- 1, dbg, w)
         else case show_scope_of args of
           None \<Rightarrow> (- 1, dbg, w)
         | Some scope \<Rightarrow>
             if \<not> cdbg_language_check_expr dbg then (- 1, dbg, w)
             else (case cdbg_refresh_regs K dbg w of
                     (False, dbg1) \<Rightarrow> (- 1, dbg1, w)
                   | (True, dbg1) \<Rightarrow>
                       let vars = collect_show_vars K dbg1 scope CDBG_MAX_SHOW_VARS w
                       in if vars = [] then (0, dbg1, puts K ''(none)'' w)
                          else (0, dbg1, print_show_vars K dbg1 vars w)))"

section \<open>What is listed\<close>




















end
