(* ===== verification/InspectCmds.thy ===== *)
theory InspectCmds
  imports ShowCmd
begin

text \<open>
  debugger.c: the commands that look at memory, code and source: \<open>x\<close>, \<open>dis\<close>, \<open>lines\<close>, \<open>list\<close>, and \<open>leaks\<close>,
  which copies the report of the external tool. The target forms of \<open>dis\<close> and \<open>list\<close> are those of \<open>break\<close>.
\<close>

section \<open>Memory\<close>

definition CDBG_MAX_EXAMINE :: u64 where
  \<comment> \<open>\<open>sizeof(buf)\<close>\<close>
  "CDBG_MAX_EXAMINE = 64"

fun print_examined :: "'w kern \<Rightarrow> u8 list \<Rightarrow> 'w \<Rightarrow> 'w" where
  "print_examined K [] w = w"
| "print_examined K (b # bs) w = print_examined K bs (k_print K ''%02x '' [Arg_int (uint b)] w)"

text \<open>One line of eight bytes per round; the last one may be shorter.\<close>

function print_hex_rows :: "'w kern \<Rightarrow> addr \<Rightarrow> u8 list \<Rightarrow> 'w \<Rightarrow> 'w" where
  "print_hex_rows K a bs w =
     (if bs = [] then w
      else print_hex_rows K (a + 8) (drop 8 bs)
             (k_print K [CHR 0x0A] [] (print_examined K (take 8 bs) (k_print K ''0x%016llx: '' [Arg_word a] w))))"
  by pat_completeness auto
termination
  by (relation "measure (\<lambda>(K, a, bs, w). length bs)") auto

declare print_hex_rows.simps [simp del]

definition examine_count :: "string option \<Rightarrow> u64 option" where
  "examine_count count_text = (case count_text of None \<Rightarrow> Some 16 | Some t \<Rightarrow> parse_u64 t)"

definition cmd_examine :: "'w kern \<Rightarrow> cdbg \<Rightarrow> string \<Rightarrow> string option \<Rightarrow> 'w \<Rightarrow> int \<times> cdbg \<times> 'w" where
  "cmd_examine K dbg addr_text count_text w =
     (case parse_u64 addr_text of
        None \<Rightarrow> (- 1, dbg, w)
      | Some a \<Rightarrow> (case examine_count count_text of
          None \<Rightarrow> (- 1, dbg, w)
        | Some n \<Rightarrow>
            if n = 0 \<or> CDBG_MAX_EXAMINE < n then (- 1, dbg, w)
            else (case cdbg_mem_read K (d_pid dbg) a (unat n) w of
                    None \<Rightarrow> (- 1, dbg, w)
                  | Some bs \<Rightarrow> (0, dbg, print_hex_rows K a bs w))))"

section \<open>Code\<close>

definition dis_file_line :: "cdbg \<Rightarrow> string \<Rightarrow> string \<Rightarrow> nat \<Rightarrow> (addr \<times> string) option" where
  "dis_file_line dbg file_part line_part label_len =
     map_option (\<lambda>(a, label). (a, snprintf_s label_len label)) (break_file_line dbg file_part line_part)"

definition dis_number_or_symbol :: "cdbg \<Rightarrow> string \<Rightarrow> nat \<Rightarrow> (addr \<times> string) option" where
  "dis_number_or_symbol dbg target label_len =
     (case parse_u64 target of
        Some parsed \<Rightarrow>
          if parsed = 0 then None
          else map_option (\<lambda>(a, label). (a, snprintf_s label_len label))
                 (resolve_break_line dbg [] (ucast parsed) (CDBG_LINENO_MAX_FILE + 32))
      | None \<Rightarrow> (case cdbg_syms_lookup_name (d_syms dbg) target of
          None \<Rightarrow> None
        | Some e \<Rightarrow>
            if sym_undefined e then None
            else Some (cdbg_syms_runtime_addr (d_syms dbg) (sym_address e),
                       snprintf_s label_len (display_sym_name (Some e)))))"

definition resolve_dis_target :: "cdbg \<Rightarrow> string \<Rightarrow> nat \<Rightarrow> (addr \<times> string) option" where
  "resolve_dis_target dbg target label_len =
     (case split_last (CHR '':'') target of
        Some (file_part, line_part) \<Rightarrow>
          if line_part \<noteq> [] then dis_file_line dbg file_part line_part label_len
          else dis_number_or_symbol dbg target label_len
      | None \<Rightarrow> dis_number_or_symbol dbg target label_len)"

definition CDBG_DISASM_DEFAULT_COUNT :: nat where
  "CDBG_DISASM_DEFAULT_COUNT = 10"

definition cmd_dis :: "'w kern \<Rightarrow> cdbg \<Rightarrow> string \<Rightarrow> 'w \<Rightarrow> int \<times> cdbg \<times> 'w" where
  "cmd_dis K dbg target w =
     (let trimmed = trim_space (snprintf_s (CDBG_MAX_PATH + 64) target)
      in if trimmed = [] \<or> d_executable_path dbg = [] then (- 1, dbg, w)
         else case resolve_dis_target dbg trimmed 256 of
           None \<Rightarrow> (- 1, dbg, w)
         | Some (a, label) \<Rightarrow> (0, dbg, print_disassembly_range K dbg a CDBG_DISASM_DEFAULT_COUNT label w))"

section \<open>Source\<close>

definition cmd_lines :: "'w kern \<Rightarrow> cdbg \<Rightarrow> string \<Rightarrow> 'w \<Rightarrow> int \<times> cdbg \<times> 'w" where
  "cmd_lines K dbg file_filter w = (0, dbg, cdbg_lineno_print_list K (d_lineno dbg) file_filter w)"

definition list_at :: "'w kern \<Rightarrow> cdbg \<Rightarrow> string \<Rightarrow> u32 \<Rightarrow> 'w \<Rightarrow> int \<times> cdbg \<times> 'w" where
  "list_at K dbg file line w =
     (case cdbg_lineno_print_source_at_line K (d_lineno dbg) file line w of (ok, w1) \<Rightarrow> (if ok then 0 else - 1, dbg, w1))"

definition list_file_line :: "'w kern \<Rightarrow> cdbg \<Rightarrow> string \<Rightarrow> string \<Rightarrow> 'w \<Rightarrow> int \<times> cdbg \<times> 'w" where
  "list_file_line K dbg file_part line_part w =
     (if file_part = [] \<or> CDBG_LINENO_MAX_FILE \<le> length file_part then (- 1, dbg, w)
      else case parse_u64 line_part of
        None \<Rightarrow> (- 1, dbg, w)
      | Some line_no \<Rightarrow> if line_no = 0 then (- 1, dbg, w) else list_at K dbg file_part (ucast line_no) w)"

definition list_number_or_symbol :: "'w kern \<Rightarrow> cdbg \<Rightarrow> string \<Rightarrow> 'w \<Rightarrow> int \<times> cdbg \<times> 'w" where
  "list_number_or_symbol K dbg target w =
     (case parse_u64 target of
        Some line_no \<Rightarrow> if line_no = 0 then (- 1, dbg, w) else list_at K dbg [] (ucast line_no) w
      | None \<Rightarrow> (case cdbg_syms_lookup_name (d_syms dbg) target of
          None \<Rightarrow> (- 1, dbg, w)
        | Some e \<Rightarrow>
            if sym_undefined e then (- 1, dbg, w)
            else (case cdbg_lineno_line_at_pc (d_lineno dbg) (cdbg_syms_runtime_addr (d_syms dbg) (sym_address e))
                         CDBG_LINENO_MAX_FILE of
                    None \<Rightarrow> (- 1, dbg, w)
                  | Some (file, line) \<Rightarrow> list_at K dbg file line w)))"

definition cmd_list :: "'w kern \<Rightarrow> cdbg \<Rightarrow> string \<Rightarrow> 'w \<Rightarrow> int \<times> cdbg \<times> 'w" where
  "cmd_list K dbg target0 w =
     (let target = trim_space target0
      in if target = []
         then (case cdbg_refresh_regs K dbg w of
                 (False, dbg1) \<Rightarrow> (- 1, dbg1, w)
               | (True, dbg1) \<Rightarrow>
                   (0, dbg1, snd (cdbg_lineno_print_source_at_pc K (d_lineno dbg1) (cdbg_regs_pc (d_regs dbg1)) w)))
         else case split_last (CHR '':'') target of
           Some (file_part, line_part) \<Rightarrow>
             if line_part \<noteq> [] then list_file_line K dbg file_part line_part w
             else list_number_or_symbol K dbg target w
         | None \<Rightarrow> list_number_or_symbol K dbg target w)"

section \<open>Leaks\<close>

fun copy_lines :: "'w kern \<Rightarrow> string list \<Rightarrow> 'w \<Rightarrow> 'w" where
  "copy_lines K [] w = w"
| "copy_lines K (l # ls) w = copy_lines K ls (k_print K ''%s'' [Arg_str l] w)"

definition int_str :: "int \<Rightarrow> string" where
  "int_str n = (if n < 0 then CHR ''-'' # dec_str (nat (- n)) else dec_str (nat n))"

definition cmd_leaks :: "'w kern \<Rightarrow> cdbg \<Rightarrow> 'w \<Rightarrow> int \<times> cdbg \<times> 'w" where
  "cmd_leaks K dbg w =
     (if d_pid dbg \<le> 0 \<or> d_state dbg = CDBG_STATE_IDLE then (- 1, dbg, w)
      else let w1 = (if d_malloc_stack_logging dbg then w
                     else puts K (''Note: '' @ [CHR 0x27] @ ''set malloc-log on'' @ [CHR 0x27] @ '' before ''
                            @ [CHR 0x27] @ ''run'' @ [CHR 0x27] @ '' to get allocation backtraces in the report below.'') w)
           in (case k_popen K (snprintf_s 64 (''leaks '' @ int_str (d_pid dbg) @ '' 2>&1'')) w1 of
                 None \<Rightarrow> (- 1, dbg, w1)
               | Some (out, status) \<Rightarrow>
                   (if status \<noteq> 0 then - 1 else 0, dbg, copy_lines K (fgets_lines 1024 out) w1)))"

end
