(* ===== verification/SetCmd.thy ===== *)
theory SetCmd
  imports InspectCmds
begin

text \<open>
  debugger.c: \<open>set\<close>. The settings, the assignment to a register and the assignment to a location of the
  debuggee. \<open>strtod\<close> and the conversion of an integer to a double are parameters.
\<close>

section \<open>Settings\<close>

definition cmd_set_language :: "'w kern \<Rightarrow> cdbg \<Rightarrow> string \<Rightarrow> 'w \<Rightarrow> int \<times> cdbg \<times> 'w" where
  "cmd_set_language K dbg args w = (case cdbg_language_parse (trim_space args) of
       None \<Rightarrow> (- 1, dbg, w)
     | Some lang \<Rightarrow>
         (0, dbg\<lparr>d_language := lang\<rparr>,
          k_print K (fmtln ''The current source language is \"%s\".'') [Arg_str (cdbg_language_name lang)] w))"

definition cmd_set_print :: "'w kern \<Rightarrow> cdbg \<Rightarrow> string \<Rightarrow> 'w \<Rightarrow> int \<times> cdbg \<times> 'w" where
  "cmd_set_print K dbg args0 w =
     (let args = trim_space args0; value = trim_space (drop 6 args)
      in if \<not> strncmp_eq args ''pretty'' then (- 1, dbg, w)
         else if value = ''on'' then (0, dbg\<lparr>d_print_pretty := True\<rparr>, puts K ''Print pretty printing is on.'' w)
         else if value = ''off'' then (0, dbg\<lparr>d_print_pretty := False\<rparr>, puts K ''Print pretty printing is off.'' w)
         else (- 1, dbg, w))"

definition cmd_set_malloc_log :: "'w kern \<Rightarrow> cdbg \<Rightarrow> string \<Rightarrow> 'w \<Rightarrow> int \<times> cdbg \<times> 'w" where
  "cmd_set_malloc_log K dbg args0 w =
     (let args = trim_space args0
      in if args = ''on''
         then (0, dbg\<lparr>d_malloc_stack_logging := True\<rparr>,
               puts K (''Malloc stack logging is on. Takes effect on the next '' @ [CHR 0x27] @ ''run'' @ [CHR 0x27] @ ''.'') w)
         else if args = ''off''
         then (0, dbg\<lparr>d_malloc_stack_logging := False\<rparr>, puts K ''Malloc stack logging is off.'' w)
         else (- 1, dbg, w))"

section \<open>Assignments\<close>

text \<open>The value of the right side; an address expression is refused.\<close>

definition eval_rhs :: "(string \<Rightarrow> u64) \<Rightarrow> 'w kern \<Rightarrow> cdbg \<Rightarrow> string \<Rightarrow> 'w \<Rightarrow> cdbg_expr_result option \<times> cdbg" where
  "eval_rhs strtod K dbg rhs w =
     (if \<not> cdbg_language_check_expr dbg then (None, dbg)
      else case cdbg_expr_eval strtod K dbg rhs w of
        (None, dbg1) \<Rightarrow> (None, dbg1)
      | (Some r, dbg1) \<Rightarrow> (if er_is_address r then None else Some r, dbg1))"

definition set_register ::
  "(string \<Rightarrow> u64) \<Rightarrow> (u64 \<Rightarrow> u64) \<Rightarrow> 'w kern \<Rightarrow> cdbg \<Rightarrow> string \<Rightarrow> string \<Rightarrow> 'w \<Rightarrow> int \<times> cdbg \<times> 'w" where
  "set_register strtod int_to_double K dbg reg_name rhs w =
     (case eval_rhs strtod K dbg rhs w of
        (None, dbg1) \<Rightarrow> (- 1, dbg1, w)
      | (Some r, dbg1) \<Rightarrow>
          (case cdbg_refresh_regs K dbg1 w of
             (False, dbg2) \<Rightarrow> (- 1, dbg2, w)
           | (True, dbg2) \<Rightarrow>
               (case cdbg_regs_set_by_name K int_to_double (d_pid dbg2) (d_current_tid dbg2) (d_regs dbg2) reg_name
                       (er_value r) (er_is_float r) (er_fvalue r) w of
                  (False, regs, w1) \<Rightarrow> (- 1, dbg2\<lparr>d_regs := regs\<rparr>, w1)
                | (True, regs, w1) \<Rightarrow>
                    (0, dbg2\<lparr>d_regs := regs\<rparr>,
                     if er_is_float r
                     then k_print K (fmtln ''$%s = 0x%016llx  (%.17g)'')
                            [Arg_str reg_name, Arg_word (er_value r), Arg_word (er_fvalue r)] w1
                     else (case cdbg_regs_get_by_name regs reg_name of
                             None \<Rightarrow> w1
                           | Some readback \<Rightarrow>
                               k_print K (fmtln ''$%s = 0x%016llx'') [Arg_str reg_name, Arg_word readback] w1)))))"

definition print_scalar_result :: "'w kern \<Rightarrow> string \<Rightarrow> u64 \<Rightarrow> nat \<Rightarrow> bool \<Rightarrow> bool \<Rightarrow> 'w \<Rightarrow> 'w" where
  "print_scalar_result K label value sz is_signed is_pointer w =
     (if is_pointer then k_print K (fmtln ''%s = 0x%016llx'') [Arg_str label, Arg_word value] w
      else if is_signed
      then k_print K (fmtln ''%s = %lld (0x%llx)'')
             [Arg_str label, Arg_int (sint (sign_extend_value value sz)), Arg_word value] w
      else k_print K (fmtln ''%s = %llu (0x%llx)'') [Arg_str label, Arg_word value, Arg_word value] w)"

definition set_location :: "(string \<Rightarrow> u64) \<Rightarrow> 'w kern \<Rightarrow> cdbg \<Rightarrow> string \<Rightarrow> string \<Rightarrow> 'w \<Rightarrow> int \<times> cdbg \<times> 'w" where
  "set_location strtod K dbg lhs rhs w =
     (case eval_rhs strtod K dbg rhs w of
        (None, dbg1) \<Rightarrow> (- 1, dbg1, w)
      | (Some r, dbg1) \<Rightarrow>
          (case resolve_set_lhs strtod K dbg1 lhs w of
             (None, dbg2) \<Rightarrow> (- 1, dbg2, w)
           | (Some (a, sz, is_signed), dbg2) \<Rightarrow>
               (case write_scalar_value K (d_pid dbg2) a sz (er_value r) w of
                  (False, w1) \<Rightarrow> (- 1, dbg2, w1)
                | (True, w1) \<Rightarrow>
                    (0, dbg2,
                     case read_scalar_value K (d_pid dbg2) a sz w1 of
                       Some written \<Rightarrow> print_scalar_result K (snprintf_s 256 lhs) written sz is_signed False w1
                     | None \<Rightarrow> k_print K (fmtln ''%s set'') [Arg_str (snprintf_s 256 lhs)] w1))))"

definition cmd_set ::
  "(string \<Rightarrow> u64) \<Rightarrow> (u64 \<Rightarrow> u64) \<Rightarrow> 'w kern \<Rightarrow> cdbg \<Rightarrow> string \<Rightarrow> 'w \<Rightarrow> int \<times> cdbg \<times> 'w" where
  "cmd_set strtod int_to_double K dbg args w =
     (let trimmed = trim_space (snprintf_s CDBG_MAX_CMD args)
      in if strncmp_eq trimmed ''print '' then cmd_set_print K dbg (drop 6 trimmed) w
         else if strncmp_eq trimmed ''language '' then cmd_set_language K dbg (drop 9 trimmed) w
         else if strncmp_eq trimmed ''malloc-log '' then cmd_set_malloc_log K dbg (drop 11 trimmed) w
         else case split_assignment trimmed of
           None \<Rightarrow> (- 1, dbg, w)
         | Some (lhs, rhs) \<Rightarrow>
             if hd lhs = CHR ''&'' then (- 1, dbg, w)
             else if hd lhs = CHR ''$'' then set_register strtod int_to_double K dbg (tl lhs) rhs w
             else set_location strtod K dbg lhs rhs w)"

end
