(* ===== verification/Run.thy ===== *)
theory Run
  imports SetCmd
begin

text \<open>
  process.c and debugger.c: starting and stopping the debuggee. Resolving the program, storing the
  run arguments, loading its debug information, spawning it, bringing the breakpoints over to
  the new process, and running to the entry stop. \<open>None\<close> is a call that never returns (\<open>waitpid\<close> blocked or
  interrupted for ever, or a debug section on which the loader loops) or leaves defined behaviour on a malformed file.
  \<open>base\<close> is the address the debug section is mapped at.
\<close>

section \<open>The program\<close>

text \<open>\<open>snprintf(out, out_len, "%s", s)\<close> with the test for truncation.\<close>

definition copied :: "nat \<Rightarrow> string \<Rightarrow> string option" where
  "copied out_len s = (if out_len \<le> length s then None else Some s)"

definition cdbg_resolve_program :: "'w kern \<Rightarrow> string \<Rightarrow> nat \<Rightarrow> 'w \<Rightarrow> string option" where
  "cdbg_resolve_program K name out_len w =
     (if out_len = 0 then None
      else if strchr name (CHR ''/'') \<noteq> None then copied out_len name
      else let cwd_path = ''./'' @ name
           in if PATH_MAX \<le> length cwd_path then None
              else if k_access_x K cwd_path w then copied out_len cwd_path
              else copied out_len name)"

definition debugger_dsym_path :: "'w kern \<Rightarrow> string \<Rightarrow> nat \<Rightarrow> 'w \<Rightarrow> string option" where
  "debugger_dsym_path K executable_path out_len w =
     (if PATH_MAX \<le> length executable_path then None
      else let path = executable_path @ ''.dSYM/Contents/Resources/DWARF/'' @ basename executable_path
           in if out_len \<le> length path \<or> \<not> k_access_r K path w then None else Some path)"

text \<open>The arguments are stored one by one before the next one is looked at.\<close>

fun store_run_args :: "nat \<Rightarrow> string list \<Rightarrow> cdbg \<Rightarrow> bool \<times> cdbg" where
  "store_run_args argc [] dbg = (True, dbg\<lparr>d_run_argc := argc\<rparr>)"
| "store_run_args argc (a # argv) dbg =
     (if CDBG_MAX_RUN_ARGS \<le> argc then (False, dbg)
      else store_run_args (Suc argc) argv
             (dbg\<lparr>d_run_argv_storage := (d_run_argv_storage dbg)[argc := snprintf_s CDBG_MAX_PATH a]\<rparr>))"

definition cdbg_set_run_target :: "cdbg \<Rightarrow> string list \<Rightarrow> bool \<times> cdbg" where
  "cdbg_set_run_target dbg argv = (if argv = [] then (False, dbg) else store_run_args 0 argv dbg)"

section \<open>Debug information\<close>

text \<open>\<open>cdbg_lineno_update_slide\<close> and \<open>cdbg_syms_update_slide\<close> where the flags say so.\<close>

definition update_slides :: "'w kern \<Rightarrow> bool \<Rightarrow> bool \<Rightarrow> cdbg \<Rightarrow> 'w \<Rightarrow> cdbg option" where
  "update_slides K lines syms dbg w = do {
     ln \<leftarrow> (if lines then map_option snd (cdbg_lineno_update_slide K (d_lineno dbg) (d_pid dbg) w) else Some (d_lineno dbg));
     sy \<leftarrow> (if syms then map_option snd (cdbg_syms_update_slide K (d_syms dbg) (d_pid dbg) w) else Some (d_syms dbg));
     Some (dbg\<lparr>d_lineno := ln, d_syms := sy\<rparr>) }"

definition cdbg_load_symbols :: "'w kern \<Rightarrow> addr \<Rightarrow> cdbg \<Rightarrow> string \<Rightarrow> 'w \<Rightarrow> (bool \<times> cdbg) option" where
  "cdbg_load_symbols K base dbg executable_path w =
     (let debug_info = (case debugger_dsym_path K executable_path CDBG_MAX_PATH w of
            Some p \<Rightarrow> p | None \<Rightarrow> snprintf_s CDBG_MAX_PATH executable_path);
          dbg1 = dbg\<lparr>d_executable_path := snprintf_s CDBG_MAX_PATH executable_path, d_debug_info_path := debug_info\<rparr>
      in case cdbg_lineno_load K base executable_path w of
           None \<Rightarrow> None
         | Some (lineno_err, ln) \<Rightarrow>
             (case cdbg_syms_load K executable_path w of (syms_err, sy) \<Rightarrow>
                if lineno_err = Some Undefined \<or> syms_err = Some Undefined then None
                else let dbg2 = dbg1\<lparr>d_lineno := ln, d_syms := sy\<rparr>;
                         lineno_ok = (lineno_err = None); syms_ok = (syms_err = None)
                     in map_option (Pair (lineno_ok \<or> syms_ok))
                          (if 0 < d_pid dbg then update_slides K lineno_ok syms_ok dbg2 w else Some dbg2)))"

definition slides_of_loaded :: "'w kern \<Rightarrow> cdbg \<Rightarrow> 'w \<Rightarrow> cdbg option" where
  "slides_of_loaded K dbg w = update_slides K (ln_entries (d_lineno dbg) \<noteq> []) (sy_entries (d_syms dbg) \<noteq> []) dbg w"

definition cdbg_spawn :: "'w kern \<Rightarrow> cdbg \<Rightarrow> string list \<Rightarrow> 'w \<Rightarrow> (bool \<times> cdbg \<times> 'w) option" where
  "cdbg_spawn K dbg argv w = (case k_spawn K argv (d_malloc_stack_logging dbg) w of
       (None, w1) \<Rightarrow> Some (False, dbg, w1)
     | (Some pid, w1) \<Rightarrow>
         map_option (\<lambda>dbg1. (True, dbg1, w1))
           (slides_of_loaded K (dbg\<lparr>d_pid := pid, d_state := CDBG_STATE_RUNNING\<rparr>) w1))"

section \<open>The entry stop\<close>

definition CDBG_ENTRY_LABEL :: nat where
  \<comment> \<open>\<open>char label[256]\<close>\<close>
  "CDBG_ENTRY_LABEL = 256"

text \<open>The first row behind the prologue of \<open>main\<close>, else the row with the smallest address at or behind \<open>main\<close>.\<close>

definition first_body_line :: "cdbg \<Rightarrow> addr \<Rightarrow> line_entry option" where
  "first_body_line dbg a = (case cdbg_lineno_lookup_next_line_after_pc (d_lineno dbg) a of
       Some e \<Rightarrow> Some e
     | None \<Rightarrow> foldl (best_step (\<lambda>e. a \<le> runtime_row dbg e) (\<lambda>e b. le_address e < le_address b)) None
                 (ln_entries (d_lineno dbg)))"

definition resolve_entry_stop_addr :: "cdbg \<Rightarrow> nat \<Rightarrow> (addr \<times> string) option" where
  "resolve_entry_stop_addr dbg label_len = (case cdbg_syms_lookup_name (d_syms dbg) ''main'' of
       None \<Rightarrow> None
     | Some e \<Rightarrow>
         if sym_undefined e then None
         else let a = cdbg_syms_runtime_addr (d_syms dbg) (sym_address e)
              in (case first_body_line dbg a of
                    Some row \<Rightarrow> Some (runtime_row dbg row, line_label label_len row)
                  | None \<Rightarrow> Some (a, snprintf_s label_len (display_sym_name (Some e)))))"

fun print_args :: "'w kern \<Rightarrow> string list \<Rightarrow> 'w \<Rightarrow> 'w" where
  "print_args K [] w = w"
| "print_args K (a # as) w = print_args K as (k_print K '' %s'' [Arg_str a] w)"

definition print_run_banner :: "'w kern \<Rightarrow> cdbg \<Rightarrow> 'w \<Rightarrow> 'w" where
  "print_run_banner K dbg w =
     k_print K (fmtln ''Attached to pid %d'') [Arg_int (d_pid dbg)]
       (k_print K [CHR 0x0A] []
         (print_args K (tl (d_run_argv dbg))
           (k_print K ''Starting program: %s'' [Arg_str (hd (d_run_argv dbg))] w)))"

text \<open>At the temporary breakpoint: it is taken out, the program counter set back, and the stop shown.\<close>

definition finish_entry_stop ::
  "'w kern \<Rightarrow> cdbg \<Rightarrow> cdbg_breakpoint \<Rightarrow> addr \<Rightarrow> string \<Rightarrow> 'w \<Rightarrow> int \<times> cdbg \<times> 'w" where
  "finish_entry_stop K dbg temp_bp entry_addr label w =
     (let pc = cdbg_regs_pc (d_regs dbg); w1 = drop_temp K dbg temp_bp w
      in if \<not> cdbg_bp_matches_pc (k_arch K) pc temp_bp then (0, dbg, w1)
         else let dbg1 = (if 0 < pc then dbg\<lparr>d_regs := cdbg_regs_set_pc (d_regs dbg) (pc - 1)\<rparr> else dbg)
              in (case (if 0 < pc then cdbg_regs_set K (d_pid dbg1) (d_current_tid dbg1) (d_regs dbg1) w1 else (True, w1)) of
                    (False, w2) \<Rightarrow> (- 1, dbg1, w2)
                  | (True, w2) \<Rightarrow>
                      (1, dbg1, print_stop_location K dbg1 entry_addr
                         (k_print K (fmtln ''Stopped at %s'') [Arg_str label] (print_stop_header K dbg1 w2)))))"

definition run_to_entry_stop :: "'w kern \<Rightarrow> cdbg \<Rightarrow> 'w \<Rightarrow> 'w result" where
  "run_to_entry_stop K dbg w =
     (if d_state dbg \<noteq> CDBG_STATE_STOPPED then Some (0, dbg, w)
      else case resolve_entry_stop_addr dbg CDBG_ENTRY_LABEL of
        None \<Rightarrow> Some (0, dbg, w)
      | Some (entry_addr, label) \<Rightarrow>
          (case cdbg_bp_enable K zero_bp (d_pid dbg) entry_addr w of
             (False, temp_bp, w1) \<Rightarrow> Some (- 1, dbg, w1)
           | (True, temp_bp, w1) \<Rightarrow> do {
               (rc, dbg2, w2) \<leftarrow> cdbg_continue K dbg w1;
               if rc \<noteq> 0 then Some (- 1, dbg2, drop_temp K dbg2 temp_bp w2)
               else do {
                 (rc3, dbg3, w3) \<leftarrow> cdbg_wait K dbg2 w2;
                 if rc3 \<noteq> 0 then Some (- 1, dbg3, drop_temp K dbg3 temp_bp w3)
                 else if d_state dbg3 \<noteq> CDBG_STATE_STOPPED then Some (0, dbg3, drop_temp K dbg3 temp_bp w3)
                 else (case cdbg_refresh_regs K dbg3 w3 of
                         (False, dbg4) \<Rightarrow> Some (- 1, dbg4, drop_temp K dbg4 temp_bp w3)
                       | (True, dbg4) \<Rightarrow> Some (finish_entry_stop K dbg4 temp_bp entry_addr label w3)) } }))"

section \<open>Stopping\<close>

text \<open>The state when there is no process any more.\<close>

definition forget_process :: "cdbg \<Rightarrow> cdbg" where
  "forget_process dbg = dbg\<lparr>d_pid := 0, d_state := CDBG_STATE_IDLE, d_current_tid := CDBG_TID_PRIMARY,
     d_thread_lock_active := False, d_suspended_tids := [],
     d_breakpoints := map bp_off (d_breakpoints dbg), d_watchpoints := map wp_off (d_watchpoints dbg)\<rparr>"

definition stop_debuggee :: "'w kern \<Rightarrow> cdbg \<Rightarrow> 'w \<Rightarrow> (bool \<times> cdbg \<times> 'w) option" where
  "stop_debuggee K dbg w =
     (if d_pid dbg \<le> 0 then Some (True, dbg\<lparr>d_state := CDBG_STATE_IDLE\<rparr>, w)
      else if d_state dbg = CDBG_STATE_IDLE then Some (True, forget_process dbg, w)
      else (case k_pt_kill K (d_pid dbg) w of
              (False, w1) \<Rightarrow> Some (False, dbg, w1)
            | (True, w1) \<Rightarrow> do {
                (status, w2) \<leftarrow> cdbg_process_wait K (d_pid dbg) w1;
                (case status of
                   None \<Rightarrow> Some (False, dbg, w2)
                 | Some st \<Rightarrow> Some (True, forget_process (dbg\<lparr>d_wait_status := st\<rparr>), w2)) }))"

section \<open>Running\<close>

text \<open>What \<open>cdbg_run\<close> wipes before it loads the new program.\<close>

definition clear_run_state :: "'w kern \<Rightarrow> cdbg \<Rightarrow> cdbg" where
  "clear_run_state K dbg = dbg\<lparr>d_breakpoints := [], d_watchpoints := [], d_regs := zero_regs (k_arch K),
     d_current_tid := CDBG_TID_PRIMARY, d_thread_lock_active := False, d_suspended_tids := [], d_wait_status := 0\<rparr>"

text \<open>The saved arguments of \<open>break\<close>, resolved again one after the other; failures are passed over.\<close>

fun restore_breakpoints :: "'w kern \<Rightarrow> cdbg \<Rightarrow> string list \<Rightarrow> 'w \<Rightarrow> cdbg \<times> 'w" where
  "restore_breakpoints K dbg [] w = (dbg, w)"
| "restore_breakpoints K dbg (spec # specs) w =
     (case cmd_break K dbg spec w of (_, dbg1, w1) \<Rightarrow> restore_breakpoints K dbg1 specs w1)"

definition report_failed_run :: "'w kern \<Rightarrow> cdbg \<Rightarrow> 'w \<Rightarrow> int \<times> cdbg \<times> 'w" where
  "report_failed_run K dbg w =
     (if d_state dbg = CDBG_STATE_IDLE then (case report_process_exit K dbg w of (dbg1, w1) \<Rightarrow> (- 1, dbg1, w1))
      else (- 1, dbg, w))"

text \<open>From the first stop of the new process on.\<close>

definition start_stopped :: "'w kern \<Rightarrow> string list \<Rightarrow> cdbg \<Rightarrow> 'w \<Rightarrow> 'w result" where
  "start_stopped K specs dbg w = do {
     dbg1 \<leftarrow> slides_of_loaded K dbg w;
     (case restore_breakpoints K dbg1 specs w of (dbg2, w2) \<Rightarrow> do {
        (entry_rc, dbg3, w3) \<leftarrow> run_to_entry_stop K dbg2 (print_run_banner K dbg2 w2);
        if entry_rc < 0 then Some (report_failed_run K dbg3 w3)
        else if entry_rc = 0 \<and> d_state dbg3 = CDBG_STATE_STOPPED
        then (case cdbg_print_stop_context K dbg3 w3 of (dbg4, w4) \<Rightarrow> Some (0, dbg4, w4))
        else Some (0, dbg3, w3) }) }"

definition start_program :: "'w kern \<Rightarrow> addr \<Rightarrow> string list \<Rightarrow> cdbg \<Rightarrow> 'w \<Rightarrow> 'w result" where
  "start_program K base specs dbg w = do {
     (_, dbg1) \<leftarrow> cdbg_load_symbols K base dbg (hd (d_run_argv dbg)) w;
     (ok, dbg2, w2) \<leftarrow> cdbg_spawn K dbg1 (d_run_argv dbg1) w;
     if \<not> ok then Some (- 1, dbg2, w2)
     else do {
       (wait_rc, dbg3, w3) \<leftarrow> cdbg_wait K dbg2 w2;
       if wait_rc \<noteq> 0 then Some (report_failed_run K dbg3 w3) else start_stopped K specs dbg3 w3 } }"

definition cdbg_run :: "'w kern \<Rightarrow> addr \<Rightarrow> cdbg \<Rightarrow> string list option \<Rightarrow> 'w \<Rightarrow> 'w result" where
  "cdbg_run K base dbg argv w =
     (case (case argv of None \<Rightarrow> (True, dbg) | Some as \<Rightarrow> cdbg_set_run_target dbg as) of
        (False, dbg1) \<Rightarrow> Some (- 1, dbg1, w)
      | (True, dbg1) \<Rightarrow>
          if d_run_argc dbg1 = 0 then Some (- 1, dbg1, w)
          else do {
            (ok, dbg2, w2) \<leftarrow> stop_debuggee K dbg1 w;
            if \<not> ok then Some (- 1, dbg2, w2)
            else start_program K base (map (\<lambda>bp. snprintf_s 128 (bp_spec bp)) (d_breakpoints dbg2))
                   (clear_run_state K dbg2) w2 })"

section \<open>The command\<close>

text \<open>The tokens of the argument: the first one is resolved to a program.\<close>

definition run_argv_of :: "'w kern \<Rightarrow> string list \<Rightarrow> 'w \<Rightarrow> string list option" where
  "run_argv_of K tokens w =
     (case tokens of
        [] \<Rightarrow> None
      | t # ts \<Rightarrow>
          (case cdbg_resolve_program K t PATH_MAX w of
             None \<Rightarrow> None
           | Some resolved \<Rightarrow>
               if CDBG_MAX_RUN_ARGS < length tokens then None
               else Some (snprintf_s CDBG_MAX_PATH resolved # map (snprintf_s CDBG_MAX_PATH) ts)))"

definition cmd_run :: "'w kern \<Rightarrow> addr \<Rightarrow> cdbg \<Rightarrow> string \<Rightarrow> 'w \<Rightarrow> 'w result" where
  "cmd_run K base dbg args w =
     (if trim_space args \<noteq> []
      then (case run_argv_of K (strtok_all is_blank (snprintf_s (CDBG_MAX_PATH * 2) (trim_space args))) w of
              None \<Rightarrow> Some (- 1, dbg, w)
            | Some argv \<Rightarrow> do {
                (rc, dbg1, w1) \<leftarrow> cdbg_run K base dbg (Some argv) w;
                Some (if rc \<noteq> 0 then - 1 else 0, dbg1, w1) })
      else do {
        (rc, dbg1, w1) \<leftarrow> cdbg_run K base dbg None w;
        Some (if rc \<noteq> 0 then - 1 else 0, dbg1, w1) })"

end
