(* ===== verification/Help.thy ===== *)
theory Help
  imports Stdio
begin

text \<open>
  debugger.c: the help texts, the search for an entry, and the command that prints them.
\<close>

section \<open>The table\<close>

record cdbg_help_entry =
  h_category :: string
  h_names :: string
  h_usage :: string
  h_summary :: string
  h_detail :: string

text \<open>A text of lines, each ended by a newline.\<close>

definition help_text :: "string list \<Rightarrow> string" where
  "help_text ls = concat (map fmtln ls)"

definition help_general :: "cdbg_help_entry list" where
  "help_general = [
     \<lparr>h_category = ''General'', h_names = ''help, h'', h_usage = ''help [command]'',
      h_summary = ''List commands or show help for a specific command.'',
      h_detail = help_text [''Without an argument, prints a one-line summary of every command.'',
        ''With a command name, prints usage and full details.'',
        [],
        ''Examples:'',
        ''  help'',
        ''  help break'',
        ''  help set'']\<rparr>,
     \<lparr>h_category = ''General'', h_names = ''quit, q'', h_usage = ''quit'',
      h_summary = ''Kill the debuggee (if running) and exit the debugger.'',
      h_detail = help_text [''Sends SIGKILL to the debuggee, waits for it to exit, then'',
        ''terminates the debugger session.'',
        ''Use 'kill' to terminate only the debuggee and stay in the REPL.'']\<rparr>]"

definition help_execution :: "cdbg_help_entry list" where
  "help_execution = [
     \<lparr>h_category = ''Execution'', h_names = ''run'', h_usage = ''run [program [args...]]'',
      h_summary = ''Start or restart the debuggee. Without arguments, rerun the last program.'',
      h_detail = help_text [''If a process is already running it is killed before the new one starts.'',
        ''Breakpoints set before 'run' are preserved across restarts.'',
        [],
        ''Examples:'',
        ''  run                     Rerun the last program'',
        ''  run ./target            Run a specific program'',
        ''  run ./target arg1 arg2  Run with arguments'']\<rparr>,
     \<lparr>h_category = ''Execution'', h_names = ''continue, c'', h_usage = ''continue'',
      h_summary = ''Resume execution until the next breakpoint or process exit.'',
      h_detail = help_text [''Resumes the stopped debuggee and waits for the next stop event.'',
        ''Stop events: breakpoint hit, signal received, or process exit.'',
        ''In a multi-threaded program, a breakpoint or watchpoint can be hit by any thread; the debugger switches the current thread (see 'thread') to whichever one actually hit it before reporting the stop.'']\<rparr>,
     \<lparr>h_category = ''Execution'', h_names = ''step, s'', h_usage = ''step'',
      h_summary = ''Execute one source line, entering function calls.'',
      h_detail = help_text [''Steps one source line. If the line contains a function call the'',
        ''debugger enters the callee.'',
        ''In a multi-threaded program, every other thread is suspended (thread_suspend()) for the duration of the step and resumed afterward, so they can't race ahead while this one is stepped.'',
        ''Requires the primary thread to be current (see 'thread'): PT_STEP'',
        ''always steps the primary thread regardless of which thread is'',
        ''selected, which can silently step the wrong thread or hang. Run'',
        CHR 0x27 # (''thread 0' first if a different thread is currently selected.''),
        ''Use 'next' to step over calls instead.'',
        ''Use 'si' to step one machine instruction.'']\<rparr>,
     \<lparr>h_category = ''Execution'', h_names = ''si'', h_usage = ''si'',
      h_summary = ''Execute a single machine instruction.'',
      h_detail = help_text [''Useful when there is no source information (e.g. inside a library)'',
        ''or when inspecting compiler-generated code closely.'',
        ''In a multi-threaded program, every other thread is suspended for the duration of this step and resumed afterward.'',
        ''Requires the primary thread to be current (see 'thread'): PT_STEP'',
        ''always steps the primary thread regardless of which thread is'',
        ''selected, which can silently step the wrong thread or hang. Run'',
        CHR 0x27 # (''thread 0' first if a different thread is currently selected.''),
        ''Use 'step' / 'next' for source-level stepping.'']\<rparr>,
     \<lparr>h_category = ''Execution'', h_names = ''next, n'', h_usage = ''next'',
      h_summary = ''Execute one source line, stepping over function calls.'',
      h_detail = help_text [''Steps one source line. Function calls are executed as a unit;'',
        ''the debugger does not enter the callee.'',
        ''Stepping over a call not recognized as a direct call (e.g. an'',
        ''indirect/PLT call into a dynamic library) falls back to plain'',
        ''instruction-by-instruction stepping, which can take a while.'',
        ''In a multi-threaded program, every other thread is suspended for'',
        ''the whole 'next' (however long it takes) and resumed afterward, so'',
        ''they can't advance while this one is stepped.'',
        ''Requires the primary thread to be current (see 'thread'): PT_STEP'',
        ''always steps the primary thread regardless of which thread is'',
        ''selected, which can silently step the wrong thread or hang. Run'',
        CHR 0x27 # (''thread 0' first if a different thread is currently selected.''),
        ''Use 'step' to step into calls instead.'']\<rparr>,
     \<lparr>h_category = ''Execution'', h_names = ''up'', h_usage = ''up'',
      h_summary = ''Move to the caller frame and stop there.'',
      h_detail = help_text [''Reads the saved frame pointer and return address from the stack'',
        ''and updates the register context to the calling frame.'',
        ''Use 'regs' or 'print' to inspect the caller's state.'']\<rparr>,
     \<lparr>h_category = ''Execution'', h_names = ''kill'', h_usage = ''kill'',
      h_summary = ''Kill the debuggee and return to the prompt (debugger stays open).'',
      h_detail = help_text [''Sends SIGKILL to the debuggee and waits for it to exit.'',
        ''The debugger stays open; use 'run' to start a new session.'',
        ''Use 'quit' to also exit the debugger.'']\<rparr>]"

definition help_inspection :: "cdbg_help_entry list" where
  "help_inspection = [
     \<lparr>h_category = ''Inspection'', h_names = ''regs, r'', h_usage = ''regs'',
      h_summary = ''Print all registers: general-purpose, floating-point/NEON, and SSE/x87.'',
      h_detail = help_text [''ARM64 registers:'',
        ''  General-purpose:  x0-x28, fp (x29), lr (x30), sp, pc, cpsr'',
        ''  NEON/FP:          v0-v31, fpsr, fpcr'',
        [],
        ''x86_64 registers:'',
        ''  General-purpose:  rax, rbx, rcx, rdx, rsi, rdi, rbp, rsp,'',
        ''                    r8-r15, rip, rflags, cs, fs, gs'',
        ''  SSE:              xmm0-xmm15, mxcsr'',
        ''  x87 FPU:          st0-st7, fctrl, fstat, ftag'']\<rparr>,
     \<lparr>h_category = ''Inspection'', h_names = ''print, p'', h_usage = ''print [/fmt] <expr>'',
      h_summary = ''Evaluate and print an expression. Formats: /x /d /u /o /t /a /c /f /s /z.'',
      h_detail = help_text [''Format specifiers (same letters as GDB):'',
        ''  /x   hexadecimal'',
        ''  /d   signed decimal (default for integers)'',
        ''  /u   unsigned decimal'',
        ''  /o   octal'',
        ''  /t   binary'',
        ''  /a   address, annotated with <symbol+offset> if resolvable'',
        ''  /c   character'',
        ''  /f   floating point (reinterprets the value's bits)'',
        ''  /s   C string (dereference as char*)'',
        ''  /z   hexadecimal, zero-padded to the full width of the type'',
        [],
        ''Expression examples:'',
        ''  p x              Variable'',
        ''  p/x ptr          Pointer in hex'',
        ''  p sa             Array'',
        ''  p f.a, p p->b    Struct members'',
        ''  p 3.14           Float literal'',
        ''  p x + y * 2      Arithmetic'',
        ''  p *ptr           Dereference'',
        ''  p &x             Address of'']\<rparr>,
     \<lparr>h_category = ''Inspection'', h_names = ''show'', h_usage = ''show locals|args|globals|bp'',
      h_summary = ''Print local variables, arguments, global variables, or breakpoints.'',
      h_detail = help_text [''Subcommands:'',
        ''  show locals    Local variables of the current function'',
        ''  show args      Arguments of the current function'',
        ''  show globals   Global variables in the program'',
        ''  show bp        All breakpoints (same as 'show bp' in Breakpoints)'']\<rparr>,
     \<lparr>h_category = ''Inspection'', h_names = ''x'', h_usage = ''x <addr> [count]'',
      h_summary = ''Examine memory as a hexadecimal dump (default 16 bytes).'',
      h_detail = help_text [''Dumps <count> bytes of memory at <addr> as hex + ASCII.'',
        [],
        ''Examples:'',
        ''  x 0x100003f20        16 bytes at address'',
        ''  x 0x100003f20 64     64 bytes at address'',
        ''  x &buf               Address of a variable'']\<rparr>,
     \<lparr>h_category = ''Inspection'', h_names = ''dis'', h_usage = ''dis <func|file:line|line|addr>'',
      h_summary = ''Disassemble about 10 instructions at the given location.'',
      h_detail = help_text [''Location forms:'',
        ''  dis main             Function name'',
        ''  dis target.c:42     File and line number'',
        ''  dis 42               Line number (single source file)'',
        ''  dis 0x100003f20      Absolute address'']\<rparr>,
     \<lparr>h_category = ''Inspection'', h_names = ''list, l'', h_usage = ''list [line|file:line|function]'',
      h_summary = ''Show source code around the current or specified location.'',
      h_detail = help_text [''Displays 10 lines centred on the target location.'',
        [],
        ''Location forms:'',
        ''  list                 Current instruction'',
        ''  list 42              Line 42 in the current file'',
        ''  list target.c:42     Line 42 in a specific file'',
        ''  list main            Start of function 'main'' @ [CHR 0x27]]\<rparr>,
     \<lparr>h_category = ''Inspection'', h_names = ''lines'', h_usage = ''lines [file]'',
      h_summary = ''List line number to address mappings.'',
      h_detail = help_text [''Prints DWARF line-number entries (address '' @ [CHR 0xE2, CHR 0x86, CHR 0x92] @ '' file:line).'',
        ''Useful for finding the address of a specific source line.'',
        [],
        ''Examples:'',
        ''  lines              All mappings'',
        ''  lines target.c     Only mappings for target.c'']\<rparr>,
     \<lparr>h_category = ''Inspection'', h_names = ''lists'', h_usage = ''lists [file]'',
      h_summary = ''List source line to address mappings.'',
      h_detail = help_text [''Like 'lines' but grouped by source line number.'',
        [],
        ''Examples:'',
        ''  lists              All mappings'',
        ''  lists target.c     Only mappings for target.c'']\<rparr>,
     \<lparr>h_category = ''Inspection'', h_names = ''syms, sym'', h_usage = ''syms [name]'',
      h_summary = ''List loaded symbols, optionally filtered by name.'',
      h_detail = help_text [''Prints address and name for every loaded symbol.'',
        ''The optional argument is a substring filter.'',
        [],
        ''Examples:'',
        ''  syms               All symbols'',
        ''  syms main          Symbols whose name contains \"main\"'']\<rparr>,
     \<lparr>h_category = ''Inspection'', h_names = ''tb'', h_usage = ''tb'',
      h_summary = ''Show a backtrace of the current call stack.'',
      h_detail = help_text [''Prints each frame as: #n  <address>  <function> (if known)'',
        ''Unwinding follows saved FP/LR chains on the stack.'']\<rparr>,
     \<lparr>h_category = ''Inspection'', h_names = ''threads'', h_usage = ''threads'',
      h_summary = ''List the debuggee's threads.'',
      h_detail = help_text [''Prints one line per thread: index, tid, whether it is the process's'',
        ''primary thread, and its current PC (symbol + source line if known).'',
        ''The current thread (see 'thread') is marked with '*'; the thread'',
        ''locked via 'lock' (if any) is marked with 'L'.'',
        [],
        CHR 0x27 # (''regs', 'print', 'show locals/args', 'tb', and 'up' all operate on''),
        ''whichever thread is current, not necessarily the primary thread.'']\<rparr>,
     \<lparr>h_category = ''Inspection'', h_names = ''thread'', h_usage = ''thread [n]'',
      h_summary = ''Show or switch the current thread.'',
      h_detail = help_text [''Without an argument, prints the currently selected thread.'',
        ''With a thread index (from 'threads'), switches to that thread and'',
        ''refreshes registers/backtrace/locals to its context.'',
        [],
        ''Examples:'',
        ''  threads     List all threads'',
        ''  thread      Show the current thread'',
        ''  thread 1    Switch to thread #1'']\<rparr>,
     \<lparr>h_category = ''Inspection'', h_names = ''lock'', h_usage = ''lock <n>'',
      h_summary = ''Suspend every thread except thread <n>, so only it runs.'',
      h_detail = help_text [''Uses thread_suspend() on every other thread (independent of ptrace),'',
        ''so 'continue'/'step'/'si' only advance the locked thread; the'',
        ''suspended threads stay frozen even though the process as a whole'',
        ''is resumed. Also switches the current thread (see 'thread') to <n>.'',
        [],
        ''The locked thread is marked with 'L' in 'threads' output until'',
        CHR 0x27 # (''unlock' is run.''),
        [],
        ''Only one thread may be locked at a time; run 'unlock' before'',
        ''locking a different thread.'',
        [],
        ''Examples:'',
        ''  threads     Find the thread number to lock'',
        ''  lock 1      Suspend every thread except #1'',
        ''  unlock      Resume the suspended threads'']\<rparr>,
     \<lparr>h_category = ''Inspection'', h_names = ''unlock'', h_usage = ''unlock'',
      h_summary = ''Resume threads previously suspended by 'lock'.'',
      h_detail = help_text [''Does nothing (and reports \"Not locked.\") if no 'lock' is active.'']\<rparr>,
     \<lparr>h_category = ''Inspection'', h_names = ''leaks'', h_usage = ''leaks'',
      h_summary = ''Run the macOS 'leaks' tool against the debuggee to report unreachable malloc blocks.'',
      h_detail = help_text [''Runs 'leaks <pid>' and prints the output.'',
        ''For allocation backtraces, enable malloc stack logging before running:'',
        [],
        ''  set malloc-log on'',
        ''  run'',
        ''  (trigger the leak)'',
        ''  leaks'']\<rparr>]"

definition help_breakpoints :: "cdbg_help_entry list" where
  "help_breakpoints = [
     \<lparr>h_category = ''Breakpoints'', h_names = ''show bp'', h_usage = ''show bp'',
      h_summary = ''List breakpoints with number, enabled state, address, and location.'',
      h_detail = help_text [''Each line shows:'',
        ''  #n   breakpoint number (used with 'del')'',
        ''  [+]  enabled   [-]  disabled'',
        ''  address'',
        ''  location: function+offset, source file:line, or both together'',
        ''  (\"func+0x1a at file.c:12\") when known'']\<rparr>,
     \<lparr>h_category = ''Breakpoints'', h_names = ''del, delete'', h_usage = ''del <n> [n...] | del all'',
      h_summary = ''Delete one or more breakpoints by number.'',
      h_detail = help_text [''Examples:'',
        ''  del 1          Delete breakpoint #1'',
        ''  del 1 2 3      Delete multiple breakpoints'',
        ''  del all        Delete all breakpoints'']\<rparr>,
     \<lparr>h_category = ''Breakpoints'', h_names = ''break, b'', h_usage = ''break <addr|name|file:line|line>'',
      h_summary = ''Set a breakpoint at an address, symbol, or source line.'',
      h_detail = help_text [''Location forms:'',
        ''  break main           Function name'',
        ''  break target.c:42    File and line number'',
        ''  break 42             Line number (single source file)'',
        ''  break 0x100003f20    Absolute address'']\<rparr>]"

definition help_watchpoints :: "cdbg_help_entry list" where
  "help_watchpoints = [
     \<lparr>h_category = ''Watchpoints'', h_names = ''show watch'', h_usage = ''show watch'',
      h_summary = ''List watchpoints with number, enabled state, address, size, and value.'',
      h_detail = help_text [''Each line shows:'',
        ''  #n     watchpoint number (used with 'unwatch')'',
        ''  [y/n]  enabled/disabled'',
        ''  address, size in bytes'',
        ''  current value and the watched expression'']\<rparr>,
     \<lparr>h_category = ''Watchpoints'', h_names = ''watch'', h_usage = ''watch [/r] [/1|/2|/4|/8] <expr>'',
      h_summary = ''Stop when the value at <expr> changes (hardware watchpoint on write).'',
      h_detail = help_text [''Uses CPU debug registers (DBGWVR/DBGWCR on arm64, DR0-DR3 on x86_64) to trap writes without single-stepping, so execution runs at full speed until the watched memory actually changes.'',
        [],
        ''Debug registers are per-thread, so the watchpoint is programmed onto every thread that exists when it's set, and re-applied to any thread still around at each later stop -- it fires no matter which thread touches the watched memory, not only the process's first thread.'',
        [],
        ''Flags (must come before <expr>, in any order):'',
        ''  /r        Also trap on reads, not just writes'',
        ''  /1,/2,/4,/8  Force the watch size in bytes instead of inferring it from <expr>'s type'',
        [],
        ''Requires a running or stopped process (the expression is resolved against the current frame, like 'print').'',
        ''Up to 4 watchpoints may be active at once (a CPU/OS limit).'',
        ''Values wider than 8 bytes (structs, arrays) only watch the first 8 bytes.'',
        ''With /r, a read-modify-write access (e.g. 'counter++') can trap on the read half before the value has changed; that stop is reported as a plain \"Stopped\", not a Watchpoint hit, since nothing differs from the last known value yet.'',
        [],
        ''Examples:'',
        ''  watch counter        Stop when global/local 'counter' changes'',
        ''  watch arr[0]         Stop when the first array element changes'',
        ''  watch s.field        Stop when a struct member changes'',
        ''  watch /r counter     Stop on reads or writes to 'counter'' @ [CHR 0x27],
        ''  watch /1 flags       Watch only the first byte of 'flags'' @ [CHR 0x27],
        ''  watch                List current watchpoints (same as 'show watch')'']\<rparr>,
     \<lparr>h_category = ''Watchpoints'', h_names = ''unwatch'', h_usage = ''unwatch <n> [n...] | unwatch all'',
      h_summary = ''Delete one or more watchpoints by number.'',
      h_detail = help_text [''Examples:'',
        ''  unwatch 0        Delete watchpoint #0'',
        ''  unwatch 0 1      Delete multiple watchpoints'',
        ''  unwatch all      Delete all watchpoints'']\<rparr>]"

definition help_settings :: "cdbg_help_entry list" where
  "help_settings = [
     \<lparr>h_category = ''Settings'', h_names = ''set'', h_usage = ''set <var> = <expr>  |  set $<reg> = <expr>'',
      h_summary = ''Assign a value to a variable, struct member, array element, or register.'',
      h_detail = help_text [''Variable examples:'',
        ''  set x = 42'',
        ''  set arr[0] = 1'',
        ''  set s.field = 100'',
        ''  set p->n = 0'',
        [],
        ''Register examples (x86_64):'',
        ''  set $rax = 0x10              Integer GPR'',
        ''  set $xmm0 = 3.14            SSE register (float)'',
        ''  set $xmm0 = 0x3ff0000000000000  SSE register (bit pattern = 1.0)'',
        ''  set $st0 = 1.5              x87 FPU register'',
        [],
        ''Register examples (ARM64):'',
        ''  set $x0 = 0xff              Integer GPR'',
        ''  set $v0 = 0x3ff0000000000000  NEON register (lower 64 bits)'',
        ''  set $fpsr = 0               FP status register'']\<rparr>,
     \<lparr>h_category = ''Settings'', h_names = ''set print'', h_usage = ''set print pretty on|off'',
      h_summary = ''Enable or disable multi-line struct and array formatting.'',
      h_detail = help_text [''  set print pretty on    Indent structs and arrays across multiple lines'',
        ''  set print pretty off   Single-line output (default)'']\<rparr>,
     \<lparr>h_category = ''Settings'', h_names = ''set language'', h_usage = ''set language <name>'',
      h_summary = ''Set the expression language (c, c++, auto, fortran, ...).'',
      h_detail = help_text [''Affects how expressions in 'print' and 'set' are parsed.'',
        ''Supported: c, c++, fortran, auto'',
        CHR 0x27 # (''auto' selects based on the current source file extension.'')]\<rparr>,
     \<lparr>h_category = ''Settings'', h_names = ''set malloc-log'', h_usage = ''set malloc-log on|off'',
      h_summary = ''Enable MallocStackLogging for the debuggee so 'leaks' can show allocation backtraces. Takes effect on the next 'run'.'',
      h_detail = help_text [''Sets the MallocStackLogging environment variable for the next 'run'.'',
        ''This lets 'leaks' report the call stack at each allocation.'',
        [],
        ''  set malloc-log on     Record allocation backtraces'',
        ''  set malloc-log off    Disable (default)'']\<rparr>]"

definition k_help_entries :: "cdbg_help_entry list" where
  "k_help_entries = help_general @ help_execution @ help_inspection @ help_breakpoints @ help_watchpoints @ help_settings"

section \<open>Searching\<close>

definition strip_spaces :: "string \<Rightarrow> string" where
  "strip_spaces s = rev (dropWhile (\<lambda>c. c = CHR '' '') (rev (dropWhile (\<lambda>c. c = CHR '' '') s)))"

text \<open>The usage line starts with the name, ended by its end, a space or an angle bracket.\<close>

definition usage_matches :: "string \<Rightarrow> string \<Rightarrow> bool" where
  "usage_matches usage name \<longleftrightarrow> strncmp_eq usage name
     \<and> (let rest = drop (length name) usage in rest = [] \<or> hd rest = CHR '' '' \<or> hd rest = CHR ''<'')"

definition help_name_matches :: "cdbg_help_entry \<Rightarrow> string \<Rightarrow> bool" where
  "help_name_matches entry name \<longleftrightarrow> name \<noteq> []
     \<and> (list_ex (\<lambda>token. str_ieq (strip_spaces token) name)
           (strtok_all (\<lambda>c. c = CHR '','') (snprintf_s 128 (h_names entry)))
        \<or> usage_matches (h_usage entry) name)"

section \<open>Printing\<close>

definition print_help_entry :: "'w kern \<Rightarrow> cdbg_help_entry \<Rightarrow> 'w \<Rightarrow> 'w" where
  "print_help_entry K entry w = k_print K (fmtln ''  %-22s  %s'') [Arg_str (h_names entry), Arg_str (h_summary entry)] w"

text \<open>One line of the detail text after the other, indented by two spaces when it is not empty.\<close>

function print_detail :: "'w kern \<Rightarrow> string \<Rightarrow> 'w \<Rightarrow> 'w" where
  "print_detail K p w =
     (if p = [] then w
      else let line = before (CHR 0x0A) p;
               w1 = (if line \<noteq> [] then k_print K (fmtln ''  %.*s'') [Arg_int (int (length line)), Arg_str line] w
                     else k_print K [CHR 0x0A] [] w)
           in print_detail K (drop (Suc (length line)) p) w1)"
  by pat_completeness auto
termination
  by (relation "measure (\<lambda>(K, p, w). length p)") (auto simp: diff_less)

declare print_detail.simps [simp del]

definition print_help_entry_detail :: "'w kern \<Rightarrow> cdbg_help_entry \<Rightarrow> 'w \<Rightarrow> 'w" where
  "print_help_entry_detail K entry w =
     print_detail K (h_detail entry)
       (k_print K [CHR 0x0A] []
         (k_print K (fmtln ''  %s'') [Arg_str (h_summary entry)]
           (k_print K (fmtln ''  Usage: %s'') [Arg_str (h_usage entry)]
             (k_print K (fmtln ''%s'') [Arg_str (h_names entry)] w))))"

fun print_help_entries :: "'w kern \<Rightarrow> string option \<Rightarrow> cdbg_help_entry list \<Rightarrow> 'w \<Rightarrow> 'w" where
  "print_help_entries K category [] w = w"
| "print_help_entries K category (e # es) w =
     (let w1 = (if category \<noteq> Some (h_category e)
                then k_print K (fmtln ''%s:'') [Arg_str (h_category e)]
                       (if category \<noteq> None then k_print K [CHR 0x0A] [] w else w)
                else w)
      in print_help_entries K (Some (h_category e)) es (print_help_entry K e w1))"

definition help_examples :: "string list" where
  "help_examples = [
     ''Expression examples:'',
     ''  p x                  Print variable x'',
     ''  p/x ptr              Print pointer in hex'',
     ''  p sa                 Print an array'',
     ''  p f.a, p p->b        Print struct members'',
     ''  p 3.14               Print float literal'',
     ''  set x = 1            Assign to a variable'',
     ''  set sa[1].b = 100    Assign to an array element member'',
     ''  set $rax = 0x10      Assign to an integer register'',
     ''  set $xmm0 = 3.14     Assign float to SSE register'']"

definition print_help_all :: "'w kern \<Rightarrow> 'w \<Rightarrow> 'w" where
  "print_help_all K w =
     foldl (\<lambda>w l. puts K l w)
       (puts K [] (print_help_entries K None k_help_entries
         (puts K [] (puts K ''Available commands (type 'help <command>' for details):'' w))))
       help_examples"

definition cmd_help :: "'w kern \<Rightarrow> string \<Rightarrow> 'w \<Rightarrow> int \<times> 'w" where
  "cmd_help K args0 w =
     (let args = trim_space args0
      in if args = [] then (0, print_help_all K w)
         else case List.find (\<lambda>e. help_name_matches e args) k_help_entries of
           Some e \<Rightarrow> (0, print_help_entry_detail K e w)
         | None \<Rightarrow> (- 1, w))"

end
