(* ===== verification/RegsPrint.thy ===== *)
theory RegsPrint
  imports Regs
begin

text \<open>
  regs.c: the register dump of both architectures, as the list of the calls of \<open>printf\<close> it makes: a format without
  its line end, and the arguments. A \<open>double\<close> argument is its 64-bit pattern.
\<close>

type_synonym out_line = "string \<times> out_arg list"

definition print_lines :: "'w kern \<Rightarrow> out_line list \<Rightarrow> 'w \<Rightarrow> 'w" where
  "print_lines K ls w = foldl (\<lambda>w (f, args). k_print K (fmtln f) args w) w ls"

definition low64 :: "u128 \<Rightarrow> u64" where "low64 v = ucast v"
definition high64 :: "u128 \<Rightarrow> u64" where "high64 v = ucast (drop_bit 64 v)"

definition arm_gpr_lines :: "arm_gpr \<Rightarrow> out_line list" where
  "arm_gpr_lines g =
     (''--- General-Purpose Registers ---'', []) #
     map (\<lambda>i. (''x%-2d = 0x%016llx  x%-2d = 0x%016llx'',
              [Arg_int (int (2 * i)), Arg_word (a_x g ! (2 * i)), Arg_int (int (2 * i + 1)), Arg_word (a_x g ! (2 * i + 1))]))
       [0..<14] @
     [(''x28 = 0x%016llx'', [Arg_word (a_x g ! 28)]),
      (''fp  = 0x%016llx  lr  = 0x%016llx'', [Arg_word (a_fp g), Arg_word (a_lr g)]),
      (''sp  = 0x%016llx  pc  = 0x%016llx'', [Arg_word (a_sp g), Arg_word (a_pc g)]),
      (''cpsr = 0x%08x'', [Arg_word (ucast (a_cpsr g))])]"

definition arm_neon_lines :: "arm_neon \<Rightarrow> out_line list" where
  "arm_neon_lines f =
     (CHR 0x0A # ''--- Floating-Point / NEON Registers ---'', []) #
     (''fpsr = 0x%08x  fpcr = 0x%08x'', [Arg_word (ucast (n_fpsr f)), Arg_word (ucast (n_fpcr f))]) #
     map (\<lambda>i. let v = n_v f ! i
              in (''v%-2d = 0x%016llx%016llx  (f64: %g)'',
                  [Arg_int (int i), Arg_word (high64 v), Arg_word (low64 v), Arg_word (low64 v)])) [0..<32]"

definition x86_gpr_lines :: "x86_gpr \<Rightarrow> out_line list" where
  "x86_gpr_lines g = [
     (''--- General-Purpose Registers ---'', []),
     (''rax = 0x%016llx  rbx = 0x%016llx'', [Arg_word (r_rax g), Arg_word (r_rbx g)]),
     (''rcx = 0x%016llx  rdx = 0x%016llx'', [Arg_word (r_rcx g), Arg_word (r_rdx g)]),
     (''rsi = 0x%016llx  rdi = 0x%016llx'', [Arg_word (r_rsi g), Arg_word (r_rdi g)]),
     (''rbp = 0x%016llx  rsp = 0x%016llx'', [Arg_word (r_rbp g), Arg_word (r_rsp g)]),
     (''r8  = 0x%016llx  r9  = 0x%016llx'', [Arg_word (r_r8 g), Arg_word (r_r9 g)]),
     (''r10 = 0x%016llx  r11 = 0x%016llx'', [Arg_word (r_r10 g), Arg_word (r_r11 g)]),
     (''r12 = 0x%016llx  r13 = 0x%016llx'', [Arg_word (r_r12 g), Arg_word (r_r13 g)]),
     (''r14 = 0x%016llx  r15 = 0x%016llx'', [Arg_word (r_r14 g), Arg_word (r_r15 g)]),
     (''rip = 0x%016llx  rflags = 0x%016llx'', [Arg_word (r_rip g), Arg_word (r_rflags g)]),
     (''cs  = 0x%04llx  fs = 0x%04llx  gs = 0x%04llx'', [Arg_word (r_cs g), Arg_word (r_fs g), Arg_word (r_gs g)])]"

definition x86_sse_lines :: "x86_fp \<Rightarrow> out_line list" where
  "x86_sse_lines f =
     (CHR 0x0A # ''--- SSE / Floating-Point Registers ---'', []) #
     (''mxcsr = 0x%08x'', [Arg_word (ucast (f_mxcsr f))]) #
     map (\<lambda>i. let v = f_xmm f ! i
              in (''xmm%-2d = 0x%016llx%016llx  (f64: %g)'',
                  [Arg_int (int i), Arg_word (high64 v), Arg_word (low64 v), Arg_word (low64 v)])) [0..<16]"

text \<open>The line of an x87 register is printed byte by byte, the most significant one first.\<close>

definition print_st :: "'w kern \<Rightarrow> nat \<Rightarrow> 80 word \<Rightarrow> 'w \<Rightarrow> 'w" where
  "print_st K i v w =
     k_print K [CHR 0x0A] []
       (foldl (\<lambda>w j. k_print K ''%02x'' [Arg_int (uint (ucast (drop_bit (8 * j) v) :: u8))] w)
          (k_print K ''st%d = 0x'' [Arg_int (int i)] w) (rev [0..<10]))"

definition print_x87 :: "'w kern \<Rightarrow> x86_fp \<Rightarrow> 'w \<Rightarrow> 'w" where
  "print_x87 K f w =
     foldl (\<lambda>w i. print_st K i (f_stmm f ! i) w)
       (print_lines K
          [(CHR 0x0A # ''--- x87 FPU Registers ---'', []),
           (''fctrl = 0x%04x  fstat = 0x%04x  ftag = 0x%02x'',
            [Arg_word (ucast (f_fcw f)), Arg_word (ucast (f_fsw f)), Arg_word (ucast (f_ftw f))])] w)
       [0..<8]"

definition cdbg_regs_print :: "'w kern \<Rightarrow> cdbg_regs \<Rightarrow> 'w \<Rightarrow> 'w" where
  "cdbg_regs_print K regs w =
     (let w1 = print_lines K (case native regs of ArmGpr g \<Rightarrow> arm_gpr_lines g | X86Gpr g \<Rightarrow> x86_gpr_lines g) w
      in case fpu regs of
           ArmNeon f \<Rightarrow> print_lines K (arm_neon_lines f) w1
         | X86Fp f \<Rightarrow> print_x87 K f (print_lines K (x86_sse_lines f) w1))"

end
