(* ===== verification/Repl.thy ===== *)
theory Repl
  imports Run Help RegsPrint
begin

text \<open>
  cmd_lexer.l, cmd_grammar.y, debugger.c and main.c: the command line. The scanner with its start conditions, the
  grammar's rules, the handlers of the execution commands, the loop over the lines typed, and \<open>main\<close>. A fatal outcome ends
  the loop with an error. A handler that never returns makes the whole run \<open>None\<close>.
\<close>

section \<open>The scanner\<close>

datatype cmd_token = WORD string | RESTLINE string | UNKNOWN_TOK string | PRINT_TOK string
  | HELP_TOK | RUN_TOK | CONTINUE_TOK | STEP_TOK | SI_TOK | NEXT_TOK | UP_TOK | REGS_TOK | SET_TOK
  | SHOW_TOK | TB_TOK | THREADS_TOK | THREAD_TOK | LOCK_TOK | UNLOCK_TOK | LEAKS_TOK | BREAK_TOK | DEL_TOK
  | WATCH_TOK | UNWATCH_TOK | DIS_TOK | LIST_TOK | LINES_TOK | LISTS_TOK | SYMS_TOK | X_TOK | KILL_TOK
  | QUIT_TOK

datatype start_condition = INITIAL | ARGSTATE | WORDSTATE

text \<open>The keyword rules with the start condition they switch to.\<close>

definition keyword_rules :: "(string \<times> cmd_token \<times> start_condition) list" where
  "keyword_rules = [
    (''help'', HELP_TOK, ARGSTATE), (''h'', HELP_TOK, ARGSTATE), (''run'', RUN_TOK, ARGSTATE),
    (''continue'', CONTINUE_TOK, INITIAL), (''c'', CONTINUE_TOK, INITIAL), (''step'', STEP_TOK, INITIAL),
    (''s'', STEP_TOK, INITIAL), (''si'', SI_TOK, INITIAL), (''next'', NEXT_TOK, INITIAL),
    (''n'', NEXT_TOK, INITIAL), (''up'', UP_TOK, INITIAL), (''regs'', REGS_TOK, INITIAL),
    (''r'', REGS_TOK, INITIAL), (''set'', SET_TOK, ARGSTATE), (''show'', SHOW_TOK, ARGSTATE),
    (''tb'', TB_TOK, INITIAL), (''threads'', THREADS_TOK, INITIAL), (''thread'', THREAD_TOK, WORDSTATE),
    (''lock'', LOCK_TOK, WORDSTATE), (''unlock'', UNLOCK_TOK, INITIAL), (''leaks'', LEAKS_TOK, INITIAL),
    (''break'', BREAK_TOK, WORDSTATE), (''b'', BREAK_TOK, WORDSTATE), (''del'', DEL_TOK, ARGSTATE),
    (''delete'', DEL_TOK, ARGSTATE), (''watch'', WATCH_TOK, ARGSTATE), (''unwatch'', UNWATCH_TOK, ARGSTATE),
    (''dis'', DIS_TOK, ARGSTATE), (''list'', LIST_TOK, ARGSTATE), (''l'', LIST_TOK, ARGSTATE),
    (''lines'', LINES_TOK, WORDSTATE), (''lists'', LISTS_TOK, WORDSTATE), (''syms'', SYMS_TOK, WORDSTATE),
    (''sym'', SYMS_TOK, WORDSTATE), (''x'', X_TOK, WORDSTATE), (''kill'', KILL_TOK, INITIAL),
    (''quit'', QUIT_TOK, INITIAL), (''q'', QUIT_TOK, INITIAL)]"

text \<open>The longest match at a word is the word, and the keyword rules come before the rule for unknown commands.\<close>

definition initial_token :: "string \<Rightarrow> cmd_token \<times> start_condition" where
  "initial_token word = (case map_of keyword_rules word of
       Some r \<Rightarrow> r
     | None \<Rightarrow>
         if word = ''print'' \<or> word = ''p'' \<or> strncmp_eq word ''print/'' \<or> strncmp_eq word ''p/''
         then (PRINT_TOK word, ARGSTATE) else (UNKNOWN_TOK word, INITIAL))"

definition skip_blanks :: "string \<Rightarrow> string" where
  "skip_blanks s = dropWhile is_blank s"

text \<open>One token at the start of a text without leading blanks: token, next condition, rest.\<close>

definition next_cmd_token :: "start_condition \<Rightarrow> string \<Rightarrow> cmd_token \<times> start_condition \<times> string" where
  "next_cmd_token cond t =
     (let word = takeWhile (\<lambda>c. \<not> is_blank c) t; rest = dropWhile (\<lambda>c. \<not> is_blank c) t
      in case cond of
           INITIAL \<Rightarrow> (case initial_token word of (tok, cond1) \<Rightarrow> (tok, cond1, rest))
         | WORDSTATE \<Rightarrow> (WORD word, WORDSTATE, rest)
         | ARGSTATE \<Rightarrow> (RESTLINE (hd t # before (CHR 0x0A) (tl t)), INITIAL, drop (length (before (CHR 0x0A) (tl t))) (tl t)))"

lemma next_cmd_token_shorter:
  "skip_blanks s \<noteq> [] \<Longrightarrow> length (snd (snd (next_cmd_token cond (skip_blanks s)))) < length s"
proof -
  assume ne: "skip_blanks s \<noteq> []"
  then have h: "\<not> is_blank (hd (skip_blanks s))" by (metis hd_dropWhile skip_blanks_def)
  obtain c t where s: "skip_blanks s = c # t" using ne by (cases "skip_blanks s") auto
  have l: "length (skip_blanks s) \<le> length s" by (simp add: skip_blanks_def length_dropWhile_le)
  have "length (snd (snd (next_cmd_token cond (c # t)))) \<le> length t"
    using h s length_dropWhile_le [of "\<lambda>c. \<not> is_blank c" t]
    by (auto simp: next_cmd_token_def Let_def split: start_condition.split prod.split)
  with l s show ?thesis by simp
qed

function cmd_lex :: "start_condition \<Rightarrow> string \<Rightarrow> cmd_token list" where
  "cmd_lex cond s =
     (if skip_blanks s = [] then []
      else case next_cmd_token cond (skip_blanks s) of (tok, cond1, rest) \<Rightarrow> tok # cmd_lex cond1 rest)"
  by pat_completeness auto
termination
proof (relation "measure (length \<circ> snd)", goal_cases)
  case (2 cond s p tok cond1 rest)
  then show ?case using next_cmd_token_shorter [of s cond] by (auto dest: sym [of _ "next_cmd_token _ _"])
qed simp

declare cmd_lex.simps [simp del]

section \<open>The handlers\<close>

datatype cdbg_repl_outcome = CDBG_REPL_OK | CDBG_REPL_QUIT | CDBG_REPL_FATAL

type_synonym 'w outcome = "(cdbg_repl_outcome \<times> cdbg \<times> 'w) option"

text \<open>What the commands need of the C library: \<open>strtod\<close>, the conversion of an integer to a double, and the address
  the debug section of the program is mapped at.\<close>

record host =
  h_strtod :: "string \<Rightarrow> u64"
  h_int_to_double :: "u64 \<Rightarrow> u64"
  h_section_base :: addr

definition print_request :: "string \<Rightarrow> string \<Rightarrow> string" where
  "print_request cmd rest =
     (let with_format = (\<lambda>fmt. if rest \<noteq> [] then ''/'' @ fmt @ '' '' @ rest else ''/'' @ fmt)
      in snprintf_s CDBG_MAX_CMD
           (if strncmp_eq cmd ''p/'' then with_format (drop 2 cmd)
            else if strncmp_eq cmd ''print/'' then with_format (drop 6 cmd)
            else rest))"

definition cmd_print_from_repl :: "(string \<Rightarrow> u64) \<Rightarrow> 'w kern \<Rightarrow> cdbg \<Rightarrow> string \<Rightarrow> string \<Rightarrow> 'w \<Rightarrow> int \<times> cdbg \<times> 'w" where
  "cmd_print_from_repl strtod K dbg cmd rest w = cmd_print strtod K dbg (print_request cmd rest) w"

text \<open>\<open>report_process_exit\<close> as the last call of a handler.\<close>

definition report_exit_ok :: "'w kern \<Rightarrow> cdbg \<Rightarrow> 'w \<Rightarrow> cdbg_repl_outcome \<times> cdbg \<times> 'w" where
  "report_exit_ok K dbg w = (case report_process_exit K dbg w of (dbg1, w1) \<Rightarrow> (CDBG_REPL_OK, dbg1, w1))"

text \<open>What \<open>continue\<close> and \<open>si\<close> do after the wait.\<close>

definition after_wait :: "'w kern \<Rightarrow> int \<Rightarrow> cdbg \<Rightarrow> 'w \<Rightarrow> cdbg_repl_outcome \<times> cdbg \<times> 'w" where
  "after_wait K wait_rc dbg w =
     (if wait_rc \<noteq> 0 then
        (if d_state dbg = CDBG_STATE_IDLE then report_exit_ok K dbg w else (CDBG_REPL_FATAL, dbg, w))
      else if d_state dbg = CDBG_STATE_STOPPED
      then (case report_stop K dbg w of (_, dbg1, w1) \<Rightarrow> (CDBG_REPL_OK, dbg1, w1))
      else if d_state dbg = CDBG_STATE_IDLE then report_exit_ok K dbg w
      else (CDBG_REPL_OK, dbg, w))"

definition cdbg_repl_cmd_continue :: "'w kern \<Rightarrow> cdbg \<Rightarrow> 'w \<Rightarrow> 'w outcome" where
  "cdbg_repl_cmd_continue K dbg w =
     (if d_state dbg = CDBG_STATE_IDLE then Some (CDBG_REPL_OK, dbg, w)
      else do {
        (rc, dbg1, w1) \<leftarrow> cdbg_continue K dbg w;
        if rc \<noteq> 0 then Some (CDBG_REPL_FATAL, dbg1, w1)
        else if d_state dbg1 = CDBG_STATE_IDLE then Some (report_exit_ok K dbg1 w1)
        else do { (wait_rc, dbg2, w2) \<leftarrow> cdbg_wait K dbg1 w1; Some (after_wait K wait_rc dbg2 w2) } })"

text \<open>\<open>step\<close> and \<open>next\<close>, for one of the two ways to step.\<close>

definition repl_line_command :: "('w kern \<Rightarrow> cdbg \<Rightarrow> 'w \<Rightarrow> 'w result) \<Rightarrow> 'w kern \<Rightarrow> cdbg \<Rightarrow> 'w \<Rightarrow> 'w outcome" where
  "repl_line_command command K dbg w =
     (if d_state dbg = CDBG_STATE_IDLE \<or> \<not> require_primary_thread_for_step dbg then Some (CDBG_REPL_OK, dbg, w)
      else do {
        (rc, dbg1, w1) \<leftarrow> command K dbg w;
        if rc \<noteq> 0 \<and> d_state dbg1 \<noteq> CDBG_STATE_IDLE then Some (CDBG_REPL_FATAL, dbg1, w1)
        else if d_state dbg1 = CDBG_STATE_IDLE then Some (report_exit_ok K dbg1 w1)
        else Some (CDBG_REPL_OK, dbg1, w1) })"

definition cdbg_repl_cmd_step :: "'w kern \<Rightarrow> cdbg \<Rightarrow> 'w \<Rightarrow> 'w outcome" where
  "cdbg_repl_cmd_step K dbg w = repl_line_command cdbg_step_next_line K dbg w"

definition cdbg_repl_cmd_next :: "'w kern \<Rightarrow> cdbg \<Rightarrow> 'w \<Rightarrow> 'w outcome" where
  "cdbg_repl_cmd_next K dbg w = repl_line_command cdbg_next_source_line K dbg w"

definition cdbg_repl_cmd_si :: "'w kern \<Rightarrow> cdbg \<Rightarrow> 'w \<Rightarrow> 'w outcome" where
  "cdbg_repl_cmd_si K dbg w =
     (if d_state dbg = CDBG_STATE_IDLE \<or> \<not> require_primary_thread_for_step dbg then Some (CDBG_REPL_OK, dbg, w)
      else case step_thread_guard_begin K dbg w of (guard, w1) \<Rightarrow>
        (case cdbg_single_step K dbg w1 of (step_rc, dbg1, w2) \<Rightarrow>
           if step_rc \<noteq> 0 then Some (CDBG_REPL_FATAL, dbg1, step_thread_guard_end K dbg1 guard w2)
           else do {
             (wait_rc, dbg2, w3) \<leftarrow> cdbg_wait K dbg1 w2;
             Some (after_wait K wait_rc dbg2 (step_thread_guard_end K dbg2 guard w3)) }))"

definition cdbg_repl_cmd_regs :: "'w kern \<Rightarrow> cdbg \<Rightarrow> 'w \<Rightarrow> cdbg_repl_outcome \<times> cdbg \<times> 'w" where
  "cdbg_repl_cmd_regs K dbg w = (case cdbg_refresh_regs K dbg w of
       (False, dbg1) \<Rightarrow> (CDBG_REPL_FATAL, dbg1, w)
     | (True, dbg1) \<Rightarrow> (CDBG_REPL_OK, dbg1, cdbg_regs_print K (d_regs dbg1) w))"

definition cdbg_repl_cmd_kill :: "'w kern \<Rightarrow> cdbg \<Rightarrow> 'w \<Rightarrow> 'w outcome" where
  "cdbg_repl_cmd_kill K dbg w =
     (if d_pid dbg \<le> 0 \<or> d_state dbg = CDBG_STATE_IDLE then Some (CDBG_REPL_OK, dbg, w)
      else do {
        (_, dbg1, w1) \<leftarrow> stop_debuggee K dbg w;
        Some (CDBG_REPL_OK, dbg1, k_print K (fmtln ''Process %d killed.'') [Arg_int (d_pid dbg)] w1) })"

definition cdbg_repl_cmd_quit :: "'w kern \<Rightarrow> cdbg \<Rightarrow> 'w \<Rightarrow> 'w outcome" where
  "cdbg_repl_cmd_quit K dbg w = do {
     (_, dbg1, w1) \<leftarrow> stop_debuggee K dbg w;
     Some (CDBG_REPL_QUIT, dbg1\<lparr>d_lineno := empty_lineno, d_syms := empty_syms\<rparr>, w1) }"

section \<open>The grammar\<close>

text \<open>
  After the last symbol of a rule the parser reduces without reading on, so the action runs even when more
  tokens follow; these are then reported as a syntax error on \<open>stderr\<close>. Hence the action is chosen by the first tokens.
\<close>

fun rest_arg :: "cmd_token list \<Rightarrow> string" where
  "rest_arg (RESTLINE s # _) = s"
| "rest_arg _ = []"

fun word_args :: "cmd_token list \<Rightarrow> string list" where
  "word_args (WORD s # ts) = s # word_args ts"
| "word_args _ = []"

definition word_arg :: "cmd_token list \<Rightarrow> string" where
  "word_arg ts = (case word_args ts of [] \<Rightarrow> [] | s # _ \<Rightarrow> s)"

text \<open>A handler whose return code the grammar throws away.\<close>

definition handled :: "int \<times> cdbg \<times> 'w \<Rightarrow> 'w outcome" where
  "handled r = (case r of (_, dbg, w) \<Rightarrow> Some (CDBG_REPL_OK, dbg, w))"

definition examine_words :: "'w kern \<Rightarrow> cdbg \<Rightarrow> string list \<Rightarrow> 'w \<Rightarrow> 'w outcome" where
  "examine_words K dbg ws w = (case ws of
       [] \<Rightarrow> Some (CDBG_REPL_OK, dbg, w)
     | [a] \<Rightarrow> handled (cmd_examine K dbg a None w)
     | a # n # _ \<Rightarrow> handled (cmd_examine K dbg a (Some n) w))"

fun line_rule :: "host \<Rightarrow> 'w kern \<Rightarrow> cdbg \<Rightarrow> cmd_token list \<Rightarrow> 'w \<Rightarrow> 'w outcome" where
  "line_rule H K dbg (HELP_TOK # ts) w = Some (CDBG_REPL_OK, dbg, snd (cmd_help K (rest_arg ts) w))"
| "line_rule H K dbg (RUN_TOK # ts) w = Option.bind (cmd_run K (h_section_base H) dbg (rest_arg ts) w) handled"
| "line_rule H K dbg (CONTINUE_TOK # ts) w = cdbg_repl_cmd_continue K dbg w"
| "line_rule H K dbg (STEP_TOK # ts) w = cdbg_repl_cmd_step K dbg w"
| "line_rule H K dbg (SI_TOK # ts) w = cdbg_repl_cmd_si K dbg w"
| "line_rule H K dbg (NEXT_TOK # ts) w = cdbg_repl_cmd_next K dbg w"
| "line_rule H K dbg (UP_TOK # ts) w = handled (cdbg_frame_up K dbg w)"
| "line_rule H K dbg (REGS_TOK # ts) w = Some (cdbg_repl_cmd_regs K dbg w)"
| "line_rule H K dbg (PRINT_TOK cmd # ts) w = handled (cmd_print_from_repl (h_strtod H) K dbg cmd (rest_arg ts) w)"
| "line_rule H K dbg (SET_TOK # ts) w = handled (cmd_set (h_strtod H) (h_int_to_double H) K dbg (rest_arg ts) w)"
| "line_rule H K dbg (SHOW_TOK # ts) w = handled (cmd_show K dbg (rest_arg ts) w)"
| "line_rule H K dbg (TB_TOK # ts) w = handled (cmd_backtrace K dbg w)"
| "line_rule H K dbg (THREADS_TOK # ts) w = handled (cmd_threads K dbg w)"
| "line_rule H K dbg (THREAD_TOK # ts) w = handled (cmd_thread K dbg (word_arg ts) w)"
| "line_rule H K dbg (LOCK_TOK # ts) w = (if word_args ts = [] then Some (CDBG_REPL_OK, dbg, w) else handled (cmd_lock K dbg (word_arg ts) w))"
| "line_rule H K dbg (UNLOCK_TOK # ts) w = handled (cmd_unlock K dbg w)"
| "line_rule H K dbg (LEAKS_TOK # ts) w = handled (cmd_leaks K dbg w)"
| "line_rule H K dbg (BREAK_TOK # ts) w = (if word_args ts = [] then Some (CDBG_REPL_OK, dbg, w) else handled (cmd_break K dbg (word_arg ts) w))"
| "line_rule H K dbg (DEL_TOK # ts) w = handled (cmd_del K dbg (rest_arg ts) w)"
| "line_rule H K dbg (WATCH_TOK # ts) w = handled (cmd_watch (h_strtod H) K dbg (rest_arg ts) w)"
| "line_rule H K dbg (UNWATCH_TOK # ts) w = handled (cmd_unwatch K dbg (rest_arg ts) w)"
| "line_rule H K dbg (DIS_TOK # ts) w = handled (cmd_dis K dbg (rest_arg ts) w)"
| "line_rule H K dbg (LIST_TOK # ts) w = handled (cmd_list K dbg (rest_arg ts) w)"
| "line_rule H K dbg (LINES_TOK # ts) w = handled (cmd_lines K dbg (word_arg ts) w)"
| "line_rule H K dbg (LISTS_TOK # ts) w = Some (CDBG_REPL_OK, dbg, cdbg_lineno_print_grouped_list K (d_lineno dbg) (word_arg ts) w)"
| "line_rule H K dbg (SYMS_TOK # ts) w = Some (CDBG_REPL_OK, dbg, cdbg_syms_print_list K (d_syms dbg) (word_arg ts) w)"
| "line_rule H K dbg (X_TOK # ts) w = examine_words K dbg (word_args ts) w"
| "line_rule H K dbg (KILL_TOK # ts) w = cdbg_repl_cmd_kill K dbg w"
| "line_rule H K dbg (QUIT_TOK # ts) w = cdbg_repl_cmd_quit K dbg w"
| "line_rule H K dbg (UNKNOWN_TOK s # ts) w = Some (CDBG_REPL_OK, dbg, k_print K (fmtln ''Unknown command: %s'') [Arg_str s] w)"
| "line_rule H K dbg _ w = Some (CDBG_REPL_OK, dbg, w)"

definition cdbg_repl_dispatch_line :: "host \<Rightarrow> 'w kern \<Rightarrow> cdbg \<Rightarrow> string \<Rightarrow> 'w \<Rightarrow> 'w outcome" where
  "cdbg_repl_dispatch_line H K dbg line w = line_rule H K dbg (cmd_lex INITIAL line) w"

section \<open>The loop\<close>

text \<open>The lines are those \<open>fgets\<close> gives for the 256-byte buffer until the end of the input.\<close>

fun repl_loop :: "host \<Rightarrow> 'w kern \<Rightarrow> cdbg \<Rightarrow> string list \<Rightarrow> 'w \<Rightarrow> 'w result" where
  "repl_loop H K dbg [] w = Some (0, dbg, k_print K ''cdbg> '' [] w)"
| "repl_loop H K dbg (line # lines) w =
     (let w1 = k_print K ''cdbg> '' [] w; trimmed = trim_space (before (CHR 0x0A) line)
      in if trimmed = [] then repl_loop H K dbg lines w1
         else (case cdbg_repl_dispatch_line H K dbg trimmed w1 of
                 None \<Rightarrow> None
               | Some (CDBG_REPL_QUIT, dbg1, w2) \<Rightarrow> Some (0, dbg1, w2)
               | Some (CDBG_REPL_FATAL, dbg1, w2) \<Rightarrow> Some (- 1, dbg1, w2)
               | Some (CDBG_REPL_OK, dbg1, w2) \<Rightarrow> repl_loop H K dbg1 lines w2))"

definition cdbg_repl :: "host \<Rightarrow> 'w kern \<Rightarrow> cdbg \<Rightarrow> string \<Rightarrow> 'w \<Rightarrow> 'w result" where
  "cdbg_repl H K dbg input w =
     repl_loop H K dbg (fgets_lines CDBG_MAX_CMD input) (puts K ''Type 'help' for available commands.'' w)"

section \<open>The program\<close>

definition MAX_SPAWN_ARGS :: nat where
  \<comment> \<open>the size of \<open>spawn_argv\<close>\<close>
  "MAX_SPAWN_ARGS = 256"

text \<open>The exit status: 0 or 1. \<open>argv\<close> includes the name of the debugger.\<close>

definition cdbg_main :: "host \<Rightarrow> 'w kern \<Rightarrow> string list \<Rightarrow> string \<Rightarrow> 'w \<Rightarrow> (nat \<times> 'w) option" where
  "cdbg_main H K argv input w =
     (case argv of
        _ # name # args \<Rightarrow>
          (case cdbg_resolve_program K name PATH_MAX w of
             None \<Rightarrow> Some (1, w)
           | Some program \<Rightarrow>
               if MAX_SPAWN_ARGS < length argv then Some (1, w)
               else (case cdbg_set_run_target (cdbg_init (k_arch K)) (program # args) of
                       (False, dbg) \<Rightarrow> Some (1, w)
                     | (True, dbg) \<Rightarrow> do {
                         (rc, dbg1, w1) \<leftarrow> cdbg_run K (h_section_base H) dbg None w;
                         if rc \<noteq> 0 then Some (1, w1)
                         else do {
                           (rc2, dbg2, w2) \<leftarrow> cdbg_repl H K dbg1 input w1;
                           Some (if rc2 \<noteq> 0 then 1 else 0, w2) } }))
      | _ \<Rightarrow> Some (1, w))"

end
