(* ===== verification/Session.thy ===== *)
theory Session
  imports Repl Steps
begin

text \<open>
  The whole debugger as a transition system: the states at the prompt, reached from the start by starting a program and by
  dispatching lines. \<open>cdbg_ok\<close> is the invariant of the state record, \<open>prompt_ok\<close> what holds at every prompt. The lemmas go
  through the commands: those that only look (\<open>inspects\<close>), those that run the program (\<open>same_setup\<close>), and the ones that change
  the tables.
\<close>

section \<open>The invariant\<close>

definition bp_ok :: "addr \<times> string \<Rightarrow> bool" where
  "bp_ok k \<longleftrightarrow> length (snd k) < 128"

definition wp_ok :: "bool \<times> addr \<times> nat \<times> cdbg_wp_mode \<times> string \<times> string \<Rightarrow> bool" where
  "wp_ok k \<longleftrightarrow> (case k of (en, a, sz, mode, expr, ty) \<Rightarrow> sz \<in> {1, 2, 4, 8} \<and> length expr < 128 \<and> length ty < 64)"

definition cdbg_ok :: "cdbg \<Rightarrow> bool" where
  "cdbg_ok dbg \<longleftrightarrow> length (map bp_key (d_breakpoints dbg)) \<le> CDBG_MAX_BREAKPOINTS
     \<and> list_all bp_ok (map bp_key (d_breakpoints dbg))
     \<and> length (map wp_key (d_watchpoints dbg)) \<le> CDBG_MAX_WATCHPOINTS
     \<and> list_all wp_ok (map wp_key (d_watchpoints dbg))
     \<and> length (d_suspended_tids dbg) \<le> CDBG_MAX_THREADS
     \<and> (d_suspended_tids dbg = [] \<or> d_thread_lock_active dbg) \<and> d_locked_tid dbg \<notin> set (d_suspended_tids dbg)
     \<and> length (d_run_argv_storage dbg) = CDBG_MAX_RUN_ARGS \<and> d_run_argc dbg \<le> CDBG_MAX_RUN_ARGS
     \<and> list_all (\<lambda>a. length a < CDBG_MAX_PATH) (d_run_argv_storage dbg)
     \<and> length (d_executable_path dbg) < CDBG_MAX_PATH \<and> length (d_debug_info_path dbg) < CDBG_MAX_PATH"

definition prompt_ok :: "cdbg \<Rightarrow> bool" where
  "prompt_ok dbg \<longleftrightarrow> cdbg_ok dbg \<and> (d_pid dbg \<le> 0 \<or> d_state dbg \<noteq> CDBG_STATE_IDLE)"

named_theorems session_dests \<open>what a command does to the debugger state\<close>

lemma setup_ok: "same_setup d e \<Longrightarrow> cdbg_ok e = cdbg_ok d"
  by (simp add: same_setup_def cdbg_ok_def del: length_map)

lemma snprintf_s_length: "1 \<le> n \<Longrightarrow> length (snprintf_s n s) < n"
  by (simp add: snprintf_s_def)

section \<open>Commands that only look\<close>

definition inspects :: "cdbg \<Rightarrow> cdbg \<Rightarrow> bool" where
  "inspects d e \<longleftrightarrow> e = d\<lparr>d_regs := d_regs e, d_current_tid := d_current_tid e\<rparr>"

lemma inspects_refl [simp, intro!]: "inspects d d"
  by (simp add: inspects_def)

lemma inspects_updates [simp]: "inspects d (d\<lparr>d_regs := r\<rparr>)" "inspects d (d\<lparr>d_regs := r, d_current_tid := t\<rparr>)"
  "inspects d (d\<lparr>d_current_tid := t, d_regs := r\<rparr>)" "inspects d (d\<lparr>d_current_tid := t\<rparr>)"
  by (simp_all add: inspects_def)

lemma inspects_trans: "inspects a b \<Longrightarrow> inspects b c \<Longrightarrow> inspects a c"
  unfolding inspects_def by (cases a, cases b, cases c) simp

lemma inspects_setup: "inspects d e \<Longrightarrow> same_setup d e \<and> d_state e = d_state d"
  unfolding inspects_def by (cases d, cases e) (simp add: same_setup_def)

lemma inspects_ok: "inspects d e \<Longrightarrow> prompt_ok d \<Longrightarrow> prompt_ok e"
  using setup_ok [of d e] by (auto simp: prompt_ok_def dest!: inspects_setup) (simp_all add: same_setup_def)

lemma refresh_inspects [session_dests]: "cdbg_refresh_regs K d w = (ok, e) \<Longrightarrow> inspects d e"
  by (auto dest!: cdbg_refresh_regs_frame)

lemma expr_eval_inspects [session_dests]: "cdbg_expr_eval strtod K d text w = (r, e) \<Longrightarrow> inspects d e"
  by (auto simp: cdbg_expr_eval_def split: if_splits prod.splits bool.splits option.splits sum.splits dest!: refresh_inspects)

lemma set_lhs_inspects [session_dests]: "resolve_set_lhs strtod K d lhs w = (r, e) \<Longrightarrow> inspects d e"
  by (auto simp: resolve_set_lhs_def split: if_splits prod.splits bool.splits option.splits sum.splits dest!: refresh_inspects)

lemma eval_rhs_inspects [session_dests]: "eval_rhs strtod K d rhs w = (r, e) \<Longrightarrow> inspects d e"
  by (auto simp: eval_rhs_def split: if_splits prod.splits option.splits dest!: expr_eval_inspects)

lemma print_inspects [session_dests]: "cmd_print strtod K d expr w = (rc, e, w') \<Longrightarrow> inspects d e"
  by (auto simp: cmd_print_def Let_def split: if_splits prod.splits bool.splits option.splits sum.splits dest!: refresh_inspects)

lemma set_register_inspects [session_dests]: "set_register strtod itd K d name rhs w = (rc, e, w') \<Longrightarrow> inspects d e"
  by (auto simp: set_register_def split: prod.splits option.splits bool.splits
      dest!: eval_rhs_inspects cdbg_refresh_regs_frame intro: inspects_trans)

lemma set_location_inspects [session_dests]: "set_location strtod K d lhs rhs w = (rc, e, w') \<Longrightarrow> inspects d e"
  by (auto simp: set_location_def split: prod.splits option.splits bool.splits
      dest!: eval_rhs_inspects set_lhs_inspects intro: inspects_trans)

lemma frame_up_inspects [session_dests]: "cdbg_frame_up K d w = (rc, e, w') \<Longrightarrow> inspects d e"
  by (auto simp: cdbg_frame_up_def Let_def split: prod.splits bool.splits option.splits dest!: cdbg_refresh_regs_frame)

lemma show_inspects [session_dests]: "cmd_show K d args w = (rc, e, w') \<Longrightarrow> inspects d e"
  by (auto simp: cmd_show_def Let_def split: if_splits prod.splits bool.splits option.splits dest!: refresh_inspects)

lemma backtrace_inspects [session_dests]: "cmd_backtrace K d w = (rc, e, w') \<Longrightarrow> inspects d e"
  by (auto simp: cmd_backtrace_def split: prod.splits bool.splits dest!: refresh_inspects)

lemma threads_inspects [session_dests]:
  "cmd_threads K d w = (rc, e, w') \<Longrightarrow> inspects d e"
  "cmd_thread K d args w = (rc, e, w') \<Longrightarrow> inspects d e"
  by (auto simp: cmd_threads_def cmd_thread_def Let_def split: if_splits prod.splits bool.splits option.splits
      dest!: cdbg_refresh_regs_frame)

lemma looks_inspects [session_dests]:
  "cmd_leaks K d w = (rc, e, w') \<Longrightarrow> inspects d e"
  "cmd_dis K d target w = (rc, e, w') \<Longrightarrow> inspects d e"
  "cmd_lines K d flt w = (rc, e, w') \<Longrightarrow> inspects d e"
  "cmd_examine K d a n w = (rc, e, w') \<Longrightarrow> inspects d e"
  by (auto simp: cmd_leaks_def cmd_dis_def cmd_lines_def cmd_examine_def Let_def
      split: if_splits prod.splits option.splits)

lemma list_inspects [session_dests]: "cmd_list K d target w = (rc, e, w') \<Longrightarrow> inspects d e"
  by (auto simp: cmd_list_def list_file_line_def list_number_or_symbol_def list_at_def Let_def
      split: if_splits prod.splits bool.splits option.splits dest!: refresh_inspects)

section \<open>Settings and tables\<close>

lemma prompt_ok_updates [simp]:
  "prompt_ok (d\<lparr>d_language := l\<rparr>) = prompt_ok d" "prompt_ok (d\<lparr>d_print_pretty := b\<rparr>) = prompt_ok d"
  "prompt_ok (d\<lparr>d_malloc_stack_logging := b\<rparr>) = prompt_ok d" "prompt_ok (d\<lparr>d_regs := r\<rparr>) = prompt_ok d"
  "prompt_ok (d\<lparr>d_current_tid := t\<rparr>) = prompt_ok d" "prompt_ok (d\<lparr>d_wait_status := st\<rparr>) = prompt_ok d"
  by (simp_all add: prompt_ok_def cdbg_ok_def)

lemma settings_ok:
  "cmd_set_language K d args w = (rc, e, w') \<Longrightarrow> prompt_ok d \<Longrightarrow> prompt_ok e"
  "cmd_set_print K d args w = (rc, e, w') \<Longrightarrow> prompt_ok d \<Longrightarrow> prompt_ok e"
  "cmd_set_malloc_log K d args w = (rc, e, w') \<Longrightarrow> prompt_ok d \<Longrightarrow> prompt_ok e"
  by (auto simp: cmd_set_language_def cmd_set_print_def cmd_set_malloc_log_def Let_def split: if_splits option.splits)

lemma set_ok: "cmd_set strtod itd K d args w = (rc, e, w') \<Longrightarrow> prompt_ok d \<Longrightarrow> prompt_ok e"
  by (auto simp: cmd_set_def Let_def split: if_splits option.splits prod.splits
      intro: settings_ok inspects_ok dest: set_register_inspects set_location_inspects)

lemma unlock_ok: "cmd_unlock K d w = (rc, e, w') \<Longrightarrow> prompt_ok d \<Longrightarrow> prompt_ok e"
  by (auto simp: cmd_unlock_def split: if_splits prod.splits) (simp_all add: prompt_ok_def cdbg_ok_def)

lemma lock_loop_tids:
  "lock_loop K pid target s ts w = (ok, s', w') \<Longrightarrow> target \<notin> set s \<Longrightarrow>
     target \<notin> set s' \<and> length s' \<le> length s + length ts"
proof (induction ts arbitrary: s w)
  case Nil
  then show ?case by simp
next
  case (Cons t ts)
  show ?case
  proof (cases "ti_tid t = target")
    case True
    with Cons.prems Cons.IH [of s w] show ?thesis by simp
  next
    case False
    with Cons.prems Cons.IH [of "s @ [ti_tid t]" "snd (cdbg_thread_suspend K pid (ti_tid t) w)"] show ?thesis
      by (auto split: prod.splits bool.splits)
  qed
qed

lemma threads_list_length: "cdbg_threads_list K pid n w = Some ts \<Longrightarrow> length ts \<le> n"
  by (auto simp: cdbg_threads_list_def Let_def split: if_splits option.splits)

lemma lock_ok: "cmd_lock K d args w = (rc, e, w') \<Longrightarrow> prompt_ok d \<Longrightarrow> prompt_ok e"
  by (auto simp: cmd_lock_def prompt_ok_def cdbg_ok_def split: if_splits option.splits prod.splits bool.splits
      dest!: lock_loop_tids threads_list_length cdbg_refresh_regs_frame)

lemma break_ok: "cmd_break K d target w = (rc, e, w') \<Longrightarrow> prompt_ok d \<Longrightarrow> prompt_ok e"
  by (auto simp: cmd_break_def prompt_ok_def cdbg_ok_def bp_ok_def bp_key_def snprintf_s_def
      split: if_splits option.splits prod.splits bool.splits)

lemma list_all_remove_nth: "list_all P xs \<Longrightarrow> list_all P (remove_nth i xs)"
  using set_remove_nth [of i xs] by (auto simp: list_all_iff)

lemma length_remove_nth_le: "length (remove_nth i xs) \<le> length xs"
  by (simp add: remove_nth_def)

lemma delete_breakpoint_ok': "delete_breakpoint_at K d i w = (ok, e, w') \<Longrightarrow> prompt_ok d \<Longrightarrow> prompt_ok e"
  using length_remove_nth_le [of i "d_breakpoints d"]
  by (auto simp: delete_breakpoint_at_def Let_def prompt_ok_def cdbg_ok_def map_remove_nth list_all_remove_nth
      split: if_splits prod.splits bool.splits)

lemma delete_all_breakpoints_ok: "delete_all_breakpoints K n d w = (ok, e, w') \<Longrightarrow> prompt_ok d \<Longrightarrow> prompt_ok e"
  by (induction n arbitrary: d w) (auto split: prod.splits bool.splits dest!: delete_breakpoint_ok')

lemma delete_listed_breakpoints_ok: "delete_listed_breakpoints K d is w = (ok, e, w') \<Longrightarrow> prompt_ok d \<Longrightarrow> prompt_ok e"
  by (induction "is" arbitrary: d w) (auto split: prod.splits bool.splits dest!: delete_breakpoint_ok')

lemma del_ok: "cmd_del K d args w = (rc, e, w') \<Longrightarrow> prompt_ok d \<Longrightarrow> prompt_ok e"
  by (auto simp: cmd_del_def Let_def split: if_splits prod.splits bool.splits option.splits
      dest: delete_all_breakpoints_ok delete_listed_breakpoints_ok)

section \<open>Watchpoints\<close>

lemma install_size: "cdbg_wp_hw_install K pid slot a sz mode w = (True, w') \<Longrightarrow> sz \<in> {1, 2, 4, 8}"
  by (auto simp: cdbg_wp_hw_install_def arm_wp_encode_def x86_wp_len_bits_def Let_def split: arch.splits if_splits option.splits)

lemma shrinking_size: "install_shrinking K pid slot a n mode w = (Some sz, w') \<Longrightarrow> sz \<in> {1, 2, 4, 8}"
proof (induction n arbitrary: w rule: less_induct)
  case (less n)
  obtain ok w1 where i: "cdbg_wp_hw_install K pid slot a n mode w = (ok, w1)" by fastforce
  have n: "1 \<le> n" using less.prems by (subst (asm) install_shrinking.simps) (simp split: if_splits)
  show ?case
  proof (cases ok)
    case True
    with less.prems n i have "sz = n" by (simp add: install_shrinking.simps [of _ _ _ _ n])
    with i True install_size show ?thesis by simp
  next
    case False
    with less.prems n i have "install_shrinking K pid slot a (n div 2) mode w1 = (Some sz, w')"
      by (simp add: install_shrinking.simps [of _ _ _ _ n])
    from less.IH [OF _ this] n show ?thesis by simp
  qed
qed

lemma install_watch_size: "install_watch K d slot a ex vs mode w = (Some sz, w') \<Longrightarrow> sz \<in> {1, 2, 4, 8}"
  by (auto simp: install_watch_def split: if_splits prod.splits dest: install_size shrinking_size)

lemma set_watchpoint_ok:
  assumes "set_watchpoint K d expr a vs ty flags w = (rc, e, w')" "prompt_ok d" "length (d_watchpoints d) < CDBG_WP_MAX_HW"
  shows "prompt_ok e"
proof -
  have new: "wp_ok (wp_key (new_watchpoint K d a sz mode expr ty w1))" if "sz \<in> {1, 2, 4, 8}" for sz mode w1
    using that by (auto simp: wp_ok_def wp_key_def new_watchpoint_def snprintf_s_def)
  from assms show ?thesis
    by (auto simp: set_watchpoint_def Let_def split: prod.splits option.splits dest!: install_watch_size)
      (auto simp: prompt_ok_def cdbg_ok_def CDBG_MAX_WATCHPOINTS_def intro!: new)
qed

lemma watch_ok: "cmd_watch strtod K d expr w = (rc, e, w') \<Longrightarrow> prompt_ok d \<Longrightarrow> prompt_ok e"
  by (auto simp: cmd_watch_def split: if_splits option.splits prod.splits bool.splits
      dest!: cdbg_refresh_regs_frame intro: set_watchpoint_ok)

lemma list_all_list_update: "list_all P xs \<Longrightarrow> P y \<Longrightarrow> list_all P (xs[i := y])"
  by (auto simp: list_all_iff dest!: subsetD [OF set_update_subset_insert])

lemma shift_watchpoints_ok:
  "shift_watchpoints K pid live i n wps w = (ok, wps', w') \<Longrightarrow> list_all P wps \<Longrightarrow> i + n \<le> length wps \<Longrightarrow>
     list_all P wps' \<and> length wps' = length wps"
proof (induction n arbitrary: i wps w)
  case 0
  then show ?case by simp
next
  case (Suc n)
  let ?m = "wps[i - 1 := wps ! i]"
  have m: "list_all P ?m" using Suc.prems by (intro list_all_list_update) (auto simp: list_all_length)
  have "\<exists>v. shift_watchpoints K pid live (Suc i) n ?m v = (ok, wps', w') \<or> wps' = wps \<or> wps' = ?m"
    using Suc.prems(1) by (auto simp: Let_def split: if_splits prod.splits bool.splits)
  then show ?case using Suc.IH [of "Suc i" ?m] m Suc.prems by auto
qed

lemma list_all_butlast: "list_all P xs \<Longrightarrow> list_all P (butlast xs)"
  by (auto simp: list_all_iff dest: in_set_butlastD)

lemma delete_watchpoint_ok: "delete_watchpoint_at K d i w = (ok, e, w') \<Longrightarrow> prompt_ok d \<Longrightarrow> prompt_ok e"
proof -
  assume d: "delete_watchpoint_at K d i w = (ok, e, w')" "prompt_ok d"
  let ?P = "\<lambda>wp. wp_ok (wp_key wp)"
  have p: "list_all ?P (d_watchpoints d)" "length (d_watchpoints d) \<le> CDBG_MAX_WATCHPOINTS"
    using d(2) by (simp_all add: prompt_ok_def cdbg_ok_def list_all_iff)
  have k: "prompt_ok (d\<lparr>d_watchpoints := wps\<rparr>)" if "list_all ?P wps" "length wps \<le> CDBG_MAX_WATCHPOINTS" for wps
    using d(2) that by (simp add: prompt_ok_def cdbg_ok_def list_all_iff)
  from d p show "prompt_ok e"
    by (auto simp: delete_watchpoint_at_def Let_def split: if_splits prod.splits bool.splits
        dest!: shift_watchpoints_ok [where P = ?P] intro!: k list_all_butlast)
qed

lemma delete_all_watchpoints_ok: "delete_all_watchpoints K n d w = (ok, e, w') \<Longrightarrow> prompt_ok d \<Longrightarrow> prompt_ok e"
  by (induction n arbitrary: d w) (auto split: prod.splits bool.splits dest!: delete_watchpoint_ok)

lemma delete_listed_watchpoints_ok: "delete_listed_watchpoints K d is w = (ok, e, w') \<Longrightarrow> prompt_ok d \<Longrightarrow> prompt_ok e"
  by (induction "is" arbitrary: d w) (auto split: prod.splits bool.splits dest!: delete_watchpoint_ok)

lemma unwatch_ok: "cmd_unwatch K d args w = (rc, e, w') \<Longrightarrow> prompt_ok d \<Longrightarrow> prompt_ok e"
  by (auto simp: cmd_unwatch_def Let_def split: if_splits prod.splits bool.splits option.splits
      dest: delete_all_watchpoints_ok delete_listed_watchpoints_ok)

section \<open>Running the program\<close>

lemma wait_state: "cdbg_wait K d w = Some (0, e, w') \<Longrightarrow> d_state e = CDBG_STATE_STOPPED"
  by (auto simp: cdbg_wait_def Let_def reenable_breakpoints_after_step_def
      split: bind_splits option.splits if_splits prod.splits bool.splits dest!: cdbg_refresh_regs_frame)

lemma report_exit_prompt:
  assumes "report_process_exit K d w = (e, w')" "cdbg_ok d"
  shows "cdbg_ok e \<and> (d_state d = CDBG_STATE_IDLE \<longrightarrow> prompt_ok e)"
proof -
  have m: "bp_key (bp_off bp) = bp_key bp" "wp_ok (wp_key (wp_off wp)) = wp_ok (wp_key wp)" for bp wp
    by (simp_all add: bp_key_def bp_off_def wp_key_def wp_off_def wp_ok_def)
  have "cdbg_ok (d\<lparr>d_breakpoints := map bp_off (d_breakpoints d), d_watchpoints := map wp_off (d_watchpoints d), d_pid := 0\<rparr>)"
    using assms(2) by (simp add: cdbg_ok_def m comp_def list_all_iff)
  with assms show ?thesis by (auto simp: report_process_exit_def Let_def prompt_ok_def split: if_splits)
qed

lemma forget_process_ok: "cdbg_ok d \<Longrightarrow> prompt_ok (forget_process d)"
proof -
  have m: "bp_key (bp_off bp) = bp_key bp" "wp_ok (wp_key (wp_off wp)) = wp_ok (wp_key wp)" for bp wp
    by (simp_all add: bp_key_def bp_off_def wp_key_def wp_off_def wp_ok_def)
  show "cdbg_ok d \<Longrightarrow> prompt_ok (forget_process d)"
    by (simp add: cdbg_ok_def forget_process_def prompt_ok_def m comp_def list_all_iff)
qed

lemma cdbg_ok_updates [simp]:
  "cdbg_ok (d\<lparr>d_state := s\<rparr>) = cdbg_ok d" "cdbg_ok (d\<lparr>d_pid := p\<rparr>) = cdbg_ok d"
  "cdbg_ok (d\<lparr>d_lineno := ln\<rparr>) = cdbg_ok d" "cdbg_ok (d\<lparr>d_syms := sy\<rparr>) = cdbg_ok d"
  "cdbg_ok (d\<lparr>d_wait_status := st\<rparr>) = cdbg_ok d" "cdbg_ok (d\<lparr>d_regs := r\<rparr>) = cdbg_ok d"
  by (simp_all add: cdbg_ok_def)

lemma forget_process_fields [simp]: "d_pid (forget_process d) = 0" "d_state (forget_process d) = CDBG_STATE_IDLE"
  by (simp_all add: forget_process_def)

lemma prompt_cdbg_ok: "prompt_ok d \<Longrightarrow> cdbg_ok d"
  by (simp add: prompt_ok_def)

lemma prompt_idle [simp]: "d_pid d \<le> 0 \<Longrightarrow> prompt_ok (d\<lparr>d_state := s\<rparr>) = cdbg_ok d"
  by (simp add: prompt_ok_def)

lemma stop_ok: "stop_debuggee K d w = Some (ok, e, w') \<Longrightarrow> prompt_ok d \<Longrightarrow>
    prompt_ok e \<and> (ok \<longrightarrow> d_pid e \<le> 0 \<and> d_state e = CDBG_STATE_IDLE)"
  by (auto simp: stop_debuggee_def forget_process_ok prompt_cdbg_ok
      split: if_splits prod.splits bool.splits option.splits bind_splits)

lemma set_run_target_ok: "cdbg_set_run_target d argv = (ok, e) \<Longrightarrow> prompt_ok d \<Longrightarrow> prompt_ok e"
proof -
  have "store_run_args n as d = (ok, e) \<Longrightarrow> n \<le> CDBG_MAX_RUN_ARGS \<Longrightarrow> prompt_ok d \<Longrightarrow> prompt_ok e" for n as
  proof (induction as arbitrary: n d)
    case Nil
    then show ?case by (auto simp: prompt_ok_def cdbg_ok_def)
  next
    case (Cons a as)
    have "prompt_ok (d\<lparr>d_run_argv_storage := (d_run_argv_storage d)[n := snprintf_s CDBG_MAX_PATH a]\<rparr>)"
      using Cons.prems(3) by (auto simp: prompt_ok_def cdbg_ok_def snprintf_s_def CDBG_MAX_PATH_def intro!: list_all_list_update)
    with Cons show ?case by (auto split: if_splits)
  qed
  then show "cdbg_set_run_target d argv = (ok, e) \<Longrightarrow> prompt_ok d \<Longrightarrow> prompt_ok e"
    by (auto simp: cdbg_set_run_target_def split: if_splits)
qed

lemma update_slides_frame: "update_slides K l s d w = Some e \<Longrightarrow> \<exists>ln sy. e = d\<lparr>d_lineno := ln, d_syms := sy\<rparr>"
  by (auto simp: update_slides_def split: bind_splits)

lemma slides_ok: "slides_of_loaded K d w = Some e \<Longrightarrow> cdbg_ok e = cdbg_ok d \<and> d_state e = d_state d \<and> d_pid e = d_pid d"
  by (auto simp: slides_of_loaded_def dest!: update_slides_frame)

lemma load_symbols_ok: "cdbg_load_symbols K base d path w = Some (ok, e) \<Longrightarrow> cdbg_ok d \<Longrightarrow>
    cdbg_ok e \<and> d_state e = d_state d \<and> d_pid e = d_pid d"
proof -
  have dsym: "debugger_dsym_path K path CDBG_MAX_PATH w = Some p \<Longrightarrow> length p < CDBG_MAX_PATH" for p
    by (auto simp: debugger_dsym_path_def Let_def split: if_splits)
  have b: "cdbg_ok (d\<lparr>d_executable_path := snprintf_s CDBG_MAX_PATH path, d_debug_info_path :=
      (case debugger_dsym_path K path CDBG_MAX_PATH w of Some p \<Rightarrow> p | None \<Rightarrow> snprintf_s CDBG_MAX_PATH path)\<rparr>)" if "cdbg_ok d"
    using that dsym by (auto simp: cdbg_ok_def snprintf_s_def CDBG_MAX_PATH_def split: option.split)
  assume l: "cdbg_load_symbols K base d path w = Some (ok, e)" and ok: "cdbg_ok d"
  from l b [OF ok] show ?thesis
    by (auto simp: cdbg_load_symbols_def Let_def split: option.splits prod.splits if_splits dest!: update_slides_frame)
qed

lemma restore_ok: "restore_breakpoints K d specs w = (e, w') \<Longrightarrow> prompt_ok d \<Longrightarrow>
    prompt_ok e \<and> d_state e = d_state d"
proof (induction specs arbitrary: d w)
  case Nil
  then show ?case by simp
next
  case (Cons s specs)
  obtain rc d1 w1 where b: "cmd_break K d s w = (rc, d1, w1)" by (metis prod_cases3)
  then have "d_state d1 = d_state d"
    by (auto simp: cmd_break_def split: option.splits if_splits prod.splits bool.splits)
  with Cons b break_ok [OF b] show ?case by auto
qed

section \<open>Starting a program\<close>

lemma handle_hit_state: "handle_breakpoint_hit K d i w = (rc, e, w') \<Longrightarrow> d_state e = d_state d"
  by (auto simp: handle_breakpoint_hit_def Let_def split: prod.splits bool.splits if_splits dest!: cdbg_refresh_regs_frame)

lemma switch_tid_state: "d_state (switch_current_tid_to_breakpoint_hit K d w) = d_state d"
  by (auto simp: switch_current_tid_to_breakpoint_hit_def split: option.splits)

lemma report_stop_state: "report_stop K d w = (rc, e, w') \<Longrightarrow> d_state e = d_state d"
  by (auto simp: report_stop_def report_watchpoint_hit_def Let_def switch_tid_state split: bool.splits option.splits prod.splits
      dest!: handle_hit_state cdbg_refresh_regs_frame)

lemma stop_context_inspects: "cdbg_print_stop_context K d w = (e, w') \<Longrightarrow> inspects d e"
  by (auto simp: cdbg_print_stop_context_def Let_def split: bool.splits prod.splits if_splits dest!: refresh_inspects)

lemma finish_entry_state: "finish_entry_stop K d bp a l w = (rc, e, w') \<Longrightarrow> inspects d e"
  by (auto simp: finish_entry_stop_def Let_def split: if_splits prod.splits bool.splits)

lemma wait_facts: "cdbg_wait K d w = Some (rc, e, w') \<Longrightarrow> same_setup d e \<and> (rc = 0 \<longrightarrow> d_state e = CDBG_STATE_STOPPED)"
  by (auto dest: wait_state wait_setup)

text \<open>The run to the entry stop keeps the tables, and ends at a stop or reports a failure.\<close>

lemma entry_stop_ok:
  "run_to_entry_stop K d w = Some (rc, e, w') \<Longrightarrow> same_setup d e \<and> (0 \<le> rc \<longrightarrow> d_state e \<noteq> CDBG_STATE_IDLE \<or> d_state e = d_state d)"
  by (auto simp: run_to_entry_stop_def split: if_splits option.splits prod.splits bool.splits bind_splits
      dest!: finish_entry_state inspects_setup continue_setup wait_facts cdbg_refresh_regs_frame
      intro: same_setup_trans)

lemma failed_run_ok:
  assumes "report_failed_run K d w = (rc, e, w')" "cdbg_ok d"
  shows "prompt_ok e"
  using assms report_exit_prompt [of K d w]
  by (auto simp: report_failed_run_def prompt_ok_def split: if_splits prod.splits)

lemma start_stopped_ok:
  assumes "start_stopped K specs d w = Some (rc, e, w')" "cdbg_ok d" "d_state d = CDBG_STATE_STOPPED"
  shows "prompt_ok e"
proof -
  obtain d1 where d1: "slides_of_loaded K d w = Some d1" using assms(1) by (auto simp: start_stopped_def split: bind_splits)
  then have s1: "cdbg_ok d1" "d_state d1 = CDBG_STATE_STOPPED" using slides_ok [OF d1] assms(2,3) by simp_all
  then have p1: "prompt_ok d1" by (simp add: prompt_ok_def)
  obtain d2 w2 where d2: "restore_breakpoints K d1 specs w = (d2, w2)" by fastforce
  from restore_ok [OF d2 p1] s1 have s2: "cdbg_ok d2" "d_state d2 = CDBG_STATE_STOPPED" by (auto simp: prompt_ok_def)
  from assms(1) d1 d2 obtain rc3 d3 w3 where d3: "run_to_entry_stop K d2 (print_run_banner K d2 w2) = Some (rc3, d3, w3)"
    by (auto simp: start_stopped_def split: bind_splits)
  from entry_stop_ok [OF d3] s2 have s3: "cdbg_ok d3" "0 \<le> rc3 \<Longrightarrow> prompt_ok d3"
    using setup_ok by (auto simp: prompt_ok_def)
  from assms(1) d1 d2 d3 s3 show ?thesis
    by (auto simp: start_stopped_def split: if_splits prod.splits intro: failed_run_ok inspects_ok dest: stop_context_inspects)
qed

lemma spawn_ok:
  "cdbg_spawn K d argv w = Some (ok, e, w') \<Longrightarrow> cdbg_ok d \<Longrightarrow>
     cdbg_ok e \<and> (if ok then d_state e = CDBG_STATE_RUNNING else e = d)"
  using slides_ok [of K] by (auto simp: cdbg_spawn_def split: prod.splits option.splits)

lemma start_program_ok:
  assumes "start_program K base specs d w = Some (rc, e, w')" "cdbg_ok d" "d_pid d \<le> 0"
  shows "prompt_ok e"
proof -
  obtain ok0 d1 ok d2 w2 where
    d1: "cdbg_load_symbols K base d (hd (d_run_argv d)) w = Some (ok0, d1)" and
    d2: "cdbg_spawn K d1 (d_run_argv d1) w = Some (ok, d2, w2)"
    using assms(1) by (auto simp: start_program_def split: bind_splits)
  from load_symbols_ok [OF d1 assms(2)] have s1: "cdbg_ok d1" "d_pid d1 \<le> 0" using assms(3) by auto
  from spawn_ok [OF d2 s1(1)] have s2: "cdbg_ok d2" "\<not> ok \<Longrightarrow> prompt_ok d2" using s1 by (auto simp: prompt_ok_def)
  show ?thesis
  proof (cases ok)
    case False
    with assms(1) d1 d2 s2 show ?thesis by (simp add: start_program_def)
  next
    case True
    with assms(1) d1 d2 obtain rc3 d3 w3 where d3: "cdbg_wait K d2 w2 = Some (rc3, d3, w3)"
      by (auto simp: start_program_def split: bind_splits)
    have s3: "cdbg_ok d3" using setup_ok [OF wait_setup [OF d3]] s2 by simp
    have p: "rc3 = 0 \<Longrightarrow> d_state d3 = CDBG_STATE_STOPPED" using d3 wait_state by simp
    from assms(1) d1 d2 d3 True s3 p show ?thesis
      by (auto simp: start_program_def split: if_splits intro: failed_run_ok start_stopped_ok)
  qed
qed

lemma clear_run_ok: "cdbg_ok d \<Longrightarrow> cdbg_ok (clear_run_state K d) \<and> d_pid (clear_run_state K d) = d_pid d"
  by (simp add: clear_run_state_def cdbg_ok_def)

lemma stop_then_start_ok:
  assumes "stop_debuggee K d w = Some (ok, d2, w2)" "prompt_ok d"
    "(if \<not> ok then Some (- 1, d2, w2) else start_program K base specs (clear_run_state K d2) w2) = Some (rc, e, w')"
  shows "prompt_ok e"
  using stop_ok [OF assms(1,2)] assms(3) clear_run_ok [of d2 K] start_program_ok [of K base specs "clear_run_state K d2" w2 rc e w']
  by (auto simp: prompt_cdbg_ok split: if_splits)

lemma run_ok: "cdbg_run K base d argv w = Some (rc, e, w') \<Longrightarrow> prompt_ok d \<Longrightarrow> prompt_ok e"
  by (auto simp: cdbg_run_def split: option.splits prod.splits bool.splits if_splits bind_splits
      dest!: set_run_target_ok dest: stop_ok intro: stop_then_start_ok)

lemma cmd_run_ok: "cmd_run K base d args w = Some (rc, e, w') \<Longrightarrow> prompt_ok d \<Longrightarrow> prompt_ok e"
  by (auto simp: cmd_run_def split: option.splits prod.splits if_splits bind_splits intro: run_ok)

section \<open>The handlers\<close>

text \<open>A handler may leave a dead process behind only when the session ends with it.\<close>

definition outcome_ok :: "(cdbg_repl_outcome \<times> cdbg \<times> 'w) option \<Rightarrow> bool" where
  "outcome_ok r \<longleftrightarrow> (case r of None \<Rightarrow> True
     | Some (out, dbg, w) \<Rightarrow> cdbg_ok dbg \<and> (out \<noteq> CDBG_REPL_FATAL \<longrightarrow> prompt_ok dbg))"

lemma outcome_simps [simp]:
  "outcome_ok None" "outcome_ok (Some (out, d, w)) = (cdbg_ok d \<and> (out \<noteq> CDBG_REPL_FATAL \<longrightarrow> prompt_ok d))"
  by (simp_all add: outcome_ok_def)

lemma outcome_handled: "outcome_ok (handled (rc, d, w)) = prompt_ok d"
  by (auto simp: handled_def prompt_ok_def)

lemma outcome_prompt: "prompt_ok d \<Longrightarrow> outcome_ok (Some (out, d, w))"
  by (simp add: prompt_cdbg_ok)

lemma not_idle_ok: "cdbg_ok d \<Longrightarrow> d_state d \<noteq> CDBG_STATE_IDLE \<Longrightarrow> prompt_ok d"
  by (simp add: prompt_ok_def)

lemma report_exit_outcome: "cdbg_ok d \<Longrightarrow> d_state d = CDBG_STATE_IDLE \<Longrightarrow> outcome_ok (Some (report_exit_ok K d w))"
  using report_exit_prompt [of K d w] by (cases "report_process_exit K d w") (auto simp: report_exit_ok_def)

lemma report_stop_ok: "report_stop K d w = (rc, e, w') \<Longrightarrow> cdbg_ok d \<Longrightarrow> cdbg_ok e \<and> d_state e = d_state d"
  using setup_ok [of d e] report_stop_setup [of K d w rc e w'] report_stop_state [of K d w rc e w'] by auto

lemma after_wait_outcome:
  assumes "cdbg_ok d"
  shows "outcome_ok (Some (after_wait K rc d w))"
  using assms report_exit_outcome [of d K w]
  by (auto simp: after_wait_def not_idle_ok split: prod.split dest!: report_stop_ok)

lemma continue_outcome: "prompt_ok d \<Longrightarrow> outcome_ok (cdbg_repl_cmd_continue K d w)"
  by (auto simp: cdbg_repl_cmd_continue_def prompt_cdbg_ok report_exit_outcome after_wait_outcome split: bind_split prod.split
      dest!: continue_setup wait_setup simp: setup_ok)

lemma line_outcome:
  assumes "\<And>rc e w'. command K d w = Some (rc, e, w') \<Longrightarrow> same_setup d e" "prompt_ok d"
  shows "outcome_ok (repl_line_command command K d w)"
  using assms by (auto simp: repl_line_command_def prompt_cdbg_ok report_exit_outcome setup_ok not_idle_ok split: bind_split prod.split)

lemma si_outcome: "prompt_ok d \<Longrightarrow> outcome_ok (cdbg_repl_cmd_si K d w)"
  by (auto simp: cdbg_repl_cmd_si_def prompt_cdbg_ok after_wait_outcome split: bind_split prod.split
      dest!: single_step_setup wait_setup simp: setup_ok)

lemma regs_outcome: "prompt_ok d \<Longrightarrow> outcome_ok (Some (cdbg_repl_cmd_regs K d w))"
  by (auto simp: cdbg_repl_cmd_regs_def prompt_cdbg_ok split: prod.split bool.split
      dest!: refresh_inspects intro: inspects_ok prompt_cdbg_ok)

lemma kill_outcome: "prompt_ok d \<Longrightarrow> outcome_ok (cdbg_repl_cmd_kill K d w)"
  by (auto simp: cdbg_repl_cmd_kill_def prompt_cdbg_ok split: bind_split prod.split dest: stop_ok)

lemma quit_outcome: "prompt_ok d \<Longrightarrow> outcome_ok (cdbg_repl_cmd_quit K d w)"
  by (auto simp: cdbg_repl_cmd_quit_def prompt_cdbg_ok split: bind_split prod.split dest!: stop_ok)
    (simp_all add: prompt_ok_def cdbg_ok_def)

lemmas handler_outcomes = continue_outcome si_outcome regs_outcome kill_outcome quit_outcome

lemma step_outcomes: "prompt_ok d \<Longrightarrow> outcome_ok (cdbg_repl_cmd_step K d w)" "prompt_ok d \<Longrightarrow> outcome_ok (cdbg_repl_cmd_next K d w)"
  by (auto simp: cdbg_repl_cmd_step_def cdbg_repl_cmd_next_def intro!: line_outcome dest: step_next_setup)

lemma looking_outcome: "inspects d e \<Longrightarrow> prompt_ok d \<Longrightarrow> outcome_ok (handled (rc, e, w))"
  by (simp add: outcome_handled inspects_ok)

lemma handled_keeps:
  assumes "\<And>rc e w'. r = (rc, e, w') \<Longrightarrow> prompt_ok e"
  shows "outcome_ok (handled r)"
  using assms by (cases r) (simp add: outcome_handled)

lemma run_outcome: "prompt_ok d \<Longrightarrow> outcome_ok (Option.bind (cmd_run K base d args w) handled)"
  by (auto split: bind_split intro!: handled_keeps intro: cmd_run_ok)

lemma examine_outcome: "prompt_ok d \<Longrightarrow> outcome_ok (examine_words K d ws w)"
  by (auto simp: examine_words_def prompt_cdbg_ok split: list.split intro!: handled_keeps intro: inspects_ok dest: looks_inspects)

lemmas table_commands_ok = set_ok lock_ok unlock_ok break_ok del_ok watch_ok unwatch_ok

lemma handled_outcomes:
  assumes "prompt_ok d"
  shows "outcome_ok (handled (cdbg_frame_up K d w))" "outcome_ok (handled (cmd_print_from_repl strtod K d cmd s w))"
    "outcome_ok (handled (cmd_set strtod itd K d s w))" "outcome_ok (handled (cmd_show K d s w))"
    "outcome_ok (handled (cmd_backtrace K d w))" "outcome_ok (handled (cmd_threads K d w))"
    "outcome_ok (handled (cmd_thread K d s w))" "outcome_ok (handled (cmd_lock K d s w))"
    "outcome_ok (handled (cmd_unlock K d w))" "outcome_ok (handled (cmd_leaks K d w))"
    "outcome_ok (handled (cmd_break K d s w))" "outcome_ok (handled (cmd_del K d s w))"
    "outcome_ok (handled (cmd_watch strtod K d s w))" "outcome_ok (handled (cmd_unwatch K d s w))"
    "outcome_ok (handled (cmd_dis K d s w))" "outcome_ok (handled (cmd_list K d s w))" "outcome_ok (handled (cmd_lines K d s w))"
  unfolding cmd_print_from_repl_def
  by (rule handled_keeps, ((erule session_dests [THEN inspects_ok], rule assms) | (erule table_commands_ok, rule assms)))+

lemma line_rule_outcome: "prompt_ok d \<Longrightarrow> outcome_ok (line_rule H K d ts w)"
  by (induction H K d ts w rule: line_rule.induct)
    (simp_all add: outcome_prompt handler_outcomes step_outcomes run_outcome examine_outcome handled_outcomes del: outcome_simps(2))

lemma dispatch_outcome: "prompt_ok d \<Longrightarrow> outcome_ok (cdbg_repl_dispatch_line H K d line w)"
  by (simp add: cdbg_repl_dispatch_line_def line_rule_outcome)

section \<open>Sessions\<close>

lemma init_ok: "prompt_ok (cdbg_init a)"
  by (simp add: cdbg_init_def prompt_ok_def cdbg_ok_def list_all_iff CDBG_MAX_PATH_def)

text \<open>
  The states at the prompt. Between two lines the operating system and the debuggee may have moved on, so a line starts in any
  world.
\<close>

inductive session :: "host \<Rightarrow> 'w kern \<Rightarrow> cdbg \<Rightarrow> bool" for H :: host and K :: "'w kern" where
  session_start: "\<lbrakk>cdbg_set_run_target (cdbg_init (k_arch K)) argv = (True, d);
     cdbg_run K (h_section_base H) d None w = Some (0, e, w')\<rbrakk> \<Longrightarrow> session H K e"
| session_line: "\<lbrakk>session H K d; cdbg_repl_dispatch_line H K d line w = Some (CDBG_REPL_OK, e, w')\<rbrakk> \<Longrightarrow> session H K e"

inductive_cases session_cases: "session H K d"

lemma session_ok: "session H K d \<Longrightarrow> prompt_ok d"
proof (induction rule: session.induct)
  case (session_start argv d w e w')
  show ?case by (rule run_ok [OF session_start(2) set_run_target_ok [OF session_start(1) init_ok]])
next
  case (session_line d line w e w')
  then show ?case using dispatch_outcome [of d H K line w] by simp
qed

lemma repl_loop_ok: "repl_loop H K d lines w = Some (rc, e, w') \<Longrightarrow> prompt_ok d \<Longrightarrow> cdbg_ok e \<and> (rc = 0 \<longrightarrow> prompt_ok e)"
proof (induction lines arbitrary: d w)
  case Nil
  then show ?case by (auto simp: prompt_cdbg_ok)
next
  case (Cons line lines)
  let ?l = "trim_space (before (CHR 0x0A) line)" and ?w = "k_print K ''cdbg> '' [] w"
  show ?case
  proof (cases "?l = []")
    case True
    with Cons.prems have "repl_loop H K d lines ?w = Some (rc, e, w')" by simp
    from Cons.IH [OF this Cons.prems(2)] show ?thesis .
  next
    case False
    with Cons.prems(1) obtain out d1 w1 where
      o: "cdbg_repl_dispatch_line H K d ?l ?w = Some (out, d1, w1)" by (auto split: option.splits)
    with dispatch_outcome [OF Cons.prems(2), of H K ?l ?w] Cons False show ?thesis
      by (cases out) auto
  qed
qed

text \<open>C1: in every state at the prompt (reached from the start of the debugger by any input lines, in whatever state the system
  is at each line) the tables are within their limits: at most 64 breakpoints with arguments below 128 characters, at most 4
  watchpoints of 1, 2, 4 or 8 bytes, at most 64 suspended threads which are recorded only while the lock is active and never
  include the locked one, run arguments within their buffers, and a recorded process is never idle.\<close>

theorem session_keeps_tables:
  assumes "session H K d"
  shows "cdbg_ok d \<and> (0 < d_pid d \<longrightarrow> d_state d \<noteq> CDBG_STATE_IDLE)"
  using session_ok [OF assms] by (auto simp: prompt_ok_def)

definition null_host :: host where
  "null_host = \<lparr>h_strtod = (\<lambda>s. 0), h_int_to_double = (\<lambda>v. v), h_section_base = 0x100000\<rparr>"

text \<open>A machine on which a spawned program stops at its entry.\<close>

definition boot_machine :: sim where
  "boot_machine = (sim_machine X86_64 0x400)\<lparr>s_waits := [Wait_Status 0x57F]\<rparr>"

definition booted :: "(int \<times> cdbg \<times> sim) option" where
  "booted = cdbg_run (sim_kern X86_64) (h_section_base null_host)
     (snd (cdbg_set_run_target (cdbg_init X86_64) [''/a''])) None boot_machine"

definition booted_break :: "(cdbg_repl_outcome \<times> cdbg \<times> sim) option" where
  "booted_break = (case booted of Some (rc, d, w) \<Rightarrow>
       cdbg_repl_dispatch_line null_host (sim_kern X86_64) d ''break 0x500'' w | None \<Rightarrow> None)"

declare cdbg_process_wait.simps [code] first_text_region.simps [code]

lemma booted_run: "map_option (\<lambda>(rc, d, w). (rc, d_state d)) booted = Some (0, CDBG_STATE_STOPPED)"
  by code_simp

lemma booted_break_run: "map_option (\<lambda>(out, d, w). (out, map bp_spec (d_breakpoints d), d_pid d)) booted_break
    = Some (CDBG_REPL_OK, [''0x500''], 77)"
  by code_simp

lemma booted_session: "\<exists>d w. booted = Some (0, d, w) \<and> session null_host (sim_kern X86_64) d"
proof -
  obtain d w where b: "booted = Some (0, d, w)" using booted_run by auto
  moreover have "cdbg_set_run_target (cdbg_init X86_64) [''/a''] = (True, snd (cdbg_set_run_target (cdbg_init X86_64) [''/a'']))"
    by code_simp
  ultimately show ?thesis using b session_start [of "sim_kern X86_64" "[''/a'']"] by (auto simp: booted_def sim_kern_fields)
qed

lemma booted_break_session: "\<exists>d w. booted_break = Some (CDBG_REPL_OK, d, w) \<and> session null_host (sim_kern X86_64) d
    \<and> map bp_spec (d_breakpoints d) = [''0x500''] \<and> d_pid d = 77"
proof -
  obtain d w where b: "booted_break = Some (CDBG_REPL_OK, d, w)"
    and o: "map bp_spec (d_breakpoints d) = [''0x500'']" "d_pid d = 77"
    using booted_break_run by auto
  from booted_session obtain d0 w0 where s: "booted = Some (0, d0, w0)" "session null_host (sim_kern X86_64) d0" by blast
  from s(2) have "session null_host (sim_kern X86_64) d"
    by (rule session_line) (use b in \<open>simp add: booted_break_def s(1)\<close>)
  with b o show ?thesis by auto
qed

theorem session_keeps_tables_witness:
  "\<exists>d. session null_host (sim_kern X86_64) d \<and> map bp_spec (d_breakpoints d) = [''0x500''] \<and> d_pid d = 77
     \<and> cdbg_ok d \<and> d_state d \<noteq> CDBG_STATE_IDLE"
proof -
  from booted_break_session obtain d where d: "session null_host (sim_kern X86_64) d"
    "map bp_spec (d_breakpoints d) = [''0x500'']" "d_pid d = 77" by auto
  with session_keeps_tables [OF d(1)] show ?thesis by auto
qed

end
