(* ===== verification/Armed.thy ===== *)
theory Armed
  imports Session
begin

text \<open>
  Which breakpoints are armed when the debuggee has stopped. A wait that succeeds re-arms all of them except one at the
  program counter, and the report of a breakpoint hit disarms the one that was hit; so a line-level command leaves
  all but a few addresses armed. \<open>arming_mover\<close> is what the loop of \<open>step\<close> and \<open>next\<close> needs of one way to step, with the
  number of addresses that a step may leave disarmed; the two commands interpret it.
\<close>

definition armed_but :: "addr list \<Rightarrow> cdbg \<Rightarrow> bool" where
  "armed_but ps d = list_all (\<lambda>bp. bp_enabled bp \<or> bp_addr bp \<in> set ps) (d_breakpoints d)"

lemma armed_but_breakpoints: "d_breakpoints e = d_breakpoints d \<Longrightarrow> armed_but ps e = armed_but ps d"
  by (simp add: armed_but_def)

lemma armed_but_one: "armed_but [p] d \<longleftrightarrow> (\<forall>bp \<in> set (d_breakpoints d). bp_addr bp \<noteq> p \<longrightarrow> bp_enabled bp)"
  by (auto simp: armed_but_def list_all_iff)

lemma armed_but_mono: "armed_but ps d \<Longrightarrow> set ps \<subseteq> set qs \<Longrightarrow> armed_but qs d"
  by (auto simp: armed_but_def list_all_iff)

section \<open>After a wait\<close>

lemma wait_armed:
  assumes "cdbg_wait K d w = Some (0, e, w')"
  shows "\<exists>p. armed_but [p] e"
proof -
  from assms obtain st w1 where
    "reenable_breakpoints_after_step K (d\<lparr>d_wait_status := st, d_state := CDBG_STATE_STOPPED\<rparr>) w1 = (True, e, w')"
    by (auto simp: cdbg_wait_def Let_def split: bind_splits option.splits if_splits prod.splits bool.splits)
  from reenable_after_step_all [OF this] have "armed_but [cdbg_regs_pc (d_regs e)] e" by (simp add: armed_but_def)
  then show ?thesis by blast
qed

section \<open>After the report of a stop\<close>

definition hit_one :: "cdbg \<Rightarrow> cdbg \<Rightarrow> bool" where
  "hit_one d e \<longleftrightarrow> d_breakpoints e = d_breakpoints d \<or> (\<exists>i bp. d_breakpoints e = (d_breakpoints d)[i := bp])"

lemma hit_one_armed:
  assumes "hit_one d e" "armed_but ps d"
  shows "\<exists>q. armed_but (q # ps) e"
  using assms(1) unfolding hit_one_def
proof (elim disjE exE)
  assume "d_breakpoints e = d_breakpoints d"
  with assms(2) have "armed_but (q # ps) e" for q by (auto simp: armed_but_def list_all_iff)
  then show ?thesis by blast
next
  fix i bp assume "d_breakpoints e = (d_breakpoints d)[i := bp]"
  with set_update_subset_insert [of "d_breakpoints d" i bp] assms(2) have "armed_but (bp_addr bp # ps) e"
    by (auto simp: armed_but_def list_all_iff)
  then show ?thesis by blast
qed

lemma refresh_breakpoints: "cdbg_refresh_regs K d w = (ok, e) \<Longrightarrow> d_breakpoints e = d_breakpoints d"
  by (auto dest!: refresh_regs_cases)

lemma handle_hit_one: "handle_breakpoint_hit K d i w = (rc, e, w') \<Longrightarrow> hit_one d e"
proof -
  assume h: "handle_breakpoint_hit K d i w = (rc, e, w')"
  obtain ok bp w1 where b: "cdbg_bp_disable K (d_breakpoints d ! i) (d_pid d) w = (ok, bp, w1)" by (metis prod_cases3)
  have "d_breakpoints e = d_breakpoints d \<or> d_breakpoints e = (d_breakpoints d)[i := bp]"
    using h b by (auto simp: handle_breakpoint_hit_def Let_def split: prod.splits bool.splits if_splits dest!: refresh_breakpoints)
  then show ?thesis by (auto simp: hit_one_def)
qed

lemma report_watchpoint_breakpoints: "report_watchpoint_hit K d i w = (e, w') \<Longrightarrow> d_breakpoints e = d_breakpoints d"
  by (auto simp: report_watchpoint_hit_def Let_def)

lemma switch_tid_breakpoints: "d_breakpoints (switch_current_tid_to_breakpoint_hit K d w) = d_breakpoints d"
  by (simp add: switch_current_tid_to_breakpoint_hit_def split: option.split)

lemma hit_one_cong: "d_breakpoints d = d_breakpoints d' \<Longrightarrow> hit_one d e = hit_one d' e"
  by (simp add: hit_one_def)

lemma report_stop_one: "report_stop K d w = (rc, e, w') \<Longrightarrow> hit_one d e"
proof -
  assume r: "report_stop K d w = (rc, e, w')"
  let ?w1 = "resync_watchpoints_to_all_threads K d w"
  obtain ok d2 where f: "cdbg_refresh_regs K (switch_current_tid_to_breakpoint_hit K d ?w1) ?w1 = (ok, d2)" by fastforce
  have b: "d_breakpoints d2 = d_breakpoints d" using refresh_breakpoints [OF f] switch_tid_breakpoints by simp
  have "d_breakpoints e = d_breakpoints d2 \<or> (\<exists>i w2. handle_breakpoint_hit K d2 i w2 = (rc, e, w'))"
    using r f by (auto simp: report_stop_def Let_def split: bool.splits option.splits prod.splits
        dest!: report_watchpoint_breakpoints)
  with b handle_hit_one hit_one_cong [OF b] show ?thesis by (fastforce simp: hit_one_def)
qed

lemma finish_temp_one: "finish_temp_breakpoint K d bp w = (rc, e, w') \<Longrightarrow> hit_one d e"
proof -
  assume r: "finish_temp_breakpoint K d bp w = (rc, e, w')"
  obtain ok d1 where f: "cdbg_refresh_regs K d w = (ok, d1)" by fastforce
  note b = refresh_breakpoints [OF f]
  have "d_breakpoints e = d_breakpoints d1 \<or> (\<exists>w2. report_stop K d1 w2 = (rc, e, w'))"
    using r f by (auto simp: finish_temp_breakpoint_def Let_def split: bool.splits prod.splits if_splits arch.splits)
  with b report_stop_one hit_one_cong [OF b] show ?thesis by (fastforce simp: hit_one_def)
qed

lemma after_step_one:
  assumes "after_step K f l d w = (r, e, w')"
  shows "hit_one d e" "r = Inr u \<Longrightarrow> d_breakpoints e = d_breakpoints d"
proof -
  obtain ok d1 where f: "cdbg_refresh_regs K d w = (ok, d1)" by fastforce
  note b = refresh_breakpoints [OF f]
  have "d_breakpoints e = d_breakpoints d1 \<or> (\<exists>rc. r = Inl rc \<and> report_stop K d1 w = (rc, e, w'))"
    using assms f by (auto simp: after_step_def Let_def split: bool.splits prod.splits if_splits option.splits
        dest!: report_watchpoint_breakpoints)
  with b report_stop_one hit_one_cong [OF b] show "hit_one d e" "r = Inr u \<Longrightarrow> d_breakpoints e = d_breakpoints d"
    by (fastforce simp: hit_one_def)+
qed

section \<open>One step\<close>

lemma step_and_wait_armed:
  "step_and_wait K d w = Some (Inr u, e, w') \<Longrightarrow> \<exists>p. armed_but [p] e"
  "step_and_wait K d w = Some (Inl 0, e, w') \<Longrightarrow> d_state e \<noteq> CDBG_STATE_STOPPED"
  by (auto simp: step_and_wait_def split: prod.splits if_splits bind_splits intro: wait_armed)

lemma over_call_armed:
  assumes "step_over_call K d ra w = Some (0, e, w')" "d_state e = CDBG_STATE_STOPPED"
  shows "\<exists>p q. armed_but [q, p] e"
proof -
  from assms obtain bp d2 w2 d3 w3 where s: "cdbg_wait K d2 w2 = Some (0, d3, w3)"
    "finish_temp_breakpoint K d3 bp w3 = (0, e, w')"
    by (auto simp: step_over_call_def split: prod.splits bool.splits if_splits bind_splits)
  obtain p where "armed_but [p] d3" using wait_armed [OF s(1)] by blast
  from hit_one_armed [OF finish_temp_one [OF s(2)] this] show ?thesis by blast
qed

lemma next_and_wait_armed:
  "next_and_wait K d w = Some (Inr u, e, w') \<Longrightarrow> \<exists>p q. armed_but [q, p] e"
  "next_and_wait K d w = Some (Inl 0, e, w') \<Longrightarrow> d_state e \<noteq> CDBG_STATE_STOPPED"
proof -
  assume "next_and_wait K d w = Some (Inr u, e, w')"
  then consider ra where "step_over_call K d ra w = Some (0, e, w')" "d_state e = CDBG_STATE_STOPPED"
    | "step_and_wait K d w = Some (Inr u, e, w')"
    by (auto simp: next_and_wait_def split: option.splits prod.splits if_splits bind_splits)
  then show "\<exists>p q. armed_but [q, p] e"
  proof cases
    case (1 ra)
    then show ?thesis by (rule over_call_armed)
  next
    case 2
    from step_and_wait_armed(1) [OF this] obtain p where "armed_but [p] e" by (rule exE)
    then have "armed_but [p, p] e" by (rule armed_but_mono) simp
    then show ?thesis by blast
  qed
next
  assume "next_and_wait K d w = Some (Inl 0, e, w')"
  then show "d_state e \<noteq> CDBG_STATE_STOPPED"
    by (auto simp: next_and_wait_def split: option.splits prod.splits if_splits bind_splits dest!: step_and_wait_armed(2))
qed

section \<open>The line loop\<close>

locale arming_mover =
  fixes mv :: "'w kern \<Rightarrow> cdbg \<Rightarrow> 'w \<Rightarrow> ((int + unit) \<times> cdbg \<times> 'w) option" and left :: nat
  assumes mv_goes_on: "mv K d w = Some (Inr u, e, w') \<Longrightarrow> \<exists>ps. length ps \<le> left \<and> armed_but ps e"
    and mv_ends: "mv K d w = Some (Inl 0, e, w') \<Longrightarrow> d_state e \<noteq> CDBG_STATE_STOPPED"
    and some_left: "1 \<le> left"
begin

lemma after_step_left:
  assumes "hit_one d e" "\<exists>ps. length ps \<le> left \<and> armed_but ps d"
  shows "\<exists>ps. length ps \<le> Suc left \<and> armed_but ps e"
proof -
  obtain ps where ps: "length ps \<le> left" "armed_but ps d" using assms(2) by blast
  from hit_one_armed [OF assms(1) ps(2)] obtain q where "armed_but (q # ps) e" by blast
  with ps(1) show ?thesis by (intro exI [of _ "q # ps"]) simp
qed

lemma line_loop_armed:
  "line_loop mv K f l n g d w = Some (0, g', e, w') \<Longrightarrow> d_state e = CDBG_STATE_STOPPED \<Longrightarrow>
     \<exists>ps. length ps \<le> Suc left \<and> armed_but ps e"
proof (induction n arbitrary: g d w)
  case 0
  then show ?case by simp
next
  case (Suc n)
  obtain g1 w1 where g: "step_thread_guard_catch_up K d g w = (g1, w1)" by fastforce
  obtain r d2 w2 where m: "mv K d w1 = Some (r, d2, w2)" using Suc.prems g by (cases "mv K d w1") auto
  show ?case
  proof (cases r)
    case (Inl rc)
    with Suc.prems g m mv_ends [of K d w1 d2 w2] show ?thesis by auto
  next
    case (Inr u)
    obtain r3 d3 w3 where a: "after_step K f l d2 w2 = (r3, d3, w3)" by (metis prod_cases3)
    show ?thesis
    proof (cases r3)
      case (Inl rc)
      with Suc.prems(1) g m Inr a have "d3 = e" by simp
      with after_step_left [OF after_step_one(1) [OF a]] mv_goes_on [OF m [unfolded Inr]] show ?thesis by simp
    next
      case (Inr u')
      with Suc.prems(1) g m a \<open>r = Inr u\<close> have "line_loop mv K f l n g1 d3 w3 = Some (0, g', e, w')" by simp
      then show ?thesis using Suc.prems(2) by (rule Suc.IH)
    qed
  qed
qed

lemma without_line_armed:
  assumes "step_without_line K d w = Some (0, e, w')" "d_state e = CDBG_STATE_STOPPED"
  shows "\<exists>ps. length ps \<le> Suc left \<and> armed_but ps e"
proof -
  obtain r d1 w1 where m: "step_and_wait K d w = Some (r, d1, w1)"
    using assms(1) by (cases "step_and_wait K d w") (auto simp: step_without_line_def)
  show ?thesis
  proof (cases r)
    case (Inl rc)
    with assms m show ?thesis by (auto simp: step_without_line_def dest: step_and_wait_armed(2))
  next
    case (Inr u)
    with assms(1) m obtain rc where s: "report_stop K d1 w1 = (rc, e, w')"
      by (auto simp: step_without_line_def split: prod.splits)
    obtain p where "armed_but [p] d1" using step_and_wait_armed(1) [OF m [unfolded Inr]] by (rule exE)
    with some_left have "\<exists>ps. length ps \<le> left \<and> armed_but ps d1" by (intro exI [of _ "[p]"]) simp
    with report_stop_one [OF s] show ?thesis by (rule after_step_left)
  qed
qed

lemma line_command_armed:
  "line_command mv K d w = Some (0, e, w') \<Longrightarrow> d_state e = CDBG_STATE_STOPPED \<Longrightarrow>
     \<exists>ps. length ps \<le> Suc left \<and> armed_but ps e"
  by (auto simp: line_command_def split: prod.splits bool.splits option.splits bind_splits
      intro: line_loop_armed without_line_armed)

end

interpretation step_arms: arming_mover step_and_wait 1
proof (unfold_locales, goal_cases)
  case (1 K d w u e w')
  from step_and_wait_armed(1) [OF 1] obtain p where "armed_but [p] e" by (rule exE)
  then show ?case by (intro exI [of _ "[p]"]) simp
next
  case 2
  then show ?case by (rule step_and_wait_armed(2))
qed simp

interpretation next_arms: arming_mover next_and_wait 2
proof (unfold_locales, goal_cases)
  case (1 K d w u e w')
  from next_and_wait_armed(1) [OF 1] obtain p q where "armed_but [q, p] e" by (elim exE)
  then show ?case by (intro exI [of _ "[q, p]"]) simp
next
  case 2
  then show ?case by (rule next_and_wait_armed(2))
qed simp

lemma line_commands_armed:
  assumes "d_state e = CDBG_STATE_STOPPED"
  shows "cdbg_step_next_line K d w = Some (0, e, w') \<Longrightarrow> \<exists>ps. length ps \<le> 2 \<and> armed_but ps e"
    and "cdbg_next_source_line K d w = Some (0, e, w') \<Longrightarrow> \<exists>ps. length ps \<le> 3 \<and> armed_but ps e"
  using step_arms.line_command_armed [OF _ assms, of K d w w'] next_arms.line_command_armed [OF _ assms, of K d w w']
  by (simp_all add: cdbg_step_next_line_def cdbg_next_source_line_def eval_nat_numeral)

section \<open>The entry stop\<close>

lemma finish_entry_breakpoints:
  "finish_entry_stop K d bp a l w = (rc, e, w') \<Longrightarrow> d_breakpoints e = d_breakpoints d"
  by (auto simp: finish_entry_stop_def Let_def split: if_splits prod.splits bool.splits)

lemma entry_stop_armed:
  assumes "run_to_entry_stop K d w = Some (rc, e, w')" "0 \<le> rc" "armed_but [] d"
  shows "\<exists>p. armed_but [p] e"
proof -
  from assms(1,2) consider "e = d" | d2 w2 d3 w3 where "cdbg_wait K d2 w2 = Some (0, d3, w3)" "d_breakpoints e = d_breakpoints d3"
    by (auto simp: run_to_entry_stop_def split: if_splits option.splits prod.splits bool.splits bind_splits
        dest!: finish_entry_breakpoints refresh_breakpoints)
  then show ?thesis
  proof cases
    case 1
    with assms(3) have "armed_but [p] e" for p by (auto intro: armed_but_mono)
    then show ?thesis by blast
  next
    case 2
    then show ?thesis using wait_armed armed_but_breakpoints by metis
  qed
qed

end
