(* ===== verification/Liveness.thy ===== *)
theory Liveness
  imports Armed
begin

text \<open>
  Commands that return. The only unbounded wait of the debugger is \<open>cdbg_process_wait\<close>, which calls \<open>waitpid\<close> again
  as long as it is interrupted; a call may also block for ever, as after \<open>continue\<close> on an endless program, and then the
  command never returns (\<open>continue_blocks\<close>). The lines that do not wait always return; the others return when every wait is
  answered: the stepping commands are bounded by \<open>CDBG_MAX_STEP_ITERATIONS\<close>, all others are structural on their input or
  on the tables. (\<open>run\<close> also loads debug information, see the loops of LineTable and LineLoad.)
\<close>

section \<open>The wait\<close>

text \<open>\<open>waitpid\<close> gives an answer within \<open>n\<close> calls; a call that blocks gives none.\<close>

fun answers_within :: "'w kern \<Rightarrow> int \<Rightarrow> nat \<Rightarrow> 'w \<Rightarrow> bool" where
  "answers_within K pid 0 w = False"
| "answers_within K pid (Suc n) w = (case k_waitpid K pid w of
       None \<Rightarrow> False
     | Some (Wait_Eintr, w1) \<Rightarrow> answers_within K pid n w1
     | _ \<Rightarrow> True)"

lemma process_wait_blocks: "k_waitpid K pid w = None \<Longrightarrow> cdbg_process_wait K pid w = None"
  by (subst cdbg_process_wait.simps) simp

text \<open>\<open>continue\<close> on a program that neither stops nor exits does not come back.\<close>

lemma continue_blocks:
  assumes "d_state d \<noteq> CDBG_STATE_IDLE" "cdbg_continue K d w = Some (0, d1, w1)" "d_state d1 \<noteq> CDBG_STATE_IDLE"
    and "k_waitpid K (d_pid d1) w1 = None"
  shows "cdbg_repl_cmd_continue K d w = None"
  using assms by (simp add: cdbg_repl_cmd_continue_def cdbg_wait_def process_wait_blocks)

text \<open>The commands that wait for the debuggee, and those among the input lines.\<close>

definition wait_tokens :: "cmd_token list" where
  "wait_tokens = [RUN_TOK, CONTINUE_TOK, STEP_TOK, SI_TOK, NEXT_TOK, KILL_TOK, QUIT_TOK]"

definition line_tokens :: "string \<Rightarrow> cmd_token list" where
  "line_tokens line = cmd_lex INITIAL (trim_space (before (CHR 0x0A) line))"

definition run_line :: "string \<Rightarrow> bool" where
  "run_line line \<longleftrightarrow> RUN_TOK \<in> set (take 1 (line_tokens line))"

definition wait_line :: "string \<Rightarrow> bool" where
  "wait_line line \<longleftrightarrow> list_ex (\<lambda>t. t \<in> set wait_tokens) (take 1 (line_tokens line))"

section \<open>Lines without a wait\<close>

lemma handled_returns [simp]: "handled r \<noteq> None"
  by (simp add: handled_def split: prod.split)

lemma examine_returns [simp]: "examine_words K d ws w \<noteq> None"
  by (simp add: examine_words_def split: list.split del: not_None_eq)

lemma quick_rule_returns: "ts = [] \<or> hd ts \<notin> set wait_tokens \<Longrightarrow> line_rule H K d ts w \<noteq> None"
proof (cases ts)
  case (Cons t ts')
  assume "ts = [] \<or> hd ts \<notin> set wait_tokens"
  with Cons show ?thesis by (cases t) (simp_all add: wait_tokens_def split: if_split del: not_None_eq)
qed simp

lemma loop_returns_if:
  assumes "\<And>line d w. line \<in> set lines \<Longrightarrow> line_rule H K d (line_tokens line) w \<noteq> None"
  shows "repl_loop H K d lines w \<noteq> None"
  using assms
proof (induction lines arbitrary: d w)
  case Nil
  show ?case by simp
next
  case (Cons line lines)
  let ?l = "trim_space (before (CHR 0x0A) line)" and ?w = "k_print K ''cdbg> '' [] w"
  from Cons.prems [of line d ?w] obtain out d1 w1 where "cdbg_repl_dispatch_line H K d ?l ?w = Some (out, d1, w1)"
    by (fastforce simp: cdbg_repl_dispatch_line_def line_tokens_def)
  with Cons show ?case by (cases out) (simp_all add: Let_def del: not_None_eq)
qed

lemma quick_loop_returns: "list_all (\<lambda>line. \<not> wait_line line) lines \<Longrightarrow> repl_loop H K d lines w \<noteq> None"
proof (rule loop_returns_if)
  fix line d w
  assume "list_all (\<lambda>line. \<not> wait_line line) lines" "line \<in> set lines"
  then have "\<not> wait_line line" by (auto simp: list_all_iff)
  then have "line_tokens line = [] \<or> hd (line_tokens line) \<notin> set wait_tokens"
    by (cases "line_tokens line") (auto simp: wait_line_def)
  then show "line_rule H K d (line_tokens line) w \<noteq> None" by (rule quick_rule_returns)
qed

section \<open>Lines with a wait\<close>

locale answering_wait =
  fixes K :: "'w kern"
  assumes answers: "\<exists>n. answers_within K pid n w"
begin

lemma process_wait_answers: "answers_within K pid n w \<Longrightarrow> \<exists>r. cdbg_process_wait K pid w = Some r"
proof (induction n arbitrary: w)
  case 0
  then show ?case by simp
next
  case (Suc n)
  then show ?case
    by (subst cdbg_process_wait.simps) (fastforce split: option.splits prod.splits wait_result.splits)
qed

lemma process_wait_returns [simp]: "cdbg_process_wait K pid w \<noteq> None"
  using process_wait_answers answers [of pid w] by fastforce

lemma wait_returns [simp]: "cdbg_wait K d w \<noteq> None"
  by (simp add: cdbg_wait_def Let_def split: bind_split option.split prod.split del: not_None_eq)

lemma over_breakpoint_returns [simp]: "step_over_disabled_breakpoint K d w \<noteq> None"
  by (simp add: step_over_disabled_breakpoint_def split: prod.split bool.split del: not_None_eq)

lemma continue_returns [simp]: "cdbg_continue K d w \<noteq> None"
  by (simp add: cdbg_continue_def split: bind_split prod.split bool.split del: not_None_eq)

lemma step_and_wait_returns [simp]: "step_and_wait K d w \<noteq> None"
  by (simp add: step_and_wait_def split: bind_split prod.split del: not_None_eq)

lemma over_call_returns [simp]: "step_over_call K d ra w \<noteq> None"
  by (simp add: step_over_call_def split: bind_split prod.split bool.split del: not_None_eq)

lemma next_and_wait_returns [simp]: "next_and_wait K d w \<noteq> None"
  by (simp add: next_and_wait_def split: bind_split prod.split option.split del: not_None_eq)

lemma line_loop_returns:
  assumes "\<And>d w. mv K d w \<noteq> None"
  shows "line_loop mv K file line n guard d w \<noteq> None"
proof (induction n arbitrary: guard d w)
  case 0
  show ?case by simp
next
  case (Suc n)
  obtain guard1 w1 where g: "step_thread_guard_catch_up K d guard w = (guard1, w1)" by fastforce
  obtain r d2 w2 where m: "mv K d w1 = Some (r, d2, w2)" using assms [of d w1] by auto
  obtain r3 d3 w3 where a: "after_step K file line d2 w2 = (r3, d3, w3)" by (metis prod_cases3)
  from g m a Suc.IH show ?case by (cases r; cases r3) simp_all
qed

lemma without_line_returns [simp]: "step_without_line K d w \<noteq> None"
  by (simp add: step_without_line_def split: bind_split sum.split prod.split del: not_None_eq)

lemma line_command_returns:
  assumes "\<And>d w. mv K d w \<noteq> None"
  shows "line_command mv K d w \<noteq> None"
  using line_loop_returns [of mv, OF assms]
  by (simp add: line_command_def split: prod.split bool.split option.split bind_split del: not_None_eq)

lemma step_commands_return [simp]: "cdbg_step_next_line K d w \<noteq> None" "cdbg_next_source_line K d w \<noteq> None"
  unfolding cdbg_step_next_line_def cdbg_next_source_line_def
  by (intro line_command_returns step_and_wait_returns next_and_wait_returns)+

lemma stop_returns [simp]: "stop_debuggee K d w \<noteq> None"
  by (simp add: stop_debuggee_def split: prod.split bool.split bind_split option.split del: not_None_eq)

lemma handlers_return [simp]:
  "cdbg_repl_cmd_continue K d w \<noteq> None" "cdbg_repl_cmd_step K d w \<noteq> None" "cdbg_repl_cmd_next K d w \<noteq> None"
  "cdbg_repl_cmd_si K d w \<noteq> None" "cdbg_repl_cmd_kill K d w \<noteq> None" "cdbg_repl_cmd_quit K d w \<noteq> None"
  by (simp_all add: cdbg_repl_cmd_continue_def cdbg_repl_cmd_step_def cdbg_repl_cmd_next_def repl_line_command_def
      cdbg_repl_cmd_si_def cdbg_repl_cmd_kill_def cdbg_repl_cmd_quit_def split: bind_split prod.split del: not_None_eq)

lemma rule_returns: "ts = [] \<or> hd ts \<noteq> RUN_TOK \<Longrightarrow> line_rule H K d ts w \<noteq> None"
proof (cases ts)
  case (Cons t ts')
  assume "ts = [] \<or> hd ts \<noteq> RUN_TOK"
  with Cons show ?thesis by (cases t) (simp_all split: if_split del: not_None_eq)
qed simp

lemma loop_returns: "list_all (\<lambda>line. \<not> run_line line) lines \<Longrightarrow> repl_loop H K d lines w \<noteq> None"
proof (rule loop_returns_if)
  fix line d w
  assume "list_all (\<lambda>line. \<not> run_line line) lines" "line \<in> set lines"
  then have "\<not> run_line line" by (auto simp: list_all_iff)
  then have "line_tokens line = [] \<or> hd (line_tokens line) \<noteq> RUN_TOK"
    by (cases "line_tokens line") (auto simp: run_line_def)
  then show "line_rule H K d (line_tokens line) w \<noteq> None" by (rule rule_returns)
qed

end

lemma sim_answers: "answers_within (sim_kern a) pid (Suc (length (s_waits w))) w"
proof (induction "s_waits w" arbitrary: w)
  case Nil
  then show ?case by (simp add: sim_kern_def)
next
  case (Cons r rs)
  from Cons(1) [of "w\<lparr>s_waits := rs\<rparr>"] Cons(2) [symmetric] show ?case
    by (cases r) (simp_all add: sim_kern_def)
qed

interpretation sim_wait: answering_wait "sim_kern a"
  by unfold_locales (rule exI, rule sim_answers)

section \<open>Properties\<close>

text \<open>C12: the prompt comes back. For every input without a \<open>run\<close> line, in whatever state the debuggee is, the loop over the
  lines returns when every wait is answered: each \<open>waitpid\<close> returns, and is interrupted only finitely often in a row.
  (On an endless program \<open>waitpid\<close> blocks after \<open>continue\<close>, and the loop does not return; \<open>step\<close> and \<open>next\<close> end although the
  source line they leave may itself be an endless loop.) Lines that do not run the debuggee return without any assumption on
  the system.\<close>

theorem repl_returns:
  assumes "answering_wait K \<and> list_all (\<lambda>line. \<not> run_line line) lines \<or> list_all (\<lambda>line. \<not> wait_line line) lines"
  shows "\<exists>rc e w'. repl_loop H K d lines w = Some (rc, e, w')"
proof -
  have "repl_loop H K d lines w \<noteq> None"
    using assms answering_wait.loop_returns [of K lines H d w] quick_loop_returns [of lines H K d w] by blast
  then show ?thesis by auto
qed

lemma step_lines: "list_all (\<lambda>line. \<not> run_line line) [''step'', ''next'', ''break 0x400'', []]"
  by code_simp

lemma quick_lines: "list_all (\<lambda>line. \<not> wait_line line) [''break 0x400'', ''lists'', ''help'']"
  by code_simp

text \<open>A system on which every wait blocks.\<close>

definition blocking_kern :: "sim kern" where
  "blocking_kern = (sim_kern X86_64)\<lparr>k_waitpid := \<lambda>pid w. None\<rparr>"

theorem repl_returns_witness:
  "(\<exists>rc e w'. repl_loop null_host (sim_kern X86_64) (stopped_dbg [armed_bp]) [''step'', ''next'', ''break 0x400'', []] waiting_machine
     = Some (rc, e, w')) \<and>
   (\<exists>rc e w'. repl_loop null_host blocking_kern (stopped_dbg [armed_bp]) [''break 0x400'', ''lists'', ''help''] waiting_machine
     = Some (rc, e, w'))"
proof (intro conjI repl_returns)
  show "answering_wait (sim_kern X86_64) \<and> list_all (\<lambda>line. \<not> run_line line) [''step'', ''next'', ''break 0x400'', []]
      \<or> list_all (\<lambda>line. \<not> wait_line line) [''step'', ''next'', ''break 0x400'', []]"
    by (intro disjI1 conjI sim_wait.answering_wait_axioms step_lines)
qed (rule disjI2, rule quick_lines)

text \<open>C17: stepping by line keeps the setup: whatever \<open>step\<close> and \<open>next\<close> run into, breakpoints keep their numbers, addresses and
  arguments, watchpoints their numbers, places, widths, modes, types and expressions, and the process id, the thread lock, the
  settings and the debug information do not change; the temporary breakpoint that \<open>next\<close> plants behind a call is never in the
  table. (What may change are the armed flags, the saved bytes, the recorded old values, the registers, the run state and
  the wait status.) And when the command succeeds with the debuggee stopped, every breakpoint is armed, except those at two
  addresses after \<open>step\<close> and three after \<open>next\<close>: where the waiting thread stood, and the breakpoints reported as hit.\<close>

theorem stepping_keeps_tables:
  assumes "cdbg_step_next_line K d w = Some (rc, e, w') \<and> left = (2 :: nat) \<or> cdbg_next_source_line K d w = Some (rc, e, w') \<and> left = 3"
  shows "same_setup d e
    \<and> (rc = 0 \<and> d_state e = CDBG_STATE_STOPPED \<longrightarrow>
        (\<exists>ps. length ps \<le> left \<and> (\<forall>bp \<in> set (d_breakpoints e). bp_addr bp \<notin> set ps \<longrightarrow> bp_enabled bp)))"
proof -
  have "\<exists>ps. length ps \<le> left \<and> armed_but ps e" if "rc = 0" "d_state e = CDBG_STATE_STOPPED"
    using assms that line_commands_armed [OF that(2), of K d w w'] by (elim disjE conjE) simp_all
  moreover have "same_setup d e" using assms by (elim disjE conjE) (erule step_next_setup)+
  ultimately show ?thesis by (fastforce simp: armed_but_def list_all_iff)
qed

text \<open>Four breakpoints, the last one disarmed, and a step that ends at the first.\<close>

definition four_bps :: cdbg where
  "four_bps = stopped_dbg [armed_bp, armed_bp\<lparr>bp_addr := 0x420\<rparr>, armed_bp\<lparr>bp_addr := 0x440\<rparr>,
     armed_bp\<lparr>bp_addr := 0x460, bp_enabled := False\<rparr>]"

definition walking_machine :: sim where
  "walking_machine = waiting_machine\<lparr>s_stops := [0x402]\<rparr>"

lemma sim_next:
  "map_option (\<lambda>(rc, e, w). (rc, d_state e)) (cdbg_next_source_line (sim_kern X86_64) four_bps walking_machine)
     = Some (0, CDBG_STATE_STOPPED)"
  by code_simp

lemma some_armed:
  assumes "distinct (map bp_addr bps)" "length ps < length bps" "\<forall>bp \<in> set bps. bp_addr bp \<notin> set ps \<longrightarrow> bp_enabled bp"
  shows "list_ex bp_enabled bps"
proof (rule ccontr)
  assume "\<not> list_ex bp_enabled bps"
  with assms(3) have "set (map bp_addr bps) \<subseteq> set ps" by (auto simp: list_ex_iff)
  from card_mono [OF finite_set this] card_length [of ps]
  have "card (set (map bp_addr bps)) \<le> length ps" by (rule order_trans)
  moreover have "card (set (map bp_addr bps)) = length bps" using distinct_card [OF assms(1)] by simp
  ultimately show False using assms(2) by simp
qed

theorem stepping_keeps_tables_witness:
  "\<exists>e w'. cdbg_next_source_line (sim_kern X86_64) four_bps walking_machine = Some (0, e, w')
     \<and> map bp_addr (d_breakpoints e) = [0x400, 0x420, 0x440, 0x460] \<and> list_ex bp_enabled (d_breakpoints e)"
proof -
  obtain e w' where r: "cdbg_next_source_line (sim_kern X86_64) four_bps walking_machine = Some (0, e, w')"
    and s: "d_state e = CDBG_STATE_STOPPED"
    using sim_next by auto
  from stepping_keeps_tables [OF disjI2 [OF conjI [OF r refl]]] s obtain ps where same: "same_setup four_bps e"
    and ps: "length ps \<le> 3" "\<forall>bp \<in> set (d_breakpoints e). bp_addr bp \<notin> set ps \<longrightarrow> bp_enabled bp" by auto
  have "map fst (map bp_key (d_breakpoints e)) = map fst (map bp_key (d_breakpoints four_bps))"
    using same by (simp only: same_setup_def)
  then have addrs: "map bp_addr (d_breakpoints e) = [0x400, 0x420, 0x440, 0x460]"
    by (simp add: bp_key_def comp_def four_bps_def stopped_dbg_def armed_bp_def)
  have l: "length (d_breakpoints e) = 4" using arg_cong [OF addrs, of length] by simp
  have "list_ex bp_enabled (d_breakpoints e)"
    by (rule some_armed [OF _ _ ps(2)]) (use ps(1) l addrs in simp_all)
  with r addrs show ?thesis by auto
qed

end
