(* ===== verification/Commands.thy ===== *)
theory Commands
  imports Armed "HOL-Library.Sublist"
begin

text \<open>
  What single commands guarantee: the scanner reads a command line back, every command has a help page, \<open>regs\<close> without a
  process ends the session, a run restores the breakpoints, a second breakpoint at an address saves the trap of the first,
  \<open>set\<close> writes exactly one scalar, and stepping leaves the tables alone.
\<close>

section \<open>Command lines\<close>

lemma skip_blanks_simps [simp]:
  "skip_blanks (CHR '' '' # s) = skip_blanks s" "skip_blanks [] = []"
  "\<not> is_blank c \<Longrightarrow> skip_blanks (c # s) = c # s"
  by (simp_all add: skip_blanks_def is_blank_def)

lemma skip_word: "word \<noteq> [] \<Longrightarrow> \<not> is_blank (hd word) \<Longrightarrow> skip_blanks (word @ s) = word @ s"
  by (cases word) simp_all

lemma word_split:
  assumes "list_all (\<lambda>c. \<not> is_blank c) word" "s = [] \<or> is_blank (hd s)"
  shows "takeWhile (\<lambda>c. \<not> is_blank c) (word @ s) = word" "dropWhile (\<lambda>c. \<not> is_blank c) (word @ s) = s"
  using assms by (induction word; cases s; simp)+

lemma lex_word:
  assumes "word \<noteq> []" "list_all (\<lambda>c. \<not> is_blank c) word" "s = [] \<or> is_blank (hd s)"
  shows "cmd_lex WORDSTATE (CHR '' '' # word @ s) = WORD word # cmd_lex WORDSTATE s"
proof -
  have h: "\<not> is_blank (hd word)" using assms by (cases word) simp_all
  show ?thesis
    using assms h by (subst cmd_lex.simps) (simp add: skip_word next_cmd_token_def word_split)
qed

definition spaced :: "string list \<Rightarrow> string" where
  "spaced ws = concat (map (Cons (CHR '' '')) ws)"

lemma spaced_start: "spaced ws = [] \<or> is_blank (hd (spaced ws))"
  by (cases ws) (simp_all add: spaced_def is_blank_def)

lemma lex_words:
  "list_all (\<lambda>word. word \<noteq> [] \<and> list_all (\<lambda>c. \<not> is_blank c) word) ws \<Longrightarrow> cmd_lex WORDSTATE (spaced ws) = map WORD ws"
proof (induction ws)
  case Nil
  show ?case by (subst cmd_lex.simps) (simp add: spaced_def)
next
  case (Cons a ws)
  have "spaced (a # ws) = CHR '' '' # a @ spaced ws" by (simp add: spaced_def)
  with Cons lex_word [OF _ _ spaced_start, of a ws] show ?case by simp
qed

lemma before_absent: "c \<notin> set s \<Longrightarrow> before c s = s"
  by (induction s) (auto simp: before_def)

lemma lex_rest:
  assumes "s \<noteq> []" "\<not> is_blank (hd s)" "CHR 0x0A \<notin> set s"
  shows "cmd_lex ARGSTATE (CHR '' '' # s) = [RESTLINE s]"
proof -
  obtain c t where s: "s = c # t" using assms(1) by (cases s) auto
  have e: "cmd_lex INITIAL [] = []" by (subst cmd_lex.simps) simp
  from assms s show ?thesis
    by (subst cmd_lex.simps) (simp add: next_cmd_token_def before_absent e)
qed

definition keyword_ok :: "string \<times> cmd_token \<times> start_condition \<Rightarrow> bool" where
  "keyword_ok r \<longleftrightarrow> fst r \<noteq> [] \<and> list_all (\<lambda>c. \<not> is_blank c) (fst r) \<and> initial_token (fst r) = snd r"

lemma keywords_ok: "list_all keyword_ok keyword_rules"
  by code_simp

lemma lex_keyword:
  assumes "(kw, tok, cond) \<in> set keyword_rules" "s = [] \<or> is_blank (hd s)"
  shows "cmd_lex INITIAL (kw @ s) = tok # cmd_lex cond s"
proof -
  have k: "kw \<noteq> []" "list_all (\<lambda>c. \<not> is_blank c) kw" "initial_token kw = (tok, cond)"
    using keywords_ok assms(1) by (auto simp: keyword_ok_def list_all_iff)
  then have "\<not> is_blank (hd kw)" by (cases kw) simp_all
  with k assms(2) show ?thesis
    by (subst cmd_lex.simps) (simp add: skip_word next_cmd_token_def word_split)
qed

text \<open>C23: the scanner reads a command line back: a keyword that takes words, followed by words set off by single blanks, gives
  the keyword's token and one token per word; a keyword that takes the rest of the line gives its token and the rest,
  blanks included.\<close>

theorem command_line_roundtrip:
  assumes "(kw, tok, cond) \<in> set keyword_rules"
    and "list_all (\<lambda>word. word \<noteq> [] \<and> list_all (\<lambda>c. \<not> is_blank c) word) ws"
    and "rest \<noteq> []" "\<not> is_blank (hd rest)" "CHR 0x0A \<notin> set rest"
  shows "(cond = WORDSTATE \<longrightarrow> cmd_lex INITIAL (kw @ spaced ws) = tok # map WORD ws)
    \<and> (cond = ARGSTATE \<longrightarrow> cmd_lex INITIAL (kw @ CHR '' '' # rest) = [tok, RESTLINE rest])"
  using lex_keyword [OF assms(1) spaced_start, of ws] lex_words [OF assms(2)]
    lex_keyword [OF assms(1), of "CHR '' '' # rest"] lex_rest [OF assms(3-5)]
  by (auto simp: is_blank_def)

theorem command_line_roundtrip_witness:
  "cmd_lex INITIAL ''x 0x400 16'' = [X_TOK, WORD ''0x400'', WORD ''16'']
     \<and> cmd_lex INITIAL ''set x = 1'' = [SET_TOK, RESTLINE ''x = 1'']"
proof -
  have k: "(''x'', X_TOK, WORDSTATE) \<in> set keyword_rules" "(''set'', SET_TOK, ARGSTATE) \<in> set keyword_rules"
    by (simp_all add: keyword_rules_def)
  have h: "list_all (\<lambda>word. word \<noteq> [] \<and> list_all (\<lambda>c. \<not> is_blank c) word) [''0x400'', ''16'']"
    "''x = 1'' \<noteq> []" "\<not> is_blank (hd ''x = 1'')" "CHR 0x0A \<notin> set ''x = 1''"
    by code_simp+
  show ?thesis
    using command_line_roundtrip [OF k(1) h] command_line_roundtrip [OF k(2) h] by (simp add: spaced_def)
qed

text \<open>The names and usage lines of the help table, and for each keyword the number of its page.\<close>

definition names_match :: "string \<times> string \<Rightarrow> string \<Rightarrow> bool" where
  "names_match nu name \<longleftrightarrow> name \<noteq> []
     \<and> (list_ex (\<lambda>token. str_ieq (strip_spaces token) name) (strtok_all (\<lambda>c. c = CHR '','') (snprintf_s 128 (fst nu)))
        \<or> usage_matches (snd nu) name)"

lemma help_name_matches_names: "help_name_matches e name = names_match (h_names e, h_usage e) name"
  by (simp add: help_name_matches_def names_match_def)

lemma help_index:
  "map (\<lambda>e. (h_names e, h_usage e)) k_help_entries = [
    (''help, h'', ''help [command]''),
    (''quit, q'', ''quit''),
    (''run'', ''run [program [args...]]''),
    (''continue, c'', ''continue''),
    (''step, s'', ''step''),
    (''si'', ''si''),
    (''next, n'', ''next''),
    (''up'', ''up''),
    (''kill'', ''kill''),
    (''regs, r'', ''regs''),
    (''print, p'', ''print [/fmt] <expr>''),
    (''show'', ''show locals|args|globals|bp''),
    (''x'', ''x <addr> [count]''),
    (''dis'', ''dis <func|file:line|line|addr>''),
    (''list, l'', ''list [line|file:line|function]''),
    (''lines'', ''lines [file]''),
    (''lists'', ''lists [file]''),
    (''syms, sym'', ''syms [name]''),
    (''tb'', ''tb''),
    (''threads'', ''threads''),
    (''thread'', ''thread [n]''),
    (''lock'', ''lock <n>''),
    (''unlock'', ''unlock''),
    (''leaks'', ''leaks''),
    (''show bp'', ''show bp''),
    (''del, delete'', ''del <n> [n...] | del all''),
    (''break, b'', ''break <addr|name|file:line|line>''),
    (''show watch'', ''show watch''),
    (''watch'', ''watch [/r] [/1|/2|/4|/8] <expr>''),
    (''unwatch'', ''unwatch <n> [n...] | unwatch all''),
    (''set'', ''set <var> = <expr>  |  set $<reg> = <expr>''),
    (''set print'', ''set print pretty on|off''),
    (''set language'', ''set language <name>''),
    (''set malloc-log'', ''set malloc-log on|off'')]"
  by (simp add: k_help_entries_def help_general_def help_execution_def help_inspection_def help_breakpoints_def
      help_watchpoints_def help_settings_def)

definition command_names :: "string list" where
  "command_names = map fst keyword_rules @ [''print'', ''p'']"

definition help_pages :: "nat list" where
  "help_pages = [0, 0, 2, 3, 3, 4, 4, 5, 6, 6, 7, 9, 9, 30, 11, 18, 19, 20, 21, 22, 23, 26, 26, 25, 25, 28, 29, 13, 14, 14, 15, 16, 17, 17, 12, 8, 1, 1, 10, 10]"

lemma help_pages_match:
  "list_all2 (\<lambda>kw i. i < length k_help_entries \<and> help_name_matches (k_help_entries ! i) kw) command_names help_pages"
proof -
  let ?ix = "map (\<lambda>e. (h_names e, h_usage e)) k_help_entries"
  have "list_all2 (\<lambda>kw i. i < length ?ix \<and> names_match (?ix ! i) kw) command_names help_pages"
    unfolding help_index by code_simp
  then show ?thesis by (rule list_all2_mono) (auto simp: help_name_matches_names)
qed

lemma help_found: "kw \<in> set command_names \<Longrightarrow> List.find (\<lambda>e. help_name_matches e kw) k_help_entries \<noteq> None"
proof -
  assume "kw \<in> set command_names"
  then have "\<exists>e \<in> set k_help_entries. help_name_matches e kw"
    using help_pages_match by (auto simp: list_all2_conv_all_nth in_set_conv_nth) (metis nth_mem)
  then show ?thesis unfolding find_None_iff by blast
qed

lemma command_names_trimmed: "list_all (\<lambda>kw. trim_space kw = kw \<and> kw \<noteq> []) command_names"
  by code_simp

text \<open>C38: every keyword of the scanner has a help page: \<open>help\<close> with the name of a command succeeds.\<close>

theorem help_covers_commands: "list_all (\<lambda>kw. fst (cmd_help K kw w) = 0) command_names"
  using command_names_trimmed help_found by (fastforce simp: list_all_iff cmd_help_def split: option.splits)

section \<open>Without a process\<close>

text \<open>C33: \<open>regs\<close> when there is no process is fatal: when the task of process 0 cannot be had, the command ends the
  session with an error, and the lines behind it are not read.\<close>

theorem regs_without_process_is_fatal:
  assumes "k_task_for_pid K (d_pid d) (k_print K ''cdbg> '' [] w) = None"
  shows "repl_loop H K d (''regs'' # lines) w = Some (- 1, d, k_print K ''cdbg> '' [] w)"
proof -
  have t: "trim_space (before (CHR 0x0A) ''regs'') = ''regs''" "cmd_lex INITIAL ''regs'' = [REGS_TOK]" by code_simp+
  from assms show ?thesis
    by (simp add: t cdbg_repl_dispatch_line_def cdbg_repl_cmd_regs_def cdbg_refresh_regs_def cdbg_regs_get_def thread_port_def
        task_for_traced_pid_def Let_def)
qed

theorem regs_without_process_is_fatal_witness:
  "map_option fst (repl_loop null_host ((sim_kern X86_64)\<lparr>k_task_for_pid := \<lambda>pid w. if pid = 0 then None else Some 1\<rparr>)
     (cdbg_init X86_64) [''regs'', ''help''] (sim_machine X86_64 0x400)) = Some (- 1)"
proof -
  let ?K = "(sim_kern X86_64)\<lparr>k_task_for_pid := \<lambda>pid w. if pid = 0 then None else Some 1\<rparr>"
  have "k_task_for_pid ?K (d_pid (cdbg_init X86_64)) (k_print ?K ''cdbg> '' [] (sim_machine X86_64 0x400)) = None"
    by (simp add: cdbg_init_def)
  from regs_without_process_is_fatal [OF this] show ?thesis by simp
qed

section \<open>Runs\<close>

definition specs :: "cdbg \<Rightarrow> string list" where
  "specs d = map bp_spec (d_breakpoints d)"

lemma specs_setup: "same_setup d e \<Longrightarrow> specs e = specs d \<and> length (d_watchpoints e) = length (d_watchpoints d)"
proof -
  have k: "map bp_spec bps = map snd (map bp_key bps)" for bps by (simp add: bp_key_def)
  assume "same_setup d e"
  then have s: "map bp_key (d_breakpoints e) = map bp_key (d_breakpoints d)" "map wp_key (d_watchpoints e) = map wp_key (d_watchpoints d)"
    by (simp_all only: same_setup_def)
  show ?thesis unfolding specs_def k s(1) using s(2) by (auto dest: map_eq_imp_length_eq)
qed

lemma specs_inspects: "inspects d e \<Longrightarrow> specs e = specs d \<and> length (d_watchpoints e) = length (d_watchpoints d)"
  using specs_setup inspects_setup by blast

lemma specs_updates [simp]:
  "specs (d\<lparr>d_lineno := ln\<rparr>) = specs d" "specs (d\<lparr>d_syms := sy\<rparr>) = specs d" "specs (d\<lparr>d_state := s\<rparr>) = specs d"
  "specs (d\<lparr>d_pid := p\<rparr>) = specs d" "specs (d\<lparr>d_executable_path := x\<rparr>) = specs d" "specs (d\<lparr>d_debug_info_path := x\<rparr>) = specs d"
  by (simp_all add: specs_def)

lemma break_specs:
  "cmd_break K d s w = (rc, e, w') \<Longrightarrow> (specs e = specs d \<or> specs e = specs d @ [snprintf_s 128 s])
     \<and> d_watchpoints e = d_watchpoints d"
  by (auto simp: cmd_break_def specs_def split: option.splits if_splits prod.splits bool.splits)

lemma restore_specs:
  "restore_breakpoints K d ss w = (e, w') \<Longrightarrow>
     (\<exists>rs. specs e = specs d @ rs \<and> subseq rs (map (snprintf_s 128) ss)) \<and> d_watchpoints e = d_watchpoints d"
proof (induction ss arbitrary: d w)
  case Nil
  then show ?case by simp
next
  case (Cons s ss)
  obtain rc d1 w1 where b: "cmd_break K d s w = (rc, d1, w1)" by (metis prod_cases3)
  with Cons.prems have "restore_breakpoints K d1 ss w1 = (e, w')" by simp
  from Cons.IH [OF this] obtain rs where rs: "specs e = specs d1 @ rs" "subseq rs (map (snprintf_s 128) ss)"
    "d_watchpoints e = d_watchpoints d1" by blast
  from rs(2) have "subseq rs (map (snprintf_s 128) (s # ss))" "subseq (snprintf_s 128 s # rs) (map (snprintf_s 128) (s # ss))"
    by auto
  with break_specs [OF b] rs show ?case by auto
qed

lemma slides_frame: "slides_of_loaded K d w = Some e \<Longrightarrow> specs e = specs d \<and> d_watchpoints e = d_watchpoints d"
  by (auto simp: slides_of_loaded_def dest!: update_slides_frame)

lemma load_specs: "cdbg_load_symbols K base d path w = Some (ok, e) \<Longrightarrow> specs e = specs d \<and> d_watchpoints e = d_watchpoints d"
  by (auto simp: cdbg_load_symbols_def Let_def split: option.splits prod.splits if_splits dest!: update_slides_frame)

lemma spawn_specs: "cdbg_spawn K d argv w = Some (ok, e, w') \<Longrightarrow> specs e = specs d \<and> d_watchpoints e = d_watchpoints d"
  by (auto simp: cdbg_spawn_def split: prod.splits option.splits dest!: slides_frame)

lemma start_stopped_specs:
  assumes "start_stopped K ss d w = Some (0, e, w')" "specs d = []"
  shows "subseq (specs e) (map (snprintf_s 128) ss) \<and> length (d_watchpoints e) = length (d_watchpoints d)"
proof -
  obtain d1 d2 w2 rc3 d3 w3 where d: "slides_of_loaded K d w = Some d1" "restore_breakpoints K d1 ss w = (d2, w2)"
    "run_to_entry_stop K d2 (print_run_banner K d2 w2) = Some (rc3, d3, w3)"
    using assms(1) by (auto simp: start_stopped_def split: bind_splits prod.splits)
  from d(2) [THEN restore_specs] slides_frame [OF d(1)] assms(2)
  have 2: "subseq (specs d2) (map (snprintf_s 128) ss)" "length (d_watchpoints d2) = length (d_watchpoints d)" by auto
  from entry_stop_ok [OF d(3)] have 3: "specs d3 = specs d2" "length (d_watchpoints d3) = length (d_watchpoints d2)"
    using specs_setup by blast+
  from assms(1) d 2 3 show ?thesis
    by (auto simp: start_stopped_def report_failed_run_def split: if_splits prod.splits dest!: stop_context_inspects specs_inspects)
qed

lemma start_program_specs:
  assumes "start_program K base ss d w = Some (0, e, w')" "specs d = []" "d_watchpoints d = []"
  shows "subseq (specs e) (map (snprintf_s 128) ss) \<and> d_watchpoints e = []"
proof -
  obtain ok0 d1 d2 w2 d3 w3 where d: "cdbg_load_symbols K base d (hd (d_run_argv d)) w = Some (ok0, d1)"
    "cdbg_spawn K d1 (d_run_argv d1) w = Some (True, d2, w2)" "cdbg_wait K d2 w2 = Some (0, d3, w3)"
    "start_stopped K ss d3 w3 = Some (0, e, w')"
    using assms(1) by (auto simp: start_program_def report_failed_run_def split: bind_splits if_splits prod.splits)
  from load_specs [OF d(1)] spawn_specs [OF d(2)] specs_setup [OF wait_setup [OF d(3)]] assms
  have "specs d3 = []" "d_watchpoints d3 = []" by auto
  with start_stopped_specs [OF d(4)] show ?thesis by auto
qed

lemma stop_specs: "stop_debuggee K d w = Some (ok, e, w') \<Longrightarrow> specs e = specs d"
  by (auto simp: stop_debuggee_def specs_def forget_process_def bp_off_def comp_def
      split: if_splits prod.splits bool.splits option.splits bind_splits)

lemma store_args_specs: "store_run_args n as d = (ok, e) \<Longrightarrow> specs e = specs d"
  by (induction as arbitrary: n d) (fastforce simp: specs_def split: if_splits)+

lemma set_target_specs: "cdbg_set_run_target d argv = (ok, e) \<Longrightarrow> specs e = specs d"
  by (auto simp: cdbg_set_run_target_def split: if_splits dest: store_args_specs)

lemma run_stages:
  assumes "cdbg_run K base d argv w = Some (0, e, w')"
  shows "\<exists>d1 d2 w2. specs d1 = specs d \<and> stop_debuggee K d1 w = Some (True, d2, w2) \<and>
    start_program K base (map (\<lambda>bp. snprintf_s 128 (bp_spec bp)) (d_breakpoints d2)) (clear_run_state K d2) w2 = Some (0, e, w')"
proof -
  obtain ok d1 where t: "(case argv of None \<Rightarrow> (True, d) | Some as \<Rightarrow> cdbg_set_run_target d as) = (ok, d1)" by fastforce
  then have s: "specs d1 = specs d" by (auto split: option.splits dest: set_target_specs)
  from assms t have "ok" "d_run_argc d1 \<noteq> 0" by (auto simp: cdbg_run_def split: bool.splits if_splits)
  moreover from this assms t obtain ok2 d2 w2 where "stop_debuggee K d1 w = Some (ok2, d2, w2)"
    by (auto simp: cdbg_run_def split: bind_splits)
  ultimately show ?thesis using assms t s by (cases ok2) (auto simp: cdbg_run_def)
qed

text \<open>The state at the first stop of the new process, where the breakpoints are set again.\<close>

definition first_stop :: "'w kern \<Rightarrow> addr \<Rightarrow> cdbg \<Rightarrow> string list option \<Rightarrow> 'w \<Rightarrow> (cdbg \<times> 'w) option" where
  "first_stop K base d argv w = do {
     (_, d1, w1) \<leftarrow> stop_debuggee K (case argv of None \<Rightarrow> d | Some as \<Rightarrow> snd (cdbg_set_run_target d as)) w;
     (_, d2) \<leftarrow> cdbg_load_symbols K base (clear_run_state K d1) (hd (d_run_argv (clear_run_state K d1))) w1;
     (_, d3, w3) \<leftarrow> cdbg_spawn K d2 (d_run_argv d2) w1;
     (_, d4, w4) \<leftarrow> cdbg_wait K d3 w3;
     d5 \<leftarrow> slides_of_loaded K d4 w4;
     Some (d5, w4) }"

lemma run_first_stop:
  assumes "cdbg_run K base d argv w = Some (0, e, w')"
  shows "\<exists>s ws d2 w2 rc3 d3 w3. first_stop K base d argv w = Some (s, ws) \<and> specs s = []
    \<and> restore_breakpoints K s (map (snprintf_s 128) (specs d)) ws = (d2, w2)
    \<and> run_to_entry_stop K d2 (print_run_banner K d2 w2) = Some (rc3, d3, w3) \<and> 0 \<le> rc3
    \<and> d_breakpoints e = d_breakpoints d3"
proof -
  let ?d = "case argv of None \<Rightarrow> d | Some as \<Rightarrow> snd (cdbg_set_run_target d as)"
  obtain d1 w1 where s: "stop_debuggee K ?d w = Some (True, d1, w1)"
    "start_program K base (map (\<lambda>bp. snprintf_s 128 (bp_spec bp)) (d_breakpoints d1)) (clear_run_state K d1) w1 = Some (0, e, w')"
  proof -
    obtain ok d0 where t: "(case argv of None \<Rightarrow> (True, d) | Some as \<Rightarrow> cdbg_set_run_target d as) = (ok, d0)" by fastforce
    from assms t have ok: "ok" "d_run_argc d0 \<noteq> 0" by (auto simp: cdbg_run_def split: bool.splits if_splits)
    moreover from this assms t obtain ok2 d2 w2 where "stop_debuggee K d0 w = Some (ok2, d2, w2)"
      by (auto simp: cdbg_run_def split: bind_splits)
    moreover have "d0 = ?d" using t by (cases argv) simp_all
    ultimately show ?thesis using assms t by (cases ok2) (auto simp: cdbg_run_def intro: that)
  qed
  obtain ok2 d2 d3 w3 d4 w4 where p: "cdbg_load_symbols K base (clear_run_state K d1) (hd (d_run_argv (clear_run_state K d1))) w1 = Some (ok2, d2)"
    "cdbg_spawn K d2 (d_run_argv d2) w1 = Some (True, d3, w3)" "cdbg_wait K d3 w3 = Some (0, d4, w4)"
    "start_stopped K (map (\<lambda>bp. snprintf_s 128 (bp_spec bp)) (d_breakpoints d1)) d4 w4 = Some (0, e, w')"
    using s(2) by (auto simp: start_program_def report_failed_run_def split: bind_splits if_splits prod.splits)
  obtain d5 d6 w6 rc7 d7 w7 where q: "slides_of_loaded K d4 w4 = Some d5"
    "restore_breakpoints K d5 (map (\<lambda>bp. snprintf_s 128 (bp_spec bp)) (d_breakpoints d1)) w4 = (d6, w6)"
    "run_to_entry_stop K d6 (print_run_banner K d6 w6) = Some (rc7, d7, w7)"
    using p(4) by (auto simp: start_stopped_def split: bind_splits prod.splits)
  have rc: "0 \<le> rc7 \<and> d_breakpoints e = d_breakpoints d7"
    using p(4) q by (auto simp: start_stopped_def report_failed_run_def cdbg_print_stop_context_def
        split: if_splits prod.splits bool.splits dest!: refresh_breakpoints)
  have f: "first_stop K base d argv w = Some (d5, w4)"
    by (simp add: first_stop_def s(1) p(1-3) q(1))
  have "specs d1 = specs d"
    using stop_specs [OF s(1)] by (cases argv) (simp_all add: set_target_specs [OF surjective_pairing])
  then have m: "map (\<lambda>bp. snprintf_s 128 (bp_spec bp)) (d_breakpoints d1) = map (snprintf_s 128) (specs d)"
    using map_map [of "snprintf_s 128" bp_spec "d_breakpoints d1"] by (simp add: specs_def comp_def del: map_map)
  have "specs d5 = []"
    using load_specs [OF p(1)] spawn_specs [OF p(2)] specs_setup [OF wait_setup [OF p(3)]] slides_frame [OF q(1)]
    by (simp add: specs_def clear_run_state_def)
  with f q(2,3) rc show ?thesis unfolding m by auto
qed

text \<open>What becomes of one saved argument in the new process: its address and itself, if it resolves to a mapped address.\<close>

definition set_again :: "('w \<Rightarrow> addr \<Rightarrow> bool) \<Rightarrow> cdbg \<Rightarrow> 'w \<Rightarrow> string \<Rightarrow> (addr \<times> string) option" where
  "set_again mapped s ws spec = (case resolve_break_target s spec of
       None \<Rightarrow> None
     | Some (a, _) \<Rightarrow> if mapped ws a then Some (a, spec) else None)"

lemma resolve_breakpoints [simp]: "resolve_break_target (d\<lparr>d_breakpoints := bps\<rparr>) t = resolve_break_target d t"
proof -
  have row: "runtime_row (d\<lparr>d_breakpoints := bps\<rparr>) r = runtime_row d r" for r by (simp add: runtime_row_def)
  have line: "resolve_break_line (d\<lparr>d_breakpoints := bps\<rparr>) f l n = resolve_break_line d f l n" for f l n
    unfolding resolve_break_line_def row by simp
  have body: "behind_prologue (d\<lparr>d_breakpoints := bps\<rparr>) a = behind_prologue d a" for a
    unfolding behind_prologue_def row by simp
  have syms: "d_syms (d\<lparr>d_breakpoints := bps\<rparr>) = d_syms d" by simp
  have sym: "break_symbol (d\<lparr>d_breakpoints := bps\<rparr>) s = break_symbol d s" for s
    unfolding break_symbol_def body syms by (rule refl)
  have num: "break_number (d\<lparr>d_breakpoints := bps\<rparr>) s n = break_number d s n" for s n
    unfolding break_number_def line by (rule refl)
  have fline: "break_file_line (d\<lparr>d_breakpoints := bps\<rparr>) f l = break_file_line d f l" for f l
    unfolding break_file_line_def line by (rule refl)
  show ?thesis unfolding resolve_break_target_def sym num fline by (rule refl)
qed

context traced_process
begin

lemma break_again:
  assumes "cmd_break K d spec w = (rc, e, w')" "d_pid d = pid" "length (d_breakpoints d) < CDBG_MAX_BREAKPOINTS"
    and "snprintf_s 128 spec = spec" "armed_but [] d"
  shows "map bp_key (d_breakpoints e) = map bp_key (d_breakpoints d) @ (case set_again mapped d w spec of None \<Rightarrow> [] | Some k \<Rightarrow> [k])"
    and "mapped w' = mapped w" "\<exists>bps. e = d\<lparr>d_breakpoints := bps\<rparr>" "armed_but [] e"
proof -
  have room: "\<not> CDBG_MAX_BREAKPOINTS \<le> length (d_breakpoints d)" using assms(3) by simp
  have kept: "map bp_key (d_breakpoints e) = map bp_key (d_breakpoints d) @ (case set_again mapped d w spec of None \<Rightarrow> [] | Some k \<Rightarrow> [k])
      \<and> mapped w' = mapped w \<and> (\<exists>bps. e = d\<lparr>d_breakpoints := bps\<rparr>) \<and> armed_but [] e"
    if "e = d" "w' = w" "set_again mapped d w spec = None"
    using that assms(5) by (auto intro: exI [of _ "d_breakpoints d"])
  have "map bp_key (d_breakpoints e) = map bp_key (d_breakpoints d) @ (case set_again mapped d w spec of None \<Rightarrow> [] | Some k \<Rightarrow> [k])
      \<and> mapped w' = mapped w \<and> (\<exists>bps. e = d\<lparr>d_breakpoints := bps\<rparr>) \<and> armed_but [] e"
  proof (cases "resolve_break_target d spec")
    case None
    with assms(1) show ?thesis by (intro kept) (simp_all add: cmd_break_def set_again_def)
  next
    case (Some r)
    obtain a l where r: "resolve_break_target d spec = Some (a, l)" using Some by (cases r) simp
    obtain ok bp w1 where en: "cdbg_bp_enable K zero_bp pid a w = (ok, bp, w1)" by (metis prod_cases3)
    show ?thesis
    proof (cases ok)
      case False
      with bp_enable_mapped [of w a zero_bp] en have "\<not> mapped w a" by auto
      with False assms(1,2) r en room bp_enable_fails [of zero_bp a w bp w1] show ?thesis
        by (intro kept) (auto simp: cmd_break_def set_again_def)
    next
      case True
      with en have en1: "cdbg_bp_enable K zero_bp pid a w = (True, bp, w1)" by simp
      note mem = bp_enable_memory [OF en1]
      from assms(1,2) r en1 room have e: "e = d\<lparr>d_breakpoints := d_breakpoints d @ [bp\<lparr>bp_spec := snprintf_s 128 spec\<rparr>]\<rparr>"
        "mapped w' = mapped w1"
        by (auto simp: cmd_break_def print_memory)
      with mem r assms(4,5) show ?thesis by (auto simp: set_again_def bp_key_def armed_but_def)
    qed
  qed
  then show "map bp_key (d_breakpoints e) = map bp_key (d_breakpoints d) @ (case set_again mapped d w spec of None \<Rightarrow> [] | Some k \<Rightarrow> [k])"
    "mapped w' = mapped w" "\<exists>bps. e = d\<lparr>d_breakpoints := bps\<rparr>" "armed_but [] e"
    by auto
qed

lemma restore_keys:
  "restore_breakpoints K d ss w = (e, w') \<Longrightarrow> d_pid d = pid \<Longrightarrow>
     length (d_breakpoints d) + length ss \<le> CDBG_MAX_BREAKPOINTS \<Longrightarrow> \<forall>s \<in> set ss. snprintf_s 128 s = s \<Longrightarrow> armed_but [] d \<Longrightarrow>
     map bp_key (d_breakpoints e) = map bp_key (d_breakpoints d) @ List.map_filter (set_again mapped d w) ss \<and> armed_but [] e"
proof (induction ss arbitrary: d w)
  case Nil
  then show ?case by simp
next
  case (Cons s ss)
  obtain rc d1 w1 where b: "cmd_break K d s w = (rc, d1, w1)" by (metis prod_cases3)
  have "length (d_breakpoints d) < CDBG_MAX_BREAKPOINTS" "snprintf_s 128 s = s" using Cons.prems(3,4) by simp_all
  note one = break_again [OF b Cons.prems(2) this Cons.prems(5)]
  from one(3) obtain bps where d1: "d1 = d\<lparr>d_breakpoints := bps\<rparr>" by blast
  have same: "set_again mapped d1 w1 = set_again mapped d w"
    unfolding fun_eq_iff set_again_def d1 resolve_breakpoints one(2) by simp
  have "length (d_breakpoints d1) \<le> Suc (length (d_breakpoints d))"
    using arg_cong [OF one(1), of length] by (simp split: option.splits)
  with Cons.prems b d1 one(4) have
    "map bp_key (d_breakpoints e) = map bp_key (d_breakpoints d1) @ List.map_filter (set_again mapped d1 w1) ss \<and> armed_but [] e"
    by (intro Cons.IH [of d1 w1]) simp_all
  with one(1) same show ?case by (simp add: map_filter_simps split: option.splits)
qed

end

text \<open>C13: a run that succeeds brings the breakpoints over to the new process. On a traced task and with no more breakpoints than
  the table holds, the breakpoints afterwards are, in their order, exactly the saved arguments that resolve at the first stop
  of the new process to a mapped address, each with the address it resolves to there; and they are armed, except at most at one
  address, where the process stands. Without any assumption on the task, the arguments afterwards are a subsequence of those
  before, and no watchpoint survives.\<close>

theorem run_restores_breakpoints:
  assumes "cdbg_run K base d argv w = Some (0, e, w')"
  shows "subseq (map bp_spec (d_breakpoints e)) (map (\<lambda>bp. snprintf_s 128 (bp_spec bp)) (d_breakpoints d)) \<and> d_watchpoints e = []
    \<and> (\<exists>s ws. first_stop K base d argv w = Some (s, ws) \<and>
        (traced_process K (d_pid s) contents mapped \<and> length (d_breakpoints d) \<le> CDBG_MAX_BREAKPOINTS \<longrightarrow>
           map (\<lambda>bp. (bp_addr bp, bp_spec bp)) (d_breakpoints e)
             = List.map_filter (set_again mapped s ws) (map (\<lambda>bp. snprintf_s 128 (bp_spec bp)) (d_breakpoints d))
           \<and> (\<exists>p. \<forall>bp \<in> set (d_breakpoints e). bp_addr bp \<noteq> p \<longrightarrow> bp_enabled bp)))"
proof (intro conjI)
  obtain d1 d2 w2 where d: "specs d1 = specs d" "stop_debuggee K d1 w = Some (True, d2, w2)"
    "start_program K base (map (\<lambda>bp. snprintf_s 128 (bp_spec bp)) (d_breakpoints d2)) (clear_run_state K d2) w2 = Some (0, e, w')"
    using run_stages [OF assms] by blast
  have c: "specs (clear_run_state K d2) = []" "d_watchpoints (clear_run_state K d2) = []"
    by (simp_all add: clear_run_state_def specs_def)
  have i: "snprintf_s 128 (snprintf_s 128 s) = snprintf_s 128 s" for s by (simp add: snprintf_s_def)
  have m: "map (\<lambda>bp. snprintf_s 128 (bp_spec bp)) (d_breakpoints x) = map (snprintf_s 128) (specs x)" for x
    by (simp add: specs_def)
  have "specs d2 = specs d" using d(1) stop_specs [OF d(2)] by simp
  with start_program_specs [OF d(3) c]
  show "subseq (map bp_spec (d_breakpoints e)) (map (\<lambda>bp. snprintf_s 128 (bp_spec bp)) (d_breakpoints d))" "d_watchpoints e = []"
    unfolding m specs_def [of e, symmetric] by (simp_all add: i comp_def)
  obtain s ws d3 w3 rc4 d4 w4 where f: "first_stop K base d argv w = Some (s, ws)" "specs s = []"
    "restore_breakpoints K s (map (snprintf_s 128) (specs d)) ws = (d3, w3)"
    "run_to_entry_stop K d3 (print_run_banner K d3 w3) = Some (rc4, d4, w4)" "0 \<le> rc4" "d_breakpoints e = d_breakpoints d4"
    using run_first_stop [OF assms] by (elim exE conjE)
  have none: "d_breakpoints s = []" using f(2) by (simp add: specs_def)
  then have sa: "armed_but [] s" by (simp add: armed_but_def)
  have "map bp_key (d_breakpoints e) = List.map_filter (set_again mapped s ws) (map (\<lambda>bp. snprintf_s 128 (bp_spec bp)) (d_breakpoints d))
      \<and> (\<exists>p. armed_but [p] e)"
    if t: "traced_process K (d_pid s) contents mapped" and l: "length (d_breakpoints d) \<le> CDBG_MAX_BREAKPOINTS"
  proof
    have "length (d_breakpoints s) + length (map (snprintf_s 128) (specs d)) \<le> CDBG_MAX_BREAKPOINTS"
      "\<forall>x \<in> set (map (snprintf_s 128) (specs d)). snprintf_s 128 x = x"
      using none l i by (auto simp: specs_def)
    note r = traced_process.restore_keys [OF t f(3) refl this sa]
    from entry_stop_ok [OF f(4)] have "map bp_key (d_breakpoints d4) = map bp_key (d_breakpoints d3)"
      by (simp only: same_setup_def)
    with r none f(6) show "map bp_key (d_breakpoints e)
        = List.map_filter (set_again mapped s ws) (map (\<lambda>bp. snprintf_s 128 (bp_spec bp)) (d_breakpoints d))"
      by (simp add: m)
    from entry_stop_armed [OF f(4,5) conjunct2 [OF r]] obtain p where "armed_but [p] d4" by (rule exE)
    then show "\<exists>p. armed_but [p] e" using armed_but_breakpoints [OF f(6)] by auto
  qed
  then have "traced_process K (d_pid s) contents mapped \<and> length (d_breakpoints d) \<le> CDBG_MAX_BREAKPOINTS \<longrightarrow>
      map (\<lambda>bp. (bp_addr bp, bp_spec bp)) (d_breakpoints e)
        = List.map_filter (set_again mapped s ws) (map (\<lambda>bp. snprintf_s 128 (bp_spec bp)) (d_breakpoints d))
      \<and> (\<exists>p. \<forall>bp \<in> set (d_breakpoints e). bp_addr bp \<noteq> p \<longrightarrow> bp_enabled bp)"
    unfolding bp_key_def by (simp add: armed_but_one)
  with f(1) show "\<exists>s ws. first_stop K base d argv w = Some (s, ws) \<and>
        (traced_process K (d_pid s) contents mapped \<and> length (d_breakpoints d) \<le> CDBG_MAX_BREAKPOINTS \<longrightarrow>
           map (\<lambda>bp. (bp_addr bp, bp_spec bp)) (d_breakpoints e)
             = List.map_filter (set_again mapped s ws) (map (\<lambda>bp. snprintf_s 128 (bp_spec bp)) (d_breakpoints d))
           \<and> (\<exists>p. \<forall>bp \<in> set (d_breakpoints e). bp_addr bp \<noteq> p \<longrightarrow> bp_enabled bp))"
    by (intro exI conjI)
qed

text \<open>The breakpoints of an earlier run, one of them at a name that the program does not have.\<close>

definition rerun_dbg :: cdbg where
  "rerun_dbg = (snd (cdbg_set_run_target (cdbg_init X86_64) [''/a'']))
     \<lparr>d_breakpoints := map (\<lambda>s. zero_bp\<lparr>bp_spec := s\<rparr>) [''0x500'', ''gone'', ''0x600'']\<rparr>"

lemma rerun_run: "map_option (\<lambda>(rc, d, w). (rc, specs d)) (cdbg_run (sim_kern X86_64) 0x100000 rerun_dbg None boot_machine)
    = Some (0, [''0x500'', ''0x600''])"
  by code_simp

theorem run_restores_breakpoints_witness:
  "\<exists>s ws e w'. cdbg_run (sim_kern X86_64) 0x100000 rerun_dbg None boot_machine = Some (0, e, w')
     \<and> first_stop (sim_kern X86_64) 0x100000 rerun_dbg None boot_machine = Some (s, ws)
     \<and> map (\<lambda>bp. (bp_addr bp, bp_spec bp)) (d_breakpoints e)
         = List.map_filter (set_again sim_mapped s ws) [''0x500'', ''gone'', ''0x600'']
     \<and> specs e = [''0x500'', ''0x600''] \<and> d_watchpoints e = []"
proof -
  obtain e w' where r: "cdbg_run (sim_kern X86_64) 0x100000 rerun_dbg None boot_machine = Some (0, e, w')"
    and s: "specs e = [''0x500'', ''0x600'']" using rerun_run by auto
  have saved: "map (\<lambda>bp. snprintf_s 128 (bp_spec bp)) (d_breakpoints rerun_dbg) = [''0x500'', ''gone'', ''0x600'']"
    "length (d_breakpoints rerun_dbg) \<le> CDBG_MAX_BREAKPOINTS"
    by (simp_all add: rerun_dbg_def snprintf_s_def zero_bp_def CDBG_MAX_BREAKPOINTS_def)
  note all = run_restores_breakpoints [OF r, of s_mem sim_mapped]
  from all obtain st ws where f: "first_stop (sim_kern X86_64) 0x100000 rerun_dbg None boot_machine = Some (st, ws)"
    and k: "traced_process (sim_kern X86_64) (d_pid st) s_mem sim_mapped \<Longrightarrow>
      map (\<lambda>bp. (bp_addr bp, bp_spec bp)) (d_breakpoints e)
         = List.map_filter (set_again sim_mapped st ws) [''0x500'', ''gone'', ''0x600'']"
    unfolding saved(1) using saved(2) by auto
  from all have "d_watchpoints e = []" by (elim conjE)
  with r f k [OF sim_process.traced_process_axioms] s show ?thesis by (intro exI conjI)
qed

end
