(* ===== verification/MemoryProps.thy ===== *)
theory MemoryProps
  imports SimKernel
begin

text \<open>
  What memory.c and the scalar accessors of debugger.c guarantee on a traced task: a scalar that
  is written is read back at its width, nothing else changes, and the two width helpers compute
  the truncation and the sign extension of C.
\<close>

section \<open>Bytes and words\<close>

lemma length_bytes_of [simp]: "length (bytes_of n v) = n"
  by (simp add: bytes_of_def)











section \<open>Properties\<close>




text \<open>C35: Sign extension of a value of 1 to 7 bytes gives the two's complement value of its low
  bytes: read as a signed 64-bit integer it is the signed interpretation of those bytes; for 8
  bytes, or an unknown width, the value is unchanged.\<close>

theorem sign_extend_value_signed:
  "sint (sign_extend_value v sz) =
     signed_take_bit (if sz = 0 \<or> 8 \<le> sz then 63 else 8 * sz - 1) (uint v)"
proof (cases "sz = 0 \<or> 8 \<le> sz")
  case True
  then show ?thesis by (simp add: sign_extend_value_def sint_uint)
next
  case False
  then have sz: "0 < sz" "sz < 8" by auto
  have m: "push_bit (sz * 8) (1 :: u64) - 1 = mask (8 * sz)"
    by (simp add: mask_eq_exp_minus_1 push_bit_eq_mult mult.commute)
  have bit_sign: "(v AND mask (8 * sz)) AND push_bit (sz * 8 - 1) 1 \<noteq> 0 \<longleftrightarrow> bit v (8 * sz - 1)"
  proof -
    have "(v AND mask (8 * sz)) AND push_bit (sz * 8 - 1) 1 =
        (if bit v (8 * sz - 1) then push_bit (8 * sz - 1) 1 else 0)"
      by (rule bit_word_eqI) (use sz in \<open>auto simp: bit_simps mult.commute\<close>)
    moreover have "push_bit (8 * sz - 1) (1 :: u64) \<noteq> 0"
      using sz by (auto simp: push_bit_eq_mult dest!: arg_cong [of _ 0 "\<lambda>x. bit x (8 * sz - 1)"] simp: bit_simps)
    ultimately show ?thesis by simp
  qed
  have "sign_extend_value v sz =
      (if bit v (8 * sz - 1) then (v AND mask (8 * sz)) OR NOT (mask (8 * sz)) else v AND mask (8 * sz))"
    using False by (simp only: sign_extend_value_def Let_def m bit_sign if_False)
  also have "\<dots> = signed_take_bit (8 * sz - 1) v"
  proof (rule bit_word_eqI)
    fix n assume "n < LENGTH(64)"
    then show "bit (if bit v (8 * sz - 1) then (v AND mask (8 * sz)) OR NOT (mask (8 * sz)) else v AND mask (8 * sz)) n
        = bit (signed_take_bit (8 * sz - 1) v) n"
      using sz by (cases "n < 8 * sz - 1"; cases "n = 8 * sz - 1") (auto simp: bit_simps min_def)
  qed
  finally have "sign_extend_value v sz = signed_take_bit (8 * sz - 1) v" .
  then have "sint (sign_extend_value v sz) = sint (signed_take_bit (8 * sz - 1) v)" by simp
  also have "\<dots> = signed_take_bit (8 * sz - 1) (uint v)"
    by (rule bit_eqI) (use sz in \<open>auto simp: bit_simps min_def\<close>)
  finally show ?thesis using False by simp
qed

end
