(* ===== verification/EditFacts.thy ===== *)
theory EditFacts
  imports Session BreakFacts MemoryProps
begin

text \<open>
  What the commands that write to the debuggee do to its memory: \<open>set\<close> on a location, and a second breakpoint at an
  address that has one.
\<close>

section \<open>Assignments\<close>





section \<open>Two breakpoints at one address\<close>

lemma remove_nth_snoc: "remove_nth (length xs) (xs @ [x]) = xs"
  by (simp add: remove_nth_def)

text \<open>C19: \<open>break\<close> does not look for a breakpoint that is already armed at the address. The second one takes the trap of the
  first for the program's byte, so that deleting the first and then the second leaves the trap in the code for good.\<close>

theorem second_breakpoint_leaves_trap:
  assumes "traced_process K (d_pid d) contents mapped" "process_live d"
    and "contents w a = CDBG_TRAP_BYTE (k_arch K)" "resolve_break_target d target = Some (a, label)"
    and "cmd_break K d target w = (0, d1, w1)" "i < length (d_breakpoints d)"
    and "delete_breakpoint_at K d1 i w1 = (True, d2, w2)"
    and "delete_breakpoint_at K d2 (length (d_breakpoints d) - 1) w2 = (True, d3, w3)"
  shows "contents w3 a = CDBG_TRAP_BYTE (k_arch K) \<and> d_breakpoints d3 = remove_nth i (d_breakpoints d)"
proof -
  note tp = traced_process.axioms(1) [OF assms(1)]
  obtain bp v where e: "cdbg_bp_enable K zero_bp (d_pid d) a w = (True, bp, v)"
    and d1: "d1 = d\<lparr>d_breakpoints := d_breakpoints d @ [bp\<lparr>bp_spec := snprintf_s 128 target\<rparr>]\<rparr>"
    using assms(4,5) by (auto simp: cmd_break_def split: if_splits prod.splits bool.splits)
  let ?bp = "bp\<lparr>bp_spec := snprintf_s 128 target\<rparr>"
  note f = traced_task.bp_enable_memory [OF tp e]
  have d2: "d2 = d\<lparr>d_breakpoints := remove_nth i (d_breakpoints d) @ [?bp]\<rparr>"
    using delete_breakpoint_ok [OF assms(7)] assms(6) by (simp add: d1 remove_nth_def)
  let ?n = "length (d_breakpoints d) - 1"
  have l: "length (remove_nth i (d_breakpoints d)) = ?n" using assms(6) by (simp add: remove_nth_def)
  have live: "process_live d2" "d_pid d2 = d_pid d" using assms(2) by (simp_all add: d2 process_live_def)
  have at: "d_breakpoints d2 ! ?n = ?bp"
    using nth_append_length [of "remove_nth i (d_breakpoints d)" ?bp "[]"] by (simp only: d2 l) simp
  obtain bp' where "cdbg_bp_disable K ?bp (d_pid d) w2 = (True, bp', w3)"
    using assms(8) live at f(4) by (auto simp: delete_breakpoint_at_def Let_def split: if_splits prod.splits bool.splits)
  from traced_task.bp_disable_memory [OF tp this] f assms(3) have "contents w3 a = CDBG_TRAP_BYTE (k_arch K)" by simp
  moreover have "d_breakpoints d3 = remove_nth i (d_breakpoints d)"
    using delete_breakpoint_ok [OF assms(8)] remove_nth_snoc [of "remove_nth i (d_breakpoints d)" ?bp] by (simp add: d2 l)
  ultimately show ?thesis ..
qed

text \<open>Twice \<open>break 0x400\<close>, then the two deletions.\<close>

definition double_break :: "(cdbg \<times> sim) list" where
  "double_break =
     (let K = sim_kern X86_64; (rc, d1, w1) = cmd_break K (stopped_dbg [armed_bp]) ''0x400'' armed_machine;
          (ok2, d2, w2) = delete_breakpoint_at K d1 0 w1; (ok3, d3, w3) = delete_breakpoint_at K d2 0 w2
      in if rc = 0 \<and> ok2 \<and> ok3 then [(d1, w1), (d2, w2), (d3, w3)] else [])"

lemma double_break_runs: "length double_break = 3"
  by code_simp

theorem second_breakpoint_leaves_trap_witness:
  "\<exists>d w. last double_break = (d, w) \<and> d_breakpoints d = [] \<and> s_mem w 0x400 = 0xcc \<and> s_mem (sim_machine X86_64 0x401) 0x400 = 0"
proof -
  let ?K = "sim_kern X86_64" and ?d = "stopped_dbg [armed_bp]"
  obtain rc d1 w1 where b: "cmd_break ?K ?d ''0x400'' armed_machine = (rc, d1, w1)" by (metis prod_cases3)
  obtain ok2 d2 w2 where x: "delete_breakpoint_at ?K d1 0 w1 = (ok2, d2, w2)" by (metis prod_cases3)
  obtain ok3 d3 w3 where y: "delete_breakpoint_at ?K d2 0 w2 = (ok3, d3, w3)" by (metis prod_cases3)
  have ok: "rc = 0" ok2 ok3 using double_break_runs by (auto simp: double_break_def b x y Let_def split: if_splits)
  have p: "parse_u64 ''0x400'' = Some 0x400" "split_last (CHR '':'') ''0x400'' = None"
    "strncmp_eq ''0x400'' ''0x''" by code_simp+
  then have r: "resolve_break_target ?d ''0x400'' = Some (0x400, ''0x400'')"
    by (simp add: resolve_break_target_def break_number_def)
  have l: "process_live ?d" "s_mem armed_machine 0x400 = CDBG_TRAP_BYTE (k_arch ?K)" "0 < length (d_breakpoints ?d)"
    by (simp_all add: process_live_def stopped_dbg_def armed_machine_def CDBG_TRAP_BYTE_def sim_kern_fields)
  have i: "length (d_breakpoints ?d) - 1 = 0" by (simp add: stopped_dbg_def)
  have "s_mem w3 0x400 = CDBG_TRAP_BYTE (k_arch ?K) \<and> d_breakpoints d3 = remove_nth 0 (d_breakpoints ?d)"
    by (rule second_breakpoint_leaves_trap [OF sim_process.traced_process_axioms l(1,2) r _ l(3)])
      (use b x y ok i in \<open>simp_all\<close>)
  moreover have "d_breakpoints ?d = [armed_bp]" by (simp add: stopped_dbg_def)
  ultimately have "s_mem w3 0x400 = 0xcc" "d_breakpoints d3 = []"
    by (simp_all add: sim_kern_fields CDBG_TRAP_BYTE_def remove_nth_def)
  moreover have "last double_break = (d3, w3)" using ok by (simp add: double_break_def b x y Let_def)
  moreover have "s_mem (sim_machine X86_64 0x401) 0x400 = 0" by (simp add: sim_machine_def)
  ultimately show ?thesis by blast
qed

end
