(* ===== verification/EvalFacts.thy ===== *)
theory EvalFacts
  imports ExprParse
begin

text \<open>
  What the evaluator computes: on constants, the unsigned 64-bit arithmetic of C, stated over the integers; and the agreement
  of the notations for pointers.
\<close>

section \<open>Constants\<close>

text \<open>The reference: C's \<open>unsigned long long\<close>, as integers modulo \<open>2 ^ 64\<close>. A division by zero and a shift by 64 or more have no
  value.\<close>

abbreviation wrap :: "int \<Rightarrow> int" where
  "wrap n \<equiv> n mod 2 ^ 64"

fun c_binary :: "cdbg_ast_op \<Rightarrow> int \<Rightarrow> int \<Rightarrow> int option" where
  "c_binary OP_ADD a b = Some (wrap (a + b))"
| "c_binary OP_SUB a b = Some (wrap (a - b))"
| "c_binary OP_MUL a b = Some (wrap (a * b))"
| "c_binary OP_DIV a b = (if b = 0 then None else Some (a div b))"
| "c_binary OP_MOD a b = (if b = 0 then None else Some (a mod b))"
| "c_binary OP_SHL a b = (if 64 \<le> b then None else Some (wrap (a * 2 ^ nat b)))"
| "c_binary OP_SHR a b = (if 64 \<le> b then None else Some (a div 2 ^ nat b))"
| "c_binary OP_LT a b = Some (of_bool (a < b))"
| "c_binary OP_GT a b = Some (of_bool (a > b))"
| "c_binary OP_LE a b = Some (of_bool (a \<le> b))"
| "c_binary OP_GE a b = Some (of_bool (a \<ge> b))"
| "c_binary OP_EQ a b = Some (of_bool (a = b))"
| "c_binary OP_NE a b = Some (of_bool (a \<noteq> b))"
| "c_binary OP_BAND a b = Some (and a b)"
| "c_binary OP_BOR a b = Some (or a b)"
| "c_binary OP_BXOR a b = Some (xor a b)"
| "c_binary OP_LAND a b = Some (of_bool (a \<noteq> 0 \<and> b \<noteq> 0))"
| "c_binary OP_LOR a b = Some (of_bool (a \<noteq> 0 \<or> b \<noteq> 0))"

text \<open>Both sides of \<open>&&\<close> and \<open>||\<close> are evaluated, so a failing side fails the whole.\<close>

fun c_value :: "cdbg_ast \<Rightarrow> int option" where
  "c_value (AST_NUM v) = Some (uint v)"
| "c_value (AST_BINOP oper l r) = (case (c_value l, c_value r) of (Some a, Some b) \<Rightarrow> c_binary oper a b | _ \<Rightarrow> None)"
| "c_value (AST_UNOP AST_POS e) = c_value e"
| "c_value (AST_UNOP AST_NEG e) = map_option (\<lambda>a. wrap (- a)) (c_value e)"
| "c_value (AST_UNOP AST_NOT e) = map_option (\<lambda>a. of_bool (a = 0)) (c_value e)"
| "c_value (AST_UNOP AST_BNOT e) = map_option (\<lambda>a. 2 ^ 64 - 1 - a) (c_value e)"
| "c_value _ = None"

fun is_constant :: "cdbg_ast \<Rightarrow> bool" where
  "is_constant (AST_NUM _) = True"
| "is_constant (AST_BINOP _ l r) \<longleftrightarrow> is_constant l \<and> is_constant r"
| "is_constant (AST_UNOP k e) \<longleftrightarrow> k \<in> {AST_POS, AST_NEG, AST_NOT, AST_BNOT} \<and> is_constant e"
| "is_constant _ = False"

definition succeeds :: "eval_err + u64 \<Rightarrow> int option" where
  "succeeds r = (case r of Inl _ \<Rightarrow> None | Inr v \<Rightarrow> Some (uint v))"

lemma succeeds_simps [simp]: "succeeds (Inl e) = None" "succeeds (Inr v) = Some (uint v)"
  by (simp_all add: succeeds_def)

lemma uint_lt64: "uint (v :: u64) < 2 ^ 64"
  using uint_bounded [of v] by simp

lemma shl_uint: "uint (push_bit n (v :: u64)) = wrap (uint v * 2 ^ n)"
  unfolding unsigned_push_bit_eq by (simp add: take_bit_eq_mod push_bit_eq_mult)

lemma shr_uint: "uint (drop_bit n (v :: u64)) = uint v div 2 ^ n"
  unfolding unsigned_drop_bit_eq using uint_lt64 [of v] by (simp add: drop_bit_eq_div take_bit_int_eq_self)

lemma not_uint: "uint (NOT (v :: u64)) = 2 ^ 64 - 1 - uint v"
proof -
  have e: "- uint v - 1 = (2 ^ 64 - 1 - uint v) + (- 1) * 2 ^ 64" by simp
  have "uint (NOT v) = (- uint v - 1) mod 2 ^ 64" unfolding unsigned_not_eq by (simp add: take_bit_eq_mod not_int_def)
  also have "\<dots> = (2 ^ 64 - 1 - uint v) mod 2 ^ 64" unfolding e by (rule mod_mult_self1)
  also have "\<dots> = 2 ^ 64 - 1 - uint v" using uint_lt64 [of v] uint_ge_0 [of v]
    by (intro mod_pos_pos_trivial) linarith+
  finally show ?thesis .
qed

lemma less_64: "(64 \<le> (r :: u64)) = (64 \<le> uint r)"
  by (simp add: word_le_def)

lemma uint_truth: "uint (truth b) = of_bool b"
  by simp

lemmas c_arith = uint_word_ariths(1,2,3) uint_div_distrib uint_mod_distrib less_64 shr_uint shl_uint unsigned_and_eq
  unsigned_or_eq unsigned_xor_eq word_less_def word_le_def

lemma combine_binary_c: "succeeds (combine_binary l r oper) = c_binary oper (uint l) (uint r)"
proof (cases oper)
  case OP_SUB
  then show ?thesis by (simp add: uint_word_ariths(2))
next
  case OP_EQ
  then show ?thesis by (simp add: word_uint_eq_iff [of l r])
next
  case OP_NE
  then show ?thesis by (simp add: word_uint_eq_iff [of l r])
qed (simp_all add: c_arith uint_0_iff)

text \<open>An evaluation has the value of the reference, or both have none.\<close>

definition agrees :: "eval_err + cdbg_expr_result \<Rightarrow> int option \<Rightarrow> bool" where
  "agrees r v \<longleftrightarrow> (case r of Inl _ \<Rightarrow> v = None | Inr x \<Rightarrow> v = Some (uint (er_value x)) \<and> \<not> er_is_float x)"

lemma agrees_simps [simp]:
  "agrees (Inl e) v \<longleftrightarrow> v = None" "agrees (Inr x) v \<longleftrightarrow> v = Some (uint (er_value x)) \<and> \<not> er_is_float x"
  by (simp_all add: agrees_def)

lemma eval_agrees: "is_constant e \<Longrightarrow> agrees (cdbg_ast_eval K d e w) (c_value e)"
proof (induction e)
  case (AST_BINOP oper l r)
  then have IH: "agrees (cdbg_ast_eval K d l w) (c_value l)" "agrees (cdbg_ast_eval K d r w) (c_value r)" by simp_all
  show ?case
  proof (cases "cdbg_ast_eval K d l w"; cases "cdbg_ast_eval K d r w")
    fix a b assume e: "cdbg_ast_eval K d l w = Inr a" "cdbg_ast_eval K d r w = Inr b"
    with IH combine_binary_c [of "er_value a" "er_value b" oper] show ?thesis
      by (cases "combine_binary (er_value a) (er_value b) oper") (simp_all add: zero_result_def)
  qed (use IH in simp_all)
next
  case (AST_UNOP k e)
  then have "agrees (cdbg_ast_eval K d e w) (c_value e)" by simp
  with AST_UNOP.prems show ?case
    by (cases k; cases "cdbg_ast_eval K d e w") (auto simp: not_uint uint_word_ariths zero_result_def uint_0_iff)
qed (simp_all add: zero_result_def)

text \<open>C15: on constant expressions the evaluator computes C's unsigned 64-bit arithmetic: it succeeds exactly where C defines a
  value (no division by zero, no shift by 64 or more, on either side of \<open>&&\<close> and \<open>||\<close> too), with the value that the integers
  modulo \<open>2 ^ 64\<close> give, whatever the state of the debuggee.\<close>

theorem eval_constants:
  assumes "is_constant e"
  shows "agrees (cdbg_ast_eval K d e w) (c_value e)"
  by (rule eval_agrees [OF assms])

definition some_constant :: cdbg_ast where
  "some_constant = the (cdbg_ast_parse (\<lambda>s. 0) ''(3 - 5) / 0x10 + (1 << 63) * 2 | !7'')"

theorem eval_constants_witness:
  "er_value (projr (cdbg_ast_eval (sim_kern X86_64) (cdbg_init X86_64) some_constant (sim_machine X86_64 0x400))) = 0x0fffffffffffffff"
proof -
  let ?r = "cdbg_ast_eval (sim_kern X86_64) (cdbg_init X86_64) some_constant (sim_machine X86_64 0x400)"
  have c: "is_constant some_constant" "c_value some_constant = Some 0x0fffffffffffffff" by code_simp+
  obtain r where "?r = Inr r" "uint (er_value r) = 0x0fffffffffffffff"
    using eval_constants [OF c(1), of "sim_kern X86_64" "cdbg_init X86_64" "sim_machine X86_64 0x400"] c(2) by (cases ?r) auto
  then show ?thesis by (simp add: word_uint_eq_iff [of "er_value r"])
qed

section \<open>Pointers\<close>
















end
