(* ===== verification/RegFacts.thy ===== *)
theory RegFacts
  imports Regs
begin

text \<open>
  Registers by name: what is written under a name is read back under it, on both architectures.
\<close>

text \<open>The register files of the kernel: both halves of one architecture, arrays of their fixed lengths.\<close>

definition regs_wf :: "cdbg_regs \<Rightarrow> bool" where
  "regs_wf regs \<longleftrightarrow> (case (native regs, fpu regs) of
       (ArmGpr g, ArmNeon f) \<Rightarrow> length (a_x g) = 29 \<and> length (n_v f) = 32
     | (X86Gpr g, X86Fp f) \<Rightarrow> length (f_xmm f) = 16 \<and> length (f_stmm f) = 8
     | _ \<Rightarrow> False)"

definition status_register :: "string \<Rightarrow> bool" where
  "status_register name \<longleftrightarrow> name = ''cpsr'' \<or> name = ''fpsr'' \<or> name = ''fpcr''"

lemma index_in_bound: "index_in s hi = Some i \<Longrightarrow> int i \<le> hi"
  by (auto simp: index_in_def split: option.splits if_splits)

lemma ucast_32_64: "ucast (ucast (v :: u64) :: u32) = take_bit 32 v"
  by (rule bit_word_eqI) (auto simp: bit_simps)

lemma ucast_64_128: "ucast (ucast (v :: u64) :: u128) = v"
  by (rule bit_word_eqI) (auto simp: bit_simps)

lemma some_eq_subst: "Some x = Some y \<Longrightarrow> y = x"
  by simp

lemma no_status_name: "hd name = CHR ''r'' \<or> hd name = CHR ''x'' \<or> hd name = CHR ''v'' \<Longrightarrow> \<not> status_register name"
  by (auto simp: status_register_def)

lemma status_names [simp]:
  "status_register ''cpsr''" "status_register ''fpsr''" "status_register ''fpcr''"
  "\<not> status_register ''pc''" "\<not> status_register ''sp''" "\<not> status_register ''fp''" "\<not> status_register ''lr''"
  "\<not> status_register ''eflags''" "\<not> status_register ''cs''" "\<not> status_register ''fs''" "\<not> status_register ''gs''"
  by (simp_all add: status_register_def)

lemma arm_x_name: "hd name = CHR ''x'' \<Longrightarrow> name \<noteq> ''fpsr'' \<and> name \<noteq> ''fpcr''"
  by auto

lemma index_x: "index_in s 28 = Some i \<Longrightarrow> length xs = 29 \<Longrightarrow> xs[i := v] ! i = v"
  and index_v: "index_in s 31 = Some i \<Longrightarrow> length ys = 32 \<Longrightarrow> ys[i := u] ! i = u"
  by (auto dest!: index_in_bound)

lemma arm_gpr_set_get:
  assumes "set_arm_gpr g name v = Some g'" "length (a_x g) = 29"
  shows "get_arm_reg g' f name = Some (if status_register name then take_bit 32 v else v)"
  using assms unfolding set_arm_gpr_def
  by (simp only: split: if_split_asm option.split_asm)
    (drule some_eq_subst | elim disjE conjE
      | simp add: get_arm_reg_def no_status_name arm_x_name index_x ucast_32_64)+

lemma arm_fp_set_get:
  assumes "set_arm_gpr g name v = None" "set_arm_fp f name v = Some f'" "length (n_v f) = 32"
  shows "get_arm_reg g f' name = Some (if status_register name then take_bit 32 v else v)"
  using assms unfolding set_arm_gpr_def set_arm_fp_def
  by (simp only: option.distinct split: if_split_asm option.split_asm)
    (drule some_eq_subst | elim disjE conjE
      | simp add: get_arm_reg_def no_status_name index_v ucast_32_64 ucast_64_128)+

lemma x86_gpr_set_get:
  assumes "set_x86_gpr g name v = Some g'"
  shows "get_x86_reg g' f name = Some v \<and> \<not> status_register name"
  using assms unfolding set_x86_gpr_def
  by (simp only: split: if_split_asm option.split_asm)
    (drule some_eq_subst | elim disjE conjE | simp add: get_x86_reg_def get_x86_numbered_def no_status_name)+

lemma xmm_set_get:
  assumes "set_x86_gpr g name v = None" "set_x86_fp itd f name v b fv = Some f'" "length (f_xmm f) = 16" "\<not> strncmp_eq name ''st''"
  shows "get_x86_reg g f' name = Some v \<and> \<not> status_register name"
proof -
  from assms(2,4) obtain i where i: "strncmp_eq name ''xmm''" "index_in (drop 3 name) 15 = Some i"
    "f' = f\<lparr>f_xmm := (f_xmm f)[i := ucast v]\<rparr>"
    by (auto simp: set_x86_fp_def split: option.splits if_splits)
  from i(1) obtain t where n: "name = ''xmm'' @ t" unfolding strncmp_eq_def by (metis append_take_drop_id)
  have "i < 16" using index_in_bound [OF i(2)] by simp
  with i n assms(3) show ?thesis by (simp add: get_x86_reg_def status_register_def strncmp_eq_def ucast_64_128)
qed

section \<open>The property\<close>

text \<open>C22: a register set by name reads back under the same name, for every name that \<open>set $name\<close> accepts except the x87
  registers \<open>st0\<close> to \<open>st7\<close>, whose value is converted: the whole value, or its low 32 bits for the status registers of ARM64.\<close>

theorem register_set_get:
  assumes "regs_wf regs" "\<not> strncmp_eq name ''st''"
    and "cdbg_regs_set_by_name K itd pid tid regs name v b fv w = (True, regs', w')"
  shows "cdbg_regs_get_by_name regs' name = Some (if status_register name then take_bit 32 v else v)"
proof (cases "set_gpr_field regs name v")
  case (Some regs1)
  with assms(3) have "regs' = regs1" by (auto simp: cdbg_regs_set_by_name_def split: prod.splits)
  with Some assms(1) show ?thesis
    using arm_gpr_set_get x86_gpr_set_get
    by (auto simp: set_gpr_field_def cdbg_regs_get_by_name_def regs_wf_def split: native_regs.splits fp_regs.splits)
next
  case None
  then obtain regs1 where f: "set_fp_field itd regs name v b fv = Some regs1" "regs' = regs1"
    using assms(3) by (auto simp: cdbg_regs_set_by_name_def split: prod.splits option.splits)
  with None assms(1,2) show ?thesis
    using arm_fp_set_get xmm_set_get
    by (auto simp: set_gpr_field_def set_fp_field_def cdbg_regs_get_by_name_def regs_wf_def
        split: native_regs.splits fp_regs.splits)
qed

definition arm_regs :: cdbg_regs where
  "arm_regs = \<lparr>native = arm_thread 0x400 0x200, fpu = ArmNeon \<lparr>n_v = replicate 32 0, n_fpsr = 0, n_fpcr = 0\<rparr>\<rparr>"

definition set_run_of :: "string \<Rightarrow> bool \<times> cdbg_regs \<times> sim" where
  "set_run_of name = cdbg_regs_set_by_name (sim_kern AArch64) (\<lambda>v. v) 7 0 arm_regs name 0x1122334455 False 0 (sim_machine AArch64 0x400)"

lemma set_runs: "list_all (\<lambda>name. fst (set_run_of name)) [''x28'', ''v31'', ''cpsr'']"
  by code_simp

theorem register_set_get_witness:
  "map (\<lambda>name. cdbg_regs_get_by_name (fst (snd (set_run_of name))) name) [''x28'', ''v31'', ''cpsr'']
     = [Some 0x1122334455, Some 0x1122334455, Some 0x22334455]"
proof -
  have wf: "regs_wf arm_regs" by (simp add: regs_wf_def arm_regs_def arm_thread_def)
  have g: "cdbg_regs_get_by_name (fst (snd (set_run_of name))) name = Some (if status_register name then take_bit 32 0x1122334455 else 0x1122334455)"
    if "fst (set_run_of name)" "\<not> strncmp_eq name ''st''" for name
    using register_set_get [OF wf that(2), of "sim_kern AArch64" "\<lambda>v. v" 7 0 "0x1122334455" False 0 "sim_machine AArch64 0x400"
        "fst (snd (set_run_of name))" "snd (snd (set_run_of name))"] that(1)
    by (simp add: set_run_of_def prod_eq_iff)
  show ?thesis using set_runs by (simp add: g strncmp_eq_def) (simp add: status_register_def)
qed

end
