(* ===== verification/Spec2Isabelle.thy ===== *)
theory Spec2Isabelle
  imports Liveness Commands EditFacts EvalFacts RegFacts WatchSync ThreadFacts
begin

text \<open>
  A verification development of cdbg, a command-line debugger for C programs on macOS (src/src, src/include).

  The program. \<open>main\<close> (main.c) starts the program named on the command line and hands over to a loop that reads command
  lines. A line is split by a scanner with start conditions (cmd_lexer.l), parsed by a grammar whose actions are the commands
  (cmd_grammar.y), and carried out by debugger.c on one state record, \<open>cdbg_t\<close>. The commands read and write the
  debuggee through Mach and ptrace (memory.c, regs.c, breakpoint.c, watchpoint.c, process.c), find source lines and symbols
  (lineno.c, syms.c) and variables (the output of dwarfdump), and evaluate C expressions (ast_expr.l, ast_expr.y, ast.c,
  ast_eval.c, expr.c).

  The model. Every operation takes the state record \<open>cdbg\<close> (State) and a state \<open>'w\<close> of the operating system, and returns them
  updated with the return code of the C function. The operating system is a record of functions, \<open>'w kern\<close> (Kernel): the Mach,
  ptrace and wait calls, \<open>popen\<close>, files, and what is printed on \<open>stdout\<close>. It is a parameter of every definition; what a proof
  needs of it is stated as the assumptions of a locale (\<open>traced_task\<close>, \<open>traced_process\<close>, \<open>debug_console\<close>, \<open>suspend_counts\<close>,
  \<open>answering_wait\<close>), each of which is interpreted on the simulated system of SimKernel, on which all witnesses run. The C library's
  \<open>strtod\<close>, the conversion of an integer to a double, and the address of a mapped section are the record \<open>host\<close> (Repl). An
  operation that may not return gives an option, \<open>None\<close> for a run that never ends: \<open>k_waitpid\<close> itself is \<open>None\<close> when the call
  blocks for ever. Pointers into strings are the strings
  behind them, buffers are cut as \<open>snprintf\<close> and \<open>fgets\<close> cut them, machine integers are words.

  The theories, in the order of the code they model.
  \<^item> Prelude, CText, Stdio: lists, errors, the C library calls on strings, text lines and \<open>sscanf\<close> formats.
  \<^item> Kernel, SimKernel: the operating system and its simulation.
  \<^item> Memory, MemoryProps: memory.c and the scalar accessors. Read after write at every width, sign extension.
  \<^item> Regs, RegsPrint, RegFacts: regs.c. Threads, registers by name, unwinding; what is set under a name is read back.
  \<^item> Breakpoint, Traps, BreakCmds, BreakFacts: breakpoint.c and the commands \<open>break\<close>, \<open>del\<close>, \<open>show bp\<close>. The abstract
    memory of the program is the debuggee's memory with the saved bytes put back under enabled breakpoints; arming, disarming,
    re-arming, setting and deleting refine the identity on it.
  \<^item> Watchpoint, WatchCmds, WatchFacts, WatchSync: watchpoint.c and \<open>watch\<close>, \<open>unwatch\<close>. The debug registers of both
    architectures bit by bit; the contract between the table and the slots of every thread.
  \<^item> Cursor, LineTable, LineLoad, LineLookup: lineno.c. Byte readers, the DWARF line program, the loaders, lookups.
  \<^item> Syms: syms.c.
  \<^item> State, TypeNames, DwarfText, ShowCmd: the state record, type names, the scans of dwarfdump output, \<open>show\<close>.
  \<^item> AstEval, ExprParse, EvalFacts, Print: the expressions: trees, evaluation, scanner, shift-reduce parser, printing.
    Parsing undoes printing; evaluation of constants is C's arithmetic modulo \<open>2 ^ 64\<close>; the pointer notations agree.
  \<^item> Disasm, InspectCmds, SetCmd, EditFacts: disassembly, \<open>x\<close>, \<open>dis\<close>, \<open>lines\<close>, \<open>list\<close>, \<open>leaks\<close>, \<open>set\<close>.
  \<^item> Output, Control, Steps: stop reports, waiting, \<open>continue\<close>, \<open>si\<close>, \<open>step\<close>, \<open>next\<close>, \<open>up\<close>. \<open>same_setup\<close> is what running the
    debuggee leaves alone.
  \<^item> ThreadCmds, ThreadFacts: \<open>tb\<close>, \<open>threads\<close>, \<open>thread\<close>, \<open>lock\<close>, \<open>unlock\<close>. The suspend counts are balanced.
  \<^item> Run, Help, Repl, Commands: starting and stopping the debuggee, help, the command line and \<open>main\<close>.
  \<^item> Session: the states at the prompt as an inductive relation, and the invariant of all of them; every command is shown to
    keep it. Armed: which breakpoints are armed when the debuggee has stopped. Liveness: the lines that do not run the debuggee
    return, and every line but \<open>run\<close> returns when its waits are answered; \<open>step\<close> and \<open>next\<close> keep the setup and re-arm all but
    a few breakpoints. Commands: the command line reads back, help is complete, and a run sets again exactly the breakpoints that
    resolve to a mapped address in the new process.

  Bounds. The line commands stop after \<open>CDBG_MAX_STEP_ITERATIONS\<close> steps and the unwinder after its number of frames, as in the
  code; these counts are the only fuel. \<open>cdbg_process_wait\<close> (which also does not return when \<open>waitpid\<close> blocks), the line-program and line-table loops and the search for the first
  text region may run for ever and are \<open>partial_function\<close>s: their termination is proved where it holds
  (\<open>parse_line_program_returns\<close> for programs that reach no extended opcode with a wrapping length, \<open>repl_returns\<close> for waits
  that are answered) and refuted where it does not (\<open>parse_line_table_short_tail\<close>,
  \<open>continue_blocks\<close>).

  Not modelled. The asynchronous SIGINT handler and the interruption of the reading of \<open>stdin\<close>; messages on \<open>stderr\<close>; failing
  \<open>malloc\<close>; the release of ports, buffers and trees; the code of the child between fork and exec; examples/target.c, a program to
  debug. A shift by 64 or more and a division of the debug information by zero leave defined C behaviour and are failures with
  a tag of their own. The text that \<open>printf\<close> makes of a format and its arguments is the C library's: the model records both.
\<close>

end
